(* ===== verification/Prelude.thy ===== *)
theory Prelude
  imports Main "HOL-Library.Char_ord" "HOL-Library.List_Lexorder" "HOL-Library.AList"
begin

text \<open>
  What every component shares: Go errors as values of a sum, the strings functions of the
  standard library the source calls, and Go maps.

  \<^item> A Go function that returns \<open>(v, error)\<close> returns a value of \<open>'a go\<close>: \<open>Inl e\<close> is the
    error return, \<open>Inr v\<close> the value. A runtime panic (index out of range, nil dereference)
    is the error \<open>Panic\<close>, so that the branches that panic are visible in the model.
  \<^item> A Go string is a list of bytes; \<open>string\<close> is exactly that. The case mapping and the
    white space are those of ASCII: Kubernetes names, kinds and labels are ASCII strings.
  \<^item> A Go map is an association list with distinct keys. The order of the list stands for the
    iteration order the runtime picks, which the language leaves open: a theorem about every
    list is a theorem about every iteration order.
\<close>

section \<open>Collections of lemmas\<close>

named_theorems go_simps \<open>evaluation rules of the error sum and of the map operations\<close>

section \<open>Errors\<close>

text \<open>
  An error is its class, as \<open>k8s.io/apimachinery/pkg/api/errors\<close> tests it, and its text.
  \<open>errors.Wrap\<close> and \<open>fmt.Errorf\<close> with \<open>%w\<close> keep the class; the text kept here is the fixed
  part of the format.
\<close>

datatype go_error =
    ErrNotFound string
  | ErrAlreadyExists string
  | ErrConflict string
  | Errf string
  | Panic string

type_synonym 'a go = "go_error + 'a"

fun is_not_found :: "go_error \<Rightarrow> bool" where
  "is_not_found (ErrNotFound _) = True"
| "is_not_found _ = False"

fun is_already_exists :: "go_error \<Rightarrow> bool" where
  "is_already_exists (ErrAlreadyExists _) = True"
| "is_already_exists _ = False"

fun is_conflict :: "go_error \<Rightarrow> bool" where
  "is_conflict (ErrConflict _) = True"
| "is_conflict _ = False"

fun is_panic :: "go_error \<Rightarrow> bool" where
  "is_panic (Panic _) = True"
| "is_panic _ = False"

fun wrap :: "string \<Rightarrow> go_error \<Rightarrow> go_error" where
  "wrap m (ErrNotFound s) = ErrNotFound (m @ '': '' @ s)"
| "wrap m (ErrAlreadyExists s) = ErrAlreadyExists (m @ '': '' @ s)"
| "wrap m (ErrConflict s) = ErrConflict (m @ '': '' @ s)"
| "wrap m (Errf s) = Errf (m @ '': '' @ s)"
| "wrap m (Panic s) = Panic s"

lemma wrap_class [simp]:
  "is_not_found (wrap m e) = is_not_found e"
  "is_already_exists (wrap m e) = is_already_exists e"
  "is_conflict (wrap m e) = is_conflict e"
  "is_panic (wrap m e) = is_panic e"
  by (cases e; simp)+

text \<open>\<open>if err != nil { return err }\<close>: the first error ends the function.\<close>

definition bind_go :: "'a go \<Rightarrow> ('a \<Rightarrow> 'b go) \<Rightarrow> 'b go" where
  "bind_go m f = (case m of Inl e \<Rightarrow> Inl e | Inr x \<Rightarrow> f x)"

text \<open>\<open>if err != nil { return errors.Wrap(err, msg) }\<close>\<close>

definition wrap_go :: "string \<Rightarrow> 'a go \<Rightarrow> 'a go" where
  "wrap_go msg m = (case m of Inl e \<Rightarrow> Inl (wrap msg e) | Inr x \<Rightarrow> Inr x)"

lemma bind_go_simps [simp, go_simps]:
  "bind_go (Inl e) f = Inl e"
  "bind_go (Inr x) f = f x"
  by (simp_all add: bind_go_def)

lemma wrap_go_simps [simp, go_simps]:
  "wrap_go msg (Inl e) = Inl (wrap msg e)"
  "wrap_go msg (Inr x) = Inr x"
  by (simp_all add: wrap_go_def)

lemma bind_go_eq_Inr [simp]: "bind_go m f = Inr y \<longleftrightarrow> (\<exists>x. m = Inr x \<and> f x = Inr y)"
  by (cases m) auto

lemma wrap_go_eq_Inr [simp]: "wrap_go msg m = Inr y \<longleftrightarrow> m = Inr y"
  by (cases m) auto

lemma bind_go_cong [fundef_cong]:
  "m = m' \<Longrightarrow> (\<And>x. m' = Inr x \<Longrightarrow> f x = f' x) \<Longrightarrow> bind_go m f = bind_go m' f'"
  by (cases m) auto

text \<open>A loop whose body may return an error, threading an accumulator.\<close>

fun foldl_go :: "('s \<Rightarrow> 'a \<Rightarrow> 's go) \<Rightarrow> 's \<Rightarrow> 'a list \<Rightarrow> 's go" where
  "foldl_go f s [] = Inr s"
| "foldl_go f s (x # xs) = bind_go (f s x) (\<lambda>s'. foldl_go f s' xs)"

text \<open>A loop that appends one result per element.\<close>

fun map_go :: "('a \<Rightarrow> 'b go) \<Rightarrow> 'a list \<Rightarrow> 'b list go" where
  "map_go f [] = Inr []"
| "map_go f (x # xs) = bind_go (f x) (\<lambda>y. bind_go (map_go f xs) (\<lambda>ys. Inr (y # ys)))"

lemma map_go_cong [fundef_cong]:
  "xs = ys \<Longrightarrow> (\<And>x. x \<in> set ys \<Longrightarrow> f x = g x) \<Longrightarrow> map_go f xs = map_go g ys"
  by (induction ys arbitrary: xs) auto

lemma foldl_go_append:
  "foldl_go f s (xs @ ys) = bind_go (foldl_go f s xs) (\<lambda>s'. foldl_go f s' ys)"
  by (induction xs arbitrary: s) (auto simp: bind_go_def split: sum.splits)

lemma foldl_go_invariant:
  assumes "foldl_go f s xs = Inr s'" and "P s"
    and "\<And>s x t. P s \<Longrightarrow> x \<in> set xs \<Longrightarrow> f s x = Inr t \<Longrightarrow> P t"
  shows "P s'"
  using assms
proof (induction xs arbitrary: s)
  case Nil
  then show ?case by simp
next
  case (Cons x xs)
  from Cons.prems(1) obtain t where t: "f s x = Inr t" "foldl_go f t xs = Inr s'" by auto
  have "P t" by (rule Cons.prems(3) [OF Cons.prems(2) _ t(1)]) simp
  show ?case
    by (rule Cons.IH [OF t(2) \<open>P t\<close>]) (rule Cons.prems(3), auto)
qed

lemma map_go_Inr:
  "map_go f xs = Inr ys \<longleftrightarrow> length ys = length xs \<and> (\<forall>i<length xs. f (xs ! i) = Inr (ys ! i))"
proof (induction xs arbitrary: ys)
  case Nil
  then show ?case by auto
next
  case (Cons x xs)
  show ?case
  proof (cases ys)
    case Nil
    then show ?thesis by simp
  next
    case (Cons y zs)
    then show ?thesis using Cons.IH [of zs] by (auto simp: less_Suc_eq_0_disj)
  qed
qed

lemma map_go_length: "map_go f xs = Inr ys \<Longrightarrow> length ys = length xs"
  by (simp add: map_go_Inr)

lemma map_go_set:
  "map_go f xs = Inr ys \<Longrightarrow> y \<in> set ys \<Longrightarrow> \<exists>x\<in>set xs. f x = Inr y"
  by (force simp: map_go_Inr in_set_conv_nth)

section \<open>Bytes and strings\<close>

definition is_digit :: "char \<Rightarrow> bool" where
  "is_digit c \<longleftrightarrow> CHR ''0'' \<le> c \<and> c \<le> CHR ''9''"

definition is_lower :: "char \<Rightarrow> bool" where
  "is_lower c \<longleftrightarrow> CHR ''a'' \<le> c \<and> c \<le> CHR ''z''"

definition is_upper :: "char \<Rightarrow> bool" where
  "is_upper c \<longleftrightarrow> CHR ''A'' \<le> c \<and> c \<le> CHR ''Z''"

definition is_alnum_ascii :: "char \<Rightarrow> bool" where
  "is_alnum_ascii c \<longleftrightarrow> is_digit c \<or> is_lower c \<or> is_upper c"

definition is_space :: "char \<Rightarrow> bool" where
  "is_space c \<longleftrightarrow> c \<in> {CHR '' '', CHR 0x09, CHR 0x0A, CHR 0x0B, CHR 0x0C, CHR 0x0D}"

definition char_lower :: "char \<Rightarrow> char" where
  "char_lower c = (if is_upper c then char_of (of_char c + (32::nat)) else c)"

definition char_upper :: "char \<Rightarrow> char" where
  "char_upper c = (if is_lower c then char_of (of_char c - (32::nat)) else c)"

definition to_lower :: "string \<Rightarrow> string" where
  "to_lower s = map char_lower s"

definition to_upper :: "string \<Rightarrow> string" where
  "to_upper s = map char_upper s"

text \<open>\<open>strings.EqualFold\<close>\<close>

definition equal_fold :: "string \<Rightarrow> string \<Rightarrow> bool" where
  "equal_fold s t \<longleftrightarrow> to_lower s = to_lower t"

definition trim_left :: "(char \<Rightarrow> bool) \<Rightarrow> string \<Rightarrow> string" where
  "trim_left P s = dropWhile P s"

definition trim_right :: "(char \<Rightarrow> bool) \<Rightarrow> string \<Rightarrow> string" where
  "trim_right P s = rev (dropWhile P (rev s))"

definition trim_space :: "string \<Rightarrow> string" where
  "trim_space s = trim_right is_space (trim_left is_space s)"

fun has_prefix :: "string \<Rightarrow> string \<Rightarrow> bool" where
  "has_prefix s [] = True"
| "has_prefix [] (p # ps) = False"
| "has_prefix (c # cs) (p # ps) = (c = p \<and> has_prefix cs ps)"

fun contains :: "string \<Rightarrow> string \<Rightarrow> bool" where
  "contains [] p = (p = [])"
| "contains (c # cs) p = (has_prefix (c # cs) p \<or> contains cs p)"

text \<open>\<open>strings.Split\<close> at one byte: never empty.\<close>

fun split_on :: "char \<Rightarrow> string \<Rightarrow> string list" where
  "split_on d [] = [[]]"
| "split_on d (c # cs) =
     (if c = d then [] # split_on d cs
      else (case split_on d cs of [] \<Rightarrow> [[c]] | w # ws \<Rightarrow> (c # w) # ws))"

fun join :: "string \<Rightarrow> string list \<Rightarrow> string" where
  "join d [] = []"
| "join d [w] = w"
| "join d (w # ws) = w @ d @ join d ws"

text \<open>\<open>strings.ReplaceAll\<close> for a non-empty \<open>old\<close>, scanning from the left.\<close>

fun replace_go :: "nat \<Rightarrow> string \<Rightarrow> string \<Rightarrow> string \<Rightarrow> string" where
  "replace_go k old new [] = []"
| "replace_go (Suc k) old new (c # cs) = replace_go k old new cs"
| "replace_go 0 old new (c # cs) =
     (if has_prefix (c # cs) old then new @ replace_go (length old - 1) old new cs
      else c # replace_go 0 old new cs)"

definition replace_all :: "string \<Rightarrow> string \<Rightarrow> string \<Rightarrow> string" where
  "replace_all s old new = replace_go 0 old new s"

lemma split_on_not_Nil [simp]: "split_on d s \<noteq> []"
  by (induction s) (auto split: list.splits)

lemma split_on_no_sep: "w \<in> set (split_on d s) \<Longrightarrow> d \<notin> set w"
proof (induction s arbitrary: w)
  case Nil
  then show ?case by simp
next
  case (Cons c cs)
  then show ?case
    by (cases "split_on d cs") (auto split: if_splits)
qed

text \<open>Splitting undoes joining when no piece has the separator.\<close>

lemma split_on_plain: "d \<notin> set w \<Longrightarrow> split_on d w = [w]"
  by (induction w) auto

lemma split_on_append: "d \<notin> set w \<Longrightarrow> split_on d (w @ d # s) = w # split_on d s"
  by (induction w) auto

lemma split_on_join:
  "ws \<noteq> [] \<Longrightarrow> \<forall>w\<in>set ws. d \<notin> set w \<Longrightarrow> split_on d (join [d] ws) = ws"
  by (induction "[d]" ws rule: join.induct) (auto simp: split_on_plain split_on_append)

lemma length_join1:
  "ws \<noteq> [] \<Longrightarrow> length (join [c] ws) = sum_list (map length ws) + (length ws - 1)"
  by (induction "[c]" ws rule: join.induct) auto

lemma trim_right_Nil [simp]: "trim_right P [] = []"
  by (simp add: trim_right_def)

lemma trim_right_length: "length (trim_right P s) \<le> length s"
  by (metis length_dropWhile_le length_rev trim_right_def)

lemma trim_left_length: "length (trim_left P s) \<le> length s"
  by (simp add: trim_left_def length_dropWhile_le)

lemma set_trim_right: "set (trim_right P s) \<subseteq> set s"
  by (auto simp: trim_right_def dest: set_dropWhileD)

lemma set_trim_left: "set (trim_left P s) \<subseteq> set s"
  by (auto simp: trim_left_def dest: set_dropWhileD)

lemma trim_right_last: "trim_right P s \<noteq> [] \<Longrightarrow> \<not> P (last (trim_right P s))"
  by (simp add: trim_right_def last_rev hd_dropWhile)

lemma trim_left_hd: "trim_left P s \<noteq> [] \<Longrightarrow> \<not> P (hd (trim_left P s))"
  by (simp add: trim_left_def hd_dropWhile)

lemma trim_right_prefix: "\<exists>k. trim_right P s = take k s"
proof -
  have "s = rev (dropWhile P (rev s)) @ rev (takeWhile P (rev s))"
    by (metis rev_append rev_rev_ident takeWhile_dropWhile_id)
  then have "take (length (rev (dropWhile P (rev s)))) s = rev (dropWhile P (rev s))"
    by (metis append_eq_conv_conj)
  then show ?thesis by (metis trim_right_def)
qed

lemma trim_right_hd: "trim_right P s \<noteq> [] \<Longrightarrow> hd (trim_right P s) = hd s"
proof -
  assume ne: "trim_right P s \<noteq> []"
  obtain k where "trim_right P s = take k s" using trim_right_prefix by blast
  with ne show ?thesis by (metis hd_take gr0I take0 take_eq_Nil)
qed

section \<open>Decimal numbers\<close>

definition digit_char :: "nat \<Rightarrow> char" where
  "digit_char d = char_of (48 + d)"

definition digit_val :: "char \<Rightarrow> nat" where
  "digit_val c = of_char c - 48"

fun nat_dec :: "nat \<Rightarrow> string" where
  "nat_dec n = (if n < 10 then [digit_char n] else nat_dec (n div 10) @ [digit_char (n mod 10)])"

declare nat_dec.simps [simp del]

text \<open>\<open>strconv.Itoa\<close>\<close>

definition itoa :: "int \<Rightarrow> string" where
  "itoa i = (if i < 0 then CHR ''-'' # nat_dec (nat (- i)) else nat_dec (nat i))"

definition dec_nat :: "string \<Rightarrow> nat" where
  "dec_nat s = foldl (\<lambda>n c. 10 * n + digit_val c) 0 s"

text \<open>\<open>strconv.Atoi\<close>: an optional sign, at least one digit, nothing else, in the range of int64.\<close>

definition atoi :: "string \<Rightarrow> int go" where
  "atoi s =
     (let neg = (case s of [] \<Rightarrow> False | c # _ \<Rightarrow> c = CHR ''-'');
          ds = (case s of [] \<Rightarrow> [] | c # cs \<Rightarrow> if c = CHR ''-'' \<or> c = CHR ''+'' then cs else s);
          v = (if neg then - int (dec_nat ds) else int (dec_nat ds))
      in if ds = [] \<or> \<not> list_all is_digit ds then Inl (Errf ''strconv.Atoi: invalid syntax'')
         else if v < - (2 ^ 63) \<or> 2 ^ 63 \<le> v then Inl (Errf ''strconv.Atoi: value out of range'')
         else Inr v)"

lemma digit_val_char: "d < 10 \<Longrightarrow> digit_val (digit_char d) = d"
  by (simp add: digit_val_def digit_char_def)

lemma is_digit_iff: "is_digit c \<longleftrightarrow> 48 \<le> (of_char c :: nat) \<and> of_char c \<le> (57::nat)"
  by (simp add: is_digit_def less_eq_char_def)

lemma is_digit_char: "d < 10 \<Longrightarrow> is_digit (digit_char d)"
  by (simp add: is_digit_iff digit_char_def)

lemma dec_nat_snoc: "dec_nat (s @ [c]) = 10 * dec_nat s + digit_val c"
  by (simp add: dec_nat_def)

lemma nat_dec_digits: "list_all is_digit (nat_dec n)"
proof (induction n rule: nat_dec.induct)
  case (1 n)
  then show ?case by (subst nat_dec.simps) (auto simp: is_digit_char)
qed

lemma nat_dec_not_Nil: "nat_dec n \<noteq> []"
  by (subst nat_dec.simps) simp

lemma dec_nat_nat_dec: "dec_nat (nat_dec n) = n"
proof (induction n rule: nat_dec.induct)
  case (1 n)
  show ?case
  proof (cases "n < 10")
    case True
    then show ?thesis by (subst nat_dec.simps) (simp add: dec_nat_def digit_val_char)
  next
    case False
    with 1 have "dec_nat (nat_dec (n div 10)) = n div 10" by simp
    with False show ?thesis
      by (subst nat_dec.simps) (simp add: dec_nat_snoc digit_val_char)
  qed
qed

lemma nat_dec_hd: "is_digit (hd (nat_dec n))"
  using nat_dec_digits [of n] nat_dec_not_Nil [of n] by (cases "nat_dec n") auto

lemma not_digit_sign: "\<not> is_digit CHR ''-''" "\<not> is_digit CHR ''+''"
  by (simp_all add: is_digit_def)

text \<open>\<open>Atoi\<close> reads back what \<open>Itoa\<close> prints.\<close>

lemma atoi_itoa:
  assumes "- (2 ^ 63) \<le> i" and "i < 2 ^ 63"
  shows "atoi (itoa i) = Inr i"
proof (cases "i < 0")
  case True
  then show ?thesis
    using assms nat_dec_not_Nil nat_dec_digits
    by (simp add: atoi_def itoa_def dec_nat_nat_dec Let_def)
next
  case False
  obtain c cs where cs: "nat_dec (nat i) = c # cs"
    using nat_dec_not_Nil [of "nat i"] by (cases "nat_dec (nat i)") auto
  moreover have "is_digit c" using nat_dec_hd [of "nat i"] cs by simp
  ultimately have "c \<noteq> CHR ''-''" "c \<noteq> CHR ''+''" using not_digit_sign by auto
  then show ?thesis
    using False assms nat_dec_digits [of "nat i"] dec_nat_nat_dec [of "nat i"] cs
    by (simp add: atoi_def itoa_def Let_def)
qed

section \<open>Go maps\<close>

type_synonym 'a gomap = "(string \<times> 'a) list"

definition mget :: "'a gomap \<Rightarrow> string \<Rightarrow> 'a option" where
  "mget m k = map_of m k"

definition mput :: "string \<Rightarrow> 'a \<Rightarrow> 'a gomap \<Rightarrow> 'a gomap" where
  "mput k v m = AList.update k v m"

definition mdel :: "string \<Rightarrow> 'a gomap \<Rightarrow> 'a gomap" where
  "mdel k m = AList.delete k m"

text \<open>Indexing a \<open>map[string]string\<close>: the empty string when the key is absent.\<close>

definition mstr :: "string gomap \<Rightarrow> string \<Rightarrow> string" where
  "mstr m k = (case mget m k of None \<Rightarrow> [] | Some v \<Rightarrow> v)"

definition mkeys :: "'a gomap \<Rightarrow> string list" where
  "mkeys m = map fst m"

definition wf_map :: "'a gomap \<Rightarrow> bool" where
  "wf_map m \<longleftrightarrow> distinct (map fst m)"

text \<open>\<open>lo.Assign\<close> and \<open>maps.Copy\<close>: later maps win.\<close>

definition massign :: "'a gomap \<Rightarrow> 'a gomap \<Rightarrow> 'a gomap" where
  "massign a b = foldl (\<lambda>m (k, v). mput k v m) a b"

lemma mget_Nil [simp, go_simps]: "mget [] k = None"
  by (simp add: mget_def)

lemma mget_Cons [go_simps]: "mget ((k', v) # m) k = (if k = k' then Some v else mget m k)"
  by (simp add: mget_def)

lemma mget_mput [simp, go_simps]: "mget (mput k v m) k' = (if k' = k then Some v else mget m k')"
  by (simp add: mget_def mput_def update_conv)

lemma mget_mdel [simp, go_simps]: "mget (mdel k m) k' = (if k' = k then None else mget m k')"
  by (simp add: mget_def mdel_def delete_conv)

lemma wf_map_Nil [simp]: "wf_map []"
  by (simp add: wf_map_def)

lemma wf_map_mput [simp]: "wf_map m \<Longrightarrow> wf_map (mput k v m)"
  by (simp add: wf_map_def mput_def distinct_update)

lemma wf_map_mdel [simp]: "wf_map m \<Longrightarrow> wf_map (mdel k m)"
  by (simp add: wf_map_def mdel_def distinct_delete)

lemma set_mput: "set (mput k v m) \<subseteq> insert (k, v) (set m)"
  unfolding mput_def by (induction m) auto

lemma mget_in_set: "mget m k = Some v \<Longrightarrow> (k, v) \<in> set m"
  by (simp add: mget_def map_of_SomeD)

lemma mget_wf: "wf_map m \<Longrightarrow> (k, v) \<in> set m \<Longrightarrow> mget m k = Some v"
  by (simp add: wf_map_def mget_def)

lemma mget_None_iff: "mget m k = None \<longleftrightarrow> k \<notin> set (mkeys m)"
  by (simp add: mget_def mkeys_def map_of_eq_None_iff)

lemma massign_snoc: "massign a (b @ [(k, v)]) = mput k v (massign a b)"
  by (simp add: massign_def)

lemma mget_massign:
  "wf_map b \<Longrightarrow> mget (massign a b) k = (case mget b k of None \<Rightarrow> mget a k | Some v \<Rightarrow> Some v)"
proof (induction b rule: rev_induct)
  case Nil
  then show ?case by (simp add: massign_def)
next
  case (snoc kv b)
  obtain k' v where kv: "kv = (k', v)" by force
  have wf: "wf_map b" and fresh: "k' \<notin> fst ` set b"
    using snoc.prems kv by (auto simp: wf_map_def)
  have app: "mget (b @ [(k', v)]) k = (case mget b k of None \<Rightarrow> if k = k' then Some v else None | Some x \<Rightarrow> Some x)"
    by (auto simp: mget_def map_add_def split: option.splits)
  show ?case
  proof (cases "k = k'")
    case True
    with fresh have "mget b k = None" by (simp add: mget_def map_of_eq_None_iff)
    with True show ?thesis by (simp add: kv massign_snoc app [unfolded True])
  next
    case False
    with snoc.IH [OF wf] show ?thesis
      by (simp add: kv massign_snoc app split: option.splits)
  qed
qed

lemma wf_map_massign: "wf_map a \<Longrightarrow> wf_map (massign a b)"
  by (induction b arbitrary: a rule: rev_induct) (auto simp: massign_def split: prod.splits)

text \<open>
  Two association lists are the same map when they agree on every key: only the iteration
  order differs.
\<close>

definition same_map :: "'a gomap \<Rightarrow> 'a gomap \<Rightarrow> bool" where
  "same_map a b \<longleftrightarrow> (\<forall>k. mget a k = mget b k)"

section \<open>Searching a slice\<close>

text \<open>The index of the first element that satisfies the test, \<open>-1\<close> when there is none.\<close>

fun index_from :: "int \<Rightarrow> ('a \<Rightarrow> bool) \<Rightarrow> 'a list \<Rightarrow> int" where
  "index_from i P [] = - 1"
| "index_from i P (x # xs) = (if P x then i else index_from (i + 1) P xs)"

lemma index_from_split:
  assumes "0 \<le> i"
  shows "(index_from i P xs = - 1 \<and> (\<forall>x\<in>set xs. \<not> P x)) \<or>
    (\<exists>a x b. xs = a @ x # b \<and> P x \<and> (\<forall>y\<in>set a. \<not> P y) \<and> index_from i P xs = i + int (length a))"
  using assms
proof (induction xs arbitrary: i)
  case (Cons y ys)
  show ?case
  proof (cases "P y")
    case True
    then show ?thesis by (intro disjI2 exI [of _ "[]"] exI [of _ y] exI [of _ ys]) simp
  next
    case False
    have "0 \<le> i + 1" using Cons.prems by simp
    from Cons.IH [OF this] False show ?thesis
    proof (elim disjE exE conjE)
      fix a x b
      assume "ys = a @ x # b" "P x" "\<forall>y\<in>set a. \<not> P y" "index_from (i + 1) P ys = i + 1 + int (length a)"
      then show ?thesis
        using False by (intro disjI2 exI [of _ "y # a"] exI [of _ x] exI [of _ b]) simp
    qed simp
  qed
qed simp

lemma index_from_cases [case_names absent found]:
  obtains (absent) "index_from 0 P xs = - 1" "\<forall>x\<in>set xs. \<not> P x"
  | (found) a x b where "xs = a @ x # b" "P x" "\<forall>y\<in>set a. \<not> P y"
      "index_from 0 P xs = int (length a)"
  using index_from_split [of 0 P xs] by auto

text \<open>The first element that satisfies a test, as \<open>find\<close> gives it.\<close>

lemma find_none: "\<forall>x\<in>set xs. \<not> P x \<Longrightarrow> find P xs = None"
  by (simp add: find_None_iff)

lemma find_append: "find P (xs @ ys) = (case find P xs of None \<Rightarrow> find P ys | Some x \<Rightarrow> Some x)"
  by (induction xs) auto

lemma find_middle: "P x \<Longrightarrow> \<forall>y\<in>set a. \<not> P y \<Longrightarrow> find P (a @ x # b) = Some x"
  by (simp add: find_append find_none)

lemma map_go_if:
  assumes "\<forall>x\<in>set xs. if P x then \<exists>y. f x = Inr y else f x = Inl e"
  shows "if \<forall>x\<in>set xs. P x then \<exists>ys. map_go f xs = Inr ys else map_go f xs = Inl e"
  using assms by (induction xs) (auto split: if_splits)

lemma mget_sort_key: "wf_map m \<Longrightarrow> mget (sort_key fst m) k = mget m k"
proof -
  assume "wf_map m"
  then have "map_of (sort_key fst m) = map_of m"
    by (intro map_of_inject_set [THEN iffD2]) (simp_all add: wf_map_def distinct_map inj_on_def)
  then show ?thesis by (simp add: mget_def)
qed

lemma map_filter_mem: "y \<in> set (List.map_filter f xs) \<longleftrightarrow> (\<exists>x\<in>set xs. f x = Some y)"
  by (induction xs) (auto simp: List.map_filter_simps split: option.splits)

lemma filter_as_concat: "filter P xs = concat (map (\<lambda>e. if P e then [e] else []) xs)"
  by (induction xs) auto

lemma concat_not_distinct:
  assumes "i < j" and "j < length xs" and "y \<in> set (f (xs ! i))" and "z \<in> set (f (xs ! j))" and "g y = g z"
  shows "\<not> distinct (map g (concat (map f xs)))"
proof
  assume d: "distinct (map g (concat (map f xs)))"
  have "concat (map f xs) = concat (map f (take j xs @ xs ! j # drop (Suc j) xs))" using assms(2) by (simp only: id_take_nth_drop [symmetric])
  then have "concat (map f xs) = concat (map f (take j xs)) @ f (xs ! j) @ concat (map f (drop (Suc j) xs))" by simp
  moreover have "xs ! i \<in> set (take j xs)" using assms(1,2) by (auto simp: in_set_conv_nth intro!: exI [of _ i])
  ultimately have m: "g y \<in> g ` set (concat (map f (take j xs)))" "g z \<in> g ` set (f (xs ! j))" and
      e: "distinct (map g (concat (map f (take j xs))) @ map g (f (xs ! j)) @ map g (concat (map f (drop (Suc j) xs))))"
    using d assms(3,4) by auto
  from e have "g ` set (concat (map f (take j xs))) \<inter> g ` set (f (xs ! j)) = {}"
    unfolding distinct_append set_append set_map by blast
  with m assms(5) show False by (metis disjoint_iff)
qed

lemma mget_map_values: "mget (map (\<lambda>(k, v). (k, f v)) m) k = map_option f (mget m k)"
  by (induction m) (auto simp: mget_Cons)

lemma take_filter_iff: "take (length (filter P xs)) xs = filter P xs \<longleftrightarrow> (\<forall>x\<in>set (take (length (filter P xs)) xs). P x)"
proof
  assume all: "\<forall>x\<in>set (take (length (filter P xs)) xs). P x"
  define k where "k = length (filter P xs)"
  have eq: "filter P xs = take k xs @ filter P (drop k xs)"
    using all filter_append [of P "take k xs" "drop k xs"] by (simp add: k_def [symmetric] filter_id_conv)
  have le: "k \<le> length xs" by (simp add: k_def)
  from eq have "length (filter P xs) = length (take k xs @ filter P (drop k xs))" by (rule arg_cong)
  with le have "length (filter P (drop k xs)) = 0" unfolding k_def [symmetric] by simp
  with eq show "take (length (filter P xs)) xs = filter P xs" unfolding k_def [symmetric] by simp
next
  assume "take (length (filter P xs)) xs = filter P xs"
  then show "\<forall>x\<in>set (take (length (filter P xs)) xs). P x" by simp
qed

lemma find_SomeD: "find P xs = Some x \<Longrightarrow> P x \<and> x \<in> set xs"
  by (induction xs) (auto split: if_splits)

end
