(* ===== verification/Float64.thy ===== *)
theory Float64
  imports Prelude Complex_Main "HOL-Library.Log_Nat"
begin

text \<open>
  The \<open>float64\<close> of the source: IEEE 754 binary64 values, as prices, CPU counts, memory sizes
  and latencies use them. A finite value is the rational it denotes (the two zeros are one
  value, which every comparison of the source agrees with); an arithmetic operation is the
  exact one rounded to the nearest binary64, ties to even (\<open>round64\<close>), as the language
  prescribes. Comparisons with a NaN are false. All of it computes.
\<close>

datatype f64 = Fin rat | PInf | NInf | NaN

section \<open>Rounding\<close>

definition pow2 :: "int \<Rightarrow> rat" where
  "pow2 e = (if 0 \<le> e then 2 ^ nat e else 1 / 2 ^ nat (- e))"

text \<open>\<open>\<lfloor>log 2 x\<rfloor>\<close> for \<open>x > 0\<close>, from the bit lengths of numerator and denominator.\<close>

definition ilog2 :: "rat \<Rightarrow> int" where
  "ilog2 x = (case quotient_of x of (a, b) \<Rightarrow>
     let k = bitlen a - bitlen b in if pow2 k \<le> x then k else k - 1)"

definition half_even :: "rat \<Rightarrow> int" where
  "half_even x =
     (let f = \<lfloor>x\<rfloor>; r = x - of_int f
      in if r < 1 / 2 then f else if 1 / 2 < r then f + 1 else if even f then f else f + 1)"

definition round64 :: "rat \<Rightarrow> f64" where
  "round64 x =
     (if x = 0 then Fin 0
      else let m = \<bar>x\<bar>;
               e = max (ilog2 m - 52) (- 1074);
               y = of_int (half_even (m / pow2 e)) * pow2 e
           in if 2 ^ 1024 \<le> y then (if 0 < x then PInf else NInf)
              else Fin (if 0 < x then y else - y))"

text \<open>\<open>float64(n)\<close> of an integer.\<close>

definition f64_of_int :: "int \<Rightarrow> f64" where
  "f64_of_int n = round64 (of_int n)"

lemma pow2_pos [simp]: "0 < pow2 e"
  by (simp add: pow2_def)

lemma half_even_of_int [simp]: "half_even (of_int n) = n"
  by (simp add: half_even_def)

lemma half_even_bounds: "\<lfloor>x\<rfloor> \<le> half_even x \<and> half_even x \<le> \<lfloor>x\<rfloor> + 1"
  by (simp add: half_even_def Let_def)

lemma ilog2_upper:
  assumes "0 < x"
  shows "ilog2 x \<le> bitlen (fst (quotient_of x)) - bitlen (snd (quotient_of x))"
  by (simp add: ilog2_def Let_def split: prod.splits)

text \<open>An integer of at most 53 bits is exact.\<close>

lemma bitlen_53:
  assumes "0 < n" and "n < 2 ^ 53"
  shows "bitlen n \<le> 53"
proof (rule ccontr)
  assume "\<not> bitlen n \<le> 53"
  then have "53 < bitlen n" by simp
  moreover have "2 ^ nat (bitlen n - 1) \<le> n" using bitlen_bounds [OF assms(1)] by simp
  moreover have "(2::int) ^ 53 \<le> 2 ^ nat (bitlen n - 1)"
    using \<open>53 < bitlen n\<close> by (intro power_increasing) auto
  ultimately show False using assms(2) by simp
qed

lemma quotient_of_rat_int: "quotient_of (of_int n) = (n, 1)"
  by (simp add: of_int_rat quotient_of_Fract normalize_def)

lemma ilog2_int_le:
  assumes "0 < n" and "n < 2 ^ 53"
  shows "ilog2 (of_int n) \<le> 52"
proof -
  have "bitlen (1::int) = 1" by (simp add: bitlen_def floorlog_def)
  moreover have "bitlen n \<le> 53" using assms by (rule bitlen_53)
  ultimately show ?thesis
    using ilog2_upper [of "of_int n"] assms(1) by (simp add: quotient_of_rat_int)
qed

lemma round64_int_pos:
  assumes "0 < n" and "n < 2 ^ 53"
  shows "round64 (of_int n) = Fin (of_int n)"
proof -
  define e where "e = max (ilog2 (of_int n) - 52) (- 1074)"
  have e0: "e \<le> 0" using ilog2_int_le [OF assms] by (simp add: e_def)
  have "of_int n / pow2 e = (of_int (n * 2 ^ nat (- e)) :: rat)"
    using e0 by (cases "e = 0") (auto simp: pow2_def)
  then have "half_even (of_int n / pow2 e) = n * 2 ^ nat (- e)" by (simp only: half_even_of_int)
  then have "of_int (half_even (of_int n / pow2 e)) * pow2 e = (of_int n :: rat)"
    using e0 by (cases "e = 0") (simp_all add: pow2_def)
  moreover have "(of_int n :: rat) < 2 ^ 1024"
  proof -
    have "n < 2 ^ 1024" using assms(2) by (rule less_trans) simp
    then show ?thesis by (metis of_int_less_iff of_int_numeral of_int_power)
  qed
  ultimately show ?thesis using assms(1) by (simp add: round64_def Let_def flip: e_def)
qed

lemma round64_neg: "round64 (- x) = (case round64 x of Fin y \<Rightarrow> Fin (- y) | PInf \<Rightarrow> NInf | NInf \<Rightarrow> PInf | NaN \<Rightarrow> NaN)"
  by (auto simp: round64_def Let_def)

lemma f64_of_int_exact:
  assumes "\<bar>n\<bar> < 2 ^ 53"
  shows "f64_of_int n = Fin (of_int n)"
proof (cases "0 < n")
  case True
  then show ?thesis using assms by (simp add: f64_of_int_def round64_int_pos)
next
  case False
  show ?thesis
  proof (cases "n = 0")
    case True
    then show ?thesis by (simp add: f64_of_int_def round64_def)
  next
    case nz: False
    have "round64 (of_int (- n)) = Fin (of_int (- n))"
      using False nz assms by (intro round64_int_pos) auto
    then have "round64 (- of_int (- n)) = Fin (- of_int (- n))"
      by (simp only: round64_neg f64.case)
    then show ?thesis by (simp add: f64_of_int_def)
  qed
qed

section \<open>Order and arithmetic\<close>

text \<open>IEEE comparisons: neither \<open><\<close> nor \<open>\<le>\<close> holds of a NaN.\<close>

instantiation f64 :: ord
begin

fun less_f64 :: "f64 \<Rightarrow> f64 \<Rightarrow> bool" where
  "less_f64 (Fin a) (Fin b) = (a < b)"
| "less_f64 (Fin a) PInf = True"
| "less_f64 NInf (Fin b) = True"
| "less_f64 NInf PInf = True"
| "less_f64 _ _ = False"

fun less_eq_f64 :: "f64 \<Rightarrow> f64 \<Rightarrow> bool" where
  "less_eq_f64 (Fin a) (Fin b) = (a \<le> b)"
| "less_eq_f64 (Fin a) PInf = True"
| "less_eq_f64 NInf (Fin b) = True"
| "less_eq_f64 NInf PInf = True"
| "less_eq_f64 PInf PInf = True"
| "less_eq_f64 NInf NInf = True"
| "less_eq_f64 _ _ = False"

instance ..

end

text \<open>Go's \<open>==\<close>.\<close>

definition f64_eq :: "f64 \<Rightarrow> f64 \<Rightarrow> bool" where
  "f64_eq a b \<longleftrightarrow> a = b \<and> a \<noteq> NaN"

fun f64_neg :: "f64 \<Rightarrow> f64" where
  "f64_neg (Fin a) = Fin (- a)"
| "f64_neg PInf = NInf"
| "f64_neg NInf = PInf"
| "f64_neg NaN = NaN"

fun f64_add :: "f64 \<Rightarrow> f64 \<Rightarrow> f64" where
  "f64_add (Fin a) (Fin b) = round64 (a + b)"
| "f64_add NaN _ = NaN"
| "f64_add _ NaN = NaN"
| "f64_add PInf NInf = NaN"
| "f64_add NInf PInf = NaN"
| "f64_add PInf _ = PInf"
| "f64_add _ PInf = PInf"
| "f64_add NInf _ = NInf"
| "f64_add _ NInf = NInf"

definition f64_sub :: "f64 \<Rightarrow> f64 \<Rightarrow> f64" where
  "f64_sub a b = f64_add a (f64_neg b)"

text \<open>Products and quotients by a positive finite constant, the only ones the source forms.\<close>

fun f64_scale :: "f64 \<Rightarrow> rat \<Rightarrow> f64" where
  "f64_scale (Fin a) c = round64 (a * c)"
| "f64_scale PInf c = PInf"
| "f64_scale NInf c = NInf"
| "f64_scale NaN c = NaN"

text \<open>A decimal constant of the source, as the compiler converts it.\<close>

fun f64_rat :: "f64 \<Rightarrow> rat" where
  "f64_rat (Fin a) = a"
| "f64_rat _ = 0"

definition f64_const :: "rat \<Rightarrow> rat" where
  "f64_const c = f64_rat (round64 c)"

lemma f64_not_le: "a \<noteq> NaN \<Longrightarrow> b \<noteq> NaN \<Longrightarrow> (\<not> a \<le> b) = (b < a)" for a b :: f64
  by (cases a; cases b) auto

lemma f64_less_imp_le: "a < b \<Longrightarrow> a \<le> b" for a b :: f64
  by (cases a; cases b) auto

lemma f64_less_irrefl [simp]: "\<not> a < (a::f64)"
  by (cases a) auto

lemma f64_less_trans: "a < b \<Longrightarrow> b < c \<Longrightarrow> a < (c::f64)"
  by (cases a; cases b; cases c) auto

lemma f64_le_trans: "a \<le> b \<Longrightarrow> b \<le> c \<Longrightarrow> a \<le> (c::f64)"
  by (cases a; cases b; cases c) auto

lemma f64_le_refl: "a \<noteq> NaN \<Longrightarrow> a \<le> (a::f64)"
  by (cases a) auto

lemma f64_NaN_order [simp]:
  "\<not> NaN < a" "\<not> a < NaN" "\<not> NaN \<le> a" "\<not> a \<le> NaN"
  by (cases a; simp)+

section \<open>\<open>strconv.ParseFloat\<close>\<close>

text \<open>
  Decimal literals: an optional sign, digits with an optional point and at least one digit, an
  optional exponent, nothing after; or \<open>inf\<close>, \<open>infinity\<close>, \<open>nan\<close> in any case. The value is the
  nearest binary64; a literal beyond the largest finite value is the range error of the
  library. Hexadecimal literals and digit separators, which the library also accepts, are
  syntax errors here: no price or size of the source's data has them.
\<close>

definition span :: "(char \<Rightarrow> bool) \<Rightarrow> string \<Rightarrow> string \<times> string" where
  "span P s = (takeWhile P s, dropWhile P s)"

definition strip_sign :: "string \<Rightarrow> bool \<times> string" where
  "strip_sign s = (case s of [] \<Rightarrow> (False, [])
     | c # cs \<Rightarrow> if c = CHR ''-'' then (True, cs) else if c = CHR ''+'' then (False, cs) else (False, s))"

text \<open>An optional exponent and what follows it; \<open>None\<close> when an \<open>e\<close> has no digits.\<close>

definition scan_exp :: "string \<Rightarrow> (int \<times> string) option" where
  "scan_exp s = (case s of [] \<Rightarrow> Some (0, [])
     | c # cs \<Rightarrow>
       if char_lower c = CHR ''e''
       then (let (neg, r) = strip_sign cs; (ds, rest) = span is_digit r
             in if ds = [] then None
                else Some ((if neg then - int (dec_nat ds) else int (dec_nat ds)), rest))
       else Some (0, s))"

text \<open>The value of an unsigned decimal literal, exactly.\<close>

definition scan_decimal :: "string \<Rightarrow> rat option" where
  "scan_decimal s =
     (let (ip, r) = span is_digit s;
          (fp, r') = (case r of [] \<Rightarrow> ([], []) | c # cs \<Rightarrow> if c = CHR ''.'' then span is_digit cs else ([], r))
      in if ip = [] \<and> fp = [] then None
         else case scan_exp r' of
             None \<Rightarrow> None
           | Some (e, rest) \<Rightarrow>
               if rest \<noteq> [] then None
               else (let e' = e - int (length fp); m = of_nat (dec_nat (ip @ fp))
                     in Some (if 0 \<le> e' then m * 10 ^ nat e' else m / 10 ^ nat (- e'))))"

definition parse_float :: "string \<Rightarrow> f64 go" where
  "parse_float s =
     (let (neg, r) = strip_sign s; l = to_lower r
      in if l \<in> {''inf'', ''infinity''} then Inr (if neg then NInf else PInf)
         else if to_lower s = ''nan'' then Inr NaN
         else case scan_decimal r of
             None \<Rightarrow> Inl (Errf ''strconv.ParseFloat: invalid syntax'')
           | Some q \<Rightarrow> (case round64 (if neg then - q else q) of
                 Fin x \<Rightarrow> Inr (Fin x)
               | _ \<Rightarrow> Inl (Errf ''strconv.ParseFloat: value out of range'')))"

section \<open>The rounding error\<close>

lemma pow2_powi: "pow2 e = 2 powi e"
proof (cases "0 \<le> e")
  case True
  then show ?thesis by (simp add: pow2_def power_int_def)
next
  case False
  then show ?thesis by (simp add: pow2_def power_int_def power_inverse [symmetric] inverse_eq_divide power_divide)
qed

lemma pow2_nz [simp]: "pow2 e \<noteq> 0"
  using pow2_pos [of e] by linarith

lemma pow2_diff: "pow2 (i - j) = pow2 i / pow2 j"
  by (simp add: pow2_powi power_int_diff)

lemma pow2_bitlen:
  assumes "0 < n"
  shows "pow2 (bitlen n - 1) \<le> of_int n" and "of_int n < pow2 (bitlen n)"
proof -
  have b: "2 ^ nat (bitlen n - 1) \<le> n" "n < 2 ^ nat (bitlen n)" "0 < bitlen n"
    using bitlen_bounds [OF assms] bitlen_nonneg [of n] assms by (auto simp: bitlen_eq_zero_iff order.order_iff_strict)
  from b(1) have "(of_int (2 ^ nat (bitlen n - 1)) :: rat) \<le> of_int n" by (simp only: of_int_le_iff)
  with b(3) show "pow2 (bitlen n - 1) \<le> of_int n" by (simp add: pow2_def)
  from b(2) have "(of_int n :: rat) < of_int (2 ^ nat (bitlen n))" by (simp only: of_int_less_iff)
  with b(3) show "of_int n < pow2 (bitlen n)" by (simp add: pow2_def)
qed

lemma ilog2_lower:
  assumes "0 < x"
  shows "pow2 (ilog2 x) \<le> x"
proof -
  obtain a b where q: "quotient_of x = (a, b)" by force
  have x: "x = of_int a / of_int b" and b: "0 < b"
    using quotient_of_div [OF q] quotient_of_denom_pos [OF q] by auto
  then have a: "0 < a" using assms by (simp add: zero_less_divide_iff)
  have "pow2 (bitlen a - 1 - bitlen b) \<le> x"
    unfolding x pow2_diff [of _ "bitlen b"] using pow2_bitlen(1) [OF a] pow2_bitlen(2) [OF b] a b
    by (intro frac_le) auto
  then show ?thesis by (simp add: ilog2_def q Let_def algebra_simps)
qed

lemma half_even_error: "\<bar>of_int (half_even x) - x\<bar> \<le> 1 / 2" for x :: rat
proof -
  have "0 \<le> x - of_int \<lfloor>x\<rfloor>" "x - of_int \<lfloor>x\<rfloor> < 1" by (simp_all add: algebra_simps) linarith
  then show ?thesis by (auto simp: half_even_def Let_def abs_le_iff)
qed

text \<open>The relative error of rounding a value between 1 and the range limit.\<close>

lemma round64_error:
  assumes "1 \<le> x" and "x < 2 ^ 1023"
  shows "\<exists>y. round64 x = Fin y \<and> \<bar>y - x\<bar> \<le> x / 2 ^ 53"
proof -
  define e where "e = max (ilog2 x - 52) (- 1074)"
  define y where "y = of_int (half_even (x / pow2 e)) * pow2 e"
  have x: "0 < x" using assms(1) by simp
  have "pow2 e \<le> x / 2 ^ 52"
  proof (cases "ilog2 x - 52 \<ge> - 1074")
    case True
    then have "pow2 e = pow2 (ilog2 x) / pow2 52" by (simp add: e_def pow2_diff)
    with ilog2_lower [OF x] show ?thesis by (simp add: pow2_def divide_right_mono)
  next
    case False
    then have "pow2 e = 1 / 2 ^ 1074" by (simp add: e_def pow2_def)
    also have "\<dots> \<le> 1 / 2 ^ 52" by simp
    also have "\<dots> \<le> x / 2 ^ 52" using assms(1) by simp
    finally show ?thesis .
  qed
  moreover have "y - x = (of_int (half_even (x / pow2 e)) - x / pow2 e) * pow2 e"
    by (simp add: y_def algebra_simps)
  then have "\<bar>y - x\<bar> = \<bar>of_int (half_even (x / pow2 e)) - x / pow2 e\<bar> * pow2 e"
    by (simp add: abs_mult abs_of_pos)
  then have "\<bar>y - x\<bar> \<le> 1 / 2 * pow2 e"
    using mult_right_mono [OF half_even_error [of "x / pow2 e"] less_imp_le [OF pow2_pos], of e] by simp
  ultimately have err: "\<bar>y - x\<bar> \<le> x / 2 ^ 53" by simp
  have "x / 2 ^ 53 \<le> x" using x by simp
  with abs_le_D1 [OF err] assms(2) have "y < 2 * 2 ^ 1023" by linarith
  then have "y < 2 ^ 1024" by simp
  then have "round64 x = Fin y" using x by (simp add: round64_def Let_def y_def flip: e_def)
  with err show ?thesis by blast
qed

end
