(* ===== verification/Names.thy ===== *)
theory Names
  imports Prelude Sha256
begin

text \<open>
  The names and labels the operator gives its objects: \<open>TruncatedName\<close> and \<open>EnsureK8sName\<close>
  (\<open>internal/helper/common.go\<close>), \<open>DefaultLabels\<close> (\<open>internal/helper/label.go\<close>),
  \<open>CanonicalPair\<close>, \<open>SanitizeName\<close>, \<open>ShortenLabelKey\<close> (\<open>internal/controller/utils/utils.go\<close>).
  The shortening loop of \<open>EnsureK8sName\<close> may run forever, so it is a partial function whose
  value \<open>None\<close> is "does not return". Strings are bytes; the rune loops of \<open>SanitizeName\<close> and
  of the fallback of \<open>ShortenLabelKey\<close> are read on ASCII text, where a rune is a byte.
\<close>

section \<open>\<open>TruncatedName\<close>\<close>

definition TruncatedName :: "string \<Rightarrow> string \<Rightarrow> string go" where
  "TruncatedName name newName =
     (let m = 48 - int (length newName) - 6
      in if int (length name) > m
         then (if m < 0 then Inl (Panic ''slice bounds out of range'')
               else Inr (take (nat m) name @ newName))
         else Inr (name @ newName))"

section \<open>\<open>EnsureK8sName\<close>\<close>

definition dns_char :: "char \<Rightarrow> bool" where
  "dns_char c \<longleftrightarrow> is_lower c \<or> is_digit c \<or> c = CHR ''-''"

definition dash :: "char \<Rightarrow> bool" where
  "dash c \<longleftrightarrow> c = CHR ''-''"

definition cleanLabel :: "string \<Rightarrow> string" where
  "cleanLabel s =
     (let out = filter dns_char (to_lower s);
          out = trim_left dash out;
          out = trim_right dash out;
          out = (if out = [] then ''a'' else out)
      in if length out > 63
         then (let out = trim_right dash (take 63 out) in if out = [] then ''a'' else out)
         else out)"

definition clean_parts :: "string \<Rightarrow> string list" where
  "clean_parts name = map (\<lambda>p. if p = [] then ''a'' else cleanLabel p) (split_on (CHR ''.'') name)"

text \<open>One round of the shortening loop: only the last label is cut.\<close>

definition cut_len :: "string list \<Rightarrow> nat" where
  "cut_len parts =
     (let over = int (length (join ''.'' parts)) - 253;
          newLen = int (length (last parts)) - over;
          newLen = (if newLen < 1 then 1 else newLen)
      in nat (if newLen > int (length (last parts)) then int (length (last parts)) else newLen))"

definition shorten_last :: "string list \<Rightarrow> string list" where
  "shorten_last parts =
     (let l = trim_right dash (take (cut_len parts) (last parts));
          l = (if l = [] then ''a'' else l)
      in butlast parts @ [l])"

partial_function (option) shorten_loop :: "string list \<Rightarrow> string option" where
  "shorten_loop parts =
     (if length (join ''.'' parts) > 253 then shorten_loop (shorten_last parts)
      else Some (join ''.'' parts))"

definition EnsureK8sName :: "string \<Rightarrow> string option" where
  "EnsureK8sName name =
     (if name = [] then Some ''a'' else shorten_loop (clean_parts name))"

text \<open>A DNS-1123 label and a name made of them.\<close>

definition dns_label :: "string \<Rightarrow> bool" where
  "dns_label l \<longleftrightarrow> l \<noteq> [] \<and> length l \<le> 63 \<and> list_all dns_char l
     \<and> hd l \<noteq> CHR ''-'' \<and> last l \<noteq> CHR ''-''"

definition dns_name :: "string \<Rightarrow> bool" where
  "dns_name s \<longleftrightarrow> length s \<le> 253 \<and> list_all dns_label (split_on (CHR ''.'') s)"

section \<open>\<open>DefaultLabels\<close>\<close>

definition DefaultLabels :: "string \<Rightarrow> string \<Rightarrow> string \<Rightarrow> string gomap" where
  "DefaultLabels p r z =
     (let l = [(''skycluster.io/managed-by'', ''skycluster'')];
          l = massign l (if p \<noteq> [] then [(''skycluster.io/provider-platform'', p)] else []);
          l = massign l (if r \<noteq> [] then [(''skycluster.io/provider-region'', r)] else []);
          l = massign l (if z \<noteq> [] then [(''skycluster.io/provider-zone'', z)] else [])
      in l)"

section \<open>\<open>CanonicalPair\<close>, \<open>SanitizeName\<close>, \<open>ShortenLabelKey\<close>\<close>

definition CanonicalPair :: "string \<Rightarrow> string \<Rightarrow> string \<times> string" where
  "CanonicalPair a b = (let ns = sort [a, b] in (ns ! 0, ns ! 1))"

definition SanitizeName :: "string \<Rightarrow> string" where
  "SanitizeName s =
     map (\<lambda>r. if is_lower r \<or> is_digit r \<or> r = CHR ''-'' then r else CHR ''-'') (to_lower s)"

text \<open>\<open>unicode.IsLetter(r) || unicode.IsDigit(r)\<close> of \<open>rune(b)\<close> for a byte \<open>b\<close>, that is on Latin-1.\<close>

definition isAlnum :: "char \<Rightarrow> bool" where
  "isAlnum c \<longleftrightarrow> is_alnum_ascii c
     \<or> (let n = of_char c in n \<in> {0xAA, 0xB5, 0xBA :: nat}
          \<or> (0xC0 \<le> n \<and> n \<noteq> 0xD7 \<and> n \<noteq> 0xF7))"

text \<open>\<open>^[A-Za-z0-9]([-A-Za-z0-9_.]*[A-Za-z0-9])?$\<close>\<close>

definition nameRE :: "string \<Rightarrow> bool" where
  "nameRE s \<longleftrightarrow> s \<noteq> [] \<and> is_alnum_ascii (hd s) \<and> is_alnum_ascii (last s)
     \<and> list_all (\<lambda>c. is_alnum_ascii c \<or> c \<in> {CHR ''-'', CHR ''_'', CHR ''.''}) s"

text \<open>\<open>strings.SplitN(key, "/", 2)\<close>: the prefix, empty when there is no slash, and the name.\<close>

definition split_key :: "string \<Rightarrow> string \<times> string" where
  "split_key key =
     (case dropWhile (\<lambda>c. c \<noteq> CHR ''/'') key of
        [] \<Rightarrow> ([], key)
      | _ # name \<Rightarrow> (takeWhile (\<lambda>c. c \<noteq> CHR ''/'') key, name))"

definition with_prefix :: "string \<Rightarrow> string \<Rightarrow> string" where
  "with_prefix p name = (if p = [] then name else p @ ''/'' @ name)"

definition shorten_base :: "string \<Rightarrow> nat \<Rightarrow> string" where
  "shorten_base name maxBase =
     (let base = (if length name > maxBase then take maxBase name else name);
          base = trim_right (\<lambda>c. \<not> isAlnum c) base
      in if base = []
         then (case find isAlnum name of None \<Rightarrow> ''a'' | Some r \<Rightarrow> [r])
         else base)"

text \<open>From the base and the hash to the name part: a letter in front, cut to 45 bytes.\<close>

definition finish_name :: "string \<Rightarrow> string \<Rightarrow> string" where
  "finish_name base hash =
     (let resultName = base @ ''-'' @ hash;
          resultName = (if \<not> isAlnum (hd resultName) then CHR ''a'' # resultName else resultName)
      in if length resultName > 45
         then (let t = trim_right (\<lambda>c. \<not> isAlnum c) (take 45 resultName)
               in if t = [] then ''a'' else t)
         else resultName)"

definition ShortenLabelKey :: "string \<Rightarrow> string" where
  "ShortenLabelKey key =
     (let maxNameLen = 45; hashLen = 14;
          (prefix, name) = split_key key
      in if length name \<le> maxNameLen \<and> nameRE name then with_prefix prefix name
         else
           (let hash = take hashLen (sha256_hex key);
                reserve = 1 + hashLen;
                maxBase = maxNameLen - reserve;
                maxBase = (if maxBase < 1 then 1 else maxBase)
            in with_prefix prefix (finish_name (shorten_base name maxBase) hash)))"

declare shorten_loop.simps [code]

section \<open>Properties of \<open>TruncatedName\<close>\<close>

lemma TruncatedName_cases:
  "TruncatedName name s =
     (if length name + length s \<le> 42 then Inr (name @ s)
      else if length s \<le> 42 then Inr (take (42 - length s) name @ s)
      else Inl (Panic ''slice bounds out of range''))"
  by (auto simp: TruncatedName_def Let_def nat_diff_distrib' nat_less_iff zless_nat_eq_int_zless)

section \<open>Lemmas on \<open>EnsureK8sName\<close>\<close>

lemma dns_char_not_dot: "dns_char c \<Longrightarrow> c \<noteq> CHR ''.''"
  by (auto simp: dns_char_def is_lower_def is_digit_def less_eq_char_def)

lemma dns_label_a: "dns_label ''a''"
  by (simp add: dns_label_def dns_char_def is_lower_def)

lemma hd_take_ne: "take n xs \<noteq> [] \<Longrightarrow> hd (take n xs) = hd xs"
  by (cases n; cases xs) auto

text \<open>Trailing dashes cut from a non-empty piece that does not start with one.\<close>

lemma trim_dash_label:
  assumes "list_all dns_char s" and "s \<noteq> []" and "hd s \<noteq> CHR ''-''" and "length s \<le> 63"
  shows "dns_label (trim_right dash s)"
proof -
  have ne: "trim_right dash s \<noteq> []"
  proof
    assume "trim_right dash s = []"
    then have "\<forall>c\<in>set s. dash c" by (simp add: trim_right_def dropWhile_eq_Nil_conv)
    with assms(2,3) show False by (cases s) (auto simp: dash_def)
  qed
  have "list_all dns_char (trim_right dash s)"
    using assms(1) set_trim_right [of dash s] by (auto simp: list_all_iff)
  moreover have "last (trim_right dash s) \<noteq> CHR ''-''"
    using trim_right_last [OF ne] by (simp add: dash_def)
  moreover have "hd (trim_right dash s) \<noteq> CHR ''-''"
    using trim_right_hd [OF ne] assms(3) by simp
  moreover have "length (trim_right dash s) \<le> 63"
    using trim_right_length [of dash s] assms(4) by simp
  ultimately show ?thesis using ne by (simp add: dns_label_def)
qed

lemma cleanLabel_dns: "dns_label (cleanLabel s)"
proof -
  define u where "u = trim_left dash (filter dns_char (to_lower s))"
  define v where "v = trim_right dash u"
  have u: "list_all dns_char u" "u \<noteq> [] \<Longrightarrow> hd u \<noteq> CHR ''-''"
    using set_trim_left [of dash "filter dns_char (to_lower s)"] trim_left_hd [of dash "filter dns_char (to_lower s)"]
    by (auto simp: u_def list_all_iff dash_def)
  have v: "list_all dns_char v" "v \<noteq> [] \<Longrightarrow> hd v \<noteq> CHR ''-''" "v \<noteq> [] \<Longrightarrow> last v \<noteq> CHR ''-''"
    using u set_trim_right [of dash u] trim_right_last [of dash u] trim_right_hd [of dash u]
    by (cases "u = []"; auto simp: v_def list_all_iff dash_def)+
  show ?thesis
  proof (cases "length v > 63")
    case True
    have "dns_label (trim_right dash (take 63 v))"
    proof (rule trim_dash_label)
      show "list_all dns_char (take 63 v)" using v(1) by (auto simp: list_all_iff dest: in_set_takeD)
      show "take 63 v \<noteq> []" using True by auto
      then show "hd (take 63 v) \<noteq> CHR ''-''" using v(2) True by (simp add: hd_take_ne)
    qed simp
    then have "cleanLabel s = trim_right dash (take 63 v)"
      using True by (auto simp: cleanLabel_def Let_def dns_label_def simp flip: u_def v_def)
    with \<open>dns_label (trim_right dash (take 63 v))\<close> show ?thesis by simp
  next
    case False
    then have "cleanLabel s = (if v = [] then ''a'' else v)"
      by (simp add: cleanLabel_def Let_def flip: u_def v_def)
    then show ?thesis using v False dns_label_a by (simp add: dns_label_def)
  qed
qed

lemma clean_parts_dns: "list_all dns_label (clean_parts name)"
  by (auto simp: clean_parts_def list_all_iff cleanLabel_dns dns_label_a)

lemma clean_parts_not_Nil [simp]: "clean_parts name \<noteq> []"
  by (simp add: clean_parts_def)

lemma join_snoc: "join d (ws @ [w]) = (if ws = [] then w else join d ws @ d @ w)"
  by (induction d ws rule: join.induct) auto

text \<open>The length of a name without its last label.\<close>

definition head_len :: "string list \<Rightarrow> nat" where
  "head_len parts = (if butlast parts = [] then 0 else length (join ''.'' (butlast parts)) + 1)"

lemma join_last_len:
  "parts \<noteq> [] \<Longrightarrow> length (join ''.'' parts) = head_len parts + length (last parts)"
  using join_snoc [of "''.''" "butlast parts" "last parts"] by (simp add: head_len_def)

lemma head_len_last [simp]: "head_len (butlast parts @ [l]) = head_len parts"
  by (simp add: head_len_def)

lemma shorten_last_label:
  assumes "parts \<noteq> []" and "list_all dns_label parts"
  shows "list_all dns_label (shorten_last parts)"
    and "head_len (shorten_last parts) = head_len parts"
    and "shorten_last parts \<noteq> []"
    and "head_len parts < 253 \<Longrightarrow> length (join ''.'' parts) > 253 \<Longrightarrow>
         length (join ''.'' (shorten_last parts)) \<le> 253"
proof -
  define l where "l = last parts"
  define n where "n = cut_len parts"
  have l: "dns_label l" using assms by (auto simp: list_all_iff l_def)
  then have ne: "l \<noteq> []" by (simp add: dns_label_def)
  have n0: "0 < n" using ne by (simp add: n_def cut_len_def Let_def l_def)
  have lbl: "dns_label (trim_right dash (take n l))"
  proof (rule trim_dash_label)
    show "list_all dns_char (take n l)" using l by (auto simp: dns_label_def list_all_iff dest: in_set_takeD)
    show tne: "take n l \<noteq> []" using ne n0 by simp
    show "hd (take n l) \<noteq> CHR ''-''" using l tne by (simp add: dns_label_def hd_take_ne)
    show "length (take n l) \<le> 63" using l by (simp add: dns_label_def min_def)
  qed
  then have eq: "shorten_last parts = butlast parts @ [trim_right dash (take n l)]"
    by (simp add: shorten_last_def n_def l_def dns_label_def)
  show "list_all dns_label (shorten_last parts)"
    using assms lbl by (auto simp: eq list_all_iff dest: in_set_butlastD)
  show "head_len (shorten_last parts) = head_len parts" by (simp add: eq)
  show "shorten_last parts \<noteq> []" by (simp add: eq)
  assume small: "head_len parts < 253" and big: "length (join ''.'' parts) > 253"
  have "length (join ''.'' parts) = head_len parts + length l"
    using join_last_len [OF assms(1)] by (simp add: l_def)
  then have "n = 253 - head_len parts" using small big by (simp add: n_def cut_len_def Let_def l_def)
  moreover have "length (trim_right dash (take n l)) \<le> n"
    using trim_right_length [of dash "take n l"] by simp
  ultimately show "length (join ''.'' (shorten_last parts)) \<le> 253"
    using small join_last_len [of "shorten_last parts"] by (simp add: eq)
qed

lemma shorten_loop_returns:
  assumes "parts \<noteq> []" and "list_all dns_label parts" and "head_len parts < 253"
  shows "\<exists>ps. shorten_loop parts = Some (join ''.'' ps) \<and> ps \<noteq> [] \<and> list_all dns_label ps
    \<and> butlast ps = butlast parts \<and> length (join ''.'' ps) \<le> 253"
proof (cases "length (join ''.'' parts) > 253")
  case False
  then show ?thesis using assms by (subst shorten_loop.simps) auto
next
  case True
  let ?ps = "shorten_last parts"
  have "length (join ''.'' ?ps) \<le> 253" using shorten_last_label(4) assms True by blast
  moreover from this have "shorten_loop parts = Some (join ''.'' ?ps)"
    using True by (subst shorten_loop.simps, subst shorten_loop.simps) simp
  moreover have "butlast ?ps = butlast parts" by (simp add: shorten_last_def Let_def)
  ultimately show ?thesis using shorten_last_label [OF assms(1,2)] by blast
qed

definition stuck :: "string list \<Rightarrow> bool" where
  "stuck parts \<longleftrightarrow> parts \<noteq> [] \<and> list_all dns_label parts \<and> 253 \<le> head_len parts"

lemma shorten_loop_stuck:
  assumes "shorten_loop parts = Some r"
  shows "\<not> stuck parts"
proof (rule shorten_loop.raw_induct [OF _ assms])
  fix loop :: "string list \<Rightarrow> string option" and parts r
  assume IH: "\<And>x y. loop x = Some y \<Longrightarrow> \<not> stuck x"
    and run: "(if 253 < length (join ''.'' parts) then loop (shorten_last parts)
      else Some (join ''.'' parts)) = Some r"
  show "\<not> stuck parts"
  proof
    assume P: "stuck parts"
    then have "0 < length (last parts)" by (auto simp: stuck_def list_all_iff dns_label_def)
    then have "length (join ''.'' parts) > 253" using join_last_len [of parts] P
      unfolding stuck_def by linarith
    with run have "loop (shorten_last parts) = Some r" by simp
    moreover have "stuck (shorten_last parts)" using shorten_last_label [of parts] P by (simp add: stuck_def)
    ultimately show False using IH by blast
  qed
qed

lemma shorten_loop_None:
  assumes "parts \<noteq> []" and "list_all dns_label parts" and "253 \<le> head_len parts"
  shows "shorten_loop parts = None"
  using shorten_loop_stuck assms unfolding stuck_def by (cases "shorten_loop parts") auto

section \<open>Lemmas on \<open>ShortenLabelKey\<close>\<close>

definition name_char :: "char \<Rightarrow> bool" where
  "name_char c \<longleftrightarrow> is_alnum_ascii c \<or> c \<in> {CHR ''-'', CHR ''_'', CHR ''.''}"

lemma name_char_alnum: "name_char c \<Longrightarrow> isAlnum c = is_alnum_ascii c"
  by (auto simp: name_char_def isAlnum_def is_alnum_ascii_def is_digit_def is_lower_def is_upper_def
      less_eq_char_def Let_def)

lemma alnum_ascii_alnum: "is_alnum_ascii c \<Longrightarrow> isAlnum c"
  by (simp add: isAlnum_def)

lemma hash_alnum: "c \<in> set (sha256_hex s) \<Longrightarrow> is_alnum_ascii c"
  using sha256_hex_alphabet by (auto simp: is_alnum_ascii_def)

lemma nameRE_iff:
  "nameRE s \<longleftrightarrow> s \<noteq> [] \<and> is_alnum_ascii (hd s) \<and> is_alnum_ascii (last s) \<and> list_all name_char s"
  by (simp add: nameRE_def name_char_def [abs_def])

lemma shorten_base_props:
  assumes "list_all name_char name" and "0 < n"
  shows "shorten_base name n \<noteq> [] \<and> length (shorten_base name n) \<le> n
     \<and> list_all name_char (shorten_base name n)"
proof -
  define b where "b = trim_right (\<lambda>c. \<not> isAlnum c) (take n name)"
  have eq: "shorten_base name n =
      (if b = [] then (case find isAlnum name of None \<Rightarrow> ''a'' | Some r \<Rightarrow> [r]) else b)"
    by (simp add: shorten_base_def Let_def b_def)
  have "set b \<subseteq> set name"
    using set_trim_right [of _ "take n name"] by (auto simp: b_def dest: in_set_takeD)
  moreover have "length b \<le> n"
    using trim_right_length [of _ "take n name"] by (simp add: b_def)
  moreover have "name_char r" if "find isAlnum name = Some r" for r
    using that assms(1) by (auto simp: find_Some_iff list_all_iff)
  moreover have "name_char (CHR ''a'')" by (simp add: name_char_def is_alnum_ascii_def is_lower_def)
  ultimately show ?thesis
    using assms by (auto simp: eq list_all_iff split: option.split)
qed

lemma split_key_parts: "split_key key = (p, n) \<Longrightarrow> p = [] \<and> n = key \<or> key = p @ ''/'' @ n"
proof (cases "dropWhile (\<lambda>c. c \<noteq> CHR ''/'') key")
  case (Cons c cs)
  moreover have "\<not> (c \<noteq> CHR ''/'')" using Cons by (simp add: dropWhile_eq_Cons_conv)
  ultimately show "split_key key = (p, n) \<Longrightarrow> ?thesis"
    using takeWhile_dropWhile_id [of "\<lambda>c. c \<noteq> CHR ''/''" key] by (simp add: split_key_def)
qed (simp add: split_key_def)

lemma nameRE_append:
  "nameRE (a @ b) \<longleftrightarrow> (if a = [] then nameRE b else if b = [] then nameRE a
     else is_alnum_ascii (hd a) \<and> is_alnum_ascii (last b) \<and> list_all name_char a \<and> list_all name_char b)"
  by (auto simp: nameRE_iff)

text \<open>The part of \<open>ShortenLabelKey\<close> after the hash, on a base of at most 30 name characters.\<close>

lemma shorten_name_valid:
  assumes b: "b \<noteq> []" "length b \<le> 30" "list_all name_char b"
    and h: "length h = 14" "list_all is_alnum_ascii h"
  shows "nameRE (finish_name b h) \<and> length (finish_name b h) \<le> 45"
proof -
  define r where "r = (if \<not> isAlnum (hd b) then CHR ''a'' # b @ ''-'' @ h else b @ ''-'' @ h)"
  have fin: "finish_name b h =
      (if length r > 45 then (let t = trim_right (\<lambda>c. \<not> isAlnum c) (take 45 r) in if t = [] then ''a'' else t) else r)"
    using b(1) by (simp add: finish_name_def r_def)
  have h0: "h \<noteq> []" "is_alnum_ascii (last h)" using h by (cases h rule: rev_cases; auto simp: list_all_iff)+
  have hc: "list_all name_char (butlast h)" "list_all name_char h"
    using h(2) by (auto simp: list_all_iff name_char_def dest: in_set_butlastD)
  have a: "is_alnum_ascii (CHR ''a'')" by (simp add: is_alnum_ascii_def is_lower_def)
  have hdr: "is_alnum_ascii (hd r)"
    using b(1,3) name_char_alnum [of "hd b"] a by (cases b) (auto simp: r_def)
  have rc: "list_all name_char r" "r \<noteq> []" "last r = last h"
    using b hc h0 a by (auto simp: r_def name_char_def list_all_iff)
  show ?thesis
  proof (cases "length r > 45")
    case False
    then show ?thesis using fin hdr rc h0 by (simp add: nameRE_iff)
  next
    case True
    then have r: "r = CHR ''a'' # b @ ''-'' @ h" "length b = 30" using b h by (auto simp: r_def split: if_splits)
    have t: "take 45 r = CHR ''a'' # b @ ''-'' @ butlast h" using r h by (simp add: butlast_conv_take)
    define l where "l = last (butlast h)"
    obtain h' where h': "butlast h = h' @ [l]" using h(1)
      by (metis (no_types) append_butlast_last_id length_butlast list.size(3) l_def diff_Suc_1 numeral_eq_Suc zero_neq_numeral pred_numeral_simps)
    have "l \<in> set h" using h' by (metis in_set_butlastD in_set_conv_decomp)
    then have l: "is_alnum_ascii l" using h(2) by (simp add: list_all_iff)
    then have "trim_right (\<lambda>c. \<not> isAlnum c) (take 45 r) = take 45 r"
      by (simp add: t h' trim_right_def alnum_ascii_alnum)
    moreover have "nameRE (take 45 r)" using l a b hc by (simp add: t h' nameRE_iff name_char_def)
    ultimately show ?thesis using fin True by (auto simp: nameRE_iff)
  qed
qed

lemma hash_part: "length (take 14 (sha256_hex s)) = 14" "list_all is_alnum_ascii (take 14 (sha256_hex s))"
  using hash_alnum by (auto simp: sha256_hex_length list_all_iff dest: in_set_takeD)


section \<open>Properties\<close>

text \<open>\<open>TruncatedName\<close> returns exactly when the suffix leaves room for the base (42 bytes), and
  then the name is a prefix of the base, as long as fits, followed by the whole suffix; a longer
  suffix panics on the negative slice bound.\<close>

theorem TruncatedName_bounds:
  "case TruncatedName name s of
     Inl e \<Rightarrow> is_panic e \<and> 42 < length s
   | Inr r \<Rightarrow> length s \<le> 42 \<and> length r \<le> 42 \<and> r = take (42 - length s) name @ s"
  by (simp add: TruncatedName_cases)

text \<open>C28: \<open>EnsureK8sName\<close> returns exactly when the labels before the last one, with their dots,
  take fewer than 253 bytes; otherwise its shortening loop, which only cuts the last label,
  never ends.\<close>

theorem EnsureK8sName_returns:
  "(\<exists>r. EnsureK8sName name = Some r) = (name = [] \<or> head_len (clean_parts name) < 253)"
proof (cases "name = []")
  case False
  then show ?thesis
    using shorten_loop_returns [of "clean_parts name"] shorten_loop_None [of "clean_parts name"]
      clean_parts_dns [of name] by (cases "head_len (clean_parts name) < 253") (auto simp: EnsureK8sName_def)
qed (simp add: EnsureK8sName_def)

lemma dns_name_join:
  assumes "ps \<noteq> []" and "list_all dns_label ps" and "length (join ''.'' ps) \<le> 253"
  shows "dns_name (join ''.'' ps)"
proof -
  have "\<forall>w\<in>set ps. CHR ''.'' \<notin> set w"
    using assms(2) dns_char_not_dot by (fastforce simp: list_all_iff dns_label_def)
  then show ?thesis using assms by (simp add: dns_name_def split_on_join)
qed

lemma join_split_on: "join [d] (split_on d s) = s"
proof (induction s)
  case (Cons c cs)
  obtain w ws where w: "split_on d cs = w # ws" by (cases "split_on d cs") auto
  with Cons show ?case by (cases ws) auto
qed simp

lemma to_lower_dns: "dns_char c \<Longrightarrow> char_lower c = c"
  by (auto simp: dns_char_def char_lower_def is_upper_def is_lower_def is_digit_def less_eq_char_def)

lemma cleanLabel_id: "dns_label l \<Longrightarrow> cleanLabel l = l"
proof -
  assume l: "dns_label l"
  have "to_lower l = l" using l by (simp add: to_lower_def dns_label_def list_all_iff to_lower_dns map_idI)
  moreover have "filter dns_char l = l" using l by (simp add: dns_label_def list_all_iff)
  moreover have "trim_left dash l = l" using l by (cases l) (auto simp: trim_left_def dns_label_def dash_def)
  moreover have "trim_right dash l = l"
    using l by (cases l rule: rev_cases) (auto simp: trim_right_def dns_label_def dash_def)
  ultimately show ?thesis using l by (simp add: cleanLabel_def dns_label_def)
qed

lemma EnsureK8sName_id:
  assumes "dns_name s"
  shows "EnsureK8sName s = Some s"
proof -
  have lab: "list_all dns_label (split_on (CHR ''.'') s)" using assms by (simp add: dns_name_def)
  then have "clean_parts s = split_on (CHR ''.'') s"
    unfolding clean_parts_def by (intro map_idI) (auto simp: list_all_iff cleanLabel_id dns_label_def)
  moreover have "s \<noteq> []" using lab by (auto simp: dns_label_def)
  ultimately show ?thesis
    using assms by (simp add: EnsureK8sName_def shorten_loop.simps join_split_on dns_name_def)
qed

lemma EnsureK8sName_dns:
  assumes "EnsureK8sName name = Some r"
  shows "dns_name r"
proof (cases "name = []")
  case True
  then have "r = join ''.'' [''a'']" using assms by (simp add: EnsureK8sName_def)
  then show ?thesis using dns_name_join [of "[''a'']"] by (simp add: dns_label_a)
next
  case False
  with assms have run: "shorten_loop (clean_parts name) = Some r" by (simp add: EnsureK8sName_def)
  then have "head_len (clean_parts name) < 253"
    using shorten_loop_None [of "clean_parts name"] clean_parts_dns [of name] by force
  with shorten_loop_returns [of "clean_parts name"] clean_parts_dns run show ?thesis
    using dns_name_join by auto
qed

text \<open>C27: whatever \<open>EnsureK8sName\<close> returns is a DNS-1123 name (labels of 1 to 63 characters
  \<open>a-z0-9-\<close> that neither start nor end with a dash, 253 bytes in all), and a second call leaves
  it unchanged.\<close>

theorem EnsureK8sName_valid:
  assumes "EnsureK8sName name = Some r"
  shows "dns_name r \<and> EnsureK8sName r = Some r"
  using EnsureK8sName_dns [OF assms] EnsureK8sName_id by simp

lemma EnsureK8sName_example: "EnsureK8sName ''My_Svc.-x-.B'' = Some ''mysvc.x.b''"
  by code_simp

theorem EnsureK8sName_valid_witness: "dns_name ''mysvc.x.b'' \<and> EnsureK8sName ''mysvc.x.b'' = Some ''mysvc.x.b''"
  by (rule EnsureK8sName_valid [OF EnsureK8sName_example])

text \<open>C36: for a label key whose name part has only the characters of a label name,
  \<open>ShortenLabelKey\<close> keeps the prefix and yields a name part of at most 45 characters that is a
  valid label name; a name part that was one already is returned unchanged.\<close>

theorem ShortenLabelKey_valid:
  assumes "list_all name_char (snd (split_key key))"
  shows "\<exists>n. ShortenLabelKey key = with_prefix (fst (split_key key)) n \<and> nameRE n \<and> length n \<le> 45
    \<and> (nameRE (snd (split_key key)) \<and> length (snd (split_key key)) \<le> 45 \<longrightarrow> n = snd (split_key key))"
proof (cases "length (snd (split_key key)) \<le> 45 \<and> nameRE (snd (split_key key))")
  case True
  then show ?thesis by (auto simp: ShortenLabelKey_def split_beta Let_def)
next
  case False
  let ?b = "shorten_base (snd (split_key key)) 30"
  let ?h = "take 14 (sha256_hex key)"
  have b: "?b \<noteq> []" "length ?b \<le> 30" "list_all name_char ?b"
    using shorten_base_props [OF assms, of 30] by auto
  from shorten_name_valid [OF b hash_part] False show ?thesis
    by (auto simp: ShortenLabelKey_def split_beta Let_def)
qed

theorem ShortenLabelKey_valid_witness:
  "\<exists>n. ShortenLabelKey ''skycluster.io/_pair'' = with_prefix (fst (split_key ''skycluster.io/_pair'')) n
    \<and> nameRE n \<and> length n \<le> 45
    \<and> (nameRE (snd (split_key ''skycluster.io/_pair'')) \<and> length (snd (split_key ''skycluster.io/_pair'')) \<le> 45
       \<longrightarrow> n = snd (split_key ''skycluster.io/_pair''))"
  by (rule ShortenLabelKey_valid)
     (simp add: split_key_def name_char_def is_alnum_ascii_def is_lower_def is_digit_def is_upper_def less_eq_char_def)

text \<open>The characters in the middle are not cleaned: a short name with a bad one stays bad.\<close>

theorem ShortenLabelKey_keeps_bad_chars:
  assumes "split_key key = (p, n)" and "n \<noteq> []" and "length n \<le> 30" and "\<not> list_all name_char n"
    and "isAlnum (hd n)" and "isAlnum (last n)"
  shows "\<exists>r. ShortenLabelKey key = with_prefix p r \<and> \<not> nameRE r"
proof -
  have "trim_right (\<lambda>c. \<not> isAlnum c) n = n"
    using assms(2,6) by (cases n rule: rev_cases) (auto simp: trim_right_def)
  then have "shorten_base n 30 = n" using assms(2,3) by (simp add: shorten_base_def Let_def)
  moreover have "\<not> nameRE n" using assms(4) by (simp add: nameRE_iff)
  moreover have "finish_name n h = n @ ''-'' @ h" if "length h = 14" for h
    using that assms(2,3,5) by (simp add: finish_name_def)
  moreover have "\<not> nameRE (n @ ''-'' @ take 14 (sha256_hex key))" using assms(4) by (simp add: nameRE_iff)
  ultimately show ?thesis
    using assms by (auto simp: ShortenLabelKey_def Let_def sha256_hex_length)
qed

text \<open>\<open>CanonicalPair\<close> is symmetric and only orders its arguments.\<close>

lemma CanonicalPair_if: "CanonicalPair a b = (if a \<le> b then (a, b) else (b, a))"
  by (simp add: CanonicalPair_def Let_def)

lemma CanonicalPair_sym: "CanonicalPair a b = CanonicalPair b a"
  using linear [of a b] by (auto simp: CanonicalPair_if)

lemma SanitizeName_idem: "SanitizeName (SanitizeName s) = SanitizeName s"
  by (auto simp: SanitizeName_def to_lower_def char_lower_def is_upper_def is_lower_def is_digit_def less_eq_char_def)

end
