(* ===== verification/Conditions.thy ===== *)
theory Conditions
  imports Prelude
begin

text \<open>
  Status conditions (\<open>metav1.Condition\<close>) and the helpers of
  \<open>internal/controller/utils/utils.go\<close> on them. The controllers set theirs with
  \<open>meta.SetStatusCondition\<close> and read them with \<open>meta.IsStatusConditionTrue\<close>, which are not
  in the repository: the locale \<open>condition_api\<close> states what a setter and a reader promise each
  other, the handlers take them as parameters, and the repository's own pair
  (\<open>SetTypedCondition\<close>, \<open>GetTypedConditionStatus\<close>) is an instance.
\<close>

section \<open>Data\<close>

datatype cond_status = CondTrue | CondFalse | CondUnknown

text \<open>A time is a number of seconds.\<close>

record condition =
  cdType :: string
  cdStatus :: cond_status
  cdReason :: string
  cdMessage :: string
  cdTime :: nat

section \<open>Operations\<close>

text \<open>An \<open>any\<close> compared with string literals: nil, a string, or something else.\<close>

datatype status_value = SNil | SStr string | SOther

definition ParseConditionStatus :: "status_value \<Rightarrow> cond_status" where
  "ParseConditionStatus v =
     (case v of SNil \<Rightarrow> CondUnknown
      | SStr s \<Rightarrow> if s = ''True'' then CondTrue else if s = ''False'' then CondFalse else CondUnknown
      | SOther \<Rightarrow> CondUnknown)"

definition IndexOfTypedCondition :: "condition list \<Rightarrow> string \<Rightarrow> int" where
  "IndexOfTypedCondition cs key = index_from 0 (\<lambda>c. cdType c = key) cs"

definition GetTypedCondition :: "condition list \<Rightarrow> string \<Rightarrow> bool \<times> condition option" where
  "GetTypedCondition cs t =
     (let i = IndexOfTypedCondition cs t
      in if i = - 1 then (False, None) else (True, Some (cs ! nat i)))"

definition GetTypedConditionStatus :: "condition list \<Rightarrow> string \<Rightarrow> cond_status option" where
  "GetTypedConditionStatus cs t =
     (let i = IndexOfTypedCondition cs t
      in if i = - 1 then None else Some (cdStatus (cs ! nat i)))"

definition SetTypedCondition ::
  "condition list \<Rightarrow> string \<Rightarrow> cond_status \<Rightarrow> string \<Rightarrow> string \<Rightarrow> nat \<Rightarrow> condition list" where
  "SetTypedCondition cs t status reason msg tt =
     (let i = IndexOfTypedCondition cs t
      in if i = - 1
         then cs @ [\<lparr>cdType = t, cdStatus = status, cdReason = reason, cdMessage = msg, cdTime = tt\<rparr>]
         else cs[nat i := (cs ! nat i)\<lparr>cdTime := tt, cdStatus := status, cdReason := reason, cdMessage := msg\<rparr>])"

fun RemoveFromTypedCondition :: "condition list \<Rightarrow> string \<Rightarrow> condition list" where
  "RemoveFromTypedCondition [] key = []"
| "RemoveFromTypedCondition (c # cs) key =
     (if cdType c = key then cs else c # RemoveFromTypedCondition cs key)"

text \<open>The \<open>SetCondition\<close> methods of the API types, over the setter of the library.\<close>

definition SetCondition ::
  "(condition list \<Rightarrow> condition \<Rightarrow> condition list) \<Rightarrow> string \<Rightarrow> cond_status \<Rightarrow> string \<Rightarrow> string
    \<Rightarrow> condition list \<Rightarrow> condition list" where
  "SetCondition set_cond t status reason msg cs =
     set_cond cs \<lparr>cdType = t, cdStatus = status, cdReason = reason, cdMessage = msg, cdTime = 0\<rparr>"

section \<open>The contract of a setter and a reader\<close>

locale condition_api =
  fixes set_cond :: "condition list \<Rightarrow> condition \<Rightarrow> condition list"
    and is_true :: "condition list \<Rightarrow> string \<Rightarrow> bool"
  assumes is_true_set: "is_true (set_cond cs c) t = (if t = cdType c then cdStatus c = CondTrue else is_true cs t)"
begin

lemma is_true_SetCondition [simp]:
  "is_true (SetCondition set_cond t' s r m cs) t = (if t = t' then s = CondTrue else is_true cs t)"
  by (simp add: SetCondition_def is_true_set)

text \<open>After a run of settings the last one of a type decides.\<close>

lemma is_true_run:
  "is_true (foldl set_cond cs ds) t =
     (case find (\<lambda>d. cdType d = t) (rev ds) of None \<Rightarrow> is_true cs t | Some d \<Rightarrow> cdStatus d = CondTrue)"
proof (induction ds rule: rev_induct)
  case (snoc d ds)
  then show ?case by (auto simp: is_true_set)
qed simp

end

section \<open>Lemmas\<close>

lemma GetTypedConditionStatus_find:
  "GetTypedConditionStatus cs t = map_option cdStatus (find (\<lambda>c. cdType c = t) cs)"
  by (cases rule: index_from_cases [of "\<lambda>c. cdType c = t" cs])
    (simp_all add: GetTypedConditionStatus_def IndexOfTypedCondition_def find_none find_middle)

lemma SetTypedCondition_split:
  "(\<forall>c\<in>set cs. cdType c \<noteq> t) \<and> SetTypedCondition cs t s r m n
      = cs @ [\<lparr>cdType = t, cdStatus = s, cdReason = r, cdMessage = m, cdTime = n\<rparr>]
   \<or> (\<exists>a c b. cs = a @ c # b \<and> cdType c = t \<and> (\<forall>d\<in>set a. cdType d \<noteq> t) \<and> SetTypedCondition cs t s r m n
      = a @ c\<lparr>cdTime := n, cdStatus := s, cdReason := r, cdMessage := m\<rparr> # b)"
proof (cases rule: index_from_cases [of "\<lambda>c. cdType c = t" cs])
  case absent
  then show ?thesis by (simp add: SetTypedCondition_def IndexOfTypedCondition_def)
next
  case (found a x b)
  then have "SetTypedCondition cs t s r m n
      = a @ x\<lparr>cdTime := n, cdStatus := s, cdReason := r, cdMessage := m\<rparr> # b"
    by (simp add: SetTypedCondition_def IndexOfTypedCondition_def)
  with found show ?thesis by blast
qed

lemma GetTypedConditionStatus_Set:
  "GetTypedConditionStatus (SetTypedCondition cs t s r m n) t' =
     (if t' = t then Some s else GetTypedConditionStatus cs t')"
  using SetTypedCondition_split [of cs t s r m n]
  by (auto simp: GetTypedConditionStatus_find find_append find_none split: option.splits)

interpretation typed: condition_api
  "\<lambda>cs c. SetTypedCondition cs (cdType c) (cdStatus c) (cdReason c) (cdMessage c) (cdTime c)"
  "\<lambda>cs t. GetTypedConditionStatus cs t = Some CondTrue"
  by unfold_locales (simp add: GetTypedConditionStatus_Set)

lemma SetTypedCondition_types:
  "map cdType (SetTypedCondition cs t s r m n) =
     (if t \<in> cdType ` set cs then map cdType cs else map cdType cs @ [t])"
  using SetTypedCondition_split [of cs t s r m n] by force

lemma RemoveFromTypedCondition_types:
  "map cdType (RemoveFromTypedCondition cs t) = remove1 t (map cdType cs)"
  by (induction cs) auto

lemma Get_RemoveFromTypedCondition:
  "distinct (map cdType cs) \<Longrightarrow> GetTypedConditionStatus (RemoveFromTypedCondition cs t) t' =
     (if t' = t then None else GetTypedConditionStatus cs t')"
proof (induction cs)
  case (Cons c cs)
  have "cdType c = t \<Longrightarrow> find (\<lambda>c. cdType c = t) cs = None"
    using Cons.prems by (intro find_none) (auto simp: image_iff)
  with Cons show ?case by (auto simp: GetTypedConditionStatus_find)
qed (simp add: GetTypedConditionStatus_find)

section \<open>Properties\<close>

text \<open>A list of conditions with one entry per type stays one under the repository's setter
  and remover; the setter makes its type read the status set and the remover makes its type
  absent, and neither changes what any other type reads.\<close>

theorem typed_conditions_map:
  assumes "distinct (map cdType cs)"
  shows "distinct (map cdType (SetTypedCondition cs t s r m n))
    \<and> distinct (map cdType (RemoveFromTypedCondition cs t))
    \<and> GetTypedConditionStatus (SetTypedCondition cs t s r m n) t' =
        (if t' = t then Some s else GetTypedConditionStatus cs t')
    \<and> GetTypedConditionStatus (RemoveFromTypedCondition cs t) t' =
        (if t' = t then None else GetTypedConditionStatus cs t')"
  using assms by (auto simp: SetTypedCondition_types RemoveFromTypedCondition_types
      GetTypedConditionStatus_Set Get_RemoveFromTypedCondition)

theorem typed_conditions_map_witness:
  "let cs = [\<lparr>cdType = ''Ready'', cdStatus = CondFalse, cdReason = [], cdMessage = [], cdTime = 0\<rparr>]
   in distinct (map cdType (SetTypedCondition cs ''Ready'' CondTrue ''r'' ''m'' 1))
    \<and> distinct (map cdType (RemoveFromTypedCondition cs ''Ready''))
    \<and> GetTypedConditionStatus (SetTypedCondition cs ''Ready'' CondTrue ''r'' ''m'' 1) ''JobRunning'' =
        (if ''JobRunning'' = ''Ready'' then Some CondTrue else GetTypedConditionStatus cs ''JobRunning'')
    \<and> GetTypedConditionStatus (RemoveFromTypedCondition cs ''Ready'') ''JobRunning'' =
        (if ''JobRunning'' = ''Ready'' then None else GetTypedConditionStatus cs ''JobRunning'')"
  unfolding Let_def by (rule typed_conditions_map) simp

end
