(* ===== verification/Dependencies.thy ===== *)
theory Dependencies
  imports Prelude
begin

text \<open>
  \<open>pkg/v1alpha1/dep/dep.go\<close>: the list of objects a resource depends on, embedded in the
  statuses. Its abstraction is a map from (kind, name) to namespace; the locale
  \<open>dep_store\<close> is the contract of a register of that kind, and the list is an instance.
\<close>

section \<open>Data and operations\<close>

record Dependency =
  depNameRef :: string
  depKind :: string
  depNamespace :: string

text \<open>The promoted field of \<open>DependencyManager\<close>.\<close>

type_synonym DependencyManager = "Dependency list"

definition GetDependency :: "DependencyManager \<Rightarrow> string \<Rightarrow> string \<Rightarrow> Dependency option" where
  "GetDependency dm kind ns = find (\<lambda>d. depKind d = kind \<and> depNamespace d = ns) dm"

fun HasDependency :: "DependencyManager \<Rightarrow> string \<Rightarrow> string \<Rightarrow> string \<Rightarrow> bool" where
  "HasDependency [] name kind ns = False"
| "HasDependency (d # ds) name kind ns =
     (if depKind d = kind \<and> depNameRef d = name \<and> depNamespace d = ns then True
      else HasDependency ds name kind ns)"

fun SetDependency :: "DependencyManager \<Rightarrow> string \<Rightarrow> string \<Rightarrow> string \<Rightarrow> DependencyManager" where
  "SetDependency [] name kind ns = [\<lparr>depNameRef = name, depKind = kind, depNamespace = ns\<rparr>]"
| "SetDependency (d # ds) name kind ns =
     (if depKind d = kind \<and> depNameRef d = name
      then \<lparr>depNameRef = name, depKind = kind, depNamespace = ns\<rparr> # ds
      else d # SetDependency ds name kind ns)"

definition RemoveDependency :: "DependencyManager \<Rightarrow> string \<Rightarrow> string \<Rightarrow> string \<Rightarrow> DependencyManager" where
  "RemoveDependency dm name kind ns =
     filter (\<lambda>d. \<not> (depKind d = kind \<and> depNameRef d = name \<and> depNamespace d = ns)) dm"

section \<open>The contract\<close>

text \<open>
  A register under a representation invariant: looking up a (kind, name) after it was set gives
  the namespace set, other keys are not touched, and removing an entry with its namespace makes
  its key absent.
\<close>

locale dep_store =
  fixes inv :: "'s \<Rightarrow> bool"
    and lookup :: "'s \<Rightarrow> string \<Rightarrow> string \<Rightarrow> string option"
    and put :: "'s \<Rightarrow> string \<Rightarrow> string \<Rightarrow> string \<Rightarrow> 's"
    and del :: "'s \<Rightarrow> string \<Rightarrow> string \<Rightarrow> string \<Rightarrow> 's"
  assumes put_inv: "inv s \<Longrightarrow> inv (put s n k ns)"
    and del_inv: "inv s \<Longrightarrow> inv (del s n k ns)"
    and lookup_put: "inv s \<Longrightarrow>
      lookup (put s n k ns) k' n' = (if k' = k \<and> n' = n then Some ns else lookup s k' n')"
    and lookup_del: "inv s \<Longrightarrow>
      lookup (del s n k ns) k' n' =
        (if k' = k \<and> n' = n \<and> lookup s k n = Some ns then None else lookup s k' n')"
begin

text \<open>A controller registers its dependencies one by one; all of them end up registered.\<close>

definition put_all :: "'s \<Rightarrow> (string \<times> string \<times> string) list \<Rightarrow> 's" where
  "put_all s ds = foldl (\<lambda>s (n, k, ns). put s n k ns) s ds"

lemma put_all_inv: "inv s \<Longrightarrow> inv (put_all s ds)"
  by (induction ds arbitrary: s) (auto simp: put_all_def put_inv)

lemma lookup_put_all:
  assumes "inv s" and "distinct (map (\<lambda>(n, k, ns). (k, n)) ds)"
  shows "lookup (put_all s ds) k n =
    (case find (\<lambda>(n', k', ns). k' = k \<and> n' = n) ds of None \<Rightarrow> lookup s k n | Some (_, _, ns) \<Rightarrow> Some ns)"
  using assms
proof (induction ds rule: rev_induct)
  case Nil
  then show ?case by (simp add: put_all_def)
next
  case (snoc d ds)
  obtain n' k' ns where d: "d = (n', k', ns)" by (cases d)
  have last: "put_all s (ds @ [(n', k', ns)]) = put (put_all s ds) n' k' ns" by (simp add: put_all_def)
  have no: "find (\<lambda>(m, j, ns). j = k' \<and> m = n') ds = None"
    using snoc.prems(2) d by (intro find_none) (force simp: image_iff)
  show ?case
    using snoc put_all_inv [OF snoc.prems(1), of ds] no
    by (auto simp: last lookup_put find_append d split: option.splits)
qed

lemma put_del_other:
  assumes "inv s" and "(k', n') \<noteq> (k, n)"
  shows "lookup (del (put s n k ns) n k ns) k' n' = lookup s k' n'"
  using assms by (auto simp: lookup_del lookup_put put_inv)

lemma put_del_same: "inv s \<Longrightarrow> lookup (del (put s n k ns) n k ns) k n = None"
  by (simp add: lookup_del lookup_put put_inv)

end

section \<open>The list is such a register\<close>

definition dep_key :: "Dependency \<Rightarrow> string \<times> string" where
  "dep_key d = (depKind d, depNameRef d)"

definition dep_abs :: "DependencyManager \<Rightarrow> string \<times> string \<rightharpoonup> string" where
  "dep_abs dm = map_of (map (\<lambda>d. (dep_key d, depNamespace d)) dm)"

definition dep_inv :: "DependencyManager \<Rightarrow> bool" where
  "dep_inv dm \<longleftrightarrow> distinct (map dep_key dm)"

lemma dep_abs_Set: "dep_abs (SetDependency dm n k ns) = (dep_abs dm)((k, n) \<mapsto> ns)"
  by (induction dm n k ns rule: SetDependency.induct) (auto simp: dep_abs_def dep_key_def)

lemma SetDependency_keys:
  "set (map dep_key (SetDependency dm n k ns)) = insert (k, n) (set (map dep_key dm))"
  by (induction dm n k ns rule: SetDependency.induct) (auto simp: dep_key_def)

lemma dep_inv_Set: "dep_inv dm \<Longrightarrow> dep_inv (SetDependency dm n k ns)"
proof (induction dm n k ns rule: SetDependency.induct)
  case (2 d ds n k ns)
  then show ?case using SetDependency_keys [of ds n k ns] by (auto simp: dep_inv_def dep_key_def)
qed (simp add: dep_inv_def)

lemma dep_inv_Remove: "dep_inv dm \<Longrightarrow> dep_inv (RemoveDependency dm n k ns)"
  by (simp add: dep_inv_def RemoveDependency_def distinct_map_filter)

lemma dep_abs_Remove:
  "dep_inv dm \<Longrightarrow> dep_abs (RemoveDependency dm n k ns) =
     (if dep_abs dm (k, n) = Some ns then (dep_abs dm)((k, n) := None) else dep_abs dm)"
proof (induction dm)
  case (Cons d dm)
  have "dep_key d \<notin> set (map dep_key dm)" using Cons.prems by (simp add: dep_inv_def)
  then have "dep_abs dm (dep_key d) = None"
    by (simp add: dep_abs_def map_of_eq_None_iff image_image)
  moreover have "dep_abs (RemoveDependency dm n k ns) =
     (if dep_abs dm (k, n) = Some ns then (dep_abs dm)((k, n) := None) else dep_abs dm)"
    using Cons by (simp add: dep_inv_def)
  ultimately show ?case by (auto simp: dep_abs_def dep_key_def RemoveDependency_def fun_eq_iff)
qed (simp add: dep_abs_def RemoveDependency_def)

interpretation deps: dep_store dep_inv "\<lambda>dm k n. dep_abs dm (k, n)" SetDependency RemoveDependency
  by unfold_locales (auto simp: dep_inv_Set dep_inv_Remove dep_abs_Set dep_abs_Remove)

lemma HasDependency_iff:
  "HasDependency dm n k ns \<longleftrightarrow> \<lparr>depNameRef = n, depKind = k, depNamespace = ns\<rparr> \<in> set dm"
  by (induction dm) (auto simp: Dependency.equality)

lemma HasDependency_abs: "dep_inv dm \<Longrightarrow> HasDependency dm n k ns \<longleftrightarrow> dep_abs dm (k, n) = Some ns"
proof (induction dm)
  case (Cons d dm)
  have "dep_key d \<notin> set (map dep_key dm)" using Cons.prems by (simp add: dep_inv_def)
  then have "dep_abs dm (dep_key d) = None"
    by (simp add: dep_abs_def map_of_eq_None_iff image_image)
  with Cons show ?case by (auto simp: dep_abs_def dep_inv_def dep_key_def)
qed (simp add: dep_abs_def)

section \<open>Properties\<close>



text \<open>Registering a list of dependencies with distinct keys registers each of them.\<close>

theorem SetDependency_all:
  assumes "dep_inv dm" and "distinct (map (\<lambda>(n, k, ns). (k, n)) ds)" and "(n, k, ns) \<in> set ds"
  shows "HasDependency (foldl (\<lambda>dm (n, k, ns). SetDependency dm n k ns) dm ds) n k ns"
proof -
  have "find (\<lambda>(n', k', ns). k' = k \<and> n' = n) ds = Some (n, k, ns)"
    using assms(2,3) by (induction ds) (auto simp: image_iff)
  then show ?thesis
    using deps.lookup_put_all [OF assms(1,2), of k n] deps.put_all_inv [OF assms(1), of ds]
    by (simp add: HasDependency_abs deps.put_all_def)
qed

text \<open>
  The namespace is not part of the key \<open>SetDependency\<close> matches, though \<open>HasDependency\<close> and
  \<open>RemoveDependency\<close> ask for it: registering the same kind and name in a second namespace loses
  the first registration.
\<close>

theorem SetDependency_drops_namespace:
  assumes "dep_inv dm" and "HasDependency dm n k ns" and "ns' \<noteq> ns"
  shows "\<not> HasDependency (SetDependency dm n k ns') n k ns"
  using assms by (simp add: HasDependency_abs dep_inv_Set dep_abs_Set)

end
