(* ===== verification/Labels.thy ===== *)
theory Labels
  imports Prelude
begin

text \<open>
  The label and string-map helpers of \<open>internal/controller/utils/utils.go\<close>. A \<open>range\<close> over a
  map visits the entries in the order of the list; the results are shown not to depend on it.
\<close>

section \<open>Operations\<close>

fun HasAllLabels :: "string gomap \<Rightarrow> string list \<Rightarrow> bool" where
  "HasAllLabels objLabels [] = True"
| "HasAllLabels objLabels (key # keys) =
     (if mget objLabels key = None then False else HasAllLabels objLabels keys)"

fun HasAllLabelsAndValue :: "string gomap \<Rightarrow> string gomap \<Rightarrow> bool" where
  "HasAllLabelsAndValue objLabels [] = True"
| "HasAllLabelsAndValue objLabels ((key, v) # ls) =
     (case mget objLabels key of
        None \<Rightarrow> False
      | Some v2 \<Rightarrow> if v2 \<noteq> v then False else HasAllLabelsAndValue objLabels ls)"

text \<open>
  The caller's map after the call, \<open>None\<close> for a nil map: the assignment to the parameter in the
  nil case does not reach the caller.
\<close>

fun update_labels :: "string gomap \<Rightarrow> string gomap \<Rightarrow> string gomap" where
  "update_labels objLabels [] = objLabels"
| "update_labels objLabels ((key, v) # ls) =
     update_labels
       (case mget objLabels key of
          None \<Rightarrow> mput key v objLabels
        | Some vv \<Rightarrow> if vv \<noteq> v then mput key v objLabels else objLabels) ls"

definition UpdateLabelsIfDifferent :: "string gomap option \<Rightarrow> string gomap \<Rightarrow> string gomap option" where
  "UpdateLabelsIfDifferent objLabels ls =
     (case objLabels of None \<Rightarrow> None | Some m \<Rightarrow> Some (update_labels m ls))"

definition CompareStringSlices :: "string list \<Rightarrow> string list \<Rightarrow> bool" where
  "CompareStringSlices a b =
     (if length a \<noteq> length b then False else list_all (\<lambda>i. a ! i = b ! i) [0..<length a])"

fun compare_entries :: "string gomap \<Rightarrow> string gomap \<Rightarrow> bool" where
  "compare_entries objLabels [] = True"
| "compare_entries objLabels ((key, v) # ls) =
     (if mstr objLabels key \<noteq> v then False else compare_entries objLabels ls)"

text \<open>The key slices are made with a capacity and never filled: both are empty.\<close>

definition CompareStringMap :: "string gomap \<Rightarrow> string gomap \<Rightarrow> bool" where
  "CompareStringMap objLabels ls =
     (let keys1 = []; keys2 = []
      in if \<not> CompareStringSlices keys1 keys2 then False else compare_entries objLabels ls)"

fun StringInSlice :: "string \<Rightarrow> string list \<Rightarrow> bool" where
  "StringInSlice s [] = False"
| "StringInSlice s (item # ls) = (if item = s then True else StringInSlice s ls)"

definition MergeStringMaps :: "string gomap \<Rightarrow> string gomap \<Rightarrow> string gomap" where
  "MergeStringMaps a b =
     (let res = foldl (\<lambda>m (k, v). mput k v m) [] a
      in foldl (\<lambda>m (k, v). mput k v m) res b)"

section \<open>Lemmas\<close>

lemma HasAllLabels_iff: "HasAllLabels m ks \<longleftrightarrow> set ks \<subseteq> set (mkeys m)"
  by (induction ks) (auto simp: mget_None_iff)

lemma HasAllLabelsAndValue_iff:
  "HasAllLabelsAndValue m ls \<longleftrightarrow> (\<forall>(k, v)\<in>set ls. mget m k = Some v)"
  by (induction m ls rule: HasAllLabelsAndValue.induct) (auto split: option.splits)

lemma CompareStringSlices_eq: "CompareStringSlices a b \<longleftrightarrow> a = b"
  using list_eq_iff_nth_eq [of a b] by (auto simp: CompareStringSlices_def list_all_iff)

lemma CompareStringMap_iff: "CompareStringMap m ls \<longleftrightarrow> (\<forall>(k, v)\<in>set ls. mstr m k = v)"
proof -
  have "compare_entries m ls \<longleftrightarrow> (\<forall>(k, v)\<in>set ls. mstr m k = v)"
    by (induction m ls rule: compare_entries.induct) auto
  then show ?thesis by (simp add: CompareStringMap_def CompareStringSlices_eq)
qed

lemma StringInSlice_iff: "StringInSlice s ls \<longleftrightarrow> s \<in> set ls"
  by (induction ls) auto

lemma update_labels_get:
  "wf_map ls \<Longrightarrow> mget (update_labels m ls) k = (case mget ls k of None \<Rightarrow> mget m k | Some v \<Rightarrow> Some v)"
proof (induction m ls rule: update_labels.induct)
  case (2 m key v ls)
  then have "mget ls key = None" "wf_map ls" by (auto simp: wf_map_def mget_def map_of_eq_None_iff)
  with "2.IH" show ?case by (auto simp: mget_Cons split: option.splits)
qed simp

lemma MergeStringMaps_massign: "MergeStringMaps a b = massign (massign [] a) b"
  by (simp add: MergeStringMaps_def massign_def)

lemma MergeStringMaps_get:
  assumes "wf_map a" and "wf_map b"
  shows "mget (MergeStringMaps a b) k = (case mget b k of None \<Rightarrow> mget a k | Some v \<Rightarrow> Some v)"
  using assms by (auto simp: MergeStringMaps_massign mget_massign split: option.splits)

section \<open>Properties\<close>

text \<open>On maps with distinct keys, \<open>MergeStringMaps\<close> and \<open>UpdateLabelsIfDifferent\<close> on a map
  compute the same map, the second argument winning, whatever the iteration orders; the result
  has all the labels of the second argument with their values.\<close>

theorem merge_and_update_agree:
  assumes "wf_map a" and "wf_map b" and "UpdateLabelsIfDifferent (Some a) b = Some c"
  shows "same_map c (MergeStringMaps a b) \<and> HasAllLabelsAndValue c b \<and> HasAllLabels c (mkeys b)"
proof -
  have c: "mget c k = (case mget b k of None \<Rightarrow> mget a k | Some v \<Rightarrow> Some v)" for k
    using assms by (auto simp: UpdateLabelsIfDifferent_def update_labels_get)
  then have "HasAllLabelsAndValue c b" using mget_wf [OF assms(2)] by (auto simp: HasAllLabelsAndValue_iff)
  moreover have "k \<in> set (mkeys c)" if "k \<in> set (mkeys b)" for k
  proof -
    from that have "mget b k \<noteq> None" by (simp add: mget_None_iff)
    with c [of k] have "mget c k \<noteq> None" by auto
    then show ?thesis by (simp add: mget_None_iff)
  qed
  ultimately show ?thesis
    using c MergeStringMaps_get [OF assms(1,2)] by (auto simp: same_map_def HasAllLabels_iff)
qed

theorem merge_and_update_agree_witness:
  "let a = [(''x'', ''1''), (''y'', ''2'')]; b = [(''y'', ''3''), (''z'', ''4'')];
       c = [(''x'', ''1''), (''y'', ''3''), (''z'', ''4'')]
   in same_map c (MergeStringMaps a b) \<and> HasAllLabelsAndValue c b \<and> HasAllLabels c (mkeys b)"
  unfolding Let_def
  by (rule merge_and_update_agree)
    (simp_all add: wf_map_def UpdateLabelsIfDifferent_def mget_def mput_def)

text \<open>
  \<open>CompareStringMap\<close> compares only the labels of its second argument: every extension of a map
  passes, and so does a map without the label when the value asked for is empty. The comment
  says "the same labels and same values".
\<close>

theorem CompareStringMap_superset:
  assumes "wf_map b"
  shows "CompareStringMap (massign a b) b" and "CompareStringMap [] [(k, [])]"
proof -
  show "CompareStringMap (massign a b) b"
    using mget_wf [OF assms] by (auto simp: CompareStringMap_iff mstr_def mget_massign [OF assms])
qed (simp add: CompareStringMap_iff mstr_def)

text \<open>A nil label map stays nil in the caller, against the comment of \<open>UpdateLabelsIfDifferent\<close>.\<close>

theorem UpdateLabelsIfDifferent_nil: "UpdateLabelsIfDifferent None ls = None"
  by (simp add: UpdateLabelsIfDifferent_def)

end
