(* ===== verification/Values.thy ===== *)
theory Values
  imports Prelude Float64 Labels
begin

text \<open>
  The nested-field helpers of \<open>internal/controller/utils/utils.go\<close> on the decoded form of an
  object (\<open>map[string]any\<close> of a JSON document). A map that is changed in place through a
  reference is the tree with that node rewritten (\<open>write_at\<close>); the trees come from a decoder,
  which shares no node and makes no nil map. When a function returns an error the object is
  the one it was given. \<open>path_store\<close> is the contract of reading and writing at paths.
\<close>

datatype any =
    ANil
  | ABool bool
  | AInt int
  | AFloat f64
  | AStr string
  | AList "any list"
  | AMap "(string \<times> any) list"

section \<open>Reading\<close>

fun walk :: "any gomap \<Rightarrow> string list \<Rightarrow> any gomap go" where
  "walk m [] = Inr m"
| "walk m (field # fields) =
     (case mget m field of
        Some (AMap val) \<Rightarrow> walk val fields
      | _ \<Rightarrow> Inl (Errf ''field not found in the object or its type is not map[string]any''))"

definition GetNestedField :: "any gomap \<Rightarrow> string list \<Rightarrow> any gomap go" where
  "GetNestedField obj fields =
     (if fields = [] then Inl (Errf ''no fields provided'') else walk obj fields)"

text \<open>\<open>fields[:len(fields)-1]\<close> panics without fields.\<close>

definition init_fields :: "string list \<Rightarrow> string list go" where
  "init_fields fields =
     (if fields = [] then Inl (Panic ''slice bounds out of range'') else Inr (butlast fields))"

definition GetNestedValue :: "any gomap \<Rightarrow> string list \<Rightarrow> any go" where
  "GetNestedValue obj fields =
     bind_go (init_fields fields) (\<lambda>f.
     bind_go (GetNestedField obj f) (\<lambda>value.
       case mget value (last fields) of
         Some val \<Rightarrow> Inr val
       | None \<Rightarrow> Inl (Errf ''field not found in the object'')))"

definition GetNestedString :: "any gomap \<Rightarrow> string list \<Rightarrow> string go" where
  "GetNestedString obj fields =
     bind_go (init_fields fields) (\<lambda>f.
     bind_go (GetNestedField obj f) (\<lambda>value.
       case mget value (last fields) of
         Some (AStr s) \<Rightarrow> Inr s
       | Some _ \<Rightarrow> Inl (Errf ''field is not a string'')
       | None \<Rightarrow> Inl (Errf ''field not found in the object'')))"

text \<open>Marshalling to JSON and unmarshalling to \<open>map[string]string\<close>; \<open>null\<close> is the zero value.\<close>

definition ObjectToStringMap :: "any \<Rightarrow> string gomap go" where
  "ObjectToStringMap v =
     (case v of
        ANil \<Rightarrow> Inr []
      | AMap m \<Rightarrow> map_go (\<lambda>(k, x). case x of
            AStr s \<Rightarrow> Inr (k, s)
          | ANil \<Rightarrow> Inr (k, [])
          | _ \<Rightarrow> Inl (Errf ''json: cannot unmarshal into Go value of type string'')) m
      | _ \<Rightarrow> Inl (Errf ''json: cannot unmarshal into Go value of type map[string]string''))"

fun find_map :: "int \<Rightarrow> string gomap \<Rightarrow> any list \<Rightarrow> (bool \<times> int) go" where
  "find_map i target [] = Inr (False, - 1)"
| "find_map i target (val # vals) =
     bind_go (ObjectToStringMap val) (\<lambda>m.
       if CompareStringMap m target then Inr (True, i) else find_map (i + 1) target vals)"

definition HasNestedMap :: "any gomap \<Rightarrow> string gomap \<Rightarrow> string list \<Rightarrow> (bool \<times> int) go" where
  "HasNestedMap obj target fields =
     bind_go (init_fields fields) (\<lambda>f.
     bind_go (GetNestedField obj f) (\<lambda>m.
       case mget m (last fields) of
         Some (AList vals) \<Rightarrow> find_map 0 target vals
       | None \<Rightarrow> Inr (False, - 1)
       | Some ANil \<Rightarrow> Inr (False, - 1)
       | Some _ \<Rightarrow> Inl (Errf ''the field is not a list'')))"

definition IndexOfMapKey :: "string gomap list \<Rightarrow> string \<Rightarrow> int" where
  "IndexOfMapKey ls key = index_from 0 (\<lambda>item. mget item key \<noteq> None) ls"

text \<open>An element that is no map, or whose value is no string, makes the assertion panic.\<close>

fun index_of_value :: "int \<Rightarrow> any list \<Rightarrow> string \<Rightarrow> string \<Rightarrow> int go" where
  "index_of_value i [] key v = Inr (- 1)"
| "index_of_value i (item # items) key v =
     (case item of
        AMap m \<Rightarrow>
          (case mget m key of
             None \<Rightarrow> index_of_value (i + 1) items key v
           | Some (AStr s) \<Rightarrow> if s = v then Inr i else index_of_value (i + 1) items key v
           | Some _ \<Rightarrow> Inl (Panic ''interface conversion: not string''))
      | _ \<Rightarrow> Inl (Panic ''interface conversion: not map[string]interface {}''))"

definition IndexOfMapValue :: "any list \<Rightarrow> string \<Rightarrow> string \<Rightarrow> int go" where
  "IndexOfMapValue ls key v = index_of_value 0 ls key v"

definition GetUnstructuredConditionByType :: "any gomap \<Rightarrow> string \<Rightarrow> (bool \<times> any gomap) go" where
  "GetUnstructuredConditionByType obj t =
     bind_go (GetNestedValue obj [''status'', ''conditions'']) (\<lambda>conditions.
       case conditions of
         AList cds \<Rightarrow>
           bind_go (IndexOfMapValue cds ''type'' t) (\<lambda>cdIdx.
             if cdIdx = - 1 then Inr (False, [])
             else (case cds ! nat cdIdx of
                 AMap cd \<Rightarrow> Inr (True, cd)
               | _ \<Rightarrow> Inl (Panic ''interface conversion: not map[string]interface {}'')))
       | _ \<Rightarrow> Inl (Errf ''conditions is not of type []any''))"

definition SafeString :: "any \<Rightarrow> string go" where
  "SafeString data =
     (case data of ANil \<Rightarrow> Inr [] | AStr s \<Rightarrow> Inr s
      | _ \<Rightarrow> Inl (Panic ''interface conversion: not string''))"

section \<open>Writing\<close>

fun SetNestedField :: "any gomap \<Rightarrow> any \<Rightarrow> string list \<Rightarrow> any gomap go" where
  "SetNestedField obj v [] = Inl (Panic ''slice bounds out of range'')"
| "SetNestedField obj v [field] = Inr (mput field v obj)"
| "SetNestedField obj v (field # f2 # fields) =
     (case mget obj field of
        Some (AMap m) \<Rightarrow>
          bind_go (SetNestedField m v (f2 # fields)) (\<lambda>m'. Inr (mput field (AMap m') obj))
      | Some _ \<Rightarrow> Inl (Errf ''field is not a map[string]any'')
      | None \<Rightarrow>
          bind_go (SetNestedField [] v (f2 # fields)) (\<lambda>m'. Inr (mput field (AMap m') obj)))"

text \<open>The tree after the map that \<open>walk\<close> finds is changed in place by \<open>g\<close>.\<close>

fun write_at :: "any gomap \<Rightarrow> string list \<Rightarrow> (any gomap \<Rightarrow> any gomap) \<Rightarrow> any gomap" where
  "write_at m [] g = g m"
| "write_at m (field # fields) g =
     (case mget m field of
        Some (AMap val) \<Rightarrow> mput field (AMap (write_at val fields g)) m
      | _ \<Rightarrow> m)"

definition UpdateNestedValue :: "any gomap \<Rightarrow> string \<Rightarrow> string list \<Rightarrow> (bool \<times> any gomap) go" where
  "UpdateNestedValue obj v fields =
     bind_go (init_fields fields) (\<lambda>f.
     bind_go (GetNestedField obj f) (\<lambda>m.
       case mget m (last fields) of
         Some (AStr s) \<Rightarrow>
           if s = v then Inr (False, obj)
           else Inr (True, write_at obj f (mput (last fields) (AStr v)))
       | _ \<Rightarrow> Inl (Errf ''field not found in the object or its not a string'')))"

definition AppendToNestedList :: "any gomap \<Rightarrow> any \<Rightarrow> string list \<Rightarrow> any gomap go" where
  "AppendToNestedList obj v fields =
     bind_go (init_fields fields) (\<lambda>f.
     bind_go (GetNestedField obj f) (\<lambda>m.
       case mget m (last fields) of
         Some (AList vals) \<Rightarrow> Inr (write_at obj f (mput (last fields) (AList (vals @ [v]))))
       | None \<Rightarrow> Inr (write_at obj f (mput (last fields) (AList [v])))
       | Some ANil \<Rightarrow> Inr (write_at obj f (mput (last fields) (AList [v])))
       | Some _ \<Rightarrow> Inl (Errf ''field not found in the object or its not either nil or a list'')))"

definition remove_at :: "'a list \<Rightarrow> int \<Rightarrow> 'a list go" where
  "remove_at xs i =
     (if i < 0 \<or> int (length xs) \<le> i then Inl (Panic ''slice bounds out of range'')
      else Inr (take (nat i) xs @ drop (nat i + 1) xs))"

definition RemoveStringAt :: "string list \<Rightarrow> int \<Rightarrow> string list go" where
  "RemoveStringAt ls idx = remove_at ls idx"

definition RemoveNestedListItem :: "any gomap \<Rightarrow> int \<Rightarrow> string list \<Rightarrow> any gomap go" where
  "RemoveNestedListItem obj idx fields =
     bind_go (init_fields fields) (\<lambda>f.
     bind_go (GetNestedField obj f) (\<lambda>m.
       case mget m (last fields) of
         Some (AList vals) \<Rightarrow>
           bind_go (remove_at vals idx) (\<lambda>vals'. Inr (write_at obj f (mput (last fields) (AList vals'))))
       | _ \<Rightarrow> Inl (Errf ''field not found in the object or its not a list'')))"

section \<open>The contract of reading and writing at paths\<close>

text \<open>The value at a path: the abstract reading of a tree.\<close>

fun at_path :: "any gomap \<Rightarrow> string list \<Rightarrow> any option" where
  "at_path m [] = None"
| "at_path m [field] = mget m field"
| "at_path m (field # f2 # fields) =
     (case mget m field of Some (AMap m') \<Rightarrow> at_path m' (f2 # fields) | _ \<Rightarrow> None)"

fun disjoint_paths :: "string list \<Rightarrow> string list \<Rightarrow> bool" where
  "disjoint_paths (p # ps) (q # qs) = (if p = q then disjoint_paths ps qs else True)"
| "disjoint_paths _ _ = False"

locale path_store =
  fixes rd :: "'o \<Rightarrow> string list \<Rightarrow> 'v option"
    and wr :: "'o \<Rightarrow> 'v \<Rightarrow> string list \<Rightarrow> 'o go"
  assumes rd_wr: "wr s v p = Inr s' \<Longrightarrow> rd s' p = Some v"
    and rd_wr_disjoint: "wr s v p = Inr s' \<Longrightarrow> disjoint_paths p q \<Longrightarrow> rd s' q = rd s q"
begin

text \<open>Of two writes at disjoint paths each is read back, in either order.\<close>

lemma rd_two_writes:
  assumes "wr s v p = Inr s1" and "wr s1 w q = Inr s2" and "disjoint_paths q p"
  shows "rd s2 p = Some v" and "rd s2 q = Some w"
  using assms rd_wr rd_wr_disjoint by metis+

lemma rd_frame:
  assumes "wr s v p = Inr s1" and "wr s1 w q = Inr s2" and "disjoint_paths p r" and "disjoint_paths q r"
  shows "rd s2 r = rd s r"
  using assms rd_wr_disjoint by metis

end

lemma at_path_SetNestedField:
  "SetNestedField obj v fields = Inr obj' \<Longrightarrow> at_path obj' fields = Some v"
  by (induction obj v fields arbitrary: obj' rule: SetNestedField.induct)
    (auto split: option.splits any.splits)

lemma at_path_Nil_map: "at_path [] fields = None"
  by (cases "([] :: any gomap, fields)" rule: at_path.cases) auto

lemma at_path_mput_other: "q \<noteq> f \<Longrightarrow> at_path (mput f v m) (q # qs) = at_path m (q # qs)"
  by (cases qs) auto

lemma at_path_disjoint:
  "SetNestedField obj v fields = Inr obj' \<Longrightarrow> disjoint_paths fields qs \<Longrightarrow> at_path obj' qs = at_path obj qs"
proof (induction obj v fields arbitrary: obj' qs rule: SetNestedField.induct)
  case (2 obj v field)
  then show ?case by (cases qs) (auto simp: at_path_mput_other split: if_splits)
next
  case (3 obj v field f2 fields)
  obtain q qs' where qs: "qs = q # qs'" using "3.prems"(2) by (cases qs) auto
  show ?case
  proof (cases "q = field")
    case False
    then show ?thesis using "3.prems" qs
      by (auto simp: at_path_mput_other split: option.splits any.splits)
  next
    case True
    then have d: "disjoint_paths (f2 # fields) qs'" using "3.prems"(2) qs by simp
    then obtain q2 qs2 where qs': "qs' = q2 # qs2" by (cases qs') auto
    show ?thesis
    proof (cases "mget obj field")
      case None
      then show ?thesis using 3 d qs qs' True by (auto simp: at_path_Nil_map)
    next
      case (Some w)
      then show ?thesis using 3 d qs qs' True by (cases w) auto
    qed
  qed
qed simp

interpretation nested: path_store at_path SetNestedField
  by unfold_locales (auto intro: at_path_SetNestedField at_path_disjoint)

lemma walk_at_path:
  "walk obj p = Inr m \<Longrightarrow> at_path obj (p @ [f]) = mget m f"
proof (induction obj p rule: walk.induct)
  case (2 m field fields)
  then show ?case
    by (cases fields) (auto split: option.splits any.splits)
qed simp

lemma walk_fails: "walk obj p = Inl e \<Longrightarrow> at_path obj (p @ [f]) = None"
proof (induction obj p rule: walk.induct)
  case (2 m field fields)
  then show ?case
    by (cases fields) (auto split: option.splits any.splits)
qed simp

lemma GetNestedValue_iff:
  "GetNestedValue obj fields = Inr v \<longleftrightarrow> 2 \<le> length fields \<and> at_path obj fields = Some v"
proof (cases fields rule: rev_cases)
  case (snoc p f)
  show ?thesis
  proof (cases "p = []")
    case False
    then have "1 \<le> length p" by (cases p) auto
    then show ?thesis
      using snoc False walk_at_path [of obj p _ f] walk_fails [of obj p _ f]
      by (cases "walk obj p")
        (auto simp: GetNestedValue_def init_fields_def GetNestedField_def split: option.splits)
  qed (use snoc in \<open>simp add: GetNestedValue_def init_fields_def GetNestedField_def\<close>)
qed (simp add: GetNestedValue_def init_fields_def)

lemma write_at_walk: "walk obj p = Inr m \<Longrightarrow> walk (write_at obj p g) p = Inr (g m)"
  by (induction obj p g rule: write_at.induct) (auto split: option.splits any.splits)

lemma write_at_set:
  "walk obj p = Inr m \<Longrightarrow> SetNestedField obj v (p @ [f]) = Inr (write_at obj p (mput f v))"
proof (induction obj p "mput f v" rule: write_at.induct)
  case (2 m' field fields)
  then show ?case by (cases fields) (auto split: option.splits any.splits)
qed simp

section \<open>Properties\<close>

text \<open>C29: what \<open>SetNestedField\<close> writes at a path of two or more fields, \<open>GetNestedValue\<close> reads
  back there, and every path that branches off from it reads what it read before.\<close>

theorem SetNestedField_roundtrip:
  assumes "SetNestedField obj v fields = Inr obj'" and "2 \<le> length fields"
  shows "GetNestedValue obj' fields = Inr v
    \<and> (disjoint_paths fields qs \<longrightarrow> (GetNestedValue obj' qs = Inr w) = (GetNestedValue obj qs = Inr w))"
  using assms nested.rd_wr nested.rd_wr_disjoint by (auto simp: GetNestedValue_iff)

theorem SetNestedField_roundtrip_witness:
  "let obj = [(''spec'', AMap [(''image'', AStr ''a'')]), (''status'', AMap [(''phase'', ANil)])];
       obj' = [(''spec'', AMap [(''image'', AStr ''b'')]), (''status'', AMap [(''phase'', ANil)])]
   in GetNestedValue obj' [''spec'', ''image''] = Inr (AStr ''b'')
    \<and> (disjoint_paths [''spec'', ''image''] [''status'', ''phase'']
        \<longrightarrow> (GetNestedValue obj' [''status'', ''phase''] = Inr ANil) = (GetNestedValue obj [''status'', ''phase''] = Inr ANil))"
  unfolding Let_def by (rule SetNestedField_roundtrip) (simp_all add: mget_def mput_def)

text \<open>\<open>UpdateNestedValue\<close> succeeds exactly on a path of two or more fields that holds a string;
  it then reports whether that string differed, and the object afterwards is the one
  \<open>SetNestedField\<close> would produce, or the same object when nothing differed.\<close>

theorem UpdateNestedValue_spec:
  "UpdateNestedValue obj v fields = Inr (changed, obj') \<longleftrightarrow>
     (\<exists>old. 2 \<le> length fields \<and> at_path obj fields = Some (AStr old) \<and> changed = (old \<noteq> v)
       \<and> (if changed then SetNestedField obj (AStr v) fields = Inr obj' else obj' = obj))"
proof (cases fields rule: rev_cases)
  case (snoc p f)
  show ?thesis
  proof (cases "p = []")
    case False
    then have "1 \<le> length p" by (cases p) auto
    then show ?thesis
      using snoc False walk_at_path [of obj p _ f] walk_fails [of obj p _ f] write_at_set [of obj p _ "AStr v" f]
      by (cases "walk obj p")
        (auto simp: UpdateNestedValue_def init_fields_def GetNestedField_def split: option.splits any.splits)
  qed (use snoc in \<open>simp add: UpdateNestedValue_def init_fields_def GetNestedField_def\<close>)
qed (simp add: UpdateNestedValue_def init_fields_def)

text \<open>
  A single field is refused by the readers and the updaters, with "no fields provided", though
  \<open>SetNestedField\<close> writes at one.
\<close>

theorem single_field_always_fails:
  "GetNestedValue obj [f] = Inl (Errf ''no fields provided'')"
  "GetNestedString obj [f] = Inl (Errf ''no fields provided'')"
  "HasNestedMap obj t [f] = Inl (Errf ''no fields provided'')"
  "UpdateNestedValue obj v [f] = Inl (Errf ''no fields provided'')"
  "AppendToNestedList obj w [f] = Inl (Errf ''no fields provided'')"
  "SetNestedField obj w [f] = Inr (mput f w obj)"
  by (simp_all add: GetNestedValue_def GetNestedString_def HasNestedMap_def UpdateNestedValue_def
      AppendToNestedList_def init_fields_def GetNestedField_def)

end
