(* ===== verification/Latency.thy ===== *)
theory Latency
  imports Prelude Float64 "HOL-Library.Multiset"
begin

text \<open>
  Latencies between provider regions: the fixed heuristic and the synthetic generator of
  \<open>internal/controller/utils/utils.go\<close>, and the reconciler of the \<open>Latency\<close> object
  (\<open>internal/controller/core/latency_controller.go\<close>). The generator decides which log-normal
  samples to draw and adds them; \<open>sample i mean std\<close> is the i-th draw of a call, a parameter
  (it is \<open>math/rand\<close> through \<open>math.Log\<close>, \<open>Sqrt\<close>, \<open>Cos\<close> and \<open>Exp\<close>).
\<close>

section \<open>The fixed heuristic\<close>

definition ComputeFixedLatency :: "string \<Rightarrow> string \<Rightarrow> int" where
  "ComputeFixedLatency r1 r2 =
     (if r1 = [] \<or> r2 = [] then 100
      else if r1 = r2 then 5
      else
        (let (r1, r2) = (if r1 > r2 then (r2, r1) else (r1, r2));
             diff = int (length r2) - int (length r1);
             diff = (if diff < 0 then - diff else diff)
         in 20 + diff * 5))"

section \<open>The synthetic generator\<close>

text \<open>\<open>strings.Split\<close> gives at least one part, so the last fallback of the source is dead.\<close>

definition metroFromRegion :: "string \<Rightarrow> string" where
  "metroFromRegion region =
     (let parts = split_on (CHR ''-'') region
      in if 2 \<le> length parts then parts ! 0 @ ''-'' @ parts ! 1
         else if 1 \<le> length parts then parts ! 0
         else region)"

text \<open>A draw: mean and standard deviation of the log-normal distribution.\<close>

type_synonym draw = "rat \<times> rat"

definition cloudCloudLatency :: "string \<Rightarrow> string \<Rightarrow> string \<Rightarrow> string \<Rightarrow> draw" where
  "cloudCloudLatency srcRegion dstRegion srcRegionAlias dstRegionAlias =
     (if srcRegion = dstRegion then (10, 3)
      else
        (let srcMetro = metroFromRegion srcRegionAlias; dstMetro = metroFromRegion dstRegionAlias
         in if srcMetro \<noteq> [] \<and> srcMetro = dstMetro then (20, 5)
            else
              (let srcCont = split_on (CHR ''-'') srcRegionAlias ! 0;
                   dstCont = split_on (CHR ''-'') dstRegionAlias ! 0
               in if srcCont = dstCont then (75, 10) else (200, 50))))"

definition cloudEdgeLatency :: draw where "cloudEdgeLatency = (15.44, 7)"
definition cloudNteLatency :: draw where "cloudNteLatency = (25, 15)"
definition edgeEdgeLatency :: draw where "edgeEdgeLatency = (6, 4)"
definition nteNteLatency :: draw where "nteNteLatency = (10, 1)"
definition nteEdgeLatency :: draw where "nteEdgeLatency = (8, 3)"

definition localToCloud :: "string \<Rightarrow> draw option go" where
  "localToCloud t =
     (if t = ''cloud'' then Inr None
      else if t = ''edge'' then Inr (Some cloudEdgeLatency)
      else if t = ''nte'' then Inr (Some cloudNteLatency)
      else Inl (Errf ''unsupported endpoint type''))"

text \<open>The draws in the order they are made: a term without a draw is the constant 0.\<close>

definition latency_terms ::
  "string \<Rightarrow> string \<Rightarrow> string \<Rightarrow> string \<Rightarrow> string \<Rightarrow> string \<Rightarrow> (draw option \<times> draw \<times> draw option) go" where
  "latency_terms srcRegion dstRegion srcRegionAlias dstRegionAlias srcType dstType =
     (let sameRegion = (srcRegion = dstRegion \<or> srcRegionAlias = dstRegionAlias);
          cc = cloudCloudLatency srcRegion dstRegion srcRegionAlias dstRegionAlias
      in if sameRegion then
           (if srcType = ''cloud'' \<and> dstType = ''cloud'' then Inr (None, cc, None)
            else if (srcType = ''cloud'' \<and> dstType = ''nte'') \<or> (srcType = ''nte'' \<and> dstType = ''cloud'')
              then Inr (None, cloudNteLatency, None)
            else if (srcType = ''cloud'' \<and> dstType = ''edge'') \<or> (srcType = ''edge'' \<and> dstType = ''cloud'')
              then Inr (None, cloudEdgeLatency, None)
            else if srcType = ''edge'' \<and> dstType = ''edge'' then Inr (None, edgeEdgeLatency, None)
            else if srcType = ''nte'' \<and> dstType = ''nte'' then Inr (None, nteNteLatency, None)
            else if (srcType = ''nte'' \<and> dstType = ''edge'') \<or> (srcType = ''edge'' \<and> dstType = ''nte'')
              then Inr (None, nteEdgeLatency, None)
            else Inl (Errf ''unsupported communication type''))
         else
           bind_go (localToCloud srcType) (\<lambda>srcToCloud.
           bind_go (localToCloud dstType) (\<lambda>dstFromCloud.
             Inr (srcToCloud, cc, dstFromCloud))))"

text \<open>\<open>math.Round\<close>: the nearest integer, halves away from zero.\<close>

fun f64_round :: "f64 \<Rightarrow> f64" where
  "f64_round (Fin x) = f64_of_int (if 0 \<le> x then \<lfloor>x + 1 / 2\<rfloor> else - \<lfloor>1 / 2 - x\<rfloor>)"
| "f64_round v = v"

definition f64_round2 :: "f64 \<Rightarrow> f64" where
  "f64_round2 v = f64_scale (f64_round (f64_scale v 100)) (1 / 100)"

text \<open>The source's order of draws: source leg, destination leg, then the cloud leg.\<close>

definition GenerateSyntheticLatency ::
  "(nat \<Rightarrow> rat \<Rightarrow> rat \<Rightarrow> f64) \<Rightarrow> string \<Rightarrow> string \<Rightarrow> string \<Rightarrow> string \<Rightarrow> string \<Rightarrow> string \<Rightarrow> f64 go" where
  "GenerateSyntheticLatency sample srcRegion dstRegion srcRegionAlias dstRegionAlias srcType dstType =
     bind_go (latency_terms srcRegion dstRegion srcRegionAlias dstRegionAlias srcType dstType)
       (\<lambda>(a, (m, s), b).
         let (x, i) = (case a of None \<Rightarrow> (Fin 0, 0) | Some (am, as) \<Rightarrow> (sample 0 am as, 1));
             (y, j) = (case b of None \<Rightarrow> (Fin 0, i) | Some (bm, bs) \<Rightarrow> (sample i bm bs, i + 1));
             cc = sample j m s;
             total = (if a = None \<and> b = None then cc else f64_add (f64_add x cc) y)
         in Inr (f64_round2 total))"

section \<open>The reconciler\<close>

record LatencyStatus =
  lsLastMeasuredMs :: string
  lsP95 :: string
  lsP99 :: string

record LatencyObj =
  latName :: string
  latLabels :: "string gomap"
  latFixedLatencyMs :: string
  latStatus :: LatencyStatus

definition latency_step :: "LatencyObj \<Rightarrow> LatencyObj" where
  "latency_step lat =
     (let st = latStatus lat; fixed = latFixedLatencyMs lat
      in if lsLastMeasuredMs st = [] \<or> fixed \<noteq> lsLastMeasuredMs st
         then lat\<lparr>latStatus := st\<lparr>lsLastMeasuredMs := fixed, lsP95 := fixed, lsP99 := fixed\<rparr>\<rparr>
         else lat)"

text \<open>
  The reply of the Get, then that of the status update; the result with the object sent to the
  API server, if one was. A missing object ends the reconciliation without an error.
\<close>

definition LatencyReconcile :: "LatencyObj go \<Rightarrow> (LatencyObj \<Rightarrow> unit go) \<Rightarrow> unit go \<times> LatencyObj option" where
  "LatencyReconcile get update =
     (case get of
        Inl e \<Rightarrow> (if is_not_found e then Inr () else Inl e, None)
      | Inr lat \<Rightarrow> (let lat' = latency_step lat in (update lat', Some lat')))"

section \<open>Lemmas\<close>

definition endpoint_types :: "string set" where
  "endpoint_types = {''cloud'', ''edge'', ''nte''}"

lemma localToCloud_Inr: "(\<exists>d. localToCloud t = Inr d) \<longleftrightarrow> t \<in> endpoint_types"
  by (simp add: localToCloud_def endpoint_types_def)

lemma latency_terms_Inr:
  "(\<exists>d. latency_terms sr dr sa da st dt = Inr d) \<longleftrightarrow> st \<in> endpoint_types \<and> dt \<in> endpoint_types"
proof (cases "sr = dr \<or> sa = da")
  case True
  then show ?thesis
    by (cases "st = ''cloud''"; cases "st = ''edge''"; cases "st = ''nte''";
        cases "dt = ''cloud''"; cases "dt = ''edge''"; cases "dt = ''nte''")
      (simp_all add: latency_terms_def endpoint_types_def Let_def)
next
  case False
  then show ?thesis
    using localToCloud_Inr [of st] localToCloud_Inr [of dt]
    by (cases "localToCloud st"; cases "localToCloud dt") (simp_all add: latency_terms_def Let_def)
qed

lemma cloudCloudLatency_sym: "cloudCloudLatency sr dr sa da = cloudCloudLatency dr sr da sa"
  by (auto simp: cloudCloudLatency_def Let_def)

lemma latency_terms_sym:
  "latency_terms sr dr sa da st dt = Inr (a, c, b) \<Longrightarrow> latency_terms dr sr da sa dt st = Inr (b, c, a)"
proof (cases "sr = dr \<or> sa = da")
  case True
  then have "dr = sr \<or> da = sa" by auto
  with True show "latency_terms sr dr sa da st dt = Inr (a, c, b) \<Longrightarrow> ?thesis"
    using cloudCloudLatency_sym [of sr dr sa da]
    by (cases "st = ''cloud''"; cases "st = ''edge''"; cases "st = ''nte''";
        cases "dt = ''cloud''"; cases "dt = ''edge''"; cases "dt = ''nte''")
      (simp_all add: latency_terms_def Let_def)
next
  case False
  then have "\<not> (dr = sr \<or> da = sa)" by auto
  with False show "latency_terms sr dr sa da st dt = Inr (a, c, b) \<Longrightarrow> ?thesis"
    using cloudCloudLatency_sym [of sr dr sa da]
    by (cases "localToCloud st"; cases "localToCloud dt") (simp_all add: latency_terms_def Let_def)
qed

section \<open>Properties\<close>

text \<open>The generator returns a latency exactly when both endpoint types are among cloud, edge
  and nte; the reverse pair of endpoints has the same terms, the two legs exchanged; and the mean
  of the draws for a pair of clouds only depends on how close their regions are.\<close>

theorem GenerateSyntheticLatency_endpoints:
  "((\<exists>x. GenerateSyntheticLatency sample sr dr sa da st dt = Inr x) \<longleftrightarrow>
      st \<in> endpoint_types \<and> dt \<in> endpoint_types)
   \<and> (latency_terms sr dr sa da st dt = Inr (a, c, b)) = (latency_terms dr sr da sa dt st = Inr (b, c, a))
   \<and> cloudCloudLatency sr dr sa da \<in> {(10, 3), (20, 5), (75, 10), (200, 50)}"
proof -
  have "(\<exists>x. GenerateSyntheticLatency sample sr dr sa da st dt = Inr x)
      = (\<exists>d. latency_terms sr dr sa da st dt = Inr d)"
    by (cases "latency_terms sr dr sa da st dt")
      (auto simp: GenerateSyntheticLatency_def Let_def split: prod.splits)
  moreover have "cloudCloudLatency sr dr sa da \<in> {(10, 3), (20, 5), (75, 10), (200, 50)}"
    by (auto simp: cloudCloudLatency_def Let_def)
  ultimately show ?thesis using latency_terms_Inr latency_terms_sym by blast
qed

text \<open>The fixed latency is symmetric, 5 exactly for equal known regions, 100 when a region is
  unknown, and otherwise 20 plus 5 for every character by which the names differ in length.\<close>

theorem ComputeFixedLatency_spec:
  "ComputeFixedLatency r1 r2 = ComputeFixedLatency r2 r1
   \<and> ComputeFixedLatency r1 r2 =
       (if r1 = [] \<or> r2 = [] then 100 else if r1 = r2 then 5
        else 20 + 5 * \<bar>int (length r1) - int (length r2)\<bar>)"
  by (auto simp: ComputeFixedLatency_def Let_def)

text \<open>A reconciliation that gets the object writes a status whose last measurement is the fixed
  latency of the spec; the object it writes is a fixed point of the next reconciliation; a missing
  object is no error and writes nothing.\<close>

theorem LatencyReconcile_fixed_point:
  "case get of
     Inr lat \<Rightarrow> (\<exists>lat'. LatencyReconcile get update = (update lat', Some lat')
         \<and> lsLastMeasuredMs (latStatus lat') = latFixedLatencyMs lat
         \<and> latFixedLatencyMs lat' = latFixedLatencyMs lat
         \<and> latency_step lat' = lat')
   | Inl e \<Rightarrow> snd (LatencyReconcile get update) = None
         \<and> (fst (LatencyReconcile get update) = Inr ()) = is_not_found e"
  by (auto simp: LatencyReconcile_def latency_step_def Let_def split: sum.split)

end
