(* ===== verification/Flavors.thy ===== *)
theory Flavors
  imports Prelude Float64 Values
begin

text \<open>
  Compute flavors: the types of \<open>api/helper/v1alpha1/types_intancetype.go\<close>, and the parsers and
  matchers of \<open>internal/controller/core/ilptask/ilptask_helper.go\<close> that decide which provider
  offerings satisfy a requested flavor. A regular expression of the source is the scanner that
  returns its leftmost match. The raw JSON of a flavor is the decoded document, \<open>None\<close> when it is
  no JSON; decoding it into the struct follows \<open>encoding/json\<close>: keys match up to case, \<open>null\<close>
  sets nothing, the last of two equal keys wins, a value of another type is an error.
\<close>

section \<open>Data\<close>

record Spot =
  spPrice :: string
  spEnabled :: bool

record GPU =
  gEnabled :: bool
  gManufacturer :: string
  gCount :: int
  gModel :: string
  gUnit :: string
  gMemory :: string

record InstanceOffering =
  ioName :: string
  ioNameLabel :: string
  ioVCPUs :: int
  ioRAM :: string
  ioPrice :: string
  ioGPU :: GPU
  ioGeneration :: string
  ioVolumeTypes :: "string list"
  ioSpot :: Spot

record ComputeFlavor =
  cfVCPUs :: string
  cfRAM :: string
  cfGPU :: GPU

record computeProfileService =
  cpsName :: string
  cpsCpu :: f64
  cpsRam :: f64
  cpsUsedCPU :: f64
  cpsUsedRAM :: f64
  cpsGpuEnabled :: bool
  cpsGpuModel :: string
  cpsGpuCount :: string
  cpsGpuMem :: string
  cpsGpuManufacturer :: string
  cpsDeployCost :: f64

record FlavorPattern =
  fpCpu :: f64
  fpCpuAny :: bool
  fpRam :: f64
  fpRamAny :: bool
  fpGpuCount :: int
  fpGpuModel :: string
  fpGpuMem :: f64
  fpGpuMemAny :: bool

definition zeroGPU :: GPU where
  "zeroGPU = \<lparr>gEnabled = False, gManufacturer = [], gCount = 0, gModel = [], gUnit = [], gMemory = []\<rparr>"

definition zeroComputeFlavor :: ComputeFlavor where
  "zeroComputeFlavor = \<lparr>cfVCPUs = [], cfRAM = [], cfGPU = zeroGPU\<rparr>"

definition zeroPattern :: FlavorPattern where
  "zeroPattern = \<lparr>fpCpu = Fin 0, fpCpuAny = False, fpRam = Fin 0, fpRamAny = False,
     fpGpuCount = 0, fpGpuModel = [], fpGpuMem = Fin 0, fpGpuMemAny = False\<rparr>"

section \<open>Decoding the flavor\<close>

text \<open>Setting a field of a struct from a JSON value.\<close>

definition json_string :: "any \<Rightarrow> string option go" where
  "json_string v =
     (case v of AStr s \<Rightarrow> Inr (Some s) | ANil \<Rightarrow> Inr None
      | _ \<Rightarrow> Inl (Errf ''json: cannot unmarshal into Go struct field of type string''))"

definition set_opt :: "('a \<Rightarrow> 's \<Rightarrow> 's) \<Rightarrow> 'a option go \<Rightarrow> 's \<Rightarrow> 's go" where
  "set_opt upd m s = bind_go m (\<lambda>ov. Inr (case ov of None \<Rightarrow> s | Some v \<Rightarrow> upd v s))"

definition decode_gpu_field :: "GPU \<Rightarrow> string \<times> any \<Rightarrow> GPU go" where
  "decode_gpu_field g kv =
     (case kv of (k, v) \<Rightarrow>
        if equal_fold k ''enabled'' then
          (case v of ABool b \<Rightarrow> Inr (g\<lparr>gEnabled := b\<rparr>) | ANil \<Rightarrow> Inr g
           | _ \<Rightarrow> Inl (Errf ''json: cannot unmarshal into Go struct field of type bool''))
        else if equal_fold k ''count'' then
          (case v of AInt i \<Rightarrow>
               if - (2 ^ 63) \<le> i \<and> i < 2 ^ 63 then Inr (g\<lparr>gCount := i\<rparr>)
               else Inl (Errf ''json: cannot unmarshal into Go struct field of type int'')
           | ANil \<Rightarrow> Inr g
           | _ \<Rightarrow> Inl (Errf ''json: cannot unmarshal into Go struct field of type int''))
        else if equal_fold k ''manufacturer'' then set_opt (\<lambda>s g. g\<lparr>gManufacturer := s\<rparr>) (json_string v) g
        else if equal_fold k ''model'' then set_opt (\<lambda>s g. g\<lparr>gModel := s\<rparr>) (json_string v) g
        else if equal_fold k ''unit'' then set_opt (\<lambda>s g. g\<lparr>gUnit := s\<rparr>) (json_string v) g
        else if equal_fold k ''memory'' then set_opt (\<lambda>s g. g\<lparr>gMemory := s\<rparr>) (json_string v) g
        else Inr g)"

definition decode_flavor_field :: "ComputeFlavor \<Rightarrow> string \<times> any \<Rightarrow> ComputeFlavor go" where
  "decode_flavor_field f kv =
     (case kv of (k, v) \<Rightarrow>
        if equal_fold k ''vcpus'' then set_opt (\<lambda>s f. f\<lparr>cfVCPUs := s\<rparr>) (json_string v) f
        else if equal_fold k ''ram'' then set_opt (\<lambda>s f. f\<lparr>cfRAM := s\<rparr>) (json_string v) f
        else if equal_fold k ''gpu'' then
          (case v of
             AMap m \<Rightarrow> bind_go (foldl_go decode_gpu_field (cfGPU f) m) (\<lambda>g. Inr (f\<lparr>cfGPU := g\<rparr>))
           | ANil \<Rightarrow> Inr f
           | _ \<Rightarrow> Inl (Errf ''json: cannot unmarshal into Go struct field of type GPU''))
        else Inr f)"

definition decode_flavor :: "any option \<Rightarrow> ComputeFlavor go" where
  "decode_flavor raw =
     (case raw of
        None \<Rightarrow> Inl (Errf ''invalid JSON'')
      | Some (AMap m) \<Rightarrow> foldl_go decode_flavor_field zeroComputeFlavor m
      | Some ANil \<Rightarrow> Inr zeroComputeFlavor
      | Some _ \<Rightarrow> Inl (Errf ''json: cannot unmarshal into Go value of type ComputeFlavor''))"

section \<open>Scanners\<close>

text \<open>\<open>[\d.]+\<close>: the first run of digits and dots, empty when there is none.\<close>

definition num_char :: "char \<Rightarrow> bool" where
  "num_char c \<longleftrightarrow> is_digit c \<or> c = CHR ''.''"

definition numberRe :: "string \<Rightarrow> string" where
  "numberRe s = takeWhile num_char (dropWhile (\<lambda>c. \<not> num_char c) s)"

text \<open>\<open>[+-]?\d*\.?\d+(?:[eE][+-]?\d+)?\<close> at one position, then its leftmost match.\<close>

definition exp_at :: "string \<Rightarrow> string" where
  "exp_at s =
     (case s of [] \<Rightarrow> []
      | e # r \<Rightarrow>
        if char_lower e = CHR ''e'' then
          (let sg = (case r of c # _ \<Rightarrow> if c = CHR ''-'' \<or> c = CHR ''+'' then [c] else [] | [] \<Rightarrow> []);
               ds = takeWhile is_digit (drop (length sg) r)
           in if ds = [] then [] else e # sg @ ds)
        else [])"

definition num_at :: "string \<Rightarrow> string option" where
  "num_at s =
     (let sg = (case s of c # _ \<Rightarrow> if c = CHR ''-'' \<or> c = CHR ''+'' then [c] else [] | [] \<Rightarrow> []);
          r = drop (length sg) s;
          ip = takeWhile is_digit r;
          r1 = dropWhile is_digit r;
          fp = (case r1 of c # r2 \<Rightarrow> if c = CHR ''.'' then takeWhile is_digit r2 else [] | [] \<Rightarrow> [])
      in if fp \<noteq> [] then Some (sg @ ip @ ''.'' @ fp @ exp_at (dropWhile is_digit (tl r1)))
         else if ip \<noteq> [] then Some (sg @ ip @ exp_at r1)
         else None)"

fun numRe :: "string \<Rightarrow> string option" where
  "numRe [] = None"
| "numRe (c # cs) = (case num_at (c # cs) of Some m \<Rightarrow> Some m | None \<Rightarrow> numRe cs)"

text \<open>The submatches of the memory pattern on a trimmed string: the number and the unit.\<close>

definition re_space :: "char \<Rightarrow> bool" where
  "re_space c \<longleftrightarrow> is_space c \<and> c \<noteq> CHR 0x0B"

definition mem_units :: "string list" where
  "mem_units = [''tb'', ''tib'', ''gb'', ''gib'', ''mb'', ''mib'', ''kb'', ''kib'', []]"

definition memRe :: "string \<Rightarrow> (string \<times> string) option" where
  "memRe s =
     (let r0 = dropWhile re_space s;
          ip = takeWhile is_digit r0;
          r1 = dropWhile is_digit r0;
          fp = (case r1 of c # r2 \<Rightarrow> if c = CHR ''.'' then takeWhile is_digit r2 else [] | [] \<Rightarrow> []);
          num = (if fp = [] then ip else ip @ ''.'' @ fp);
          r2 = (if fp = [] then r1 else dropWhile is_digit (tl r1));
          u = trim_right re_space (dropWhile re_space r2)
      in if ip \<noteq> [] \<and> to_lower u \<in> set mem_units then Some (num, u) else None)"

section \<open>Parsers\<close>

definition parse_number :: "string \<Rightarrow> f64 option" where
  "parse_number s =
     (if trim_space s = [] then None
      else (let m = numberRe s
            in if m \<noteq> [] then (case parse_float m of Inr v \<Rightarrow> Some v | Inl _ \<Rightarrow> None) else None))"

definition flavor_pattern :: "ComputeFlavor \<Rightarrow> FlavorPattern" where
  "flavor_pattern fs =
     (let p = zeroPattern;
          p = (case parse_number (cfVCPUs fs) of None \<Rightarrow> p\<lparr>fpCpuAny := True\<rparr> | Some v \<Rightarrow> p\<lparr>fpCpu := v\<rparr>);
          p = (case parse_number (cfRAM fs) of None \<Rightarrow> p\<lparr>fpRamAny := True\<rparr> | Some v \<Rightarrow> p\<lparr>fpRam := v\<rparr>);
          model = trim_space (gModel (cfGPU fs));
          p = (if model \<noteq> [] then p\<lparr>fpGpuModel := model\<rparr> else p);
          unit = gUnit (cfGPU fs);
          p = (if trim_space unit \<noteq> [] then
                 (let m = numberRe unit
                  in if m \<noteq> [] then (case atoi m of Inr v \<Rightarrow> p\<lparr>fpGpuCount := v\<rparr> | Inl _ \<Rightarrow> p) else p)
               else p);
          p = (case parse_number (gMemory (cfGPU fs)) of
                 None \<Rightarrow> p\<lparr>fpGpuMemAny := True\<rparr> | Some v \<Rightarrow> p\<lparr>fpGpuMem := v\<rparr>)
      in p)"

text \<open>The argument is \<open>None\<close> for a nil \<open>RawExtension\<close>, whose \<open>Raw\<close> cannot be read.\<close>

definition ParseFlavorFromJSON :: "any option option \<Rightarrow> FlavorPattern go" where
  "ParseFlavorFromJSON flavorJSON =
     (case flavorJSON of
        None \<Rightarrow> Inl (Panic ''nil pointer dereference'')
      | Some raw \<Rightarrow> bind_go (decode_flavor raw) (\<lambda>fs. Inr (flavor_pattern fs)))"

definition parseGPUCountString :: "string \<Rightarrow> int \<times> bool" where
  "parseGPUCountString s =
     (if trim_space s = [] then (0, False)
      else (let m = numberRe s
            in if m \<noteq> [] then (case atoi m of Inr v \<Rightarrow> (v, True) | Inl _ \<Rightarrow> (0, False)) else (0, False)))"

definition parseGPUMemoryString :: "string \<Rightarrow> f64 \<times> bool" where
  "parseGPUMemoryString s0 =
     (let s = trim_space s0
      in if s = [] then (Fin 0, False)
         else case memRe s of
             None \<Rightarrow> (Fin 0, False)
           | Some (m1, m2) \<Rightarrow>
               (case parse_float m1 of
                  Inl _ \<Rightarrow> (Fin 0, False)
                | Inr v \<Rightarrow>
                    (let unit = to_lower m2
                     in if unit \<in> {''tb'', ''tib''} then (f64_scale v 1024, True)
                        else if unit \<in> {''gb'', ''gib'', []} then (v, True)
                        else if unit \<in> {''mb'', ''mib''} then (f64_scale v (1 / 1024), True)
                        else if unit \<in> {''kb'', ''kib''} then (f64_scale v (1 / 1048576), True)
                        else (v, True))))"

definition parseMemory :: "string \<Rightarrow> f64 go" where
  "parseMemory s =
     (case numRe s of
        None \<Rightarrow> Inl (Errf ''no number found'')
      | Some m \<Rightarrow> parse_float m)"

section \<open>Matching an offering\<close>

text \<open>Each early return is a guard; the conditions are the source's, in its order.\<close>

definition offeringMatches :: "FlavorPattern \<Rightarrow> computeProfileService \<Rightarrow> bool" where
  "offeringMatches p off =
     (let availCPU = cpsCpu off; availRAM = cpsRam off;
          (offGPUCount, offGPUCountOk) = parseGPUCountString (cpsGpuCount off);
          (offGPUMemory, offGPUMemoryOk) = parseGPUMemoryString (cpsGpuMem off);
          offGPUModel = trim_space (cpsGpuModel off)
      in if \<not> fpCpuAny p \<and> fpCpu p > Fin 0 \<and> availCPU < fpCpu p then False
         else if \<not> fpCpuAny p \<and> fpCpu p > Fin 0 \<and> availCPU > f64_scale (fpCpu p) (f64_const 1.05) then False
         else if \<not> fpRamAny p \<and> fpRam p > Fin 0 \<and> availRAM < fpRam p then False
         else if \<not> fpRamAny p \<and> fpRam p > Fin 0 \<and> availRAM > f64_scale (fpRam p) (f64_const 1.25) then False
         else if fpGpuModel p \<noteq> [] \<and> offGPUModel \<noteq> [] \<and> \<not> equal_fold offGPUModel (fpGpuModel p) then False
         else if fpGpuModel p \<noteq> [] \<and> offGPUModel = [] then False
         else if fpGpuModel p = [] \<and> fpGpuCount p = 0 \<and> f64_eq (fpGpuMem p) (Fin 0) \<and> cpsGpuEnabled off then False
         else if fpGpuCount p > 0 \<and> \<not> cpsGpuEnabled off then False
         else if fpGpuCount p > 0 \<and> offGPUCountOk \<and> offGPUCount < fpGpuCount p then False
         else if \<not> fpGpuMemAny p \<and> fpGpuMem p > Fin 0 \<and> \<not> cpsGpuEnabled off then False
         else if \<not> fpGpuMemAny p \<and> fpGpuMem p > Fin 0 \<and> offGPUMemoryOk \<and> offGPUMemory < fpGpuMem p then False
         else if (fpGpuModel p \<noteq> [] \<or> fpGpuCount p > 0) \<and> \<not> cpsGpuEnabled off then False
         else True)"

text \<open>
  \<open>int(x)\<close>: towards zero. The language leaves the result open when the value does not fit;
  this is what the amd64 instruction gives.
\<close>

fun f64_to_int :: "f64 \<Rightarrow> int" where
  "f64_to_int (Fin x) =
     (let i = (if 0 \<le> x then \<lfloor>x\<rfloor> else - \<lfloor>- x\<rfloor>)
      in if - (2 ^ 63) \<le> i \<and> i < 2 ^ 63 then i else - (2 ^ 63))"
| "f64_to_int _ = - (2 ^ 63)"

definition OfferingMatches2 :: "FlavorPattern \<Rightarrow> InstanceOffering \<Rightarrow> bool \<times> string" where
  "OfferingMatches2 p off =
     (case atoi (replace_all (ioRAM off) ''GB'' []) of
        Inl _ \<Rightarrow> (False, ''parsing offering RAM'')
      | Inr availRAM \<Rightarrow>
        (let availCPU = ioVCPUs off; gpu = ioGPU off;
             (offGPUCount, offGPUCountOk) = parseGPUCountString (gUnit gpu);
             (offGPUMemory, offGPUMemoryOk) = parseGPUMemoryString (gMemory gpu);
             offGPUModel = trim_space (gModel gpu)
         in if \<not> fpCpuAny p \<and> fpCpu p > Fin 0 \<and> availCPU < f64_to_int (fpCpu p)
              then (False, ''offering CPU less than requested'')
            else if \<not> fpRamAny p \<and> fpRam p > Fin 0 \<and> availRAM < f64_to_int (fpRam p)
              then (False, ''offering RAM less than requested'')
            else if fpGpuModel p \<noteq> [] \<and> offGPUModel \<noteq> [] \<and> \<not> equal_fold offGPUModel (fpGpuModel p)
              then (False, ''offering GPU model does not match requested'')
            else if fpGpuModel p \<noteq> [] \<and> offGPUModel = []
              then (False, ''offering lacks GPU model information'')
            else if fpGpuCount p > 0 \<and> \<not> gEnabled gpu
              then (False, ''offering GPU not enabled'')
            else if fpGpuCount p > 0 \<and> offGPUCountOk \<and> offGPUCount < fpGpuCount p
              then (False, ''offering GPU count less than requested'')
            else if \<not> fpGpuMemAny p \<and> fpGpuMem p > Fin 0 \<and> \<not> gEnabled gpu
              then (False, ''offering GPU not enabled'')
            else if \<not> fpGpuMemAny p \<and> fpGpuMem p > Fin 0 \<and> offGPUMemoryOk \<and> offGPUMemory < fpGpuMem p
              then (False, ''offering GPU memory less than requested'')
            else if (fpGpuModel p \<noteq> [] \<or> fpGpuCount p > 0) \<and> \<not> gEnabled gpu
              then (False, ''offering GPU not enabled'')
            else (True, [])))"

section \<open>Placing deployments on flavors\<close>

definition zeroCPS :: computeProfileService where
  "zeroCPS = \<lparr>cpsName = [], cpsCpu = Fin 0, cpsRam = Fin 0, cpsUsedCPU = Fin 0, cpsUsedRAM = Fin 0,
     cpsGpuEnabled = False, cpsGpuModel = [], cpsGpuCount = [], cpsGpuMem = [],
     cpsGpuManufacturer = [], cpsDeployCost = Fin 0\<rparr>"

definition sortComputeResources :: "computeProfileService \<Rightarrow> computeProfileService \<Rightarrow> int" where
  "sortComputeResources i j =
     (if \<not> f64_eq (cpsCpu i) (cpsCpu j) then (if cpsCpu i < cpsCpu j then - 1 else 1)
      else if \<not> f64_eq (cpsRam i) (cpsRam j) then (if cpsRam i < cpsRam j then - 1 else 1)
      else 0)"

text \<open>\<open>xs[i]\<close>, which panics out of range.\<close>

definition index_go :: "'a list \<Rightarrow> nat \<Rightarrow> 'a go" where
  "index_go xs i = (if i < length xs then Inr (xs ! i) else Inl (Panic ''index out of range''))"

text \<open>
  The wrapped error is \<open>err1\<close> in both cases, and \<open>errors.Wrap(nil, ...)\<close> is nil: when only the
  RAM does not parse, the function returns neither flavors nor an error.
\<close>

fun flavors_loop :: "string gomap \<Rightarrow> computeProfileService list \<Rightarrow> computeProfileService list go" where
  "flavors_loop [] acc = Inr acc"
| "flavors_loop ((k, v) # rest) acc =
     (if \<not> contains k ''skyvm_flavor'' then flavors_loop rest acc
      else
        bind_go (index_go (split_on (CHR ''_'') k) 2) (\<lambda>flavor.
        bind_go (index_go (split_on (CHR ''-'') flavor) 0) (\<lambda>cpuString.
        bind_go (index_go (split_on (CHR ''-'') flavor) 1) (\<lambda>ramString.
          case atoi (replace_all cpuString ''vCPU'' []) of
            Inl e1 \<Rightarrow> Inl (wrap ''Error converting flavor to int in assigning deployments to nodes.'' e1)
          | Inr cpu \<Rightarrow>
              (case atoi (replace_all ramString ''GB'' []) of
                 Inl e2 \<Rightarrow> Inr []
               | Inr ram \<Rightarrow>
                   flavors_loop rest
                     (acc @ [zeroCPS\<lparr>cpsName := flavor, cpsCpu := f64_of_int cpu, cpsRam := f64_of_int ram\<rparr>]))))))"

definition computeResourcesForFlavors :: "string gomap \<Rightarrow> computeProfileService list go" where
  "computeResourcesForFlavors configData = flavors_loop configData []"

fun findSuitableComputeResource ::
  "computeProfileService \<Rightarrow> computeProfileService list \<Rightarrow> computeProfileService option \<times> bool" where
  "findSuitableComputeResource cm [] = (None, False)"
| "findSuitableComputeResource cm (cr # crs) =
     (if cpsCpu cr \<ge> cpsCpu cm \<and> cpsRam cr \<ge> cpsRam cm
      then (Some (zeroCPS\<lparr>cpsName := cpsName cr, cpsCpu := cpsCpu cr, cpsRam := cpsRam cr\<rparr>), True)
      else findSuitableComputeResource cm crs)"

fun attemptPlaceDeployment ::
  "computeProfileService \<Rightarrow> computeProfileService list \<Rightarrow> bool \<times> computeProfileService list" where
  "attemptPlaceDeployment dep [] = (False, [])"
| "attemptPlaceDeployment dep (node # nodes) =
     (if f64_sub (cpsCpu node) (cpsUsedCPU node) \<ge> cpsCpu dep \<and> f64_sub (cpsRam node) (cpsUsedRAM node) \<ge> cpsRam dep
      then (True, node\<lparr>cpsUsedCPU := f64_add (cpsUsedCPU node) (cpsCpu dep),
                       cpsUsedRAM := f64_add (cpsUsedRAM node) (cpsRam dep)\<rparr> # nodes)
      else (case attemptPlaceDeployment dep nodes of (ok, nodes') \<Rightarrow> (ok, node # nodes')))"

section \<open>The helpers of \<open>internal/controller/core/utils.go\<close>\<close>

fun unique_loop :: "string list \<Rightarrow> string list \<Rightarrow> string list go" where
  "unique_loop [] acc = Inr acc"
| "unique_loop (k # ks) acc =
     (if \<not> contains k ''skyvm_flavor'' then unique_loop ks acc
      else bind_go (index_go (split_on (CHR ''_'') k) 2) (\<lambda>flavorName.
        if flavorName \<in> set acc then unique_loop ks acc else unique_loop ks (acc @ [flavorName])))"

text \<open>The argument is the data map of each config map.\<close>

definition getUniqueFlavors :: "string gomap list \<Rightarrow> string list go" where
  "getUniqueFlavors allConfigMap = unique_loop (concat (map mkeys allConfigMap)) []"

fun compatible_loop :: "f64 \<Rightarrow> f64 \<Rightarrow> string list \<Rightarrow> string list \<Rightarrow> string list go" where
  "compatible_loop minCPU minRAM [] acc = Inr acc"
| "compatible_loop minCPU minRAM (skyFlavor # rest) acc =
     bind_go (index_go (split_on (CHR ''-'') skyFlavor) 0) (\<lambda>cpu.
     bind_go (index_go (split_on (CHR ''-'') skyFlavor) 1) (\<lambda>ram.
       case atoi (replace_all cpu ''vCPU'' []) of
         Inl err1 \<Rightarrow> Inl (wrap ''Error converting flavor spec to int.'' err1)
       | Inr cpu_int \<Rightarrow>
           (case atoi (replace_all ram ''GB'' []) of
              Inl err2 \<Rightarrow> Inr []
            | Inr ram_int \<Rightarrow>
                compatible_loop minCPU minRAM rest
                  (if f64_of_int cpu_int \<ge> minCPU \<and> f64_of_int ram_int \<ge> minRAM
                   then acc @ [skyFlavor @ ''|1''] else acc))))"

definition getCompatibleFlavors :: "f64 \<Rightarrow> f64 \<Rightarrow> string list \<Rightarrow> string list go" where
  "getCompatibleFlavors minCPU minRAM allFlavors = compatible_loop minCPU minRAM allFlavors []"

text \<open>
  The pattern with \<open>*\<close> as \<open>.*\<close> and \<open>?\<close> as \<open>.\<close>, every other byte itself, between anchors; a dot
  matches anything but a line feed.
\<close>

fun wild_match :: "string \<Rightarrow> string \<Rightarrow> bool" where
  "wild_match [] s = (s = [])"
| "wild_match (p # ps) [] = (p = CHR ''*'' \<and> wild_match ps [])"
| "wild_match (p # ps) (c # cs) =
     (if p = CHR ''*'' then wild_match ps (c # cs) \<or> (c \<noteq> CHR 0x0A \<and> wild_match (p # ps) cs)
      else if p = CHR ''?'' then c \<noteq> CHR 0x0A \<and> wild_match ps cs
      else c = p \<and> wild_match ps cs)"

definition wildcardComputeProfileMatch :: "string \<Rightarrow> string \<Rightarrow> bool" where
  "wildcardComputeProfileMatch pattern str = wild_match pattern str"

text \<open>\<open>^(\\d+|\\*)vCPU-(\\d+|\\*)GB(\\*|-(\\d+|\\*)x.+)?$\<close>: a count or a star in front, and what follows.\<close>

definition count_or_star :: "string \<Rightarrow> string option" where
  "count_or_star s =
     (if takeWhile is_digit s \<noteq> [] then Some (dropWhile is_digit s)
      else (case s of c # cs \<Rightarrow> if c = CHR ''*'' then Some cs else None | [] \<Rightarrow> None))"

definition strip_literal :: "string \<Rightarrow> string \<Rightarrow> string option" where
  "strip_literal p s = (if has_prefix s p then Some (drop (length p) s) else None)"

definition isValidComputeProfile :: "string \<Rightarrow> bool" where
  "isValidComputeProfile s =
     (case Option.bind (Option.bind (Option.bind (count_or_star s) (strip_literal ''vCPU-'')) count_or_star)
             (strip_literal ''GB'') of
        None \<Rightarrow> False
      | Some rest \<Rightarrow>
          rest = [] \<or> rest = ''*''
          \<or> (case Option.bind (Option.bind (strip_literal ''-'' rest) count_or_star) (strip_literal ''x'') of
                None \<Rightarrow> False
              | Some label \<Rightarrow> label \<noteq> [] \<and> list_all (\<lambda>c. c \<noteq> CHR 0x0A) label))"

section \<open>Lemmas on numbers\<close>

lemma take_digits: "list_all is_digit ds \<Longrightarrow> (r = [] \<or> \<not> is_digit (hd r)) \<Longrightarrow> takeWhile is_digit (ds @ r) = ds"
  by (induction ds) (auto simp: takeWhile_eq_Nil_iff)

lemma drop_digits: "list_all is_digit ds \<Longrightarrow> (r = [] \<or> \<not> is_digit (hd r)) \<Longrightarrow> dropWhile is_digit (ds @ r) = r"
  by (induction ds) (auto simp: dropWhile_eq_self_iff)

lemma digits_sign: "ds \<noteq> [] \<Longrightarrow> list_all is_digit ds \<Longrightarrow> strip_sign (ds @ r) = (False, ds @ r)"
  using not_digit_sign by (cases ds) (auto simp: strip_sign_def)

lemma digit_not_letter: "is_digit c \<Longrightarrow> char_lower c \<noteq> CHR ''i'' \<and> char_lower c \<noteq> CHR ''n''"
  by (auto simp: is_digit_def char_lower_def is_upper_def less_eq_char_def)

lemma round64_nat: "n < 2 ^ 53 \<Longrightarrow> round64 (of_nat n) = Fin (of_nat n)"
  using f64_of_int_exact [of "int n"] by (simp add: f64_of_int_def)

lemma nat_dec_scan:
  assumes "r = [] \<or> \<not> is_digit (hd r)"
  shows "takeWhile is_digit (nat_dec n @ r) = nat_dec n" and "dropWhile is_digit (nat_dec n @ r) = r"
  by (rule take_digits [OF nat_dec_digits assms], rule drop_digits [OF nat_dec_digits assms])

lemma nat_dec_scan0: "takeWhile is_digit (nat_dec n) = nat_dec n" "dropWhile is_digit (nat_dec n) = []"
  using nat_dec_digits [of n] by (auto simp: list_all_iff takeWhile_eq_all_conv)

lemma scan_decimal_nat: "scan_decimal (nat_dec n) = Some (of_nat n)"
  by (simp add: scan_decimal_def span_def scan_exp_def nat_dec_scan0 nat_dec_not_Nil dec_nat_nat_dec)

lemma parse_float_nat:
  assumes "n < 2 ^ 53"
  shows "parse_float (nat_dec n) = Inr (Fin (of_nat n))"
proof -
  obtain c cs where c: "nat_dec n = c # cs" using nat_dec_not_Nil by (cases "nat_dec n") auto
  then have "is_digit c" using nat_dec_hd [of n] by simp
  then have "to_lower (nat_dec n) \<notin> {''inf'', ''infinity''}" "to_lower (nat_dec n) \<noteq> ''nan''"
    using digit_not_letter [of c] c by (auto simp: to_lower_def)
  then show ?thesis
    using digits_sign [OF nat_dec_not_Nil nat_dec_digits, of n "[]"] assms
    by (simp add: parse_float_def scan_decimal_nat round64_nat)
qed

text \<open>What a unit behind a number may start with, for the scanners to stop at the number.\<close>

definition unit_start :: "string \<Rightarrow> bool" where
  "unit_start u \<longleftrightarrow> u = [] \<or> (\<not> num_char (hd u) \<and> char_lower (hd u) \<noteq> CHR ''e'')"

lemma num_at_nat:
  assumes "unit_start u"
  shows "num_at (nat_dec n @ u) = Some (nat_dec n)"
proof -
  obtain c cs where c: "nat_dec n = c # cs" using nat_dec_not_Nil by (cases "nat_dec n") auto
  then have "is_digit c" using nat_dec_hd [of n] by simp
  then have sg: "(case nat_dec n @ u of c # _ \<Rightarrow> if c = CHR ''-'' \<or> c = CHR ''+'' then [c] else [] | [] \<Rightarrow> []) = []"
    using not_digit_sign c by auto
  have u: "u = [] \<or> \<not> is_digit (hd u)"
    and f: "(case u of c # r2 \<Rightarrow> if c = CHR ''.'' then takeWhile is_digit r2 else [] | [] \<Rightarrow> []) = []"
    and x: "exp_at u = []"
    using assms by (cases u; auto simp: unit_start_def num_char_def exp_at_def)+
  show ?thesis
    by (simp add: num_at_def Let_def sg nat_dec_scan [OF u] f x nat_dec_not_Nil)
qed

lemma numRe_nat: "unit_start u \<Longrightarrow> numRe (nat_dec n @ u) = Some (nat_dec n)"
  using num_at_nat [of u n] nat_dec_not_Nil [of n] by (cases "nat_dec n") auto

lemma parseMemory_nat: "n < 2 ^ 53 \<Longrightarrow> unit_start u \<Longrightarrow> parseMemory (nat_dec n @ u) = Inr (Fin (of_nat n))"
  by (simp add: parseMemory_def numRe_nat parse_float_nat)

text \<open>A trimmed number with one of the units of the memory pattern.\<close>

lemma digit_not_space: "is_digit c \<Longrightarrow> \<not> is_space c"
  by (auto simp: is_digit_def is_space_def less_eq_char_def)

lemma trim_space_id:
  assumes "s \<noteq> []" and "\<not> is_space (hd s)" and "\<not> is_space (last s)"
  shows "trim_space s = s"
proof -
  have "trim_left is_space s = s" using assms by (cases s) (auto simp: trim_left_def)
  moreover have "trim_right is_space s = s"
    using assms by (cases s rule: rev_cases) (auto simp: trim_right_def)
  ultimately show ?thesis by (simp add: trim_space_def)
qed

lemma memRe_nat:
  assumes "u = [] \<or> (\<not> num_char (hd u) \<and> \<not> re_space (hd u) \<and> \<not> re_space (last u))"
    and "to_lower u \<in> set mem_units"
  shows "memRe (nat_dec n @ u) = Some (nat_dec n, u)"
proof -
  obtain c cs where c: "nat_dec n = c # cs" using nat_dec_not_Nil by (cases "nat_dec n") auto
  have "\<not> re_space c" using nat_dec_hd [of n] digit_not_space c by (simp add: re_space_def)
  then have r0: "dropWhile re_space (nat_dec n @ u) = nat_dec n @ u" using c by simp
  have u: "u = [] \<or> \<not> is_digit (hd u)"
    and f: "(case u of c # r2 \<Rightarrow> if c = CHR ''.'' then takeWhile is_digit r2 else [] | [] \<Rightarrow> []) = []"
    using assms(1) by (cases u; auto simp: num_char_def)+
  have "dropWhile re_space u = u" using assms(1) by (cases u) auto
  moreover have "trim_right re_space u = u"
    using assms(1) by (cases u rule: rev_cases) (auto simp: trim_right_def)
  ultimately have u': "trim_right re_space (dropWhile re_space u) = u" by simp
  show ?thesis
    by (simp only: memRe_def Let_def r0 nat_dec_scan [OF u] f u') (simp add: nat_dec_not_Nil assms(2) u')
qed

lemma trim_number_unit:
  assumes "u = [] \<or> \<not> is_space (last u)"
  shows "trim_space (nat_dec n @ u) = nat_dec n @ u"
proof (rule trim_space_id)
  show "nat_dec n @ u \<noteq> []" by (simp add: nat_dec_not_Nil)
  show "\<not> is_space (hd (nat_dec n @ u))" using nat_dec_hd [of n] by (simp add: nat_dec_not_Nil digit_not_space)
  have "is_digit (last (nat_dec n))"
    using nat_dec_digits [of n] nat_dec_not_Nil [of n] by (cases "nat_dec n" rule: rev_cases) auto
  then show "\<not> is_space (last (nat_dec n @ u))" using assms by (cases "u = []") (auto simp: digit_not_space)
qed

lemma parseGPUMemoryString_nat:
  assumes "u = [] \<or> (\<not> num_char (hd u) \<and> \<not> is_space (hd u) \<and> \<not> is_space (last u))"
    and "to_lower u \<in> set mem_units" and "n < 2 ^ 53"
  shows "parseGPUMemoryString (nat_dec n @ u) =
    (if to_lower u \<in> {''tb'', ''tib''} then (f64_scale (Fin (of_nat n)) 1024, True)
     else if to_lower u \<in> {''gb'', ''gib'', []} then (Fin (of_nat n), True)
     else if to_lower u \<in> {''mb'', ''mib''} then (f64_scale (Fin (of_nat n)) (1 / 1024), True)
     else (f64_scale (Fin (of_nat n)) (1 / 1048576), True))"
proof -
  have "memRe (nat_dec n @ u) = Some (nat_dec n, u)"
    using assms(1,2) by (intro memRe_nat) (auto simp: re_space_def)
  moreover have "trim_space (nat_dec n @ u) = nat_dec n @ u" using assms(1) by (intro trim_number_unit) auto
  ultimately show ?thesis
    using assms(2) parse_float_nat [OF assms(3)]
    by (auto simp: parseGPUMemoryString_def Let_def nat_dec_not_Nil mem_units_def)
qed

lemma unit_letters:
  "\<not> num_char (CHR ''G'')" "\<not> num_char (CHR ''T'')" "\<not> num_char (CHR ''M'')"
  "\<not> is_space (CHR ''G'')" "\<not> is_space (CHR ''T'')" "\<not> is_space (CHR ''M'')" "\<not> is_space (CHR ''B'')"
  "to_lower ''GB'' = ''gb''" "to_lower ''TiB'' = ''tib''" "to_lower ''MB'' = ''mb''"
  by code_simp+

lemma memory_units:
  assumes "n < 2 ^ 43"
  shows "parseGPUMemoryString (nat_dec n @ ''GB'') = (Fin (of_nat n), True)"
    and "parseGPUMemoryString (nat_dec n @ ''TiB'') = (Fin (of_nat (1024 * n)), True)"
    and "parseGPUMemoryString (nat_dec (1024 * n) @ ''MB'') = (Fin (of_nat n), True)"
proof -
  have e: "round64 (of_nat n * 1024) = Fin (of_nat n * 1024)"
    using round64_nat [of "1024 * n"] assms by (simp add: mult.commute)
  show "parseGPUMemoryString (nat_dec n @ ''GB'') = (Fin (of_nat n), True)"
    using assms by (subst parseGPUMemoryString_nat) (simp_all add: unit_letters mem_units_def)
  show "parseGPUMemoryString (nat_dec n @ ''TiB'') = (Fin (of_nat (1024 * n)), True)"
    using assms e by (subst parseGPUMemoryString_nat) (simp_all add: unit_letters mem_units_def mult.commute)
  show "parseGPUMemoryString (nat_dec (1024 * n) @ ''MB'') = (Fin (of_nat n), True)"
    using assms by (subst parseGPUMemoryString_nat) (simp_all add: unit_letters mem_units_def round64_nat)
qed

section \<open>Lemmas on flavors\<close>

lemma f64_add_int: "\<bar>a + b\<bar> < 2 ^ 53 \<Longrightarrow> f64_add (Fin (of_int a)) (Fin (of_int b)) = Fin (of_int (a + b))"
  using f64_of_int_exact [of "a + b"] by (simp add: f64_of_int_def)

lemma f64_sub_int: "\<bar>a - b\<bar> < 2 ^ 53 \<Longrightarrow> f64_sub (Fin (of_int a)) (Fin (of_int b)) = Fin (of_int (a - b))"
  using f64_add_int [of a "- b"] by (simp add: f64_sub_def)

lemma offeringMatches_cpu:
  "offeringMatches p off \<Longrightarrow> \<not> fpCpuAny p \<Longrightarrow> fpCpu p > Fin 0 \<Longrightarrow>
    \<not> cpsCpu off < fpCpu p \<and> \<not> cpsCpu off > f64_scale (fpCpu p) (f64_const 1.05)"
  by (simp add: offeringMatches_def Let_def split: if_splits prod.splits)

lemma offeringMatches_ram:
  "offeringMatches p off \<Longrightarrow> \<not> fpRamAny p \<Longrightarrow> fpRam p > Fin 0 \<Longrightarrow>
    \<not> cpsRam off < fpRam p \<and> \<not> cpsRam off > f64_scale (fpRam p) (f64_const 1.25)"
  by (simp add: offeringMatches_def Let_def split: if_splits prod.splits)

lemma offeringMatches_gpu:
  "offeringMatches p off \<Longrightarrow> fpGpuModel p = [] \<Longrightarrow> fpGpuCount p = 0 \<Longrightarrow> fpGpuMem p = Fin 0 \<Longrightarrow>
    \<not> cpsGpuEnabled off"
  by (simp add: offeringMatches_def Let_def f64_eq_def split: if_splits prod.splits)

text \<open>A product with a constant of the source, as the two roundings leave it.\<close>

lemma round64_bounds:
  assumes "1 \<le> x" and "x < 2 ^ 1023"
  obtains y where "round64 x = Fin y" "x * (1 - 1 / 2 ^ 53) \<le> y" "y \<le> x * (1 + 1 / 2 ^ 53)"
proof -
  obtain y where "round64 x = Fin y" "\<bar>y - x\<bar> \<le> x / 2 ^ 53" using round64_error [OF assms] by auto
  with that [of y] show ?thesis by (simp only: abs_le_iff) (simp add: algebra_simps)
qed

lemma f64_scale_const:
  assumes "1 \<le> n" and "n \<le> 2 ^ 60" and "101 / 100 \<le> q" and "q \<le> 2"
  obtains z where "f64_scale (Fin n) (f64_const q) = Fin z"
    "n * q * (1 - 1 / 2 ^ 51) \<le> z" "z \<le> n * q * (1 + 1 / 2 ^ 51)"
proof -
  define d :: rat where "d = 1 / 2 ^ 53"
  have d: "0 < d" "d < 1" "(1 + d) * (1 + d) \<le> 1 + 1 / 2 ^ 51" "1 - 1 / 2 ^ 51 \<le> (1 - d) * (1 - d)"
    by (simp_all add: d_def)
  have q2: "q < 2 ^ 1023" using assms(4) by (rule le_less_trans) simp
  have q1: "1 \<le> q" using assms(3) by (rule order.trans [rotated]) simp
  obtain c where c: "round64 q = Fin c" "q * (1 - d) \<le> c" "c \<le> q * (1 + d)"
    using round64_bounds [OF q1 q2] unfolding d_def by blast
  have n0: "0 \<le> n" and x0: "0 \<le> n * q" using assms by simp_all
  have nc: "n * q * (1 - d) \<le> n * c" "n * c \<le> n * q * (1 + d)"
    using mult_left_mono [OF c(2) n0] mult_left_mono [OF c(3) n0] by (simp_all only: mult.assoc)
  have "101 / 100 * (1 - d) \<le> q * (1 - d)" using assms(3) d(2) by (intro mult_right_mono) auto
  moreover have "1 \<le> 101 / 100 * (1 - d)" by (simp add: d_def)
  ultimately have c1: "1 \<le> c" using c(2) by linarith
  have "1 * 1 \<le> n * c" using assms(1) c1 n0 by (intro mult_mono) auto
  then have m: "1 \<le> n * c" by simp
  have "n * q \<le> 2 ^ 60 * 2" using assms by (intro mult_mono) auto
  moreover have "n * q * (1 + d) \<le> n * q * 2" using x0 d by (intro mult_left_mono) auto
  ultimately have "n * c \<le> 2 ^ 62" using nc(2) by simp
  moreover have "(2::rat) ^ 62 < 2 ^ 1023" by simp
  ultimately have M: "n * c < 2 ^ 1023" by (rule le_less_trans)
  obtain z where z: "round64 (n * c) = Fin z" "n * c * (1 - d) \<le> z" "z \<le> n * c * (1 + d)"
    using round64_bounds [OF m M] unfolding d_def by blast
  have "n * q * (1 - 1 / 2 ^ 51) \<le> n * q * ((1 - d) * (1 - d))" using x0 d(4) by (rule mult_left_mono [rotated])
  also have "\<dots> \<le> n * c * (1 - d)" using mult_right_mono [OF nc(1), of "1 - d"] d(2) by (simp add: mult.assoc)
  finally have lo: "n * q * (1 - 1 / 2 ^ 51) \<le> z" using z(2) by linarith
  have "n * c * (1 + d) \<le> n * q * ((1 + d) * (1 + d))" using mult_right_mono [OF nc(2), of "1 + d"] d(1) by (simp add: mult.assoc)
  also have "\<dots> \<le> n * q * (1 + 1 / 2 ^ 51)" using x0 d(3) by (rule mult_left_mono [rotated])
  finally have hi: "z \<le> n * q * (1 + 1 / 2 ^ 51)" using z(3) by linarith
  have "f64_scale (Fin n) (f64_const q) = Fin z" using z(1) c(1) by (simp add: f64_const_def)
  then show ?thesis using lo hi by (rule that)
qed

text \<open>Below 20 CPUs the tolerance of 5 percent does not reach the next whole number.\<close>

lemma tolerance_20:
  assumes "1 \<le> n" and "n < 20"
  shows "f64_scale (Fin (of_nat n)) (f64_const 1.05) < Fin (of_nat n + 1)"
    and "Fin (of_nat n) \<le> f64_scale (Fin (of_nat n)) (f64_const 1.05)"
proof -
  have n: "(1::rat) \<le> of_nat n" "(of_nat n :: rat) \<le> 19" using assms by auto
  have "(19::rat) \<le> 2 ^ 60" by simp
  with n(2) have N: "(of_nat n :: rat) \<le> 2 ^ 60" by (rule order.trans)
  obtain z where z: "f64_scale (Fin (of_nat n)) (f64_const 1.05) = Fin z"
    "of_nat n * 1.05 * (1 - 1 / 2 ^ 51) \<le> z" "z \<le> of_nat n * 1.05 * (1 + 1 / 2 ^ 51)"
    using f64_scale_const [OF n(1) N, of "1.05"] by auto
  show "f64_scale (Fin (of_nat n)) (f64_const 1.05) < Fin (of_nat n + 1)"
    unfolding z(1) using z(3) n by simp
  show "Fin (of_nat n) \<le> f64_scale (Fin (of_nat n)) (f64_const 1.05)"
    unfolding z(1) using z(2) n by simp
qed

lemma tolerance_ram:
  assumes "1 \<le> n" and "n \<le> 2 ^ 60"
  shows "Fin (of_nat n) \<le> f64_scale (Fin (of_nat n)) (f64_const 1.25)"
proof -
  have n: "(1::rat) \<le> of_nat n" using assms by simp
  have "(of_nat n :: rat) \<le> of_nat (2 ^ 60)" using assms(2) by (simp only: of_nat_le_iff)
  then have N: "(of_nat n :: rat) \<le> 2 ^ 60" by simp
  obtain z where z: "f64_scale (Fin (of_nat n)) (f64_const 1.25) = Fin z" "of_nat n * 1.25 * (1 - 1 / 2 ^ 51) \<le> z"
    using f64_scale_const [OF n N, of "1.25"] by auto
  show ?thesis unfolding z(1) using z(2) n by simp
qed

lemma numberRe_nat:
  assumes "u = [] \<or> \<not> num_char (hd u)"
  shows "numberRe (nat_dec n @ u) = nat_dec n"
proof -
  have d: "\<forall>c\<in>set (nat_dec n). num_char c"
    using nat_dec_digits [of n] by (auto simp: list_all_iff num_char_def)
  then have "dropWhile (\<lambda>c. \<not> num_char c) (nat_dec n @ u) = nat_dec n @ u"
    using nat_dec_not_Nil [of n] by (cases "nat_dec n") auto
  moreover have "takeWhile num_char u = []" using assms by (cases u) auto
  ultimately show ?thesis using d by (simp add: numberRe_def)
qed

lemma parse_number_nat:
  assumes "u = [] \<or> (\<not> num_char (hd u) \<and> \<not> is_space (last u))" and "n < 2 ^ 53"
  shows "parse_number (nat_dec n @ u) = Some (Fin (of_nat n))"
proof -
  have "trim_space (nat_dec n @ u) \<noteq> []"
    using assms(1) trim_number_unit [of u n] nat_dec_not_Nil [of n] by auto
  moreover have "numberRe (nat_dec n @ u) = nat_dec n" using assms(1) by (intro numberRe_nat) auto
  ultimately show ?thesis
    using parse_float_nat [OF assms(2)] nat_dec_not_Nil [of n] by (simp add: parse_number_def)
qed

text \<open>Removing a unit at the end of digits.\<close>

lemma replace_skip: "old \<noteq> [] \<Longrightarrow> hd old \<notin> set s \<Longrightarrow>
  replace_go 0 old new (s @ r) = s @ replace_go 0 old new r"
proof (induction s)
  case (Cons c s)
  then have "\<not> has_prefix (c # s @ r) old" by (cases old) auto
  with Cons show ?case by simp
qed simp

lemma replace_go_drop: "k \<le> length s \<Longrightarrow> replace_go k old new s = replace_go 0 old new (drop k s)"
proof (induction k arbitrary: s)
  case (Suc k)
  then show ?case by (cases s) auto
qed simp

lemma has_prefix_append: "has_prefix (p @ s) p"
  by (induction p) auto

lemma replace_suffix:
  assumes "old \<noteq> []" and "hd old \<notin> set s"
  shows "replace_all (s @ old) old new = s @ new"
proof -
  obtain o1 os where o: "old = o1 # os" using assms(1) by (cases old) auto
  have "replace_go 0 old new old = new"
    using has_prefix_append [of old "[]"] replace_go_drop [of "length os" os old new] by (simp add: o)
  with replace_skip [OF assms, of new old] show ?thesis by (simp add: replace_all_def)
qed

lemma nat_dec_set: "c \<in> set (nat_dec n) \<Longrightarrow> is_digit c"
  using nat_dec_digits [of n] by (auto simp: list_all_iff)

lemma atoi_nat_dec: "n < 2 ^ 63 \<Longrightarrow> atoi (nat_dec n) = Inr (int n)"
  using atoi_itoa [of "int n"] by (simp add: itoa_def)

text \<open>The name of a flavor in a config map.\<close>

definition flavor_key :: "nat \<Rightarrow> nat \<Rightarrow> string" where
  "flavor_key cpu ram = ''skyvm_flavor_'' @ nat_dec cpu @ ''vCPU-'' @ nat_dec ram @ ''GB''"

lemma has_prefix_contains: "has_prefix s p \<Longrightarrow> contains s p"
  by (cases s) (auto elim: has_prefix.elims)

lemma flavor_key_contains: "contains (flavor_key c r) ''skyvm_flavor''"
  by (rule has_prefix_contains) (simp add: flavor_key_def)

lemma digit_neq: "is_digit c \<Longrightarrow> c \<noteq> CHR ''_'' \<and> c \<noteq> CHR ''-'' \<and> c \<noteq> CHR ''v'' \<and> c \<noteq> CHR ''G''"
  by (auto simp: is_digit_def less_eq_char_def)

lemma flavor_key_split:
  "split_on (CHR ''_'') (flavor_key c r) = [''skyvm'', ''flavor'', nat_dec c @ ''vCPU-'' @ nat_dec r @ ''GB'']"
proof -
  have "CHR ''_'' \<notin> set (nat_dec c @ ''vCPU-'' @ nat_dec r @ ''GB'')"
    using nat_dec_set digit_neq by fastforce
  then show ?thesis by (simp add: flavor_key_def split_on_plain)
qed

lemma flavor_split:
  "split_on (CHR ''-'') (nat_dec c @ ''vCPU-'' @ nat_dec r @ ''GB'') = [nat_dec c @ ''vCPU'', nat_dec r @ ''GB'']"
proof -
  have "CHR ''-'' \<notin> set (nat_dec c @ ''vCPU'')" "CHR ''-'' \<notin> set (nat_dec r @ ''GB'')"
    using nat_dec_set digit_neq by fastforce+
  from split_on_append [OF this(1), of "nat_dec r @ ''GB''"] split_on_plain [OF this(2)] show ?thesis by simp
qed

lemma flavor_units:
  "replace_all (nat_dec c @ ''vCPU'') ''vCPU'' [] = nat_dec c"
  "replace_all (nat_dec r @ ''GB'') ''GB'' [] = nat_dec r"
  using replace_suffix [of "''vCPU''" "nat_dec c" "[]"] replace_suffix [of "''GB''" "nat_dec r" "[]"]
    nat_dec_set digit_neq by fastforce+

lemma flavors_loop_keys:
  "\<forall>(c, r)\<in>set cs. c < 2 ^ 53 \<and> r < 2 ^ 53 \<Longrightarrow>
   flavors_loop (map (\<lambda>(c, r). (flavor_key c r, v c r)) cs) acc =
     Inr (acc @ map (\<lambda>(c, r). zeroCPS\<lparr>cpsName := nat_dec c @ ''vCPU-'' @ nat_dec r @ ''GB'',
       cpsCpu := Fin (of_nat c), cpsRam := Fin (of_nat r)\<rparr>) cs)"
proof (induction cs arbitrary: acc)
  case (Cons cr cs)
  obtain c r where cr: "cr = (c, r)" by force
  have "c < 2 ^ 63" "r < 2 ^ 63" using Cons.prems cr by auto
  moreover have "f64_of_int (int c) = Fin (of_nat c)" "f64_of_int (int r) = Fin (of_nat r)"
    using Cons.prems cr by (auto simp: f64_of_int_exact)
  ultimately show ?case
    using Cons
    by (simp add: cr flavor_key_contains flavor_key_split flavor_split flavor_units index_go_def atoi_nat_dec
        del: append.simps)
qed simp

text \<open>Nodes with whole capacities of at most 2^52 that are not overcommitted.\<close>

definition whole :: "f64 \<Rightarrow> bool" where
  "whole x \<longleftrightarrow> (\<exists>i. x = Fin (of_int i) \<and> 0 \<le> i \<and> i \<le> 2 ^ 52)"

definition fits_in :: "f64 \<Rightarrow> f64 \<Rightarrow> bool" where
  "fits_in used cap \<longleftrightarrow> whole used \<and> whole cap \<and> used \<le> cap"

definition node_ok :: "computeProfileService \<Rightarrow> bool" where
  "node_ok n \<longleftrightarrow> fits_in (cpsUsedCPU n) (cpsCpu n) \<and> fits_in (cpsUsedRAM n) (cpsRam n)"

lemma fits_in_add:
  assumes "fits_in used cap" and "whole d" and "f64_sub cap used \<ge> d"
  shows "fits_in (f64_add used d) cap"
proof -
  obtain u c i where e: "used = Fin (of_int u)" "cap = Fin (of_int c)" "d = Fin (of_int i)"
      "0 \<le> u" "u \<le> 2 ^ 52" "0 \<le> c" "c \<le> 2 ^ 52" "0 \<le> i" "i \<le> 2 ^ 52"
    using assms(1,2) by (auto simp: fits_in_def whole_def)
  have "f64_sub cap used = Fin (of_int (c - u))" unfolding e(1,2) by (rule f64_sub_int) (use e in \<open>simp add: abs_less_iff\<close>)
  with assms(3) e(3) have "(of_int i :: rat) \<le> of_int (c - u)" by simp
  then have i: "i \<le> c - u" by (simp only: of_int_le_iff)
  have "f64_add used d = Fin (of_int (u + i))" unfolding e(1,3) by (rule f64_add_int) (use e i in simp)
  moreover have "whole (Fin (of_int (u + i)))" unfolding whole_def using e i by (intro exI [of _ "u + i"]) auto
  moreover have "(of_int (u + i) :: rat) \<le> of_int c" using i by (simp only: of_int_le_iff)
  ultimately show ?thesis using assms(1) by (simp add: fits_in_def e(2))
qed

lemma attemptPlaceDeployment_ok:
  "attemptPlaceDeployment dep nodes = (ok, nodes') \<Longrightarrow> list_all node_ok nodes \<Longrightarrow>
    whole (cpsCpu dep) \<Longrightarrow> whole (cpsRam dep) \<Longrightarrow> list_all node_ok nodes'"
proof (induction dep nodes arbitrary: ok nodes' rule: attemptPlaceDeployment.induct)
  case (2 dep node nodes)
  show ?case
  proof (cases "f64_sub (cpsCpu node) (cpsUsedCPU node) \<ge> cpsCpu dep \<and> f64_sub (cpsRam node) (cpsUsedRAM node) \<ge> cpsRam dep")
    case True
    with "2.prems" show ?thesis by (auto simp: node_ok_def intro: fits_in_add)
  next
    case False
    with 2 show ?thesis by (auto split: prod.splits)
  qed
qed simp

lemma attemptPlaceDeployment_frame:
  "attemptPlaceDeployment dep nodes = (ok, nodes') \<Longrightarrow>
     (if ok then \<exists>a n b. nodes = a @ n # b
        \<and> f64_sub (cpsCpu n) (cpsUsedCPU n) \<ge> cpsCpu dep \<and> f64_sub (cpsRam n) (cpsUsedRAM n) \<ge> cpsRam dep
        \<and> nodes' = a @ n\<lparr>cpsUsedCPU := f64_add (cpsUsedCPU n) (cpsCpu dep),
                          cpsUsedRAM := f64_add (cpsUsedRAM n) (cpsRam dep)\<rparr> # b
      else nodes' = nodes \<and> (\<forall>n\<in>set nodes. \<not> (f64_sub (cpsCpu n) (cpsUsedCPU n) \<ge> cpsCpu dep
        \<and> f64_sub (cpsRam n) (cpsUsedRAM n) \<ge> cpsRam dep)))"
proof (induction dep nodes arbitrary: ok nodes' rule: attemptPlaceDeployment.induct)
  case (2 dep node nodes)
  show ?case
  proof (cases "f64_sub (cpsCpu node) (cpsUsedCPU node) \<ge> cpsCpu dep \<and> f64_sub (cpsRam node) (cpsUsedRAM node) \<ge> cpsRam dep")
    case True
    with "2.prems" show ?thesis by (auto intro!: exI [of _ "[]"])
  next
    case False
    obtain ok1 ns1 where r: "attemptPlaceDeployment dep nodes = (ok1, ns1)" by force
    with False "2.prems" have eq: "ok = ok1" "nodes' = node # ns1" by auto
    note IH = "2.IH" [OF False r]
    show ?thesis
    proof (cases ok1)
      case True
      with IH obtain a n b where n: "nodes = a @ n # b"
        "f64_sub (cpsCpu n) (cpsUsedCPU n) \<ge> cpsCpu dep" "f64_sub (cpsRam n) (cpsUsedRAM n) \<ge> cpsRam dep"
        "ns1 = a @ n\<lparr>cpsUsedCPU := f64_add (cpsUsedCPU n) (cpsCpu dep),
                     cpsUsedRAM := f64_add (cpsUsedRAM n) (cpsRam dep)\<rparr> # b" by auto
      have "\<exists>a' n' b'. node # nodes = a' @ n' # b'
        \<and> f64_sub (cpsCpu n') (cpsUsedCPU n') \<ge> cpsCpu dep \<and> f64_sub (cpsRam n') (cpsUsedRAM n') \<ge> cpsRam dep
        \<and> node # ns1 = a' @ n'\<lparr>cpsUsedCPU := f64_add (cpsUsedCPU n') (cpsCpu dep),
                          cpsUsedRAM := f64_add (cpsUsedRAM n') (cpsRam dep)\<rparr> # b'"
        by (rule exI [of _ "node # a"], rule exI [of _ n], rule exI [of _ b]) (simp add: n)
      with True show ?thesis by (simp add: eq)
    next
      case not_ok: False
      with IH False show ?thesis by (auto simp: eq)
    qed
  qed
qed simp

lemma wild_match_append:
  "wild_match (p @ q) s \<longleftrightarrow> (\<exists>a b. s = a @ b \<and> wild_match p a \<and> wild_match q b)"
proof (induction p s rule: wild_match.induct)
  case (1 s)
  show ?case by auto
next
  case (2 p ps)
  then show ?case by auto
next
  case (3 p ps c cs)
  show ?case
  proof (cases "p = CHR ''*''")
    case True
    show ?thesis
    proof
      assume "wild_match ((p # ps) @ q) (c # cs)"
      then have "wild_match (ps @ q) (c # cs) \<or> (c \<noteq> CHR 0x0A \<and> wild_match ((p # ps) @ q) cs)"
        using True by simp
      then show "\<exists>a b. c # cs = a @ b \<and> wild_match (p # ps) a \<and> wild_match q b"
      proof
        assume "wild_match (ps @ q) (c # cs)"
        then obtain a b where ab: "c # cs = a @ b" "wild_match ps a" "wild_match q b" using 3(1) True by blast
        then have "wild_match (p # ps) a" using True by (cases a) auto
        with ab show ?thesis by blast
      next
        assume "c \<noteq> CHR 0x0A \<and> wild_match ((p # ps) @ q) cs"
        then obtain a b where ab: "cs = a @ b" "wild_match (p # ps) a" "wild_match q b" "c \<noteq> CHR 0x0A"
          using 3(2) True by blast
        then have "wild_match (p # ps) (c # a)" using True by simp
        with ab show ?thesis by (metis append_Cons)
      qed
    next
      assume "\<exists>a b. c # cs = a @ b \<and> wild_match (p # ps) a \<and> wild_match q b"
      then obtain a b where ab: "c # cs = a @ b" "wild_match (p # ps) a" "wild_match q b" by blast
      show "wild_match ((p # ps) @ q) (c # cs)"
      proof (cases a)
        case Nil
        then have "wild_match ps []" "wild_match q (c # cs)" using ab True by auto
        then have "wild_match (ps @ q) (c # cs)" using 3(1) [OF True] by (metis append_Nil)
        then show ?thesis using True by simp
      next
        case (Cons d a')
        then have "d = c" "cs = a' @ b" using ab(1) by auto
        from ab(2) Cons \<open>d = c\<close> True have "wild_match ps (c # a') \<or> (c \<noteq> CHR 0x0A \<and> wild_match (p # ps) a')"
          by simp
        then have "wild_match (ps @ q) (c # cs) \<or> (c \<noteq> CHR 0x0A \<and> wild_match ((p # ps) @ q) cs)"
        proof (elim disj_forward conj_forward)
          assume "wild_match ps (c # a')"
          moreover have "c # cs = (c # a') @ b" using \<open>cs = a' @ b\<close> by simp
          ultimately show "wild_match (ps @ q) (c # cs)" using 3(1) [OF True] ab(3) by blast
        next
          assume "wild_match (p # ps) a'"
          then show "wild_match ((p # ps) @ q) cs" using 3(2) [OF True] ab(3) \<open>cs = a' @ b\<close> by blast
        qed
        then show ?thesis using True by simp
      qed
    qed
  next
    case False
    have R: "(\<exists>a b. c # cs = a @ b \<and> wild_match (p # ps) a \<and> wild_match q b) \<longleftrightarrow>
        (\<exists>a b. cs = a @ b \<and> wild_match (p # ps) (c # a) \<and> wild_match q b)" (is "?l = ?r")
    proof
      assume ?l
      then obtain a b where ab: "c # cs = a @ b" "wild_match (p # ps) a" "wild_match q b" by blast
      from ab(2) False obtain a' where "a = c # a'" using ab(1) by (cases a) auto
      with ab show ?r by (intro exI [of _ a'] exI [of _ b]) simp
    next
      assume ?r
      then show ?l by (metis append_Cons)
    qed
    show ?thesis unfolding R using 3(3,4) False by (cases "p = CHR ''?''") auto
  qed
qed

lemma wild_match_plain:
  "\<forall>c\<in>set p. c \<noteq> CHR ''*'' \<and> c \<noteq> CHR ''?'' \<Longrightarrow> wild_match p s \<longleftrightarrow> s = p"
  by (induction p s rule: wild_match.induct) auto

lemma wild_match_star: "wild_match ''*'' s \<longleftrightarrow> CHR 0x0A \<notin> set s"
  by (induction s) auto

lemma wild_match_question: "wild_match ''?'' s \<longleftrightarrow> (\<exists>c. s = [c] \<and> c \<noteq> CHR 0x0A)"
  by (cases s) auto

section \<open>Properties\<close>

text \<open>The JSON of a plain request.\<close>

lemma parsed_request:
  assumes "n < 2 ^ 53" and "m < 2 ^ 53"
  shows "ParseFlavorFromJSON (Some (Some (AMap [(''vcpus'', AStr (nat_dec n)), (''ram'', AStr (nat_dec m @ ''GB''))])))
    = Inr (zeroPattern\<lparr>fpCpu := Fin (of_nat n), fpRam := Fin (of_nat m), fpGpuMemAny := True\<rparr>)"
proof -
  have f: "equal_fold ''vcpus'' ''vcpus''" "\<not> equal_fold ''ram'' ''vcpus''" "equal_fold ''ram'' ''ram''"
    by code_simp+
  have c: "parse_number (nat_dec n) = Some (Fin (of_nat n))"
    using parse_number_nat [of "[]" n] assms(1) by simp
  have r: "parse_number (nat_dec m @ ''GB'') = Some (Fin (of_nat m))"
    using assms(2) by (intro parse_number_nat) (simp_all add: unit_letters)
  have g: "parse_number [] = None" "trim_space [] = []" by code_simp+
  show ?thesis
    by (simp add: ParseFlavorFromJSON_def decode_flavor_def decode_flavor_field_def f json_string_def set_opt_def
        flavor_pattern_def c r g zeroComputeFlavor_def zeroGPU_def zeroPattern_def)
qed



text \<open>GPU memory sizes are read in GB: a number of GB as it is, of TiB times 1024, and 1024 times
  a number of MB as that number.\<close>

theorem parseGPUMemoryString_units:
  assumes "n < 2 ^ 43"
  shows "parseGPUMemoryString (nat_dec n @ ''GB'') = (Fin (of_nat n), True)
    \<and> parseGPUMemoryString (nat_dec n @ ''TiB'') = (Fin (of_nat (1024 * n)), True)
    \<and> parseGPUMemoryString (nat_dec (1024 * n) @ ''MB'') = (Fin (of_nat n), True)"
  using memory_units [OF assms] by blast

theorem parseGPUMemoryString_units_witness:
  "parseGPUMemoryString (nat_dec 16 @ ''GB'') = (Fin (of_nat 16), True)
    \<and> parseGPUMemoryString (nat_dec 16 @ ''TiB'') = (Fin (of_nat (1024 * 16)), True)
    \<and> parseGPUMemoryString (nat_dec (1024 * 16) @ ''MB'') = (Fin (of_nat 16), True)"
  by (rule parseGPUMemoryString_units) simp

text \<open>
  The RAM of an offering loses its unit: 512MB reads as 512, like 512GB.
\<close>

theorem parseMemory_ignores_unit:
  assumes "n < 2 ^ 53"
  shows "parseMemory (nat_dec n @ ''MB'') = Inr (Fin (of_nat n))"
    and "parseMemory (nat_dec n @ ''GB'') = Inr (Fin (of_nat n))"
proof -
  have "char_lower (CHR ''M'') \<noteq> CHR ''e''" "char_lower (CHR ''G'') \<noteq> CHR ''e''" by code_simp+
  then have "unit_start ''MB''" "unit_start ''GB''" by (simp_all add: unit_start_def unit_letters)
  then show "parseMemory (nat_dec n @ ''MB'') = Inr (Fin (of_nat n))"
      "parseMemory (nat_dec n @ ''GB'') = Inr (Fin (of_nat n))"
    using assms by (simp_all add: parseMemory_nat)
qed

text \<open>The keys \<open>skyvm_flavor_<c>vCPU-<r>GB\<close> of a config map, in any order, give the compute
  resources with those numbers of CPUs and GB, one per key.\<close>

theorem computeResourcesForFlavors_roundtrip:
  assumes "\<forall>(c, r)\<in>set cs. c < 2 ^ 53 \<and> r < 2 ^ 53"
  shows "computeResourcesForFlavors (map (\<lambda>(c, r). (flavor_key c r, v c r)) cs) =
     Inr (map (\<lambda>(c, r). zeroCPS\<lparr>cpsName := nat_dec c @ ''vCPU-'' @ nat_dec r @ ''GB'',
       cpsCpu := Fin (of_nat c), cpsRam := Fin (of_nat r)\<rparr>) cs)"
  using flavors_loop_keys [OF assms, of v "[]"] by (simp add: computeResourcesForFlavors_def)

theorem computeResourcesForFlavors_roundtrip_witness:
  "computeResourcesForFlavors (map (\<lambda>(c, r). (flavor_key c r, [])) [(2, 4), (8, 32)]) =
     Inr (map (\<lambda>(c, r). zeroCPS\<lparr>cpsName := nat_dec c @ ''vCPU-'' @ nat_dec r @ ''GB'',
       cpsCpu := Fin (of_nat c), cpsRam := Fin (of_nat r)\<rparr>) [(2, 4), (8, 32)])"
  by (rule computeResourcesForFlavors_roundtrip) simp

text \<open>
  A RAM that does not parse is no error: the wrapped error is the other one, which is nil, and all
  the flavors are dropped. The same mistake is in \<open>getCompatibleFlavors\<close>.
\<close>

theorem bad_ram_is_swallowed:
  "computeResourcesForFlavors ((''skyvm_flavor_2vCPU-xGB'', v) # rest) = Inr []"
  "getCompatibleFlavors minCPU minRAM (''2vCPU-xGB'' # rest') = Inr []"
proof -
  have k: "contains ''skyvm_flavor_2vCPU-xGB'' ''skyvm_flavor'' = True"
    "split_on (CHR ''_'') ''skyvm_flavor_2vCPU-xGB'' = [''skyvm'', ''flavor'', ''2vCPU-xGB'']"
    "split_on (CHR ''-'') ''2vCPU-xGB'' = [''2vCPU'', ''xGB'']"
    "atoi (replace_all ''2vCPU'' ''vCPU'' []) = Inr 2"
    "atoi (replace_all ''xGB'' ''GB'' []) = Inl (Errf ''strconv.Atoi: invalid syntax'')"
    by code_simp+
  show "computeResourcesForFlavors ((''skyvm_flavor_2vCPU-xGB'', v) # rest) = Inr []"
    unfolding computeResourcesForFlavors_def flavors_loop.simps k by (simp add: index_go_def k)
  show "getCompatibleFlavors minCPU minRAM (''2vCPU-xGB'' # rest') = Inr []"
    unfolding getCompatibleFlavors_def compatible_loop.simps k by (simp add: index_go_def k)
qed



text \<open>The wildcard match is the concatenation of its parts: a pattern splits a string whenever its
  halves match the halves of the string, a star matches any text without a line feed, a question
  mark one such character, and text without wildcards only itself.\<close>

theorem wildcardComputeProfileMatch_spec:
  "(wildcardComputeProfileMatch (p @ q) s \<longleftrightarrow>
      (\<exists>a b. s = a @ b \<and> wildcardComputeProfileMatch p a \<and> wildcardComputeProfileMatch q b))
   \<and> (wildcardComputeProfileMatch ''*'' s \<longleftrightarrow> CHR 0x0A \<notin> set s)
   \<and> (wildcardComputeProfileMatch ''?'' s \<longleftrightarrow> (\<exists>c. s = [c] \<and> c \<noteq> CHR 0x0A))
   \<and> (CHR ''*'' \<notin> set p \<and> CHR ''?'' \<notin> set p \<longrightarrow> wildcardComputeProfileMatch p s = (s = p))"
  unfolding wildcardComputeProfileMatch_def
  by (intro conjI impI, rule wild_match_append, rule wild_match_star, rule wild_match_question, rule wild_match_plain)
    blast

theorem wildcardComputeProfileMatch_spec_witness:
  "(wildcardComputeProfileMatch (''4vCPU'' @ ''*'') ''4vCPU-8GB'' \<longleftrightarrow>
      (\<exists>a b. ''4vCPU-8GB'' = a @ b \<and> wildcardComputeProfileMatch ''4vCPU'' a \<and> wildcardComputeProfileMatch ''*'' b))
   \<and> wildcardComputeProfileMatch ''4vCPU'' ''4vCPU-8GB'' = (''4vCPU-8GB'' = ''4vCPU'')"
proof -
  have plain: "CHR ''*'' \<notin> set ''4vCPU'' \<and> CHR ''?'' \<notin> set ''4vCPU''" by simp
  note spec = wildcardComputeProfileMatch_spec [where p = "''4vCPU''" and q = "''*''" and s = "''4vCPU-8GB''"]
  from spec [THEN conjunct1] spec [THEN conjunct2, THEN conjunct2, THEN conjunct2, rule_format, OF plain]
  show ?thesis by (rule conjI)
qed

end
