(* ===== verification/Api.thy ===== *)
theory Api
  imports Prelude Float64 Flavors Latency
begin

text \<open>
  The resources the optimisation reads and writes, as records of their \<open>spec\<close> and \<open>status\<close>
  (\<open>api/core/v1alpha1\<close>, \<open>api/policy/v1alpha1\<close>, \<open>api/helper/v1alpha1\<close>), and \<open>env\<close>, what the
  handlers get from outside: the replies of the API server to the reads of one call, and the
  library functions whose code is not in the repository.
\<close>

section \<open>Providers\<close>

record EgressTier =
  etFromGB :: int
  etToGB :: int
  etPricePerGB :: string

record EgressCostSpec =
  ecType :: string
  ecDestination :: string
  ecUnit :: string
  ecTiers :: "EgressTier list"

record ZoneSpec =
  zName :: string
  zLocationName :: string
  zDefaultZone :: bool
  zEnabled :: bool
  zType :: string

record ProviderProfileSpec =
  ppPlatform :: string
  ppRegion :: string
  ppRegionAlias :: string
  ppZones :: "ZoneSpec list"

text \<open>The egress costs are those of the status.\<close>

record ProviderProfile =
  pfName :: string
  pfSpec :: ProviderProfileSpec
  pfEgressCosts :: "EgressCostSpec list"

record ProviderRefSpec =
  prName :: string
  prPlatform :: string
  prType :: string
  prRegion :: string
  prRegionAlias :: string
  prZone :: string

record ZoneOfferings =
  zoZone :: string
  zoOfferings :: "InstanceOffering list"

section \<open>Policies\<close>

record ComponentRef =
  crAPIVersion :: string
  crKind :: string
  crName :: string
  crNamespace :: string

text \<open>
  A virtual service asked for in a policy: \<open>None\<close> is a nil spec, \<open>Some None\<close> one whose bytes are
  no JSON document.
\<close>

record PolicyVirtualService =
  pvName :: string
  pvKind :: string
  pvSpec :: "any option option"
  pvCount :: int

record VirtualServiceSelector =
  vsName :: string
  vsApiVersion :: string
  vsKind :: string
  vsCount :: string
  vsPrice :: f64

record LocationConstraint =
  lcRequired :: "ProviderRefSpec list list"
  lcPermitted :: "ProviderRefSpec list"

record DeploymentPolicyItem =
  dpComponentRef :: ComponentRef
  dpVirtualServiceConstraint :: "PolicyVirtualService list list"
  dpLocationConstraint :: LocationConstraint

record DeploymentPolicy =
  depName :: string
  depNs :: string
  depResourceVersion :: string
  depLabels :: "string gomap"
  depExecutionEnvironment :: string
  depPolicies :: "DeploymentPolicyItem list"

record DataDependency =
  ddFrom :: ComponentRef
  ddTo :: ComponentRef
  ddLatency :: string
  ddTotalDataTransfer :: string

record DataflowPolicy =
  dfName :: string
  dfResourceVersion :: string
  dfLabels :: "string gomap"
  dfDataDependencies :: "DataDependency list"

section \<open>Deployments\<close>

text \<open>
  A quantity of \<open>k8s.io/apimachinery\<close>: what \<open>AsApproximateFloat64\<close> and \<open>Value\<close> read of it.
\<close>

record quantity =
  qtyFloat :: f64
  qtyValue :: int

record Container =
  coLimits :: "quantity gomap"
  coRequests :: "quantity gomap"

record Deployment =
  deContainers :: "Container list"
  deInitContainers :: "Container list"

section \<open>The environment of a call\<close>

text \<open>
  \<open>env_config_maps\<close> gives the data maps of the config maps that carry the labels asked for;
  \<open>env_yaml_offerings\<close> is \<open>yaml.Unmarshal\<close> into the zone offerings. \<open>lo.UniqBy\<close> by name and
  \<open>sort.Slice\<close> by price are parameters at the two types the source uses them, and
  \<open>env_values\<close> is \<open>lo.Values\<close>, whose order is that of the runtime.
\<close>

record env =
  env_providers :: "ProviderProfile list go"
  env_latencies :: "LatencyObj list go"
  env_config_maps :: "string gomap \<Rightarrow> string gomap list go"
  env_deployment :: "string \<Rightarrow> string \<Rightarrow> Deployment go"
  env_yaml_offerings :: "string \<Rightarrow> ZoneOfferings list go"
  env_vs_uniq :: "VirtualServiceSelector list \<Rightarrow> VirtualServiceSelector list"
  env_vs_sort :: "VirtualServiceSelector list \<Rightarrow> VirtualServiceSelector list"
  env_cp_uniq :: "computeProfileService list \<Rightarrow> computeProfileService list"
  env_cp_sort :: "computeProfileService list \<Rightarrow> computeProfileService list"
  env_values :: "computeProfileService gomap \<Rightarrow> computeProfileService list"

end
