(* ===== verification/Providers.thy ===== *)
theory Providers
  imports Prelude Names Api
begin

text \<open>
  What the optimiser is told about the providers (\<open>internal/controller/core/ilptask\<close>): the
  candidate providers of a component and their offerings (\<open>ilptask_helper.go\<close>), the list of
  enabled zones and the matrix of latencies and egress costs between them
  (\<open>ilptask_pod.go\<close>), the resources a deployment asks for. A JSON document the source marshals is
  the value it marshals; marshalling fails on a number that is not finite.
\<close>

section \<open>Candidate providers\<close>

definition provider_matches :: "ProviderProfileSpec \<Rightarrow> ProviderProfile \<Rightarrow> bool" where
  "provider_matches ref item =
     (let match = True;
          match = (if ppPlatform ref \<noteq> [] \<and> ppPlatform (pfSpec item) \<noteq> ppPlatform ref then False else match);
          match = (if ppRegion ref \<noteq> [] \<and> ppRegion (pfSpec item) \<noteq> ppRegion ref then False else match);
          match = (if ppRegionAlias ref \<noteq> [] \<and> ppRegionAlias (pfSpec item) \<noteq> ppRegionAlias ref then False else match)
      in match)"

text \<open>A provider is appended once for every entry of the filter it matches.\<close>

definition getCandidateProviders :: "env \<Rightarrow> ProviderProfileSpec list \<Rightarrow> ProviderProfile list go" where
  "getCandidateProviders E fltr =
     bind_go (env_providers E) (\<lambda>items.
       if fltr = [] then Inr items
       else Inr (concat (map (\<lambda>item. map (\<lambda>_. item) (filter (\<lambda>ref. provider_matches ref item) fltr)) items)))"

section \<open>Offerings of a provider\<close>

definition trim_char :: "char \<Rightarrow> string \<Rightarrow> string" where
  "trim_char d s = trim_right (\<lambda>c. c = d) (trim_left (\<lambda>c. c = d) s)"

text \<open>An offering whose price or memory does not parse is skipped.\<close>

definition offering_service :: "InstanceOffering \<Rightarrow> computeProfileService option" where
  "offering_service of' =
     (case parse_float (trim_char (CHR ''$'') (ioPrice of')) of
        Inl _ \<Rightarrow> None
      | Inr priceFloat \<Rightarrow>
          (case parseMemory (ioRAM of') of
             Inl _ \<Rightarrow> None
           | Inr fRam \<Rightarrow>
               Some \<lparr>cpsName = ioNameLabel of', cpsCpu = f64_of_int (ioVCPUs of'), cpsRam = fRam,
                     cpsUsedCPU = Fin 0, cpsUsedRAM = Fin 0,
                     cpsGpuEnabled = gEnabled (ioGPU of'), cpsGpuModel = gModel (ioGPU of'),
                     cpsGpuCount = gUnit (ioGPU of'), cpsGpuMem = gMemory (ioGPU of'),
                     cpsGpuManufacturer = gManufacturer (ioGPU of'), cpsDeployCost = priceFloat\<rparr>))"

definition provider_config_labels :: "ProviderProfile \<Rightarrow> string gomap" where
  "provider_config_labels p =
     [(''skycluster.io/config-type'', ''provider-profile''),
      (''skycluster.io/managed-by'', ''skycluster''),
      (''skycluster.io/provider-profile'', pfName p),
      (''skycluster.io/provider-platform'', ppPlatform (pfSpec p)),
      (''skycluster.io/provider-region'', ppRegion (pfSpec p))]"

definition getComputeProfileForProvider :: "env \<Rightarrow> ProviderProfile \<Rightarrow> computeProfileService list go" where
  "getComputeProfileForProvider E p =
     bind_go (env_config_maps E (provider_config_labels p)) (\<lambda>configMaps.
       if configMaps = [] then Inl (Errf ''no config maps found for provider'')
       else if length configMaps > 1 then Inl (Errf ''multiple config maps found for provider'')
       else (case mget (hd configMaps) ''flavors.yaml'' of
           None \<Rightarrow> Inl (Errf ''no flavors.yaml found for provider'')
         | Some cmData \<Rightarrow>
             bind_go (wrap_go ''failed to unmarshal flavors.yaml for provider'' (env_yaml_offerings E cmData))
               (\<lambda>zoneOfferings.
                  Inr (concat (map (\<lambda>zo. List.map_filter offering_service (zoOfferings zo)) zoneOfferings)))))"

definition ref_filter :: "ProviderRefSpec \<Rightarrow> ProviderProfileSpec" where
  "ref_filter provRef =
     \<lparr>ppPlatform = prPlatform provRef, ppRegion = prRegion provRef,
      ppRegionAlias = prRegionAlias provRef, ppZones = []\<rparr>"

definition getAllComputeProfiles :: "env \<Rightarrow> ProviderRefSpec list \<Rightarrow> computeProfileService list go" where
  "getAllComputeProfiles E provRefs =
     bind_go (getCandidateProviders E (map ref_filter provRefs)) (\<lambda>candidates.
     bind_go (map_go (getComputeProfileForProvider E) candidates) (\<lambda>ls. Inr (concat ls)))"

section \<open>Egress costs\<close>

fun GetEgressCostDataRate :: "EgressCostSpec list \<Rightarrow> int \<Rightarrow> string \<Rightarrow> f64 go" where
  "GetEgressCostDataRate [] tier tierType = Inl (Errf ''no egress cost found for tier type'')"
| "GetEgressCostDataRate (c # cs) tier tierType =
     (if ecType c = tierType then
        (if tier < 0 \<or> int (length (ecTiers c)) \<le> tier then Inl (Panic ''index out of range'')
         else parse_float (etPricePerGB (ecTiers c ! nat tier)))
      else GetEgressCostDataRate cs tier tierType)"

text \<open>\<open>lo.Filter(costs, type)[0].Tiers[0].PricePerGB\<close>\<close>

definition first_price :: "EgressCostSpec list \<Rightarrow> string \<Rightarrow> string go" where
  "first_price costs t =
     bind_go (index_go (filter (\<lambda>c. ecType c = t) costs) 0) (\<lambda>c.
     bind_go (index_go (ecTiers c) 0) (\<lambda>tier. Inr (etPricePerGB tier)))"

section \<open>The provider documents\<close>

record providerStruct =
  psUpstreamName :: string
  psName :: string
  psPlatform :: string
  psRegionAlias :: string
  psZone :: string
  psPType :: string
  psRegion :: string

definition zoneName :: "ProviderProfile \<Rightarrow> ZoneSpec \<Rightarrow> string" where
  "zoneName p z = ppPlatform (pfSpec p) @ ''-'' @ ppRegion (pfSpec p) @ ''-'' @ zName z"

definition generateProvidersJson :: "env \<Rightarrow> providerStruct list go" where
  "generateProvidersJson E =
     bind_go (env_providers E) (\<lambda>items.
       Inr (concat (map (\<lambda>p. map (\<lambda>zone.
              \<lparr>psUpstreamName = pfName p, psName = zoneName p zone, psPlatform = ppPlatform (pfSpec p),
               psRegionAlias = ppRegionAlias (pfSpec p), psZone = zName zone, psPType = zType zone,
               psRegion = ppRegion (pfSpec p)\<rparr>)
            (filter zEnabled (ppZones (pfSpec p)))) items)))"

record providerAttrStruct =
  paSrcName :: string
  paDstName :: string
  paSrc :: providerStruct
  paDst :: providerStruct
  paLatency :: f64
  paEgressCostDataRate :: f64

definition attr_end :: "ProviderProfile \<Rightarrow> string \<Rightarrow> providerStruct" where
  "attr_end p zone =
     \<lparr>psUpstreamName = [], psName = [], psPlatform = ppPlatform (pfSpec p), psRegionAlias = [],
      psZone = zone, psPType = [], psRegion = ppRegion (pfSpec p)\<rparr>"

definition pair_label :: "ProviderProfile \<Rightarrow> ProviderProfile \<Rightarrow> string" where
  "pair_label p p2 =
     (let aName = ppPlatform (pfSpec p) @ ''-'' @ ppRegion (pfSpec p);
          bName = ppPlatform (pfSpec p2) @ ''-'' @ ppRegion (pfSpec p2);
          (a, b) = CanonicalPair aName bName
      in SanitizeName a @ ''-'' @ SanitizeName b)"

definition latency_text :: "LatencyObj \<Rightarrow> string go" where
  "latency_text lt =
     (if lsP95 (latStatus lt) \<noteq> [] then Inr (lsP95 (latStatus lt))
      else if lsP99 (latStatus lt) \<noteq> [] then Inr (lsP99 (latStatus lt))
      else if lsLastMeasuredMs (latStatus lt) \<noteq> [] then Inr (lsLastMeasuredMs (latStatus lt))
      else Inl (Errf ''no latency value found in latency object''))"

text \<open>One entry of the matrix: the body of the four loops for two enabled zones.\<close>

definition attr_entry ::
  "LatencyObj list \<Rightarrow> (ProviderProfile \<times> ZoneSpec) \<Rightarrow> (ProviderProfile \<times> ZoneSpec) \<Rightarrow> providerAttrStruct go" where
  "attr_entry latencies src dst =
     (case (src, dst) of ((p, pz1), (p2, pz2)) \<Rightarrow>
       let samePlatform = (ppPlatform (pfSpec p) = ppPlatform (pfSpec p2));
           sameRegion = (ppRegion (pfSpec p) = ppRegion (pfSpec p2))
       in if samePlatform \<and> sameRegion then
            bind_go (first_price (pfEgressCosts p) ''inter-zone'') (\<lambda>egressCostStr.
            (case parse_float egressCostStr of
               Inl _ \<Rightarrow> Inl (Errf ''failed to parse inter-zone egress cost'')
             | Inr egressCostFloat \<Rightarrow>
                 Inr \<lparr>paSrcName = zoneName p pz1, paDstName = zoneName p2 pz2,
                      paSrc = attr_end p (zName pz1), paDst = attr_end p2 (zName pz2),
                      paLatency = Fin 0,
                      paEgressCostDataRate = (if zName pz1 = zName pz2 then Fin 0 else egressCostFloat)\<rparr>))
          else
            bind_go (first_price (pfEgressCosts p) (if samePlatform then ''inter-region'' else ''internet''))
              (\<lambda>egressCostStr.
            (case find (\<lambda>lat. mstr (latLabels lat) ''skycluster.io/provider-pair'' = pair_label p p2) latencies of
               None \<Rightarrow> Inl (Errf ''no latency object found for provider pair'')
             | Some lt \<Rightarrow>
                 bind_go (latency_text lt) (\<lambda>latencyValue.
                 (case (parse_float latencyValue, parse_float egressCostStr) of
                    (Inr latencyValueFloat, Inr egressCostFloat) \<Rightarrow>
                      Inr \<lparr>paSrcName = zoneName p pz1, paDstName = zoneName p2 pz2,
                           paSrc = attr_end p [], paDst = attr_end p2 [],
                           paLatency = latencyValueFloat, paEgressCostDataRate = egressCostFloat\<rparr>
                  | _ \<Rightarrow> Inl (Errf ''failed to parse latency or egress cost to float''))))))"

definition enabled_zones :: "ProviderProfile \<Rightarrow> (ProviderProfile \<times> ZoneSpec) list" where
  "enabled_zones p = map (\<lambda>z. (p, z)) (filter zEnabled (ppZones (pfSpec p)))"

fun f64_finite :: "f64 \<Rightarrow> bool" where
  "f64_finite (Fin x) = True"
| "f64_finite _ = False"

text \<open>The loops: providers, providers, zones of the first, zones of the second.\<close>

definition attr_pairs :: "ProviderProfile list \<Rightarrow> ((ProviderProfile \<times> ZoneSpec) \<times> (ProviderProfile \<times> ZoneSpec)) list" where
  "attr_pairs items =
     concat (map (\<lambda>p. concat (map (\<lambda>p2.
       concat (map (\<lambda>a. map (\<lambda>b. (a, b)) (enabled_zones p2)) (enabled_zones p))) items)) items)"

definition generateProvidersAttrJson :: "env \<Rightarrow> providerAttrStruct list go" where
  "generateProvidersAttrJson E =
     bind_go (env_providers E) (\<lambda>items.
     bind_go (env_latencies E) (\<lambda>latencies.
     bind_go (map_go (\<lambda>(a, b). attr_entry latencies a b) (attr_pairs items)) (\<lambda>providerList.
       if list_all (\<lambda>e. f64_finite (paLatency e) \<and> f64_finite (paEgressCostDataRate e)) providerList
       then Inr providerList
       else Inl (Errf ''failed to marshal providers''))))"

section \<open>Resources of a deployment\<close>

definition getContainerComputeResources :: "Container \<Rightarrow> f64 \<times> f64" where
  "getContainerComputeResources container =
     (let gib = 1 / 2 ^ 30;
          cpu = (case mget (coLimits container) ''cpu'' of
                   Some q \<Rightarrow> qtyFloat q
                 | None \<Rightarrow> (case mget (coRequests container) ''cpu'' of Some q \<Rightarrow> qtyFloat q | None \<Rightarrow> Fin 0));
          mem = (case mget (coLimits container) ''memory'' of
                   Some q \<Rightarrow> f64_scale (f64_of_int (qtyValue q)) gib
                 | None \<Rightarrow> (case mget (coRequests container) ''memory'' of
                     Some q \<Rightarrow> f64_scale (f64_of_int (qtyValue q)) gib
                   | None \<Rightarrow> Fin 0))
      in (cpu, mem))"

definition calculateMinComputeResource :: "env \<Rightarrow> string \<Rightarrow> string \<Rightarrow> computeProfileService go" where
  "calculateMinComputeResource E ns deployName =
     bind_go (wrap_go ''error getting deployment'' (env_deployment E ns deployName)) (\<lambda>depObj.
       let allContainers = deContainers depObj @ deInitContainers depObj;
           (totalCPU, totalMem) =
             foldl (\<lambda>(c, m) container.
                 let (cpu, mem) = getContainerComputeResources container in (f64_add c cpu, f64_add m mem))
               (Fin 0, Fin 0) allContainers
       in Inr (zeroCPS\<lparr>cpsName := deployName, cpsCpu := totalCPU, cpsRam := totalMem\<rparr>))"

section \<open>Lemmas\<close>

lemma provider_matches_iff:
  "provider_matches ref p \<longleftrightarrow>
    (ppPlatform ref = [] \<or> ppPlatform (pfSpec p) = ppPlatform ref)
    \<and> (ppRegion ref = [] \<or> ppRegion (pfSpec p) = ppRegion ref)
    \<and> (ppRegionAlias ref = [] \<or> ppRegionAlias (pfSpec p) = ppRegionAlias ref)"
  by (auto simp: provider_matches_def Let_def)

lemma count_list_replicated:
  "count_list (concat (map (\<lambda>x. map (\<lambda>_. x) (filter (P x) ys)) xs)) a
    = count_list xs a * length (filter (P a) ys)"
proof -
  have *: "count_list (map (\<lambda>_. x) zs) a = (if x = a then length zs else 0)" for x and zs :: "'b list"
    by (induction zs) auto
  show ?thesis by (induction xs) (auto simp: *)
qed

lemma set_attr_pairs:
  "(a, b) \<in> set (attr_pairs items) \<longleftrightarrow>
    (\<exists>p\<in>set items. a \<in> set (enabled_zones p)) \<and> (\<exists>p\<in>set items. b \<in> set (enabled_zones p))"
  by (auto simp: attr_pairs_def)

lemma enabled_zones_iff: "(p, z) \<in> set (enabled_zones q) \<longleftrightarrow> p = q \<and> z \<in> set (ppZones (pfSpec q)) \<and> zEnabled z"
  by (auto simp: enabled_zones_def)

lemma pair_label_sym: "pair_label p q = pair_label q p"
  using CanonicalPair_sym [of "ppPlatform (pfSpec p) @ ''-'' @ ppRegion (pfSpec p)"
      "ppPlatform (pfSpec q) @ ''-'' @ ppRegion (pfSpec q)"]
  by (simp add: pair_label_def)

abbreviation same_place :: "ProviderProfile \<Rightarrow> ProviderProfile \<Rightarrow> bool" where
  "same_place p q \<equiv> ppPlatform (pfSpec p) = ppPlatform (pfSpec q) \<and> ppRegion (pfSpec p) = ppRegion (pfSpec q)"

lemma attr_entry_same:
  assumes "attr_entry L (p, z) (q, w) = Inr e" and "same_place p q"
  obtains c where "e = \<lparr>paSrcName = zoneName p z, paDstName = zoneName q w,
    paSrc = attr_end p (zName z), paDst = attr_end q (zName w), paLatency = Fin 0,
    paEgressCostDataRate = (if zName z = zName w then Fin 0 else c)\<rparr>"
proof (cases "first_price (pfEgressCosts p) ''inter-zone''")
  case (Inr s)
  then show ?thesis
    using assms that by (cases "parse_float s") (auto simp: attr_entry_def)
qed (use assms in \<open>simp add: attr_entry_def\<close>)

lemma attr_entry_other:
  assumes "attr_entry L (p, z) (q, w) = Inr e" and "\<not> same_place p q"
  obtains lt t l c where
    "find (\<lambda>lat. mstr (latLabels lat) ''skycluster.io/provider-pair'' = pair_label p q) L = Some lt"
    "latency_text lt = Inr t" "parse_float t = Inr l"
    "e = \<lparr>paSrcName = zoneName p z, paDstName = zoneName q w, paSrc = attr_end p [], paDst = attr_end q [],
       paLatency = l, paEgressCostDataRate = c\<rparr>"
proof -
  let ?t = "if ppPlatform (pfSpec p) = ppPlatform (pfSpec q) then ''inter-region'' else ''internet''"
  from assms obtain s lt t where s: "first_price (pfEgressCosts p) ?t = Inr s"
    "find (\<lambda>lat. mstr (latLabels lat) ''skycluster.io/provider-pair'' = pair_label p q) L = Some lt"
    "latency_text lt = Inr t"
    unfolding attr_entry_def prod.case Let_def if_not_P [OF assms(2)] by (auto split: option.split_asm)
  with assms show ?thesis
    unfolding attr_entry_def prod.case Let_def if_not_P [OF assms(2)]
    by (cases "parse_float t"; cases "parse_float s") (auto intro!: that)
qed

lemma attr_entry_names:
  assumes "attr_entry L (p, z) (q, w) = Inr e"
  shows "paSrcName e = zoneName p z \<and> paDstName e = zoneName q w"
proof (cases "same_place p q")
  case True
  from assms True show ?thesis by (rule attr_entry_same) simp
next
  case False
  from assms False show ?thesis by (rule attr_entry_other) simp
qed

lemma attr_entry_latency_sym:
  assumes "attr_entry L a b = Inr e" and "attr_entry L b a = Inr e'"
  shows "paLatency e = paLatency e'"
proof -
  obtain p z q w where ab: "a = (p, z)" "b = (q, w)" by (cases a; cases b) auto
  have e: "attr_entry L (p, z) (q, w) = Inr e" and e': "attr_entry L (q, w) (p, z) = Inr e'"
    using assms ab by auto
  show ?thesis
  proof (cases "same_place p q")
    case True
    then have "same_place q p" by simp
    from attr_entry_same [OF e' this] have "paLatency e' = Fin 0" by fastforce
    moreover from attr_entry_same [OF e True] have "paLatency e = Fin 0" by fastforce
    ultimately show ?thesis by simp
  next
    case False
    then have F: "\<not> same_place q p" by metis
    obtain lt t l c where "find (\<lambda>lat. mstr (latLabels lat) ''skycluster.io/provider-pair'' = pair_label p q) L = Some lt"
      "latency_text lt = Inr t" "parse_float t = Inr l" "paLatency e = l"
      using attr_entry_other [OF e False] by (metis providerAttrStruct.select_convs(5))
    moreover obtain lt' t' l' where
      "find (\<lambda>lat. mstr (latLabels lat) ''skycluster.io/provider-pair'' = pair_label q p) L = Some lt'"
      "latency_text lt' = Inr t'" "parse_float t' = Inr l'" "paLatency e' = l'"
      using attr_entry_other [OF e' F] by (metis providerAttrStruct.select_convs(5))
    ultimately show ?thesis by (simp add: pair_label_sym [of q p])
  qed
qed

lemma attr_entry_same_zone:
  assumes "attr_entry L (p, z) (p, w) = Inr e"
  shows "paLatency e = Fin 0"
  by (rule attr_entry_same [OF assms]) auto

lemma generateProvidersAttrJson_entries:
  assumes "env_providers E = Inr items" and "generateProvidersAttrJson E = Inr m"
  obtains L where "env_latencies E = Inr L" and "length m = length (attr_pairs items)"
    and "\<And>i. i < length m \<Longrightarrow> attr_entry L (fst (attr_pairs items ! i)) (snd (attr_pairs items ! i)) = Inr (m ! i)"
  using assms by (auto simp: generateProvidersAttrJson_def map_go_Inr split_beta split: if_splits)

section \<open>Properties\<close>

text \<open>The candidates are the providers that some entry of the filter admits (all of them when the
  filter is empty), where an empty field admits every value; with a filter a provider is listed once
  for every entry that admits it, so overlapping entries give duplicates.\<close>

theorem getCandidateProviders_spec:
  assumes "env_providers E = Inr items" and "getCandidateProviders E fltr = Inr cs"
  shows "set cs = {p \<in> set items. fltr = [] \<or> (\<exists>ref\<in>set fltr. provider_matches ref p)}
    \<and> (fltr \<noteq> [] \<longrightarrow> count_list cs p = count_list items p * length (filter (\<lambda>ref. provider_matches ref p) fltr))"
proof (cases "fltr = []")
  case True
  then show ?thesis using assms by (auto simp: getCandidateProviders_def)
next
  case False
  then have "cs = concat (map (\<lambda>item. map (\<lambda>_. item) (filter (\<lambda>ref. provider_matches ref item) fltr)) items)"
    using assms by (auto simp: getCandidateProviders_def)
  moreover from this have "count_list cs p = count_list items p * length (filter (\<lambda>ref. provider_matches ref p) fltr)"
    by (simp only: count_list_replicated)
  ultimately show ?thesis using False by auto
qed

definition example_provider :: "string \<Rightarrow> string \<Rightarrow> ProviderProfile" where
  "example_provider platform region =
     \<lparr>pfName = platform @ region,
      pfSpec = \<lparr>ppPlatform = platform, ppRegion = region, ppRegionAlias = region,
        ppZones = [\<lparr>zName = ''a'', zLocationName = [], zDefaultZone = True, zEnabled = True, zType = ''cloud''\<rparr>]\<rparr>,
      pfEgressCosts =
        map (\<lambda>t. \<lparr>ecType = t, ecDestination = [], ecUnit = ''GB'',
               ecTiers = [\<lparr>etFromGB = 0, etToGB = 0, etPricePerGB = ''0''\<rparr>]\<rparr>)
          [''inter-zone'', ''inter-region'', ''internet'']\<rparr>"

definition example_env :: "ProviderProfile list \<Rightarrow> LatencyObj list \<Rightarrow> env" where
  "example_env ps ls =
     \<lparr>env_providers = Inr ps, env_latencies = Inr ls, env_config_maps = (\<lambda>_. Inr []),
      env_deployment = (\<lambda>_ _. Inr \<lparr>deContainers = [], deInitContainers = []\<rparr>),
      env_yaml_offerings = (\<lambda>_. Inr []), env_vs_uniq = (\<lambda>x. x), env_vs_sort = (\<lambda>x. x),
      env_cp_uniq = (\<lambda>x. x), env_cp_sort = (\<lambda>x. x), env_values = map snd\<rparr>"

definition any_filter :: ProviderProfileSpec where
  "any_filter = \<lparr>ppPlatform = [], ppRegion = [], ppRegionAlias = [], ppZones = []\<rparr>"

theorem getCandidateProviders_spec_witness:
  "let p = example_provider ''aws'' ''us-east-1''; cs = [p, p]; fltr = [any_filter, any_filter]
   in set cs = {p' \<in> set [p]. fltr = [] \<or> (\<exists>ref\<in>set fltr. provider_matches ref p')}
    \<and> (fltr \<noteq> [] \<longrightarrow> count_list cs p = count_list [p] p * length (filter (\<lambda>ref. provider_matches ref p) fltr))"
  unfolding Let_def
  by (rule getCandidateProviders_spec [where E = "example_env [example_provider ''aws'' ''us-east-1''] []"])
    (simp_all add: example_env_def getCandidateProviders_def provider_matches_iff any_filter_def)

text \<open>The document of providers lists the enabled zones of the providers, in their order, under
  the name platform-region-zone, and nothing else.\<close>

theorem generateProvidersJson_zones:
  assumes "env_providers E = Inr items"
  shows "\<exists>ps. generateProvidersJson E = Inr ps
    \<and> map psName ps = map (\<lambda>(p, z). zoneName p z) (concat (map enabled_zones items))
    \<and> set (map psUpstreamName ps) = pfName ` {p \<in> set items. \<exists>z\<in>set (ppZones (pfSpec p)). zEnabled z}"
proof -
  let ?ps = "concat (map (\<lambda>p. map (\<lambda>zone.
      \<lparr>psUpstreamName = pfName p, psName = zoneName p zone, psPlatform = ppPlatform (pfSpec p),
       psRegionAlias = ppRegionAlias (pfSpec p), psZone = zName zone, psPType = zType zone,
       psRegion = ppRegion (pfSpec p)\<rparr>) (filter zEnabled (ppZones (pfSpec p)))) items)"
  have "generateProvidersJson E = Inr ?ps" using assms by (simp add: generateProvidersJson_def)
  moreover have "map psName ?ps = map (\<lambda>(p, z). zoneName p z) (concat (map enabled_zones items))"
    by (simp add: enabled_zones_def map_concat comp_def)
  moreover have "set (map psUpstreamName ?ps) = pfName ` {p \<in> set items. \<exists>z\<in>set (ppZones (pfSpec p)). zEnabled z}"
    by force
  ultimately show ?thesis by blast
qed

theorem generateProvidersJson_zones_witness:
  "\<exists>ps. generateProvidersJson (example_env [example_provider ''aws'' ''us-east-1''] []) = Inr ps
    \<and> map psName ps = map (\<lambda>(p, z). zoneName p z) (concat (map enabled_zones [example_provider ''aws'' ''us-east-1'']))
    \<and> set (map psUpstreamName ps) = pfName ` {p \<in> set [example_provider ''aws'' ''us-east-1''].
        \<exists>z\<in>set (ppZones (pfSpec p)). zEnabled z}"
  by (rule generateProvidersJson_zones) (simp add: example_env_def)


definition example_entry :: providerAttrStruct where
  "example_entry =
     (let p = example_provider ''aws'' ''us-east-1''
      in \<lparr>paSrcName = ''aws-us-east-1-a'', paDstName = ''aws-us-east-1-a'', paSrc = attr_end p ''a'', paDst = attr_end p ''a'',
          paLatency = Fin 0, paEgressCostDataRate = Fin 0\<rparr>)"

lemma example_matrix: "generateProvidersAttrJson (example_env [example_provider ''aws'' ''us-east-1''] []) = Inr [example_entry]"
proof -
  have "parse_float ''0'' = Inr (Fin 0)" by code_simp
  then show ?thesis
    by (simp add: generateProvidersAttrJson_def example_env_def attr_pairs_def enabled_zones_def attr_entry_def
        first_price_def index_go_def example_provider_def example_entry_def zoneName_def Let_def)
qed


text \<open>A provider with an enabled zone and no egress cost of type inter-zone in its status makes the
  attribute document panic: the filtered list is indexed without a test.\<close>

lemma no_zone_cost_panics:
  assumes "env_providers E = Inr (p # rest)" and "env_latencies E = Inr L"
    and "enabled_zones p \<noteq> []" and "\<forall>c\<in>set (pfEgressCosts p). ecType c \<noteq> ''inter-zone''"
  shows "\<exists>msg. generateProvidersAttrJson E = Inl (Panic msg)"
proof -
  obtain a as where a: "enabled_zones p = a # as" using assms(3) by (cases "enabled_zones p") auto
  then have pa: "fst a = p" by (auto simp: enabled_zones_def)
  have "filter (\<lambda>c. ecType c = ''inter-zone'') (pfEgressCosts p) = []" using assms(4) by simp
  then have "attr_entry L a a = Inl (Panic ''index out of range'')"
    using pa by (cases a) (simp add: attr_entry_def first_price_def index_go_def)
  moreover obtain xs where "attr_pairs (p # rest) = (a, a) # xs" by (simp add: attr_pairs_def a)
  ultimately show ?thesis using assms(1,2) by (simp add: generateProvidersAttrJson_def)
qed

end
