(* ===== verification/Ranking.thy ===== *)
theory Ranking
  imports Prelude Api "HOL-Library.Multiset"
begin

text \<open>
  Choosing the cheapest alternatives: \<open>lo.UniqBy\<close> by name, then \<open>sort.Slice\<close> by price, then a
  prefix. The two library functions are parameters of the model; \<open>ranking\<close> states what their
  documentation promises (\<open>sort.Slice\<close> is not stable, and says nothing when a price is a NaN),
  and the lemmas on the prefix are proved from that alone. The instances are a first-occurrence
  filter and an insertion sort, at the two types of the source.
\<close>

section \<open>The contract\<close>

definition sorted_price :: "('a \<Rightarrow> f64) \<Rightarrow> 'a list \<Rightarrow> bool" where
  "sorted_price price xs \<longleftrightarrow> sorted_wrt (\<lambda>x y. \<not> price y < price x) xs"

locale ranking =
  fixes name :: "'a \<Rightarrow> string"
    and price :: "'a \<Rightarrow> f64"
    and uniq :: "'a list \<Rightarrow> 'a list"
    and srt :: "'a list \<Rightarrow> 'a list"
  assumes uniq_distinct: "distinct (map name (uniq xs))"
    and uniq_subset: "set (uniq xs) \<subseteq> set xs"
    and uniq_names: "name ` set (uniq xs) = name ` set xs"
    and srt_mset: "mset (srt xs) = mset xs"
    and srt_sorted: "(\<forall>x\<in>set xs. price x \<noteq> NaN) \<Longrightarrow> sorted_price price (srt xs)"
begin

definition top :: "nat \<Rightarrow> 'a list \<Rightarrow> 'a list" where
  "top n xs = take n (srt (uniq xs))"

lemma set_srt: "set (srt xs) = set xs"
  using srt_mset [of xs] by (rule mset_eq_setD)

lemma length_srt: "length (srt xs) = length xs"
  using srt_mset [of xs] by (metis size_mset)

lemma distinct_srt: "distinct (map name xs) \<Longrightarrow> distinct (map name (srt xs))"
proof -
  assume "distinct (map name xs)"
  moreover have "mset (map name (srt xs)) = mset (map name xs)" by (simp add: srt_mset)
  ultimately show ?thesis by (metis mset_eq_imp_distinct_iff)
qed

lemma top_length: "length (top n xs) \<le> n"
  by (simp add: top_def)

lemma top_subset: "set (top n xs) \<subseteq> set xs"
  using uniq_subset [of xs] set_srt [of "uniq xs"] by (auto simp: top_def dest: in_set_takeD)

lemma top_distinct: "distinct (map name (top n xs))"
  using distinct_srt [OF uniq_distinct] by (simp add: top_def take_map [symmetric] distinct_take)

lemma top_sorted:
  assumes "\<forall>x\<in>set xs. price x \<noteq> NaN"
  shows "sorted_price price (top n xs)"
proof -
  have "sorted_price price (srt (uniq xs))" using assms uniq_subset by (intro srt_sorted) auto
  then show ?thesis
    by (auto simp: top_def sorted_price_def sorted_wrt_take)
qed

text \<open>Nothing left out is cheaper than anything kept.\<close>

lemma top_cheapest:
  assumes "\<forall>x\<in>set xs. price x \<noteq> NaN" and "y \<in> set (uniq xs)" and "y \<notin> set (top n xs)" and "x \<in> set (top n xs)"
  shows "\<not> price y < price x"
proof -
  have s: "sorted_price price (srt (uniq xs))" using assms(1) uniq_subset by (intro srt_sorted) auto
  have eq: "srt (uniq xs) = top n xs @ drop n (srt (uniq xs))" by (simp add: top_def)
  have "y \<in> set (srt (uniq xs))" using assms(2) by (simp add: set_srt)
  then have "y \<in> set (drop n (srt (uniq xs)))" using assms(3) eq by (metis Un_iff set_append)
  with s eq assms(4) show ?thesis by (metis sorted_price_def sorted_wrt_append)
qed

lemma top_covers:
  assumes "x \<in> set xs" and "length (uniq xs) \<le> n"
  shows "name x \<in> name ` set (top n xs)"
proof -
  have "top n xs = srt (uniq xs)" using assms(2) by (simp add: top_def length_srt)
  then show ?thesis using assms(1) uniq_names [of xs] by (auto simp: set_srt)
qed

lemma top_nonempty: "xs \<noteq> [] \<Longrightarrow> 0 < n \<Longrightarrow> top n xs \<noteq> []"
  using uniq_names [of xs] length_srt [of "uniq xs"] by (cases "uniq xs") (auto simp: top_def)

end

section \<open>The instances\<close>

fun uniq_acc :: "('a \<Rightarrow> string) \<Rightarrow> string list \<Rightarrow> 'a list \<Rightarrow> 'a list" where
  "uniq_acc name seen [] = []"
| "uniq_acc name seen (x # xs) =
     (if name x \<in> set seen then uniq_acc name seen xs else x # uniq_acc name (name x # seen) xs)"

fun insert_price :: "('a \<Rightarrow> f64) \<Rightarrow> 'a \<Rightarrow> 'a list \<Rightarrow> 'a list" where
  "insert_price price x [] = [x]"
| "insert_price price x (y # ys) =
     (if price y < price x then y # insert_price price x ys else x # y # ys)"

definition sort_price :: "('a \<Rightarrow> f64) \<Rightarrow> 'a list \<Rightarrow> 'a list" where
  "sort_price price xs = foldr (insert_price price) xs []"

lemma uniq_acc_props:
  "distinct (map name (uniq_acc name seen xs)) \<and> set (uniq_acc name seen xs) \<subseteq> set xs
    \<and> name ` set (uniq_acc name seen xs) = name ` set xs - set seen"
  by (induction name seen xs rule: uniq_acc.induct) auto

lemma insert_price_mset: "mset (insert_price price x ys) = add_mset x (mset ys)"
  by (induction ys) auto

lemma sort_price_mset: "mset (sort_price price xs) = mset xs"
  by (induction xs) (auto simp: sort_price_def insert_price_mset)

lemma f64_le_less_trans: "\<not> y < x \<Longrightarrow> \<not> z < y \<Longrightarrow> y \<noteq> NaN \<Longrightarrow> x \<noteq> NaN \<Longrightarrow> z \<noteq> NaN \<Longrightarrow> \<not> z < (x::f64)"
  by (cases x; cases y; cases z) auto

lemma set_insert_price: "set (insert_price price x ys) = insert x (set ys)"
  by (induction ys) auto

lemma insert_price_sorted:
  "sorted_price price ys \<Longrightarrow> \<forall>y\<in>set (x # ys). price y \<noteq> NaN \<Longrightarrow> sorted_price price (insert_price price x ys)"
proof (induction ys)
  case (Cons y ys)
  then have IH: "sorted_price price (insert_price price x ys)" by (auto simp: sorted_price_def)
  show ?case
  proof (cases "price y < price x")
    case True
    then have "\<not> price x < price y" using f64_less_trans f64_less_irrefl by blast
    with True IH Cons.prems show ?thesis by (auto simp: sorted_price_def set_insert_price)
  next
    case False
    have "\<forall>z\<in>set ys. \<not> price z < price x"
      using False Cons.prems f64_le_less_trans by (fastforce simp: sorted_price_def)
    with False Cons.prems show ?thesis by (auto simp: sorted_price_def)
  qed
qed (simp add: sorted_price_def)

lemma sort_price_sorted: "\<forall>x\<in>set xs. price x \<noteq> NaN \<Longrightarrow> sorted_price price (sort_price price xs)"
proof (induction xs)
  case (Cons x xs)
  have "set (sort_price price xs) = set xs" using sort_price_mset by (rule mset_eq_setD)
  with Cons show ?case by (auto simp: sort_price_def intro!: insert_price_sorted)
qed (simp add: sort_price_def sorted_price_def)

interpretation vs_rank: ranking vsName vsPrice "uniq_acc vsName []" "sort_price vsPrice"
  by unfold_locales (use uniq_acc_props [of vsName "[]"] in \<open>auto simp: sort_price_mset sort_price_sorted\<close>)

interpretation cp_rank: ranking cpsName cpsDeployCost "uniq_acc cpsName []" "sort_price cpsDeployCost"
  by unfold_locales (use uniq_acc_props [of cpsName "[]"] in \<open>auto simp: sort_price_mset sort_price_sorted\<close>)

end
