(* ===== verification/Selection.thy ===== *)
theory Selection
  imports Prelude Providers Ranking
begin

text \<open>
  Which virtual services may run each component of a deployment policy
  (\<open>internal/controller/core/ilptask/ilptask_helper.go\<close>): for the optimiser over all permitted
  locations (\<open>findK8SVirtualServices\<close>, \<open>findVMVirtualServices\<close>), and for the plan it returned over
  the chosen provider (\<open>...ForProvider\<close>, \<open>findServicesForDeployPlan\<close>). The loops over
  constraints and alternatives are folds whose state is the list built so far.
\<close>

section \<open>Data\<close>

record locStruct =
  lsName :: string
  lsPType :: string
  lsRegionAlias :: string
  lsRegion :: string
  lsPlatform :: string

record optTaskStruct =
  otTask :: string
  otApiVersion :: string
  otKind :: string
  otPermittedLocations :: "locStruct list"
  otRequiredLocations :: "locStruct list list"
  otRequestedVServices :: "VirtualServiceSelector list list"
  otMaxReplicas :: string

definition toLoc :: "ProviderRefSpec \<Rightarrow> locStruct" where
  "toLoc r = \<lparr>lsName = prName r, lsPType = prType r, lsRegionAlias = prRegionAlias r,
     lsRegion = prRegion r, lsPlatform = prPlatform r\<rparr>"

definition mkTask :: "DeploymentPolicyItem \<Rightarrow> VirtualServiceSelector list list \<Rightarrow> optTaskStruct" where
  "mkTask cmpnt vsList =
     \<lparr>otTask = crName (dpComponentRef cmpnt), otApiVersion = crAPIVersion (dpComponentRef cmpnt),
      otKind = crKind (dpComponentRef cmpnt),
      otPermittedLocations = map toLoc (lcPermitted (dpLocationConstraint cmpnt)),
      otRequiredLocations = map (map toLoc) (lcRequired (dpLocationConstraint cmpnt)),
      otRequestedVServices = vsList, otMaxReplicas = ''-1''\<rparr>"

definition mkVS :: "string \<Rightarrow> computeProfileService \<Rightarrow> VirtualServiceSelector" where
  "mkVS cnt off =
     \<lparr>vsName = cpsName off, vsApiVersion = ''skycluster.io/v1alpha1'', vsKind = ''ComputeProfile'',
      vsCount = cnt, vsPrice = cpsDeployCost off\<rparr>"

text \<open>Without duplicates, by price, at most ten.\<close>

definition cheapest :: "env \<Rightarrow> VirtualServiceSelector list \<Rightarrow> VirtualServiceSelector list" where
  "cheapest E l = take 10 (env_vs_sort E (env_vs_uniq E l))"

section \<open>Deployable profiles\<close>

definition findDeployableComputeProfiles ::
  "env \<Rightarrow> string \<Rightarrow> string \<Rightarrow> ProviderRefSpec list \<Rightarrow> computeProfileService gomap go" where
  "findDeployableComputeProfiles E ns componentName permittedLocations =
     bind_go (wrap_go ''failed to calculate min compute resource for component''
                (calculateMinComputeResource E ns componentName)) (\<lambda>minCR.
     bind_go (getAllComputeProfiles E permittedLocations) (\<lambda>profiles.
       Inr (foldl (\<lambda>m off. if cpsCpu off \<ge> cpsCpu minCR \<and> cpsRam off \<ge> cpsRam minCR
                           then mput (cpsName off) off m else m) [] profiles)))"

section \<open>Kubernetes\<close>

text \<open>
  The switch on the kind of the component: a Deployment keeps only the profiles it can be deployed
  on, and fails when that leaves none.
\<close>

definition k8s_validate ::
  "env \<Rightarrow> string \<Rightarrow> DeploymentPolicyItem \<Rightarrow> VirtualServiceSelector list \<Rightarrow> VirtualServiceSelector list go" where
  "k8s_validate E ns cmpnt altVSList =
     (if crKind (dpComponentRef cmpnt) = ''Deployment'' then
        bind_go (findDeployableComputeProfiles E ns (crName (dpComponentRef cmpnt))
                   (lcPermitted (dpLocationConstraint cmpnt))) (\<lambda>deployable.
          let altVSListFiltered = filter (\<lambda>alt. mget deployable (vsName alt) \<noteq> None) altVSList
          in if length altVSList > 0 \<and> length altVSListFiltered = 0 then
               Inl (Errf ''no suitable ComputeProfile alternatives found for component'')
             else if length altVSListFiltered > 0 then Inr altVSListFiltered
             else Inr altVSList)
      else if crKind (dpComponentRef cmpnt) \<in> {''XNodeGroup'', ''XKube''} then Inr altVSList
      else Inl (Errf ''unsupported virtual service kind for Kubernetes execution environment''))"

text \<open>
  The body of the loop over alternatives, the same text in both functions: from the list so far to
  the new one, or \<open>None\<close> for \<open>continue\<close>. \<open>locs\<close> are the locations whose offerings are asked for.
\<close>

definition k8s_alternative ::
  "env \<Rightarrow> string \<Rightarrow> DeploymentPolicyItem \<Rightarrow> ProviderRefSpec list \<Rightarrow> PolicyVirtualService
    \<Rightarrow> VirtualServiceSelector list \<Rightarrow> VirtualServiceSelector list option go" where
  "k8s_alternative E ns cmpnt locs alternativeVS altVSList =
     (if pvKind alternativeVS \<noteq> ''ComputeProfile'' then
        Inl (Errf ''unsupported virtual service kind for Kubernetes execution environment'')
      else if pvSpec alternativeVS = None then Inr None
      else
        bind_go (ParseFlavorFromJSON (pvSpec alternativeVS)) (\<lambda>pat.
        bind_go (getAllComputeProfiles E locs) (\<lambda>profiles.
        bind_go (k8s_validate E ns cmpnt (altVSList
            @ map (mkVS (itoa (pvCount alternativeVS)))
                (filter (\<lambda>off. \<not> (f64_eq (cpsDeployCost off) (Fin 0) \<or> \<not> offeringMatches pat off)) profiles)))
          (\<lambda>altVSList. Inr (Some (cheapest E altVSList))))))"

definition no_alternatives :: go_error where
  "no_alternatives = Errf ''no virtual service alternatives found for component''"

definition deployable_list :: "env \<Rightarrow> computeProfileService gomap \<Rightarrow> computeProfileService list" where
  "deployable_list E deployable = env_cp_sort E (env_cp_uniq E (env_values E deployable))"

text \<open>
  For one provider the list is appended to the result after every alternative; without any
  constraint up to five of the cheapest deployable profiles are offered.
\<close>

definition findK8SVirtualServiceForProvider ::
  "env \<Rightarrow> string \<Rightarrow> DeploymentPolicyItem \<Rightarrow> ProviderRefSpec \<Rightarrow> VirtualServiceSelector list list go" where
  "findK8SVirtualServiceForProvider E ns item provider =
     (if crKind (dpComponentRef item) \<notin> {''Deployment'', ''XNodeGroup''} then
        Inl (Errf ''unsupported component kind for Kubernetes execution environment'')
      else
        (let providerSpec = provider\<lparr>prType := []\<rparr>
         in bind_go (foldl_go (\<lambda>vsList anyOf.
              if anyOf = [] then Inl no_alternatives
              else
                bind_go (foldl_go (\<lambda>(altVSList, vsList) alternativeVS.
                    bind_go (k8s_alternative E ns item [providerSpec] alternativeVS altVSList) (\<lambda>r.
                      case r of
                        None \<Rightarrow> Inr (altVSList, vsList)
                      | Some altVSList \<Rightarrow> Inr (altVSList, vsList @ [altVSList])))
                  ([], vsList) anyOf) (\<lambda>(altVSList, vsList). Inr vsList))
            [] (dpVirtualServiceConstraint item)) (\<lambda>vsList.
              if length vsList = 0 then
                bind_go (findDeployableComputeProfiles E ns (crName (dpComponentRef item))
                           (lcPermitted (dpLocationConstraint item))) (\<lambda>deployable.
                  let l = deployable_list E deployable;
                      minLength = min (length l) 5;
                      vsList = vsList @ [map (mkVS ''1'') (take minLength l)]
                  in if length vsList = 0 then
                       Inl (Errf ''no suitable ComputeProfile alternatives found for component'')
                     else Inr vsList)
              else Inr vsList)))"

text \<open>The alternatives of one component of the policy.\<close>

definition k8s_component ::
  "env \<Rightarrow> string \<Rightarrow> DeploymentPolicyItem \<Rightarrow> VirtualServiceSelector list list go" where
  "k8s_component E ns cmpnt =
     (if crKind (dpComponentRef cmpnt) \<notin> {''Deployment'', ''XNodeGroup''} then
        Inl (Errf ''unsupported component kind for Kubernetes execution environment'')
      else
        bind_go (foldl_go (\<lambda>vsList anyOf.
            if anyOf = [] then Inl no_alternatives
            else
              bind_go (foldl_go (\<lambda>altVSList alternativeVS.
                  bind_go (k8s_alternative E ns cmpnt (lcPermitted (dpLocationConstraint cmpnt)) alternativeVS altVSList)
                    (\<lambda>r. Inr (case r of None \<Rightarrow> altVSList | Some altVSList \<Rightarrow> altVSList)))
                [] anyOf) (\<lambda>altVSList. Inr (vsList @ [altVSList])))
          [] (dpVirtualServiceConstraint cmpnt)) (\<lambda>vsList.
          if length vsList = 0 then
            bind_go (findDeployableComputeProfiles E ns (crName (dpComponentRef cmpnt))
                       (lcPermitted (dpLocationConstraint cmpnt))) (\<lambda>deployable.
              let l = deployable_list E deployable;
                  vsList = (if length l > 0 then vsList @ [[mkVS [] (hd l)]] else vsList)
              in if length vsList = 0 then
                   Inl (Errf ''no suitable ComputeProfile alternatives found for component'')
                 else Inr vsList)
          else Inr vsList))"

definition findK8SVirtualServices :: "env \<Rightarrow> string \<Rightarrow> DeploymentPolicyItem list \<Rightarrow> optTaskStruct list go" where
  "findK8SVirtualServices E ns dpPolicies =
     map_go (\<lambda>cmpnt. bind_go (k8s_component E ns cmpnt) (\<lambda>vsList. Inr (mkTask cmpnt vsList))) dpPolicies"

section \<open>Virtual machines\<close>

text \<open>
  One alternative: \<open>skip_nil\<close> tells whether a nil spec is skipped (for a provider) or read, which
  panics (for the optimiser).
\<close>

definition vm_alternative ::
  "bool \<Rightarrow> env \<Rightarrow> ProviderRefSpec list \<Rightarrow> VirtualServiceSelector list \<Rightarrow> PolicyVirtualService
    \<Rightarrow> VirtualServiceSelector list go" where
  "vm_alternative skip_nil E locs additionalVSList alternativeVS =
     (if pvKind alternativeVS \<noteq> ''ComputeProfile'' then
        Inl (Errf ''unsupported virtual service kind for Virtual Machine execution environment'')
      else if skip_nil \<and> pvSpec alternativeVS = None then Inr additionalVSList
      else
        bind_go (ParseFlavorFromJSON (pvSpec alternativeVS)) (\<lambda>pat.
        bind_go (getAllComputeProfiles E locs) (\<lambda>profiles.
          Inr (cheapest E (additionalVSList @ map (mkVS ''1'') (filter (offeringMatches pat) profiles))))))"

definition vm_constraints ::
  "bool \<Rightarrow> env \<Rightarrow> ProviderRefSpec list \<Rightarrow> PolicyVirtualService list list \<Rightarrow> VirtualServiceSelector list list go" where
  "vm_constraints skip_nil E locs constraints =
     foldl_go (\<lambda>vsList anyOf.
       if anyOf = [] then Inl no_alternatives
       else
         bind_go (foldl_go (vm_alternative skip_nil E locs) [] anyOf) (\<lambda>additionalVSList.
           Inr (if length additionalVSList > 0 then vsList @ [additionalVSList] else vsList)))
     [] constraints"

definition findVMVirtualServices :: "env \<Rightarrow> DeploymentPolicyItem list \<Rightarrow> optTaskStruct list go" where
  "findVMVirtualServices E dpPolicies =
     map_go (\<lambda>cmpnt.
       if crKind (dpComponentRef cmpnt) \<noteq> ''XInstance'' then
         Inl (Errf ''unsupported component kind for Virtual Machine execution environment'')
       else
         bind_go (vm_constraints False E (lcPermitted (dpLocationConstraint cmpnt)) (dpVirtualServiceConstraint cmpnt))
           (\<lambda>vsList. Inr (mkTask cmpnt vsList))) dpPolicies"

definition findVMVirtualServicesForProvider ::
  "env \<Rightarrow> DeploymentPolicyItem \<Rightarrow> ProviderRefSpec \<Rightarrow> VirtualServiceSelector list list go" where
  "findVMVirtualServicesForProvider E item provider =
     vm_constraints True E [provider\<lparr>prType := []\<rparr>] (dpVirtualServiceConstraint item)"

section \<open>The deploy plan\<close>

text \<open>
  The manifest of a component: the services the reconciler chooses, or what the optimiser wrote.
\<close>

datatype manifest = Services "VirtualServiceSelector list list" | RawManifest any

record SkyService =
  ssComponentRef :: ComponentRef
  ssProviderRef :: ProviderRefSpec
  ssManifest :: "manifest option"

definition same_component :: "ComponentRef \<Rightarrow> DeploymentPolicyItem \<Rightarrow> bool" where
  "same_component ref item \<longleftrightarrow>
     crName (dpComponentRef item) = crName ref \<and> crKind (dpComponentRef item) = crKind ref
     \<and> crAPIVersion (dpComponentRef item) = crAPIVersion ref"

definition plan_component ::
  "env \<Rightarrow> string \<Rightarrow> DeploymentPolicy \<Rightarrow> SkyService \<Rightarrow> VirtualServiceSelector list list go" where
  "plan_component E ns dp skySvc =
     (let cmpntRef = ssComponentRef skySvc; provRef = ssProviderRef skySvc
      in if prName provRef = [] then Inl (Errf ''provider ref not set for component'')
         else (case find (same_component cmpntRef) (depPolicies dp) of
             None \<Rightarrow> Inl (Errf ''no matching deployment policy item found for component'')
           | Some matchingDPItem \<Rightarrow>
               if depExecutionEnvironment dp = ''Kubernetes'' then
                 findK8SVirtualServiceForProvider E ns matchingDPItem provRef
               else if depExecutionEnvironment dp = ''VirtualMachine'' then
                 findVMVirtualServicesForProvider E matchingDPItem provRef
               else Inl (Errf ''unsupported execution environment for services for deploy plan'')))"

definition findServicesForDeployPlan ::
  "env \<Rightarrow> string \<Rightarrow> SkyService list \<Rightarrow> DeploymentPolicy \<Rightarrow> VirtualServiceSelector list list gomap go" where
  "findServicesForDeployPlan E ns deployPlan dp =
     foldl_go (\<lambda>servicesMap skySvc.
       bind_go (plan_component E ns dp skySvc) (\<lambda>svcs.
         Inr (mput (crName (ssComponentRef skySvc)) svcs servicesMap))) [] deployPlan"

section \<open>The documents of the optimisation\<close>

definition generateTasksJson :: "env \<Rightarrow> DeploymentPolicy \<Rightarrow> optTaskStruct list go" where
  "generateTasksJson E dp =
     (if length (depPolicies dp) = 0 then Inl (Errf ''no deployment policies found in deployment policy'')
      else
        bind_go
          (if depExecutionEnvironment dp = ''Kubernetes'' then findK8SVirtualServices E (depNs dp) (depPolicies dp)
           else if depExecutionEnvironment dp = ''VirtualMachine'' then findVMVirtualServices E (depPolicies dp)
           else Inl (Errf ''unsupported execution environment'')) (\<lambda>optTasks.
          if length optTasks = 0 then Inl (Errf ''no optimization tasks found in deployment policy'')
          else if list_all (\<lambda>t. list_all (list_all (\<lambda>v. f64_finite (vsPrice v))) (otRequestedVServices t)) optTasks
          then Inr optTasks
          else Inl (Errf ''failed to marshal optimization tasks'')))"

record taskEdgeStruct =
  teSrcTask :: string
  teDstTask :: string
  teLatency :: string
  teDataRate :: string

text \<open>\<open>None\<close> is the empty string the source returns when there is no dependency.\<close>

definition generateTasksEdgesJson :: "DataflowPolicy \<Rightarrow> taskEdgeStruct list option go" where
  "generateTasksEdgesJson df =
     (let taskEdges = map (\<lambda>d. \<lparr>teSrcTask = crName (ddFrom d), teDstTask = crName (ddTo d),
              teLatency = ddLatency d, teDataRate = ddTotalDataTransfer d\<rparr>) (dfDataDependencies df)
      in if length taskEdges = 0 then Inr None else Inr (Some taskEdges))"

section \<open>Lemmas on the alternatives\<close>

abbreviation vs_laws :: "env \<Rightarrow> bool" where
  "vs_laws E \<equiv> ranking vsName vsPrice (env_vs_uniq E) (env_vs_sort E)"

abbreviation cp_laws :: "env \<Rightarrow> bool" where
  "cp_laws E \<equiv> ranking cpsName cpsDeployCost (env_cp_uniq E) (env_cp_sort E)"

definition values_law :: "env \<Rightarrow> bool" where
  "values_law E \<longleftrightarrow> (\<forall>m. mset (env_values E m) = mset (map snd m))"

text \<open>A virtual service that stands for an offering at the locations.\<close>

definition offered :: "env \<Rightarrow> ProviderRefSpec list \<Rightarrow> VirtualServiceSelector \<Rightarrow> bool" where
  "offered E locs v \<longleftrightarrow>
     (\<exists>profiles off. getAllComputeProfiles E locs = Inr profiles \<and> off \<in> set profiles \<and> v = mkVS (vsCount v) off)"

definition priced :: "env \<Rightarrow> ProviderRefSpec list \<Rightarrow> bool" where
  "priced E locs \<longleftrightarrow>
     (\<forall>profiles. getAllComputeProfiles E locs = Inr profiles \<longrightarrow> (\<forall>off\<in>set profiles. cpsDeployCost off \<noteq> NaN))"

text \<open>At most ten offerings without duplicates, by price unless a price is a NaN.\<close>

definition group_ok :: "env \<Rightarrow> ProviderRefSpec list \<Rightarrow> VirtualServiceSelector list \<Rightarrow> bool" where
  "group_ok E locs l \<longleftrightarrow> length l \<le> 10 \<and> distinct (map vsName l) \<and> (\<forall>v\<in>set l. offered E locs v)
     \<and> (priced E locs \<longrightarrow> sorted_price vsPrice l)"

lemma group_ok_Nil [simp]: "group_ok E locs []"
  by (simp add: group_ok_def sorted_price_def)

lemma offered_price: "offered E locs v \<Longrightarrow> priced E locs \<Longrightarrow> vsPrice v \<noteq> NaN"
proof -
  assume "offered E locs v" and p: "priced E locs"
  then obtain profiles off where o: "getAllComputeProfiles E locs = Inr profiles" "off \<in> set profiles"
    "v = mkVS (vsCount v) off" unfolding offered_def by blast
  have "cpsDeployCost off \<noteq> NaN" using p o(1,2) unfolding priced_def by blast
  moreover have "vsPrice v = cpsDeployCost off" by (subst o(3)) (simp add: mkVS_def)
  ultimately show ?thesis by simp
qed

lemma cheapest_ok:
  assumes "vs_laws E" and "\<forall>v\<in>set l. offered E locs v"
  shows "group_ok E locs (cheapest E l)" and "set (cheapest E l) \<subseteq> set l" and "l \<noteq> [] \<Longrightarrow> cheapest E l \<noteq> []"
proof -
  have eq: "cheapest E l = ranking.top (env_vs_uniq E) (env_vs_sort E) 10 l"
    by (simp add: cheapest_def ranking.top_def [OF assms(1)])
  show sub: "set (cheapest E l) \<subseteq> set l" unfolding eq by (rule ranking.top_subset [OF assms(1)])
  have "sorted_price vsPrice (cheapest E l)" if "priced E locs"
    unfolding eq by (rule ranking.top_sorted [OF assms(1)]) (use that assms(2) offered_price in blast)
  moreover have "length (cheapest E l) \<le> 10" "distinct (map vsName (cheapest E l))"
    unfolding eq by (rule ranking.top_length [OF assms(1)], rule ranking.top_distinct [OF assms(1)])
  ultimately show "group_ok E locs (cheapest E l)" using assms(2) sub by (auto simp: group_ok_def)
  show "l \<noteq> [] \<Longrightarrow> cheapest E l \<noteq> []" unfolding eq by (rule ranking.top_nonempty [OF assms(1)]) simp_all
qed

lemma offered_mkVS: "getAllComputeProfiles E locs = Inr profiles \<Longrightarrow> off \<in> set profiles \<Longrightarrow> offered E locs (mkVS cnt off)"
  by (auto simp: offered_def mkVS_def)

text \<open>The deployable map: its entries are profiles big enough for the deployment.\<close>

lemma deployable_fold:
  "(\<forall>(k, off)\<in>set m. P off \<and> k = cpsName off) \<Longrightarrow> \<forall>off\<in>set xs. Q off \<longrightarrow> P off \<Longrightarrow>
    (k, off) \<in> set (foldl (\<lambda>m off. if Q off then mput (cpsName off) off m else m) m xs) \<Longrightarrow> P off \<and> k = cpsName off"
proof (induction xs arbitrary: m)
  case (Cons x xs)
  have "\<forall>(k, off)\<in>set (if Q x then mput (cpsName x) x m else m). P off \<and> k = cpsName off"
  proof (cases "Q x")
    case True
    have "set (mput (cpsName x) x m) \<subseteq> insert (cpsName x, x) (set m)" by (rule set_mput)
    then show ?thesis using True Cons.prems(1,2) by fastforce
  qed (use Cons.prems(1) in simp)
  from Cons.IH [OF this] Cons.prems(2,3) show ?case by simp
qed auto

lemma findDeployable_entries:
  assumes "findDeployableComputeProfiles E ns c locs = Inr m"
  obtains minCR profiles where "calculateMinComputeResource E ns c = Inr minCR"
    "getAllComputeProfiles E locs = Inr profiles"
    "\<And>k off. (k, off) \<in> set m \<Longrightarrow>
       (off \<in> set profiles \<and> cpsCpu off \<ge> cpsCpu minCR \<and> cpsRam off \<ge> cpsRam minCR) \<and> k = cpsName off"
proof -
  from assms obtain minCR profiles where mp: "calculateMinComputeResource E ns c = Inr minCR"
    "getAllComputeProfiles E locs = Inr profiles"
    "m = foldl (\<lambda>m off. if cpsCpu off \<ge> cpsCpu minCR \<and> cpsRam off \<ge> cpsRam minCR
           then mput (cpsName off) off m else m) [] profiles"
    by (auto simp: findDeployableComputeProfiles_def)
  have "(off \<in> set profiles \<and> cpsCpu off \<ge> cpsCpu minCR \<and> cpsRam off \<ge> cpsRam minCR) \<and> k = cpsName off"
    if "(k, off) \<in> set m" for k off
    by (rule deployable_fold [where m = "[]" and xs = profiles
          and Q = "\<lambda>off. cpsCpu off \<ge> cpsCpu minCR \<and> cpsRam off \<ge> cpsRam minCR"])
      (use that mp(3) in auto)
  with mp(1,2) show ?thesis by (rule that)
qed

text \<open>A profile of that name at the permitted locations has the resources of the deployment.\<close>

definition fits_deployment :: "env \<Rightarrow> string \<Rightarrow> DeploymentPolicyItem \<Rightarrow> string \<Rightarrow> bool" where
  "fits_deployment E ns item n \<longleftrightarrow>
     (\<exists>minCR profiles off. calculateMinComputeResource E ns (crName (dpComponentRef item)) = Inr minCR
       \<and> getAllComputeProfiles E (lcPermitted (dpLocationConstraint item)) = Inr profiles \<and> off \<in> set profiles
       \<and> cpsName off = n \<and> cpsCpu off \<ge> cpsCpu minCR \<and> cpsRam off \<ge> cpsRam minCR)"

lemma deployable_fits:
  assumes "findDeployableComputeProfiles E ns (crName (dpComponentRef item)) (lcPermitted (dpLocationConstraint item)) = Inr m"
    and "mget m n = Some off"
  shows "fits_deployment E ns item n" and "n = cpsName off"
proof -
  from findDeployable_entries [OF assms(1)] mget_in_set [OF assms(2)]
  show "fits_deployment E ns item n" "n = cpsName off" unfolding fits_deployment_def by metis+
qed

text \<open>What one alternative of a Kubernetes component leaves.\<close>

definition alt_inv :: "env \<Rightarrow> string \<Rightarrow> DeploymentPolicyItem \<Rightarrow> ProviderRefSpec list \<Rightarrow> VirtualServiceSelector list \<Rightarrow> bool" where
  "alt_inv E ns item locs l \<longleftrightarrow> group_ok E locs l
     \<and> (crKind (dpComponentRef item) = ''Deployment'' \<longrightarrow> (\<forall>v\<in>set l. fits_deployment E ns item (vsName v)))"

lemma alt_inv_Nil [simp]: "alt_inv E ns item locs []"
  by (simp add: alt_inv_def)

lemma k8s_validate_inv:
  assumes "k8s_validate E ns item l = Inr l'"
  shows "set l' \<subseteq> set l"
    and "crKind (dpComponentRef item) = ''Deployment'' \<Longrightarrow> \<forall>v\<in>set l'. fits_deployment E ns item (vsName v)"
proof -
  show "set l' \<subseteq> set l"
  proof (cases "crKind (dpComponentRef item) = ''Deployment''")
    case True
    with assms show ?thesis unfolding k8s_validate_def Let_def by (auto split: if_split_asm)
  next
    case False
    with assms show ?thesis unfolding k8s_validate_def by (auto split: if_split_asm)
  qed
  assume "crKind (dpComponentRef item) = ''Deployment''"
  with assms obtain d where d: "findDeployableComputeProfiles E ns (crName (dpComponentRef item))
        (lcPermitted (dpLocationConstraint item)) = Inr d"
    and l': "l' = filter (\<lambda>alt. mget d (vsName alt) \<noteq> None) l \<or> l' = [] \<and> l = []"
    unfolding k8s_validate_def Let_def by (auto split: if_split_asm)
  then show "\<forall>v\<in>set l'. fits_deployment E ns item (vsName v)"
    using deployable_fits(1) [OF d] by auto
qed

lemma k8s_alternative_inv:
  assumes laws: "vs_laws E" and inv: "alt_inv E ns item locs l"
    and run: "k8s_alternative E ns item locs alt l = Inr (Some l')"
  shows "alt_inv E ns item locs l'"
proof -
  from run obtain pat profiles l2 where p: "getAllComputeProfiles E locs = Inr profiles"
    and l2: "k8s_validate E ns item (l @ map (mkVS (itoa (pvCount alt)))
        (filter (\<lambda>off. \<not> f64_eq (cpsDeployCost off) (Fin 0) \<and> offeringMatches pat off) profiles)) = Inr l2"
      "l' = cheapest E l2"
    unfolding k8s_alternative_def by (auto split: if_split_asm)
  define l1 where "l1 = map (mkVS (itoa (pvCount alt)))
      (filter (\<lambda>off. \<not> f64_eq (cpsDeployCost off) (Fin 0) \<and> offeringMatches pat off) profiles)"
  have l1: "set l1 \<subseteq> mkVS (itoa (pvCount alt)) ` set profiles" by (auto simp: l1_def)
  note l2 = l2 [folded l1_def]
  have "\<forall>v\<in>set (l @ l1). offered E locs v"
    using inv offered_mkVS [OF p] l1 by (auto simp: alt_inv_def group_ok_def)
  then have o: "\<forall>v\<in>set l2. offered E locs v" using k8s_validate_inv(1) [OF l2(1)] by blast
  show ?thesis
    using cheapest_ok(1,2) [OF laws o] k8s_validate_inv(2) [OF l2(1)] by (auto simp: alt_inv_def l2(2))
qed

lemma k8s_constraint_inv:
  assumes "vs_laws E"
    and "foldl_go (\<lambda>altVSList alternativeVS.
          bind_go (k8s_alternative E ns item locs alternativeVS altVSList)
            (\<lambda>r. Inr (case r of None \<Rightarrow> altVSList | Some altVSList \<Rightarrow> altVSList))) [] anyOf = Inr l"
  shows "alt_inv E ns item locs l"
proof (rule foldl_go_invariant [OF assms(2)])
  fix s x t
  assume inv: "alt_inv E ns item locs s"
    and run: "bind_go (k8s_alternative E ns item locs x s)
      (\<lambda>r. Inr (case r of None \<Rightarrow> s | Some altVSList \<Rightarrow> altVSList)) = Inr t"
  then obtain r where "k8s_alternative E ns item locs x s = Inr r" "t = (case r of None \<Rightarrow> s | Some l \<Rightarrow> l)" by auto
  with inv k8s_alternative_inv [OF assms(1) inv] show "alt_inv E ns item locs t" by (cases r) auto
qed simp

lemma deployable_list_entries:
  assumes "cp_laws E" and "values_law E" and "off \<in> set (deployable_list E d)"
  shows "off \<in> snd ` set d"
proof -
  have "off \<in> set (env_values E d)"
    using assms(3) ranking.set_srt [OF assms(1)] ranking.uniq_subset [OF assms(1)] by (auto simp: deployable_list_def)
  moreover have "set (env_values E d) = set (map snd d)"
    using assms(2) unfolding values_law_def by (intro mset_eq_setD) blast
  ultimately show ?thesis by auto
qed

lemma deployable_offered:
  assumes "findDeployableComputeProfiles E ns (crName (dpComponentRef item)) (lcPermitted (dpLocationConstraint item)) = Inr d"
    and "off \<in> snd ` set d"
  shows "offered E (lcPermitted (dpLocationConstraint item)) (mkVS cnt off) \<and> fits_deployment E ns item (cpsName off)"
proof -
  obtain k where "(k, off) \<in> set d" using assms(2) by auto
  with findDeployable_entries [OF assms(1)] obtain minCR profiles where
    m: "calculateMinComputeResource E ns (crName (dpComponentRef item)) = Inr minCR"
    "getAllComputeProfiles E (lcPermitted (dpLocationConstraint item)) = Inr profiles"
    "off \<in> set profiles" "cpsCpu off \<ge> cpsCpu minCR" "cpsRam off \<ge> cpsRam minCR" by metis
  from offered_mkVS [OF m(2,3)] m show ?thesis unfolding fits_deployment_def by blast
qed

lemma k8s_component_inv:
  assumes laws: "vs_laws E" "cp_laws E" "values_law E" and run: "k8s_component E ns item = Inr vsList"
  shows "crKind (dpComponentRef item) \<in> {''Deployment'', ''XNodeGroup''} \<and> vsList \<noteq> []
    \<and> (\<forall>l\<in>set vsList. alt_inv E ns item (lcPermitted (dpLocationConstraint item)) l)"
proof -
  let ?locs = "lcPermitted (dpLocationConstraint item)"
  let ?inv = "\<lambda>vsList. \<forall>l\<in>set vsList. alt_inv E ns item ?locs l"
  let ?step = "\<lambda>vsList anyOf. if anyOf = [] then Inl no_alternatives
      else bind_go (foldl_go (\<lambda>altVSList alternativeVS.
              bind_go (k8s_alternative E ns item ?locs alternativeVS altVSList)
                (\<lambda>r. Inr (case r of None \<Rightarrow> altVSList | Some altVSList \<Rightarrow> altVSList))) [] anyOf)
            (\<lambda>altVSList. Inr (vsList @ [altVSList]))"
  have kind: "crKind (dpComponentRef item) \<in> {''Deployment'', ''XNodeGroup''}"
    using run unfolding k8s_component_def by (simp split: if_split_asm)
  from run kind obtain vs where vs: "foldl_go ?step [] (dpVirtualServiceConstraint item) = Inr vs"
    and tail: "(if length vs = 0 then
            bind_go (findDeployableComputeProfiles E ns (crName (dpComponentRef item)) ?locs) (\<lambda>deployable.
              let l = deployable_list E deployable;
                  vsList = (if length l > 0 then vs @ [[mkVS [] (hd l)]] else vs)
              in if length vsList = 0 then
                   Inl (Errf ''no suitable ComputeProfile alternatives found for component'')
                 else Inr vsList)
          else Inr vs) = Inr vsList"
    unfolding k8s_component_def by auto
  have inv: "?inv vs"
  proof (rule foldl_go_invariant [OF vs])
    fix s anyOf t
    assume s: "?inv s" and "?step s anyOf = Inr t"
    then obtain l where l: "foldl_go (\<lambda>altVSList alternativeVS.
              bind_go (k8s_alternative E ns item ?locs alternativeVS altVSList)
                (\<lambda>r. Inr (case r of None \<Rightarrow> altVSList | Some altVSList \<Rightarrow> altVSList))) [] anyOf = Inr l" "t = s @ [l]"
      by (auto split: if_split_asm)
    from k8s_constraint_inv [OF laws(1) l(1)] s l(2) show "?inv t" by simp
  qed simp
  show ?thesis
  proof (cases "vs = []")
    case False
    then show ?thesis using tail inv kind by simp
  next
    case True
    from tail True obtain d where d: "findDeployableComputeProfiles E ns (crName (dpComponentRef item)) ?locs = Inr d"
      and ne: "deployable_list E d \<noteq> []" and eq: "vsList = [[mkVS [] (hd (deployable_list E d))]]"
      by (auto simp: Let_def split: if_split_asm)
    have "hd (deployable_list E d) \<in> snd ` set d"
      using deployable_list_entries [OF laws(2,3)] ne by simp
    from deployable_offered [OF d this] have "alt_inv E ns item ?locs [mkVS [] (hd (deployable_list E d))]"
      by (simp add: alt_inv_def group_ok_def sorted_price_def) (simp add: mkVS_def)
    then show ?thesis using kind by (simp add: eq)
  qed
qed

section \<open>Properties\<close>

text \<open>The tasks belong to the policy items at their places, with lists of alternatives fit for them.\<close>

definition k8s_tasks_sound :: "env \<Rightarrow> string \<Rightarrow> DeploymentPolicyItem list \<Rightarrow> optTaskStruct list \<Rightarrow> bool" where
  "k8s_tasks_sound E ns policies tasks \<longleftrightarrow>
    list_all2 (\<lambda>item task.
        otTask task = crName (dpComponentRef item) \<and> otKind task = crKind (dpComponentRef item)
        \<and> crKind (dpComponentRef item) \<in> {''Deployment'', ''XNodeGroup''}
        \<and> otRequestedVServices task \<noteq> []
        \<and> (\<forall>l\<in>set (otRequestedVServices task).
             group_ok E (lcPermitted (dpLocationConstraint item)) l
             \<and> (crKind (dpComponentRef item) = ''Deployment'' \<longrightarrow>
                  (\<forall>v\<in>set l. fits_deployment E ns item (vsName v))))) policies tasks"


text \<open>A provider with one offering, and policies that ask for it.\<close>

definition ex_offering :: InstanceOffering where
  "ex_offering = \<lparr>ioName = ''t3.medium'', ioNameLabel = ''2vCPU-4GB'', ioVCPUs = 2, ioRAM = ''4'', ioPrice = ''2'',
     ioGPU = zeroGPU, ioGeneration = [], ioVolumeTypes = [], ioSpot = \<lparr>spPrice = [], spEnabled = False\<rparr>\<rparr>"

definition ex_env :: env where
  "ex_env = (example_env [example_provider ''aws'' ''us-east-1''] [])
     \<lparr>env_config_maps := (\<lambda>_. Inr [[(''flavors.yaml'', ''x'')]]),
      env_yaml_offerings := (\<lambda>_. Inr [\<lparr>zoZone = ''a'', zoOfferings = [ex_offering]\<rparr>]),
      env_vs_uniq := uniq_acc vsName [], env_vs_sort := sort_price vsPrice,
      env_cp_uniq := uniq_acc cpsName [], env_cp_sort := sort_price cpsDeployCost\<rparr>"

definition ex_item :: "string \<Rightarrow> DeploymentPolicyItem" where
  "ex_item kind =
     \<lparr>dpComponentRef = \<lparr>crAPIVersion = ''v1'', crKind = kind, crName = ''web'', crNamespace = ''default''\<rparr>,
      dpVirtualServiceConstraint = [[\<lparr>pvName = [], pvKind = ''ComputeProfile'', pvSpec = Some (Some ANil), pvCount = 1\<rparr>]],
      dpLocationConstraint = \<lparr>lcRequired = [], lcPermitted = []\<rparr>\<rparr>"

definition ex_cps :: computeProfileService where
  "ex_cps = zeroCPS\<lparr>cpsName := ''2vCPU-4GB'', cpsCpu := Fin 2, cpsRam := Fin 4, cpsDeployCost := Fin 2\<rparr>"

definition ex_ref :: ProviderRefSpec where
  "ex_ref = \<lparr>prName = ''aws'', prPlatform = [], prType = [], prRegion = [], prRegionAlias = [], prZone = []\<rparr>"

lemma ex_laws: "vs_laws ex_env" "cp_laws ex_env" "values_law ex_env"
  using vs_rank.ranking_axioms cp_rank.ranking_axioms by (simp_all add: ex_env_def example_env_def values_law_def)

lemma ex_offering_service: "offering_service ex_offering = Some ex_cps"
proof -
  have d: "nat_dec 2 = ''2''" "nat_dec 4 = ''4''" by code_simp+
  have "parse_float ''2'' = Inr (Fin 2)" using parse_float_nat [of 2] by (simp add: d)
  moreover have "parseMemory ''4'' = Inr (Fin 4)" using parseMemory_nat [of 4 "[]"] by (simp add: d unit_start_def)
  moreover have "trim_char (CHR ''$'') ''2'' = ''2''" by (simp add: trim_char_def trim_left_def trim_right_def)
  moreover have "f64_of_int 2 = Fin 2" using f64_of_int_exact [of 2] by simp
  ultimately show ?thesis
    by (simp add: offering_service_def ex_offering_def ex_cps_def zeroCPS_def zeroGPU_def)
qed

lemma ex_profiles: "getAllComputeProfiles ex_env [] = Inr [ex_cps]" "getAllComputeProfiles ex_env [ex_ref] = Inr [ex_cps]"
  by (simp_all add: getAllComputeProfiles_def getCandidateProviders_def ex_env_def example_env_def
      getComputeProfileForProvider_def mget_Cons ex_offering_service List.map_filter_def ref_filter_def ex_ref_def
      provider_matches_iff)

lemma ex_matches:
  "ParseFlavorFromJSON (Some (Some ANil)) = Inr (zeroPattern\<lparr>fpCpuAny := True, fpRamAny := True, fpGpuMemAny := True\<rparr>)"
  "offeringMatches (zeroPattern\<lparr>fpCpuAny := True, fpRamAny := True, fpGpuMemAny := True\<rparr>) ex_cps"
proof -
  have g: "parse_number [] = None" "trim_space [] = []" by code_simp+
  then show "ParseFlavorFromJSON (Some (Some ANil)) =
      Inr (zeroPattern\<lparr>fpCpuAny := True, fpRamAny := True, fpGpuMemAny := True\<rparr>)"
    by (simp add: ParseFlavorFromJSON_def decode_flavor_def zeroComputeFlavor_def zeroGPU_def flavor_pattern_def
        zeroPattern_def)
  show "offeringMatches (zeroPattern\<lparr>fpCpuAny := True, fpRamAny := True, fpGpuMemAny := True\<rparr>) ex_cps"
    by (simp add: offeringMatches_def zeroPattern_def ex_cps_def zeroCPS_def split: prod.split)
qed

lemma ex_cheapest: "cheapest ex_env [v] = [v]"
  by (simp add: cheapest_def ex_env_def example_env_def sort_price_def)

lemma ex_k8s: "findK8SVirtualServices ex_env ''default'' [ex_item ''XNodeGroup'']
    = Inr [mkTask (ex_item ''XNodeGroup'') [[mkVS (itoa 1) ex_cps]]]"
proof -
  have "\<not> f64_eq (cpsDeployCost ex_cps) (Fin 0)" by (simp add: ex_cps_def f64_eq_def)
  then show ?thesis
    by (simp add: findK8SVirtualServices_def k8s_component_def ex_item_def k8s_alternative_def ex_matches ex_profiles
        k8s_validate_def ex_cheapest)
qed


lemma vm_constraints_inv:
  assumes laws: "vs_laws E" and run: "vm_constraints skip_nil E locs cs = Inr vsList"
  shows "\<forall>l\<in>set vsList. l \<noteq> [] \<and> group_ok E locs l"
proof (rule foldl_go_invariant [OF run [unfolded vm_constraints_def]])
  fix s anyOf t
  assume s: "\<forall>l\<in>set s. l \<noteq> [] \<and> group_ok E locs l"
    and "(if anyOf = [] then Inl no_alternatives
       else bind_go (foldl_go (vm_alternative skip_nil E locs) [] anyOf) (\<lambda>additionalVSList.
           Inr (if length additionalVSList > 0 then s @ [additionalVSList] else s))) = Inr t"
  then obtain l where l: "foldl_go (vm_alternative skip_nil E locs) [] anyOf = Inr l"
    "t = (if length l > 0 then s @ [l] else s)" by (auto split: if_split_asm)
  have "group_ok E locs l"
  proof (rule foldl_go_invariant [OF l(1)])
    fix a alt b
    assume a: "group_ok E locs a" and b: "vm_alternative skip_nil E locs a alt = Inr b"
    show "group_ok E locs b"
    proof (cases "skip_nil \<and> pvSpec alt = None")
      case True
      then show ?thesis using a b by (auto simp: vm_alternative_def split: if_split_asm)
    next
      case False
      with b obtain pat profiles where p: "getAllComputeProfiles E locs = Inr profiles"
        and bb: "b = cheapest E (a @ map (mkVS ''1'') (filter (offeringMatches pat) profiles))"
        by (auto simp: vm_alternative_def split: if_split_asm)
      show ?thesis unfolding bb
        by (rule cheapest_ok(1) [OF laws]) (use a offered_mkVS [OF p] in \<open>auto simp: group_ok_def\<close>)
    qed
  qed simp
  with s l(2) show "\<forall>l\<in>set t. l \<noteq> [] \<and> group_ok E locs l" by auto
qed simp

text \<open>The virtual-machine optimisation accepts only XInstance components, and lists for each of its
  constraints between one and ten offerings of the permitted locations, without duplicates and
  cheapest first; the plan for a provider lists only offerings at that provider's place.\<close>

theorem findVMVirtualServices_sound:
  assumes "vs_laws E" and "findVMVirtualServices E policies = Inr tasks"
    and "findVMVirtualServicesForProvider E item provider = Inr vsList"
  shows "length tasks = length policies
    \<and> (\<forall>i<length policies.
         otTask (tasks ! i) = crName (dpComponentRef (policies ! i))
         \<and> crKind (dpComponentRef (policies ! i)) = ''XInstance''
         \<and> (\<forall>l\<in>set (otRequestedVServices (tasks ! i)).
              l \<noteq> [] \<and> group_ok E (lcPermitted (dpLocationConstraint (policies ! i))) l))
    \<and> (\<forall>l\<in>set vsList. l \<noteq> [] \<and> group_ok E [provider\<lparr>prType := []\<rparr>] l)"
proof -
  let ?f = "\<lambda>cmpnt. if crKind (dpComponentRef cmpnt) \<noteq> ''XInstance'' then
         Inl (Errf ''unsupported component kind for Virtual Machine execution environment'')
       else bind_go (vm_constraints False E (lcPermitted (dpLocationConstraint cmpnt)) (dpVirtualServiceConstraint cmpnt))
           (\<lambda>vsList. Inr (mkTask cmpnt vsList))"
  have run: "length tasks = length policies" "\<And>i. i < length policies \<Longrightarrow> ?f (policies ! i) = Inr (tasks ! i)"
    using assms(2) by (auto simp: findVMVirtualServices_def map_go_Inr)
  have "otTask (tasks ! i) = crName (dpComponentRef (policies ! i))
         \<and> crKind (dpComponentRef (policies ! i)) = ''XInstance''
         \<and> (\<forall>l\<in>set (otRequestedVServices (tasks ! i)).
              l \<noteq> [] \<and> group_ok E (lcPermitted (dpLocationConstraint (policies ! i))) l)"
    if i: "i < length policies" for i
  proof -
    from run(2) [OF i] obtain vs where kind: "crKind (dpComponentRef (policies ! i)) = ''XInstance''"
      and vs: "vm_constraints False E (lcPermitted (dpLocationConstraint (policies ! i)))
        (dpVirtualServiceConstraint (policies ! i)) = Inr vs" "tasks ! i = mkTask (policies ! i) vs"
      by (auto split: if_split_asm)
    from vm_constraints_inv [OF assms(1) vs(1)] kind show ?thesis by (simp add: vs(2) mkTask_def)
  qed
  moreover have "\<forall>l\<in>set vsList. l \<noteq> [] \<and> group_ok E [provider\<lparr>prType := []\<rparr>] l"
    using assms(3) unfolding findVMVirtualServicesForProvider_def by (rule vm_constraints_inv [OF assms(1)])
  ultimately show ?thesis using run(1) by blast
qed

lemma ex_vm:
  "findVMVirtualServices ex_env [ex_item ''XInstance''] = Inr [mkTask (ex_item ''XInstance'') [[mkVS ''1'' ex_cps]]]"
  "findVMVirtualServicesForProvider ex_env (ex_item ''XInstance'') ex_ref = Inr [[mkVS ''1'' ex_cps]]"
proof -
  have r: "ex_ref\<lparr>prType := []\<rparr> = ex_ref" by (simp add: ex_ref_def)
  show "findVMVirtualServices ex_env [ex_item ''XInstance''] = Inr [mkTask (ex_item ''XInstance'') [[mkVS ''1'' ex_cps]]]"
    "findVMVirtualServicesForProvider ex_env (ex_item ''XInstance'') ex_ref = Inr [[mkVS ''1'' ex_cps]]"
    by (simp_all add: findVMVirtualServices_def findVMVirtualServicesForProvider_def vm_constraints_def ex_item_def
        vm_alternative_def ex_matches ex_profiles ex_cheapest r)
qed

theorem findVMVirtualServices_sound_witness:
  "let policies = [ex_item ''XInstance'']; tasks = [mkTask (ex_item ''XInstance'') [[mkVS ''1'' ex_cps]]]
   in length tasks = length policies
    \<and> (\<forall>i<length policies.
         otTask (tasks ! i) = crName (dpComponentRef (policies ! i))
         \<and> crKind (dpComponentRef (policies ! i)) = ''XInstance''
         \<and> (\<forall>l\<in>set (otRequestedVServices (tasks ! i)).
              l \<noteq> [] \<and> group_ok ex_env (lcPermitted (dpLocationConstraint (policies ! i))) l))
    \<and> (\<forall>l\<in>set [[mkVS ''1'' ex_cps]]. l \<noteq> [] \<and> group_ok ex_env [ex_ref\<lparr>prType := []\<rparr>] l)"
  unfolding Let_def by (rule findVMVirtualServices_sound [OF ex_laws(1) ex_vm])

text \<open>Without virtual-service constraints the Kubernetes plan for a component does not depend on the
  provider the optimiser chose: the offerings of all permitted locations are used.\<close>

theorem findK8SVirtualServiceForProvider_ignores_provider:
  assumes "dpVirtualServiceConstraint item = []"
  shows "findK8SVirtualServiceForProvider E ns item p = findK8SVirtualServiceForProvider E ns item p'"
  using assms by (simp add: findK8SVirtualServiceForProvider_def)

theorem findK8SVirtualServiceForProvider_ignores_provider_witness:
  "findK8SVirtualServiceForProvider ex_env ''default'' ((ex_item ''Deployment'')\<lparr>dpVirtualServiceConstraint := []\<rparr>) ex_ref
    = findK8SVirtualServiceForProvider ex_env ''default'' ((ex_item ''Deployment'')\<lparr>dpVirtualServiceConstraint := []\<rparr>)
        (ex_ref\<lparr>prPlatform := ''gcp''\<rparr>)"
  by (rule findK8SVirtualServiceForProvider_ignores_provider) simp

text \<open>A plan is accepted only if every component names a provider and is found in the policy; the
  result then has exactly the components of the plan, and (when their names differ) each is mapped
  to the services found for it.\<close>

theorem findServicesForDeployPlan_spec:
  assumes "findServicesForDeployPlan E ns plan dp = Inr m"
  shows "set (mkeys m) = (\<lambda>s. crName (ssComponentRef s)) ` set plan
    \<and> (\<forall>s\<in>set plan. prName (ssProviderRef s) \<noteq> [] \<and> (\<exists>item\<in>set (depPolicies dp). same_component (ssComponentRef s) item))
    \<and> (distinct (map (\<lambda>s. crName (ssComponentRef s)) plan) \<longrightarrow>
         (\<forall>s\<in>set plan. \<exists>svcs. plan_component E ns dp s = Inr svcs \<and> mget m (crName (ssComponentRef s)) = Some svcs))"
proof -
  have comp: "prName (ssProviderRef s) \<noteq> [] \<and> (\<exists>item\<in>set (depPolicies dp). same_component (ssComponentRef s) item)"
    if "plan_component E ns dp s = Inr svcs" for s svcs
    using that by (auto simp: plan_component_def Let_def find_Some_iff split: if_split_asm option.split_asm)
  have keys: "set (mkeys (mput k v m)) = insert k (set (mkeys m))" for k v and m :: "VirtualServiceSelector list list gomap"
    unfolding mkeys_def mput_def by (induction m) auto
  show ?thesis
    using assms
  proof (induction plan arbitrary: m rule: rev_induct)
    case Nil
    then show ?case by (simp add: findServicesForDeployPlan_def mkeys_def)
  next
    case (snoc s plan)
    from snoc.prems obtain m0 svcs where m0: "findServicesForDeployPlan E ns plan dp = Inr m0"
      and s: "plan_component E ns dp s = Inr svcs" and m: "m = mput (crName (ssComponentRef s)) svcs m0"
      by (auto simp: findServicesForDeployPlan_def foldl_go_append)
    from snoc.IH [OF m0] comp [OF s] s show ?case by (force simp: m keys image_iff)
  qed
qed

lemma ex_plan:
  "findServicesForDeployPlan ex_env ''default''
     [\<lparr>ssComponentRef = dpComponentRef (ex_item ''XInstance''), ssProviderRef = ex_ref, ssManifest = None\<rparr>]
     \<lparr>depName = ''app'', depNs = ''default'', depResourceVersion = ''1'', depLabels = [], depExecutionEnvironment = ''VirtualMachine'',
      depPolicies = [ex_item ''XInstance'']\<rparr> = Inr [(''web'', [[mkVS ''1'' ex_cps]])]"
  by (simp add: findServicesForDeployPlan_def plan_component_def ex_vm same_component_def ex_ref_def [THEN arg_cong, of prName])
    (simp add: ex_item_def mput_def)

theorem findServicesForDeployPlan_spec_witness:
  "let plan = [\<lparr>ssComponentRef = dpComponentRef (ex_item ''XInstance''), ssProviderRef = ex_ref, ssManifest = None\<rparr>];
       dp = \<lparr>depName = ''app'', depNs = ''default'', depResourceVersion = ''1'', depLabels = [], depExecutionEnvironment = ''VirtualMachine'',
          depPolicies = [ex_item ''XInstance'']\<rparr>;
       m = [(''web'', [[mkVS ''1'' ex_cps]])]
   in set (mkeys m) = (\<lambda>s. crName (ssComponentRef s)) ` set plan
    \<and> (\<forall>s\<in>set plan. prName (ssProviderRef s) \<noteq> [] \<and> (\<exists>item\<in>set (depPolicies dp). same_component (ssComponentRef s) item))
    \<and> (distinct (map (\<lambda>s. crName (ssComponentRef s)) plan) \<longrightarrow>
         (\<forall>s\<in>set plan. \<exists>svcs. plan_component ex_env ''default'' dp s = Inr svcs \<and> mget m (crName (ssComponentRef s)) = Some svcs))"
  unfolding Let_def by (rule findServicesForDeployPlan_spec [OF ex_plan])

end
