(* ===== verification/Effects.thy ===== *)
theory Effects
  imports Prelude
begin

text \<open>
  Handlers that write to the API server: a run is the list of the write calls it makes, in order,
  with its return value. The reply of every call is given from outside, so a theorem about all
  replies covers failures and concurrent writers. An error ends the run; the calls made before it
  stay made.
\<close>

datatype PodPhase = PodPending | PodRunning | PodSucceeded | PodFailed | PodUnknown

type_synonym ('e, 'a) run = "'e list \<times> 'a go"

definition pure_run :: "'a go \<Rightarrow> ('e, 'a) run" where
  "pure_run r = ([], r)"

text \<open>A write call with its reply.\<close>

definition call :: "'e \<Rightarrow> 'a go \<Rightarrow> ('e, 'a) run" where
  "call e reply = ([e], reply)"

definition bind_run :: "('e, 'a) run \<Rightarrow> ('a \<Rightarrow> ('e, 'b) run) \<Rightarrow> ('e, 'b) run" where
  "bind_run m f =
     (case m of (es, r) \<Rightarrow>
        (case r of Inl e \<Rightarrow> (es, Inl e) | Inr x \<Rightarrow> (case f x of (es', r') \<Rightarrow> (es @ es', r'))))"

text \<open>\<open>_ = call\<close>: the reply is dropped.\<close>

definition ignore :: "('e, 'a) run \<Rightarrow> ('e, unit) run" where
  "ignore m = (fst m, Inr ())"

text \<open>\<open>if err := call; err != nil { return wrap(err) }\<close>\<close>

definition wrap_run :: "string \<Rightarrow> ('e, 'a) run \<Rightarrow> ('e, 'a) run" where
  "wrap_run msg m = (fst m, wrap_go msg (snd m))"

lemma bind_run_simps [simp, go_simps]:
  "bind_run (pure_run (Inr x)) f = f x"
  "bind_run (pure_run (Inl e)) f = ([], Inl e)"
  "bind_run (call c (Inr x)) f = (c # fst (f x), snd (f x))"
  "bind_run (call c (Inl e)) f = ([c], Inl e)"
  by (simp_all add: bind_run_def pure_run_def call_def split: prod.split)

lemma bind_run_Inr:
  "snd (bind_run m f) = Inr y \<longleftrightarrow> (\<exists>x. snd m = Inr x \<and> snd (f x) = Inr y)"
  by (cases m; cases "snd m") (auto simp: bind_run_def split: prod.splits)

lemma fst_bind_run:
  "fst (bind_run m f) = fst m @ (case snd m of Inl e \<Rightarrow> [] | Inr x \<Rightarrow> fst (f x))"
  by (cases m; cases "snd m") (auto simp: bind_run_def split: prod.splits)

lemma snd_bind_run:
  "snd (bind_run m f) = (case snd m of Inl e \<Rightarrow> Inl e | Inr x \<Rightarrow> snd (f x))"
  by (cases m; cases "snd m") (auto simp: bind_run_def split: prod.splits)

lemma run_parts [simp, go_simps]:
  "fst (pure_run r) = []" "snd (pure_run r) = r"
  "fst (call c r) = [c]" "snd (call c r) = r"
  "fst (ignore m) = fst m" "snd (ignore m) = Inr ()"
  "fst (wrap_run msg m) = fst m" "snd (wrap_run msg m) = wrap_go msg (snd m)"
  by (simp_all add: pure_run_def call_def ignore_def wrap_run_def)

lemma bind_run_call:
  "c \<in> set (fst (bind_run m f)) \<longleftrightarrow> c \<in> set (fst m) \<or> (\<exists>x. snd m = Inr x \<and> c \<in> set (fst (f x)))"
  by (cases "snd m") (simp_all add: fst_bind_run)

lemma bind_run_pair:
  "bind_run m f = (es, Inr y) \<longleftrightarrow> (\<exists>es1 x es2. m = (es1, Inr x) \<and> f x = (es2, Inr y) \<and> es = es1 @ es2)"
  by (cases m; cases "snd m") (auto simp: bind_run_def split: prod.splits)

text \<open>The facts a proof about the calls of a run uses.\<close>

lemmas run_simps = bind_run_call bind_run_Inr

text \<open>A run whose error is handled by what follows: the continuation gets its outcome.\<close>

definition try_run :: "('e, 'a) run \<Rightarrow> ('a go \<Rightarrow> ('e, 'b) run) \<Rightarrow> ('e, 'b) run" where
  "try_run m f = (fst m @ fst (f (snd m)), snd (f (snd m)))"

lemma try_run_parts [simp]:
  "fst (try_run m f) = fst m @ fst (f (snd m))" "snd (try_run m f) = snd (f (snd m))"
  by (simp_all add: try_run_def)

text \<open>A fold of runs.\<close>

fun fold_run :: "('a \<Rightarrow> ('e, unit) run) \<Rightarrow> 'a list \<Rightarrow> ('e, unit) run" where
  "fold_run f [] = pure_run (Inr ())"
| "fold_run f (x # xs) = bind_run (f x) (\<lambda>_. fold_run f xs)"

lemma fold_run_call: "c \<in> set (fst (fold_run f xs)) \<Longrightarrow> \<exists>x\<in>set xs. c \<in> set (fst (f x))"
  by (induction xs) (auto simp: run_simps)

lemma fold_run_all: "snd (fold_run f xs) = Inr y \<Longrightarrow> x \<in> set xs \<Longrightarrow> set (fst (f x)) \<subseteq> set (fst (fold_run f xs))"
proof (induction xs)
  case (Cons z zs)
  from Cons.prems(1) obtain w where w: "snd (f z) = Inr w" "snd (fold_run f zs) = Inr y" by (auto simp: run_simps)
  then show ?case using Cons.IH [OF w(2)] Cons.prems(2) by (auto simp: run_simps)
qed simp

end
