(* ===== verification/ILPTask.thy ===== *)
theory ILPTask
  imports Prelude Conditions Effects Selection
begin

text \<open>
  The reconciler of the \<open>ILPTask\<close> (\<open>internal/controller/core/ilptask/ilptask_controller.go\<close>) and the
  optimisation pod it starts (\<open>ilptask_pod.go\<close>). \<open>ilp_env\<close> holds one reply for every call of a run,
  \<open>effect\<close> the write calls. The deploy plan the optimiser leaves in a config map is decoded by
  \<open>il_parse_plan\<close>; \<open>reflect.DeepEqual\<close> of two plans is equality.
\<close>

section \<open>Data\<close>

record DeployMapEdge =
  dmFrom :: SkyService
  dmTo :: SkyService
  dmLatency :: string

record DeployMap =
  dmComponent :: "SkyService list"
  dmEdges :: "DeployMapEdge list"

definition emptyDeployMap :: DeployMap where
  "emptyDeployMap = \<lparr>dmComponent = [], dmEdges = []\<rparr>"

record OptimizationSpec =
  opStatus :: string
  opResult :: string
  opDeployMap :: DeployMap
  opPodRef :: string
  opDataflowResourceVersion :: string
  opDeploymentPlanResourceVersion :: string

text \<open>The references to the two policies are their names.\<close>

record ILPTask =
  itName :: string
  itNamespace :: string
  itDeleting :: bool
  itDataflowPolicyRef :: string
  itDeploymentPolicyRef :: string
  itOptimization :: OptimizationSpec
  itConditions :: "condition list"

record AtlasMesh =
  amName :: string
  amNamespace :: string
  amLabels :: "string gomap"
  amApprove :: bool
  amDataflowPolicyRef :: string
  amDeploymentPolicyRef :: string
  amDeployMap :: DeployMap
  amConditions :: "condition list"

record Atlas = AtlasMesh +
  atExecutionEnvironment :: string

text \<open>A file of the optimisation: its name and the value marshalled into it.\<close>

datatype document =
    TasksDoc "optTaskStruct list"
  | EdgesDoc "taskEdgeStruct list option"
  | ProvidersDoc "providerStruct list"
  | AttrsDoc "providerAttrStruct list"

record OptPod =
  podGenerateName :: string
  podNamespace :: string
  podLabels :: "string gomap"
  podInitContainers :: "string list"
  podFiles :: "document gomap"
  podScripts :: "string gomap"

datatype effect =
    WriteFile string
  | DeletePod string
  | CreatePod OptPod
  | PatchPodRef string
  | UpdateTaskStatus ILPTask
  | ClearPodRef
  | CreateAtlas Atlas
  | UpdateAtlas Atlas
  | UpdateAtlasStatus Atlas
  | CreateAtlasMesh AtlasMesh
  | UpdateAtlasMesh AtlasMesh
  | UpdateAtlasMeshStatus AtlasMesh

text \<open>
  Replies: reads by namespace and name (\<open>il_get_pod\<close> for the reconciler, \<open>il_get_pod2\<close> for the
  read when the result is fetched); a created pod's reply is its generated name; a listed pod has
  its name and whether it is being deleted.
\<close>

record ilp_env =
  il_env :: env
  il_set_cond :: "condition list \<Rightarrow> condition \<Rightarrow> condition list"
  il_rand_suffix :: "string \<Rightarrow> string"
  il_get_task :: "string \<Rightarrow> string \<Rightarrow> ILPTask go"
  il_get_df :: "string \<Rightarrow> string \<Rightarrow> DataflowPolicy go"
  il_get_dp :: "string \<Rightarrow> string \<Rightarrow> DeploymentPolicy go"
  il_get_pod :: "string \<Rightarrow> PodPhase go"
  il_get_pod2 :: "string \<Rightarrow> PodPhase go"
  il_get_plan :: "string gomap go"
  il_parse_plan :: "string \<Rightarrow> DeployMap go"
  il_mkdir :: "unit go"
  il_write_file :: "string \<Rightarrow> unit go"
  il_list_scripts :: "string gomap list go"
  il_list_task_pods :: "string \<Rightarrow> string list go"
  il_list_pods :: "string \<Rightarrow> (string \<times> bool) list go"
  il_create_pod :: "OptPod \<Rightarrow> string go"
  il_delete_pod :: "string \<Rightarrow> unit go"
  il_get_orig :: "ILPTask go"
  il_patch_pod_ref :: "unit go"
  il_clear_pod_ref :: "unit go"
  il_update_status :: "unit go"
  il_list_atlas :: "string \<Rightarrow> string gomap \<Rightarrow> Atlas list go"
  il_list_mesh :: "string \<Rightarrow> string gomap \<Rightarrow> AtlasMesh list go"
  il_owner_ref :: "unit go"
  il_create :: "unit go"
  il_update :: "unit go"
  il_update_obj_status :: "unit go"

section \<open>Ensuring the Atlas and the AtlasMesh\<close>

definition ensureAtlasMesh :: "ilp_env \<Rightarrow> ILPTask \<Rightarrow> string \<Rightarrow> DeployMap \<Rightarrow> (effect, unit) run" where
  "ensureAtlasMesh E task appId deployPlan =
     bind_run (pure_run (wrap_go ''failed to list AtlasMeshs for ILPTask''
         (il_list_mesh E (itNamespace task) [(''skycluster.io/app-id'', appId)]))) (\<lambda>items.
       if length items > 1 then pure_run (Inl (Errf ''multiple AtlasMeshs found for ILPTask''))
       else if length items > 0 then
         (let obj = hd items
          in if amDeployMap obj \<noteq> deployPlan then
               (let obj = obj\<lparr>amDeployMap := deployPlan, amApprove := False\<rparr>
                in bind_run (wrap_run ''failed to update AtlasMesh for ILPTask'' (call (UpdateAtlasMesh obj) (il_update E))) (\<lambda>_.
                   let obj = obj\<lparr>amConditions := SetCondition (il_set_cond E) ''Ready'' CondFalse
                         ''PendingApproval'' ''AtlasMesh pending approval'' (amConditions obj)\<rparr>
                   in wrap_run ''failed to update AtlasMesh status for ILPTask''
                        (call (UpdateAtlasMeshStatus obj) (il_update_obj_status E))))
             else pure_run (Inr ()))
       else
         (let obj = \<lparr>amName = itName task @ ''-'' @ il_rand_suffix E (itName task), amNamespace = itNamespace task,
                amLabels = [(''skycluster.io/app-id'', appId)], amApprove = False,
                amDataflowPolicyRef = itDataflowPolicyRef task, amDeploymentPolicyRef = itDeploymentPolicyRef task,
                amDeployMap = deployPlan, amConditions = []\<rparr>
          in bind_run (pure_run (wrap_go ''failed to set owner reference for Atlas for ILPTask'' (il_owner_ref E))) (\<lambda>_.
             wrap_run ''failed to create Atlas for ILPTask'' (call (CreateAtlasMesh obj) (il_create E)))))"

definition ensureAtlas :: "ilp_env \<Rightarrow> ILPTask \<Rightarrow> string \<Rightarrow> string \<Rightarrow> DeployMap \<Rightarrow> (effect, unit) run" where
  "ensureAtlas E task appId execEnv deployPlan =
     bind_run (pure_run (wrap_go ''failed to list Atlass for ILPTask''
         (il_list_atlas E (itNamespace task) [(''skycluster.io/app-id'', appId)]))) (\<lambda>items.
       if length items > 1 then pure_run (Inl (Errf ''multiple Atlass found for ILPTask''))
       else if length items > 0 then
         (let obj = hd items
          in if amDeployMap obj \<noteq> deployPlan then
               (let obj = obj\<lparr>amDeployMap := deployPlan, amApprove := False\<rparr>
                in bind_run (wrap_run ''failed to update Atlas for ILPTask'' (call (UpdateAtlas obj) (il_update E))) (\<lambda>_.
                   let obj = obj\<lparr>amConditions := SetCondition (il_set_cond E) ''Ready'' CondFalse
                         ''PendingApproval'' ''Atlas pending approval'' (amConditions obj)\<rparr>
                   in wrap_run ''failed to update Atlas status for ILPTask''
                        (call (UpdateAtlasStatus obj) (il_update_obj_status E))))
             else pure_run (Inr ()))
       else
         (let obj = \<lparr>amName = itName task @ ''-'' @ il_rand_suffix E (itName task), amNamespace = itNamespace task,
                amLabels = [(''skycluster.io/app-id'', appId)], amApprove = False,
                amDataflowPolicyRef = itDataflowPolicyRef task, amDeploymentPolicyRef = itDeploymentPolicyRef task,
                amDeployMap = deployPlan, amConditions = [], atExecutionEnvironment = execEnv\<rparr>
          in bind_run (pure_run (wrap_go ''failed to set owner reference for Atlas for ILPTask'' (il_owner_ref E))) (\<lambda>_.
             wrap_run ''failed to create Atlas for ILPTask'' (call (CreateAtlas obj) (il_create E)))))"

section \<open>The optimisation pod\<close>

definition init_name :: "string \<Rightarrow> string" where
  "init_name file = ''prepare-'' @ replace_all file ''.'' ''-''"

definition optimizationPod :: "ILPTask \<Rightarrow> string gomap \<Rightarrow> document gomap \<Rightarrow> OptPod" where
  "optimizationPod task scripts dataMap =
     \<lparr>podGenerateName = itName task @ ''-'', podNamespace = ''skycluster-system'',
      podLabels = [(''skycluster.io/managed-by'', ''skycluster''), (''skycluster.io/component'', ''optimization''),
                   (''ilptask'', itName task)],
      podInitContainers = [''prepare-vservices''] @ map init_name (mkeys dataMap) @ [''prepare-scripts''],
      podFiles = dataMap, podScripts = scripts\<rparr>"

text \<open>
  Claiming: the pod is the first listed one that is not being deleted, or a new one (a failing
  list counts as none); it is recorded in the status of the task as the server has it, unless that
  already names a pod; when it is not recorded, it is deleted.
\<close>

definition claim_pod :: "ilp_env \<Rightarrow> ILPTask \<Rightarrow> OptPod \<Rightarrow> (effect, string) run" where
  "claim_pod E task pod =
     (let found = (case il_list_pods E (itName task) of
                     Inl _ \<Rightarrow> None
                   | Inr items \<Rightarrow> map_option fst (find (\<lambda>(_, deleting). \<not> deleting) items))
      in bind_run (case found of Some p \<Rightarrow> pure_run (Inr p) | None \<Rightarrow> call (CreatePod pod) (il_create_pod E pod)) (\<lambda>podName.
         case il_get_orig E of
           Inl err \<Rightarrow>
             bind_run (ignore (call (DeletePod podName) (il_delete_pod E podName))) (\<lambda>_.
               pure_run (Inl (wrap ''failed to get ILPTask to claim pod; deleted created pod'' err)))
         | Inr orig \<Rightarrow>
             if opPodRef (itOptimization orig) \<noteq> [] then
               bind_run (ignore (call (DeletePod podName) (il_delete_pod E podName))) (\<lambda>_.
                 pure_run (Inr (opPodRef (itOptimization orig))))
             else
               bind_run (call (PatchPodRef podName) (case il_patch_pod_ref E of Inl e \<Rightarrow> Inr (Some e) | Inr _ \<Rightarrow> Inr None))
                 (\<lambda>err. case err of
                    Some e \<Rightarrow>
                      bind_run (ignore (call (DeletePod podName) (il_delete_pod E podName))) (\<lambda>_.
                        pure_run (Inl (wrap ''conflict while claiming pod and update the status. Deleted created pod'' e)))
                  | None \<Rightarrow> pure_run (Inr podName))))"

definition buildOptimizationPod ::
  "ilp_env \<Rightarrow> ILPTask \<Rightarrow> string gomap \<Rightarrow> document gomap \<Rightarrow> (effect, string) run" where
  "buildOptimizationPod E task scripts dataMap =
     (if length scripts = 0 \<or> length dataMap = 0 then
        pure_run (Inl (Errf ''optimization scripts or data configmap is empty''))
      else claim_pod E task (optimizationPod task scripts dataMap))"

definition getOptimizationConfigMaps :: "ilp_env \<Rightarrow> string gomap go" where
  "getOptimizationConfigMaps E =
     bind_go (il_list_scripts E) (\<lambda>items.
       if length items = 0 then Inl (Errf ''no configmap found (optimization-starter)'')
       else Inr (foldl massign [] items))"

text \<open>The four documents are written to a temporary directory as they are made.\<close>

definition prepareAndBuildOptimizationPod ::
  "ilp_env \<Rightarrow> DataflowPolicy \<Rightarrow> DeploymentPolicy \<Rightarrow> ILPTask \<Rightarrow> (effect, string) run" where
  "prepareAndBuildOptimizationPod E df dp task =
     bind_run (pure_run (il_mkdir E)) (\<lambda>_.
     bind_run (pure_run (generateTasksJson (il_env E) dp)) (\<lambda>tasksJson.
     bind_run (call (WriteFile ''tasks.json'') (il_write_file E ''tasks.json'')) (\<lambda>_.
     bind_run (pure_run (generateTasksEdgesJson df)) (\<lambda>tasksEdges.
     bind_run (call (WriteFile ''tasks-edges.json'') (il_write_file E ''tasks-edges.json'')) (\<lambda>_.
     bind_run (pure_run (generateProvidersJson (il_env E))) (\<lambda>providers.
     bind_run (call (WriteFile ''providers.json'') (il_write_file E ''providers.json'')) (\<lambda>_.
     bind_run (pure_run (generateProvidersAttrJson (il_env E))) (\<lambda>providersAttr.
     bind_run (call (WriteFile ''providers-attr.json'') (il_write_file E ''providers-attr.json'')) (\<lambda>_.
       let dataMap = [(''tasks.json'', TasksDoc tasksJson), (''tasks-edges.json'', EdgesDoc tasksEdges),
                      (''providers.json'', ProvidersDoc providers), (''providers-attr.json'', AttrsDoc providersAttr)]
       in bind_run (pure_run (getOptimizationConfigMaps E)) (\<lambda>scripts.
          buildOptimizationPod E task scripts dataMap))))))))))"

text \<open>The result, empty unless the pod has succeeded.\<close>

definition getPodStatusAndResult :: "ilp_env \<Rightarrow> string \<Rightarrow> string go" where
  "getPodStatusAndResult E podName =
     bind_go (il_get_pod2 E podName) (\<lambda>phase.
       if phase = PodSucceeded then
         bind_go (il_get_plan E) (\<lambda>data. Inr (mstr data ''deploy-plan.json''))
       else Inr [])"

definition removeOptimizationPod :: "ilp_env \<Rightarrow> string \<Rightarrow> (effect, unit) run" where
  "removeOptimizationPod E taskName =
     bind_run (pure_run (il_list_task_pods E taskName)) (\<lambda>items.
       fold_run (\<lambda>p. call (DeletePod p) (il_delete_pod E p)) items)"

section \<open>The services of the plan\<close>

text \<open>The first component of that name gets the first five services of every alternative.\<close>

fun set_manifest :: "string \<Rightarrow> VirtualServiceSelector list list \<Rightarrow> SkyService list \<Rightarrow> SkyService list" where
  "set_manifest n services [] = []"
| "set_manifest n services (c # cs) =
     (if crName (ssComponentRef c) = n \<and> list_all (\<lambda>s. list_all (\<lambda>v. f64_finite (vsPrice v)) (take 5 s)) services
      then c\<lparr>ssManifest := Some (Services (map (take 5) services))\<rparr> # cs
      else c # set_manifest n services cs)"

definition add_services ::
  "VirtualServiceSelector list list gomap \<Rightarrow> DeployMap \<Rightarrow> DeployMap" where
  "add_services requiredServices deployPlan =
     foldl (\<lambda>plan (componentName, services).
         if length services = 0 then plan
         else plan\<lparr>dmComponent := set_manifest componentName services (dmComponent plan)\<rparr>)
       deployPlan requiredServices"

section \<open>The reconciler\<close>

text \<open>The time to wait is in seconds.\<close>

datatype ctrl_result = Done | RequeueAfter nat

text \<open>After a pod that succeeded: the plan is read, completed with services, recorded and deployed.\<close>

definition pod_succeeded ::
  "ilp_env \<Rightarrow> string \<Rightarrow> ILPTask \<Rightarrow> DeploymentPolicy \<Rightarrow> string \<Rightarrow> string \<Rightarrow> (effect, ILPTask) run" where
  "pod_succeeded E reqNs task dp appId podName =
     bind_run (pure_run (wrap_go ''failed to get pod status and result'' (getPodStatusAndResult E podName))) (\<lambda>optDeployPlan.
     bind_run (pure_run (wrap_go ''failed to unmarshal deploy plan'' (il_parse_plan E optDeployPlan))) (\<lambda>plan.
       let deployPlan = (case findServicesForDeployPlan (il_env E) reqNs (dmComponent plan) dp of
                           Inl _ \<Rightarrow> plan
                         | Inr requiredServices \<Rightarrow> add_services requiredServices plan);
           task = task\<lparr>itOptimization := (itOptimization task)\<lparr>opDeployMap := deployPlan\<rparr>\<rparr>
       in if length (dmComponent deployPlan) > 0 then
            (let task = task\<lparr>itOptimization := (itOptimization task)\<lparr>opStatus := ''Succeeded'', opResult := ''Success''\<rparr>,
                             itConditions := SetCondition (il_set_cond E) ''Ready'' CondTrue ''OptimizationSucceeded''
                               ''ILPTask optimization succeeded'' (itConditions task)\<rparr>
             in bind_run (wrap_run ''failed to ensure Atlas after optimization''
                    (ensureAtlas E task appId (depExecutionEnvironment dp) deployPlan)) (\<lambda>_.
                bind_run (wrap_run ''failed to ensure AtlasMesh after optimization''
                    (ensureAtlasMesh E task appId deployPlan)) (\<lambda>_. pure_run (Inr task))))
          else pure_run (Inr task)))"

text \<open>
  The branch of an existing pod reference. The inner test of the phase is the source's: its else
  branch is never taken.
\<close>

definition reconcile_pod ::
  "ilp_env \<Rightarrow> string \<Rightarrow> ILPTask \<Rightarrow> DataflowPolicy \<Rightarrow> DeploymentPolicy \<Rightarrow> string \<Rightarrow> (effect, ctrl_result) run" where
  "reconcile_pod E reqNs task df dp appId =
     (let podName = opPodRef (itOptimization task)
      in case il_get_pod E podName of
           Inl err \<Rightarrow>
             bind_run (ignore (call ClearPodRef (il_clear_pod_ref E))) (\<lambda>_.
               pure_run (Inl (wrap ''failed to get optimization pod'' err)))
         | Inr phase \<Rightarrow>
             if phase = PodSucceeded then
               bind_run
                 (if phase = PodSucceeded then pod_succeeded E reqNs task dp appId podName
                  else pure_run (Inr (task\<lparr>
                      itOptimization := (itOptimization task)\<lparr>opStatus := ''Failed'', opResult := ''Infeasible''\<rparr>,
                      itConditions := SetCondition (il_set_cond E) ''Ready'' CondFalse ''OptimizationFailed''
                        ''ILPTask optimization failed'' (itConditions task)\<rparr>)))
                 (\<lambda>task.
                   let task = task\<lparr>itOptimization := (itOptimization task)\<lparr>
                         opDataflowResourceVersion := dfResourceVersion df,
                         opDeploymentPlanResourceVersion := depResourceVersion dp\<rparr>\<rparr>
                   in bind_run (wrap_run ''failed to update ILPTask status after pod completion''
                        (call (UpdateTaskStatus task) (il_update_status E))) (\<lambda>_. pure_run (Inr Done)))
             else pure_run (Inr (RequeueAfter 3)))"

definition reconcile_policies ::
  "ilp_env \<Rightarrow> string \<Rightarrow> ILPTask \<Rightarrow> DataflowPolicy \<Rightarrow> DeploymentPolicy \<Rightarrow> (effect, ctrl_result) run" where
  "reconcile_policies E reqNs task df dp =
     (case (mget (dfLabels df) ''skycluster.io/app-id'', mget (depLabels dp) ''skycluster.io/app-id'') of
        (Some appId1, Some appId2) \<Rightarrow>
          if appId1 \<noteq> appId2 then
            pure_run (Inl (Errf ''objects DataflowPolicy and DeploymentPolicy must have the same skycluster.io/app-id label''))
          else
            (let status = itOptimization task
             in if opResult status \<noteq> [] \<and> opDataflowResourceVersion status = dfResourceVersion df
                   \<and> opDeploymentPlanResourceVersion status = depResourceVersion dp then
                  bind_run (wrap_run ''failed to ensure Atlas after optimization''
                      (ensureAtlas E task appId1 (depExecutionEnvironment dp) (opDeployMap status))) (\<lambda>_.
                  bind_run (wrap_run ''failed to ensure AtlasMesh after optimization''
                      (ensureAtlasMesh E task appId1 (opDeployMap status))) (\<lambda>_. pure_run (Inr Done)))
                else if opPodRef status = [] then
                  bind_run (prepareAndBuildOptimizationPod E df dp task) (\<lambda>_. pure_run (Inr (RequeueAfter 3)))
                else reconcile_pod E reqNs task df dp appId1)
      | _ \<Rightarrow>
          pure_run (Inl (Errf ''objects DataflowPolicy and DeploymentPolicy must have the same skycluster.io/app-id label'')))"

text \<open>Both policies are read under the name of the request, not under the references of the spec.\<close>

definition ILPTaskReconcile :: "ilp_env \<Rightarrow> string \<Rightarrow> string \<Rightarrow> (effect, ctrl_result) run" where
  "ILPTaskReconcile E reqNs reqName =
     (case il_get_task E reqNs reqName of
        Inl err \<Rightarrow>
          bind_run (ignore (removeOptimizationPod E reqName)) (\<lambda>_.
            pure_run (if is_not_found err then Inr Done else Inl err))
      | Inr task \<Rightarrow>
          if itDeleting task then
            bind_run (ignore (removeOptimizationPod E (itName task))) (\<lambda>_. pure_run (Inr Done))
          else if itDataflowPolicyRef task = [] \<or> itDeploymentPolicyRef task = [] then pure_run (Inr Done)
          else
            bind_run (pure_run (il_get_df E reqNs reqName)) (\<lambda>df.
            bind_run (pure_run (il_get_dp E reqNs reqName)) (\<lambda>dp.
              reconcile_policies E reqNs task df dp)))"

section \<open>Lemmas\<close>

lemma claim_pod_cases:
  assumes "claim_pod E task pod = (es, r)"
  shows "(\<exists>e. il_create_pod E pod = Inl e \<and> es = [CreatePod pod] \<and> r = Inl e)
    \<or> (\<exists>p pre. (pre = [] \<or> (pre = [CreatePod pod] \<and> il_create_pod E pod = Inr p))
        \<and> ((\<exists>e. il_get_orig E = Inl e \<and> es = pre @ [DeletePod p] \<and> (\<exists>e'. r = Inl e'))
         \<or> (\<exists>orig. il_get_orig E = Inr orig \<and> opPodRef (itOptimization orig) \<noteq> []
              \<and> es = pre @ [DeletePod p] \<and> r = Inr (opPodRef (itOptimization orig)))
         \<or> (\<exists>orig. il_get_orig E = Inr orig \<and> opPodRef (itOptimization orig) = []
              \<and> ((il_patch_pod_ref E = Inr () \<and> es = pre @ [PatchPodRef p] \<and> r = Inr p)
                \<or> (\<exists>e e'. il_patch_pod_ref E = Inl e \<and> es = pre @ [PatchPodRef p, DeletePod p] \<and> r = Inl e')))))"
  using assms
  unfolding claim_pod_def Let_def
  by (cases "il_create_pod E pod"; cases "il_get_orig E"; cases "il_patch_pod_ref E")
    (auto simp: bind_run_def call_def pure_run_def ignore_def split: option.splits sum.splits if_split_asm)

text \<open>The calls of the functions, as sets.\<close>

lemma ensureAtlas_calls:
  "c \<in> set (fst (ensureAtlas E task appId execEnv plan)) \<Longrightarrow>
    (\<exists>a. c = CreateAtlas a \<and> \<not> amApprove a \<and> amDeployMap a = plan)
    \<or> (\<exists>a. c = UpdateAtlas a \<and> \<not> amApprove a \<and> amDeployMap a = plan)
    \<or> (\<exists>a. c = UpdateAtlasStatus a \<and> \<not> amApprove a \<and> amDeployMap a = plan)"
  by (auto simp: ensureAtlas_def Let_def fst_bind_run split: sum.split_asm if_split_asm)

lemma ensureAtlasMesh_calls:
  "c \<in> set (fst (ensureAtlasMesh E task appId plan)) \<Longrightarrow>
    (\<exists>a. c = CreateAtlasMesh a \<and> \<not> amApprove a \<and> amDeployMap a = plan)
    \<or> (\<exists>a. c = UpdateAtlasMesh a \<and> \<not> amApprove a \<and> amDeployMap a = plan)
    \<or> (\<exists>a. c = UpdateAtlasMeshStatus a \<and> \<not> amApprove a \<and> amDeployMap a = plan)"
  by (auto simp: ensureAtlasMesh_def Let_def fst_bind_run split: sum.split_asm if_split_asm)

lemma prepare_calls:
  "c \<in> set (fst (prepareAndBuildOptimizationPod E df dp task)) \<Longrightarrow>
    (\<exists>f. c = WriteFile f) \<or> (\<exists>p. c = CreatePod p) \<or> (\<exists>p. c = DeletePod p) \<or> (\<exists>p. c = PatchPodRef p)"
proof -
  have claim: "(\<exists>p. c = CreatePod p) \<or> (\<exists>p. c = DeletePod p) \<or> (\<exists>p. c = PatchPodRef p)"
    if "c \<in> set (fst (buildOptimizationPod E task scripts files))" for scripts files
  proof -
    have cl: "(\<exists>p. c = CreatePod p) \<or> (\<exists>p. c = DeletePod p) \<or> (\<exists>p. c = PatchPodRef p)"
      if "c \<in> set es" "claim_pod E task pod = (es, r)" for es r pod
      using claim_pod_cases [OF that(2)] that(1) by auto
    show ?thesis
      using that cl [of "fst (claim_pod E task (optimizationPod task scripts files))"]
      by (cases "claim_pod E task (optimizationPod task scripts files)")
        (auto simp: buildOptimizationPod_def split: if_split_asm)
  qed
  assume "c \<in> set (fst (prepareAndBuildOptimizationPod E df dp task))"
  then show ?thesis
    unfolding prepareAndBuildOptimizationPod_def Let_def
    by (auto simp: fst_bind_run snd_bind_run split: sum.split_asm dest: claim)
qed

lemma removeOptimizationPod_calls: "c \<in> set (fst (removeOptimizationPod E n)) \<Longrightarrow> \<exists>p. c = DeletePod p"
proof -
  have "c \<in> set (fst (fold_run (\<lambda>p. call (DeletePod p) (il_delete_pod E p)) items)) \<Longrightarrow> \<exists>p. c = DeletePod p" for items
    by (induction items) (auto simp: fst_bind_run split: sum.split_asm)
  then show "c \<in> set (fst (removeOptimizationPod E n)) \<Longrightarrow> \<exists>p. c = DeletePod p"
    by (auto simp: removeOptimizationPod_def fst_bind_run split: sum.split_asm)
qed

text \<open>The write calls of a reconciliation by kind.\<close>

definition unapproved :: "effect \<Rightarrow> bool" where
  "unapproved c = (case c of
     CreateAtlas a \<Rightarrow> \<not> amApprove a | UpdateAtlas a \<Rightarrow> \<not> amApprove a | UpdateAtlasStatus a \<Rightarrow> \<not> amApprove a
   | CreateAtlasMesh a \<Rightarrow> \<not> amApprove a | UpdateAtlasMesh a \<Rightarrow> \<not> amApprove a
   | UpdateAtlasMeshStatus a \<Rightarrow> \<not> amApprove a | _ \<Rightarrow> True)"

fun atlas_call :: "effect \<Rightarrow> bool" where
  "atlas_call (CreateAtlas a) = True"
| "atlas_call (UpdateAtlas a) = True"
| "atlas_call (UpdateAtlasStatus a) = True"
| "atlas_call (CreateAtlasMesh a) = True"
| "atlas_call (UpdateAtlasMesh a) = True"
| "atlas_call (UpdateAtlasMeshStatus a) = True"
| "atlas_call _ = False"

lemma ensure_calls:
  "c \<in> set (fst (ensureAtlas E task appId execEnv plan)) \<Longrightarrow> atlas_call c \<and> unapproved c"
  "c \<in> set (fst (ensureAtlasMesh E task appId plan)) \<Longrightarrow> atlas_call c \<and> unapproved c"
  by (auto dest!: ensureAtlas_calls ensureAtlasMesh_calls simp: unapproved_def)

text \<open>The plan a successful pod leads to.\<close>

definition final_plan :: "ilp_env \<Rightarrow> string \<Rightarrow> DeploymentPolicy \<Rightarrow> DeployMap \<Rightarrow> DeployMap" where
  "final_plan E ns dp plan =
     (case findServicesForDeployPlan (il_env E) ns (dmComponent plan) dp of
        Inl _ \<Rightarrow> plan | Inr requiredServices \<Rightarrow> add_services requiredServices plan)"

lemma pod_succeeded_eq:
  assumes "getPodStatusAndResult E p = Inr doc" "il_parse_plan E doc = Inr plan"
    and "P = final_plan E ns dp plan" "T = task\<lparr>itOptimization := (itOptimization task)\<lparr>opDeployMap := P\<rparr>\<rparr>"
  shows "pod_succeeded E ns task dp appId p =
    (if dmComponent P = [] then pure_run (Inr T)
     else bind_run (wrap_run ''failed to ensure Atlas after optimization''
            (ensureAtlas E (T\<lparr>itOptimization := (itOptimization T)\<lparr>opStatus := ''Succeeded'', opResult := ''Success''\<rparr>,
               itConditions := SetCondition (il_set_cond E) ''Ready'' CondTrue ''OptimizationSucceeded''
                 ''ILPTask optimization succeeded'' (itConditions T)\<rparr>) appId (depExecutionEnvironment dp) P)) (\<lambda>_.
          bind_run (wrap_run ''failed to ensure AtlasMesh after optimization''
            (ensureAtlasMesh E (T\<lparr>itOptimization := (itOptimization T)\<lparr>opStatus := ''Succeeded'', opResult := ''Success''\<rparr>,
               itConditions := SetCondition (il_set_cond E) ''Ready'' CondTrue ''OptimizationSucceeded''
                 ''ILPTask optimization succeeded'' (itConditions T)\<rparr>) appId P)) (\<lambda>_.
          pure_run (Inr (T\<lparr>itOptimization := (itOptimization T)\<lparr>opStatus := ''Succeeded'', opResult := ''Success''\<rparr>,
               itConditions := SetCondition (il_set_cond E) ''Ready'' CondTrue ''OptimizationSucceeded''
                 ''ILPTask optimization succeeded'' (itConditions T)\<rparr>)))))"
  unfolding pod_succeeded_def Let_def assms(1,2) wrap_go_simps bind_run_simps sum.case final_plan_def [symmetric] assms(3,4)
  by simp

lemma pod_succeeded_fails:
  assumes "\<nexists>doc plan. getPodStatusAndResult E p = Inr doc \<and> il_parse_plan E doc = Inr plan"
  shows "fst (pod_succeeded E ns task dp appId p) = [] \<and> (\<exists>e. snd (pod_succeeded E ns task dp appId p) = Inl e)"
proof (cases "getPodStatusAndResult E p")
  case (Inl e)
  then show ?thesis by (simp add: pod_succeeded_def)
next
  case (Inr doc)
  then obtain e where "il_parse_plan E doc = Inl e" using assms by (cases "il_parse_plan E doc") auto
  with Inr show ?thesis by (simp add: pod_succeeded_def)
qed

lemma pod_succeeded_calls:
  assumes "c \<in> set (fst (pod_succeeded E ns task dp appId p))"
  shows "atlas_call c \<and> unapproved c"
proof (cases "\<exists>doc plan. getPodStatusAndResult E p = Inr doc \<and> il_parse_plan E doc = Inr plan")
  case False
  from pod_succeeded_fails [OF this, of ns task dp appId] assms show ?thesis by simp
next
  case True
  then obtain doc plan where tp: "getPodStatusAndResult E p = Inr doc" "il_parse_plan E doc = Inr plan" by blast
  show ?thesis
    using assms ensure_calls
    unfolding pod_succeeded_eq [OF tp refl refl]
    by (auto simp: fst_bind_run split: sum.split_asm if_split_asm)
qed

lemma pod_succeeded_result:
  assumes "snd (pod_succeeded E ns task dp appId p) = Inr t"
  obtains doc plan where
    "getPodStatusAndResult E p = Inr doc" "il_parse_plan E doc = Inr plan"
    "opDeployMap (itOptimization t) = final_plan E ns dp plan"
    "opPodRef (itOptimization t) = opPodRef (itOptimization task)"
    "dmComponent (final_plan E ns dp plan) \<noteq> [] \<Longrightarrow>
       opStatus (itOptimization t) = ''Succeeded'' \<and> opResult (itOptimization t) = ''Success''"
    "dmComponent (final_plan E ns dp plan) = [] \<Longrightarrow>
       opStatus (itOptimization t) = opStatus (itOptimization task)
         \<and> opResult (itOptimization t) = opResult (itOptimization task)"
proof (cases "\<exists>doc plan. getPodStatusAndResult E p = Inr doc \<and> il_parse_plan E doc = Inr plan")
  case False
  from pod_succeeded_fails [OF this, of ns task dp appId] assms show ?thesis by auto
next
  case True
  then obtain doc plan where tp: "getPodStatusAndResult E p = Inr doc" "il_parse_plan E doc = Inr plan" by blast
  show ?thesis
  proof (rule that [OF tp])
    note eq = assms [unfolded pod_succeeded_eq [OF tp refl refl]]
    show "opDeployMap (itOptimization t) = final_plan E ns dp plan"
      using eq by (cases "dmComponent (final_plan E ns dp plan) = []") (auto simp: bind_run_Inr)
    show "opPodRef (itOptimization t) = opPodRef (itOptimization task)"
      using eq by (cases "dmComponent (final_plan E ns dp plan) = []") (auto simp: bind_run_Inr)
    show "opStatus (itOptimization t) = ''Succeeded'' \<and> opResult (itOptimization t) = ''Success''"
      if "dmComponent (final_plan E ns dp plan) \<noteq> []"
      using eq that by (auto simp: bind_run_Inr)
    show "opStatus (itOptimization t) = opStatus (itOptimization task)
         \<and> opResult (itOptimization t) = opResult (itOptimization task)"
      if "dmComponent (final_plan E ns dp plan) = []"
      using eq that by auto
  qed
qed

text \<open>A task a reconciliation works on, with the policies it reads and the application they share.\<close>

definition accepted ::
  "ilp_env \<Rightarrow> string \<Rightarrow> string \<Rightarrow> ILPTask \<Rightarrow> DataflowPolicy \<Rightarrow> DeploymentPolicy \<Rightarrow> string \<Rightarrow> bool" where
  "accepted E ns n task df dp appId \<longleftrightarrow>
     il_get_task E ns n = Inr task \<and> \<not> itDeleting task
     \<and> itDataflowPolicyRef task \<noteq> [] \<and> itDeploymentPolicyRef task \<noteq> []
     \<and> il_get_df E ns n = Inr df \<and> il_get_dp E ns n = Inr dp
     \<and> mget (dfLabels df) ''skycluster.io/app-id'' = Some appId
     \<and> mget (depLabels dp) ''skycluster.io/app-id'' = Some appId"

text \<open>The optimisation of the current policies has a result.\<close>

definition settled :: "ILPTask \<Rightarrow> DataflowPolicy \<Rightarrow> DeploymentPolicy \<Rightarrow> bool" where
  "settled task df dp \<longleftrightarrow>
     opResult (itOptimization task) \<noteq> []
     \<and> opDataflowResourceVersion (itOptimization task) = dfResourceVersion df
     \<and> opDeploymentPlanResourceVersion (itOptimization task) = depResourceVersion dp"

lemma reconcile_policies_eq:
  assumes "mget (dfLabels df) ''skycluster.io/app-id'' = Some a" "mget (depLabels dp) ''skycluster.io/app-id'' = Some a"
  shows "reconcile_policies E ns task df dp =
    (if settled task df dp then
       bind_run (wrap_run ''failed to ensure Atlas after optimization''
           (ensureAtlas E task a (depExecutionEnvironment dp) (opDeployMap (itOptimization task)))) (\<lambda>_.
       bind_run (wrap_run ''failed to ensure AtlasMesh after optimization''
           (ensureAtlasMesh E task a (opDeployMap (itOptimization task)))) (\<lambda>_. pure_run (Inr Done)))
     else if opPodRef (itOptimization task) = [] then
       bind_run (prepareAndBuildOptimizationPod E df dp task) (\<lambda>_. pure_run (Inr (RequeueAfter 3)))
     else reconcile_pod E ns task df dp a)"
  using assms by (simp add: reconcile_policies_def settled_def Let_def)

lemma accepted_reconcile:
  "accepted E ns n task df dp a \<Longrightarrow> ILPTaskReconcile E ns n = reconcile_policies E ns task df dp"
  by (simp add: accepted_def ILPTaskReconcile_def)

lemma not_accepted_calls:
  assumes "\<nexists>task df dp a. accepted E ns n task df dp a" "c \<in> set (fst (ILPTaskReconcile E ns n))"
  shows "\<exists>p. c = DeletePod p"
proof (cases "il_get_task E ns n")
  case (Inl e)
  then show ?thesis
    using assms(2) removeOptimizationPod_calls [of c E] by (auto simp: ILPTaskReconcile_def fst_bind_run)
next
  case (Inr task)
  show ?thesis
  proof (cases "itDeleting task")
    case True
    then show ?thesis
      using assms(2) Inr removeOptimizationPod_calls [of c E] by (auto simp: ILPTaskReconcile_def fst_bind_run)
  next
    case False
    then obtain df dp where r: "itDataflowPolicyRef task \<noteq> []" "itDeploymentPolicyRef task \<noteq> []"
        "il_get_df E ns n = Inr df" "il_get_dp E ns n = Inr dp"
        "c \<in> set (fst (reconcile_policies E ns task df dp))"
      using assms(2) Inr
      by (cases "il_get_df E ns n"; cases "il_get_dp E ns n") (auto simp: ILPTaskReconcile_def split: if_split_asm)
    have "mget (dfLabels df) ''skycluster.io/app-id'' \<noteq> mget (depLabels dp) ''skycluster.io/app-id''
        \<or> mget (dfLabels df) ''skycluster.io/app-id'' = None"
      using assms(1) Inr False r by (auto simp: accepted_def)
    with r(5) show ?thesis
      by (auto simp: reconcile_policies_def split: option.split_asm if_split_asm)
  qed
qed

lemma reconcile_call_cases:
  assumes "c \<in> set (fst (ILPTaskReconcile E ns n))"
  obtains (remove) p where "c = DeletePod p"
  | (ensure) task df dp a where "accepted E ns n task df dp a" "settled task df dp"
      "c \<in> set (fst (ensureAtlas E task a (depExecutionEnvironment dp) (opDeployMap (itOptimization task))))
        \<or> c \<in> set (fst (ensureAtlasMesh E task a (opDeployMap (itOptimization task))))"
  | (start) task df dp a where "accepted E ns n task df dp a" "\<not> settled task df dp"
      "opPodRef (itOptimization task) = []" "c \<in> set (fst (prepareAndBuildOptimizationPod E df dp task))"
  | (poll) task df dp a where "accepted E ns n task df dp a" "\<not> settled task df dp"
      "opPodRef (itOptimization task) \<noteq> []" "c \<in> set (fst (reconcile_pod E ns task df dp a))"
proof (cases "\<exists>task df dp a. accepted E ns n task df dp a")
  case False
  from not_accepted_calls [OF this assms] remove show ?thesis by blast
next
  case True
  then obtain task df dp a where acc: "accepted E ns n task df dp a" by blast
  then have lab: "mget (dfLabels df) ''skycluster.io/app-id'' = Some a" "mget (depLabels dp) ''skycluster.io/app-id'' = Some a"
    by (simp_all add: accepted_def)
  note c = assms [unfolded accepted_reconcile [OF acc] reconcile_policies_eq [OF lab]]
  consider "settled task df dp" | "\<not> settled task df dp" "opPodRef (itOptimization task) = []"
    | "\<not> settled task df dp" "opPodRef (itOptimization task) \<noteq> []" by blast
  then show ?thesis
  proof cases
    case 1
    with c have "c \<in> set (fst (ensureAtlas E task a (depExecutionEnvironment dp) (opDeployMap (itOptimization task))))
        \<or> c \<in> set (fst (ensureAtlasMesh E task a (opDeployMap (itOptimization task))))"
      by (auto simp: fst_bind_run split: sum.split_asm)
    with acc 1 ensure show ?thesis by blast
  next
    case 2
    with c have "c \<in> set (fst (prepareAndBuildOptimizationPod E df dp task))"
      by (auto simp: fst_bind_run split: sum.split_asm)
    with acc 2 start show ?thesis by blast
  next
    case 3
    with c poll [OF acc] show ?thesis by simp
  qed
qed

lemma reconcile_pod_call_cases:
  assumes "c \<in> set (fst (reconcile_pod E ns task df dp a))"
  obtains (clear) e where "c = ClearPodRef" "il_get_pod E (opPodRef (itOptimization task)) = Inl e"
  | (deploy) "atlas_call c" "unapproved c" "il_get_pod E (opPodRef (itOptimization task)) = Inr PodSucceeded"
  | (record_) t where "il_get_pod E (opPodRef (itOptimization task)) = Inr PodSucceeded"
      "snd (pod_succeeded E ns task dp a (opPodRef (itOptimization task))) = Inr t"
      "c = UpdateTaskStatus (t\<lparr>itOptimization := (itOptimization t)\<lparr>
         opDataflowResourceVersion := dfResourceVersion df, opDeploymentPlanResourceVersion := depResourceVersion dp\<rparr>\<rparr>)"
proof (cases "il_get_pod E (opPodRef (itOptimization task))")
  case (Inl e)
  with assms clear show ?thesis by (auto simp: reconcile_pod_def fst_bind_run)
next
  case (Inr phase)
  with assms have ps: "phase = PodSucceeded" by (auto simp: reconcile_pod_def Let_def split: if_split_asm)
  let ?m = "pod_succeeded E ns task dp a (opPodRef (itOptimization task))"
  have "c \<in> set (fst ?m) \<or> (\<exists>t. snd ?m = Inr t \<and> c = UpdateTaskStatus (t\<lparr>itOptimization := (itOptimization t)\<lparr>
         opDataflowResourceVersion := dfResourceVersion df, opDeploymentPlanResourceVersion := depResourceVersion dp\<rparr>\<rparr>))"
    using assms Inr ps by (cases "snd ?m") (auto simp: reconcile_pod_def Let_def fst_bind_run)
  then show ?thesis
    using Inr ps pod_succeeded_calls deploy record_ by blast
qed

lemma prepare_create:
  assumes "CreatePod pod \<in> set (fst (prepareAndBuildOptimizationPod E df dp task))"
  obtains tasks edges provs attrs scripts where
    "generateTasksJson (il_env E) dp = Inr tasks" "generateTasksEdgesJson df = Inr edges"
    "generateProvidersJson (il_env E) = Inr provs" "generateProvidersAttrJson (il_env E) = Inr attrs"
    "getOptimizationConfigMaps E = Inr scripts" "scripts \<noteq> []"
    "pod = optimizationPod task scripts [(''tasks.json'', TasksDoc tasks), (''tasks-edges.json'', EdgesDoc edges),
       (''providers.json'', ProvidersDoc provs), (''providers-attr.json'', AttrsDoc attrs)]"
proof -
  have build: "scripts \<noteq> [] \<and> pod = optimizationPod task scripts dataMap"
    if c: "CreatePod pod \<in> set (fst (buildOptimizationPod E task scripts dataMap))" for scripts dataMap
  proof (cases "length scripts = 0 \<or> length dataMap = 0")
    case True
    with c show ?thesis by (simp add: buildOptimizationPod_def)
  next
    case False
    obtain es r where cl: "claim_pod E task (optimizationPod task scripts dataMap) = (es, r)" by force
    with c False have "CreatePod pod \<in> set es" by (simp add: buildOptimizationPod_def)
    with claim_pod_cases [OF cl] show ?thesis using False by auto
  qed
  show ?thesis
    using assms unfolding prepareAndBuildOptimizationPod_def Let_def bind_run_call run_parts
    by (elim disjE exE conjE) (simp_all, blast dest: build intro: that)
qed

lemma claim_pod_creates:
  assumes "claim_pod E task pod = (es, r)" "CreatePod pod \<in> set es"
  shows "(case il_list_pods E (itName task) of Inl _ \<Rightarrow> True | Inr items \<Rightarrow> list_all snd items)"
proof (cases "il_list_pods E (itName task)")
  case (Inr items)
  show ?thesis
  proof (cases "find (\<lambda>(_, deleting). \<not> deleting) items")
    case None
    then have "list_all snd items" by (fastforce simp: find_None_iff list_all_iff)
    with Inr show ?thesis by simp
  next
    case (Some q)
    then have "CreatePod pod \<notin> set (fst (claim_pod E task pod))"
      using Inr
      by (cases "il_get_orig E"; cases "il_patch_pod_ref E")
        (auto simp: claim_pod_def bind_run_call bind_run_Inr split: if_split_asm)
    with assms show ?thesis by simp
  qed
qed simp

section \<open>Properties\<close>

text \<open>C13: a pod that a claim creates is never left behind: the claim records it in the task and
  returns its name, or it deletes it again as its last call. It creates one only when no live pod is
  listed for the task, and it creates at most one.\<close>

theorem claim_pod_no_orphan:
  assumes "claim_pod E task pod = (es, r)" "CreatePod pod \<in> set es" "il_create_pod E pod = Inr p"
  shows "((r = Inr p \<and> es = [CreatePod pod, PatchPodRef p] \<and> il_patch_pod_ref E = Inr ())
      \<or> last es = DeletePod p)
    \<and> (case il_list_pods E (itName task) of Inl _ \<Rightarrow> True | Inr items \<Rightarrow> list_all snd items)
    \<and> count_list es (CreatePod pod) = 1"
  using claim_pod_cases [OF assms(1)] assms(2,3) claim_pod_creates [OF assms(1,2)] by auto

text \<open>A pod found already claimed is deleted, and its name is returned all the same.\<close>

theorem claim_pod_deletes_claimed:
  assumes "il_list_pods E (itName task) = Inr ((p, False) # ps)"
    and "il_get_orig E = Inr orig" "opPodRef (itOptimization orig) = p" "p \<noteq> []"
  shows "claim_pod E task pod = ([DeletePod p], Inr p)"
  using assms by (simp add: claim_pod_def bind_run_def call_def pure_run_def ignore_def)

text \<open>The reconciler never approves a deployment: every Atlas and every AtlasMesh it creates or
  updates is written with \<open>Approve\<close> false, whatever the replies of the server.\<close>

theorem ILPTask_never_approves: "list_all unapproved (fst (ILPTaskReconcile E ns n))"
proof -
  have "unapproved c" if "c \<in> set (fst (ILPTaskReconcile E ns n))" for c
    using that
  proof (cases rule: reconcile_call_cases)
    case (ensure task df dp a)
    then show ?thesis using ensure_calls by blast
  next
    case (start task df dp a)
    from prepare_calls [OF start(4)] show ?thesis by (auto simp: unapproved_def)
  next
    case (poll task df dp a)
    from poll(4) show ?thesis by (cases rule: reconcile_pod_call_cases) (simp_all add: unapproved_def)
  qed (simp add: unapproved_def)
  then show ?thesis by (simp add: list_all_iff)
qed

text \<open>C15: a pod is started only for a task that is accepted (not being deleted, both policies
  present and of one application), has no result for the current policies and names no pod; it
  carries exactly the four documents computed from those policies and the providers.\<close>

theorem ILPTask_pod_documents:
  assumes "CreatePod pod \<in> set (fst (ILPTaskReconcile E ns n))"
  shows "\<exists>task df dp a tasks edges provs attrs. accepted E ns n task df dp a \<and> \<not> settled task df dp
    \<and> opPodRef (itOptimization task) = []
    \<and> generateTasksJson (il_env E) dp = Inr tasks \<and> generateTasksEdgesJson df = Inr edges
    \<and> generateProvidersJson (il_env E) = Inr provs \<and> generateProvidersAttrJson (il_env E) = Inr attrs
    \<and> podFiles pod = [(''tasks.json'', TasksDoc tasks), (''tasks-edges.json'', EdgesDoc edges),
         (''providers.json'', ProvidersDoc provs), (''providers-attr.json'', AttrsDoc attrs)]"
  using assms
proof (cases rule: reconcile_call_cases)
  case (ensure task df dp a)
  from ensure(3) show ?thesis by (auto dest: ensure_calls)
next
  case (start task df dp a)
  from start(4) show ?thesis
  proof (rule prepare_create)
    fix tasks edges provs attrs scripts
    assume "generateTasksJson (il_env E) dp = Inr tasks" "generateTasksEdgesJson df = Inr edges"
      "generateProvidersJson (il_env E) = Inr provs" "generateProvidersAttrJson (il_env E) = Inr attrs"
      "pod = optimizationPod task scripts [(''tasks.json'', TasksDoc tasks), (''tasks-edges.json'', EdgesDoc edges),
         (''providers.json'', ProvidersDoc provs), (''providers-attr.json'', AttrsDoc attrs)]"
    with start(1-3) show ?thesis by (intro exI conjI) (assumption+, simp add: optimizationPod_def)
  qed
next
  case (poll task df dp a)
  from poll(4) show ?thesis by (cases rule: reconcile_pod_call_cases) simp_all
qed simp

text \<open>C8: the status is written only from a pod that succeeded and whose output is a plan: the
  recorded deploy map is that plan with the services added, the recorded versions are those of the
  policies read now, the pod reference is kept, and the result is \<open>Success\<close> when the plan has
  a component and unchanged otherwise. So a task is never reported infeasible.\<close>

theorem ILPTask_status_sound:
  assumes "UpdateTaskStatus t \<in> set (fst (ILPTaskReconcile E ns n))"
  shows "\<exists>task df dp a doc plan. accepted E ns n task df dp a \<and> \<not> settled task df dp
    \<and> opPodRef (itOptimization task) \<noteq> []
    \<and> il_get_pod E (opPodRef (itOptimization task)) = Inr PodSucceeded
    \<and> getPodStatusAndResult E (opPodRef (itOptimization task)) = Inr doc \<and> il_parse_plan E doc = Inr plan
    \<and> opDeployMap (itOptimization t) = final_plan E ns dp plan
    \<and> opDataflowResourceVersion (itOptimization t) = dfResourceVersion df
    \<and> opDeploymentPlanResourceVersion (itOptimization t) = depResourceVersion dp
    \<and> opPodRef (itOptimization t) = opPodRef (itOptimization task)
    \<and> opResult (itOptimization t) =
        (if dmComponent (final_plan E ns dp plan) = [] then opResult (itOptimization task) else ''Success'')"
  using assms
proof (cases rule: reconcile_call_cases)
  case (ensure task df dp a)
  from ensure(3) show ?thesis by (auto dest: ensure_calls)
next
  case (start task df dp a)
  from prepare_calls [OF start(4)] show ?thesis by simp
next
  case (poll task df dp a)
  from poll(4) show ?thesis
  proof (cases rule: reconcile_pod_call_cases)
    case (record_ t')
    from record_(2) show ?thesis
    proof (rule pod_succeeded_result)
      fix doc plan
      assume p: "getPodStatusAndResult E (opPodRef (itOptimization task)) = Inr doc" "il_parse_plan E doc = Inr plan"
        "opDeployMap (itOptimization t') = final_plan E ns dp plan"
        "opPodRef (itOptimization t') = opPodRef (itOptimization task)"
        and res: "dmComponent (final_plan E ns dp plan) \<noteq> [] \<Longrightarrow>
          opStatus (itOptimization t') = ''Succeeded'' \<and> opResult (itOptimization t') = ''Success''"
        "dmComponent (final_plan E ns dp plan) = [] \<Longrightarrow>
          opStatus (itOptimization t') = opStatus (itOptimization task)
            \<and> opResult (itOptimization t') = opResult (itOptimization task)"
      show ?thesis
        using poll(1-3) p record_(1,3)
        by (intro exI [of _ task] exI [of _ df] exI [of _ dp] exI [of _ a] exI [of _ doc] exI [of _ plan]) (simp add: res)
    qed
  qed simp_all
qed simp

text \<open>The objects of the application after the writes of a run.\<close>

fun atlas_store :: "effect \<Rightarrow> Atlas list \<Rightarrow> Atlas list" where
  "atlas_store (CreateAtlas a) xs = xs @ [a]"
| "atlas_store (UpdateAtlas a) xs = map (\<lambda>b. if amName b = amName a then a else b) xs"
| "atlas_store (UpdateAtlasStatus a) xs = map (\<lambda>b. if amName b = amName a then a else b) xs"
| "atlas_store _ xs = xs"

fun mesh_store :: "effect \<Rightarrow> AtlasMesh list \<Rightarrow> AtlasMesh list" where
  "mesh_store (CreateAtlasMesh a) xs = xs @ [a]"
| "mesh_store (UpdateAtlasMesh a) xs = map (\<lambda>b. if amName b = amName a then a else b) xs"
| "mesh_store (UpdateAtlasMeshStatus a) xs = map (\<lambda>b. if amName b = amName a then a else b) xs"
| "mesh_store _ xs = xs"

definition after :: "effect list \<Rightarrow> ilp_env \<Rightarrow> ilp_env" where
  "after es E = E\<lparr>il_list_atlas := (\<lambda>ns ls. map_sum id (fold atlas_store es) (il_list_atlas E ns ls)),
     il_list_mesh := (\<lambda>ns ls. map_sum id (fold mesh_store es) (il_list_mesh E ns ls))\<rparr>"

lemma one_element: "\<not> length xs > 1 \<Longrightarrow> xs \<noteq> [] \<Longrightarrow> \<exists>x. xs = [x]"
  by (cases xs) (auto simp: Suc_lessI)

lemma ensureAtlas_done:
  assumes "snd (ensureAtlas E task a env plan) = Inr ()"
  shows "\<exists>items b. il_list_atlas E (itNamespace task) [(''skycluster.io/app-id'', a)] = Inr items
    \<and> fold atlas_store (fst (ensureAtlas E task a env plan)) items = [b] \<and> amDeployMap b = plan
    \<and> fold mesh_store (fst (ensureAtlas E task a env plan)) ms = ms"
proof -
  obtain items where l: "il_list_atlas E (itNamespace task) [(''skycluster.io/app-id'', a)] = Inr items"
    using assms by (auto simp: ensureAtlas_def bind_run_Inr)
  have "\<not> length items > 1" using assms l by (auto simp: ensureAtlas_def bind_run_Inr)
  then consider "items = []" | x where "items = [x]" using one_element by blast
  then show ?thesis
  proof cases
    case 1
    note l = l [unfolded 1]
    show ?thesis using assms
      by (cases "il_owner_ref E") (simp_all add: ensureAtlas_def l)
  next
    case 2
    note l = l [unfolded 2]
    show ?thesis using assms
      by (cases "amDeployMap x = plan"; cases "il_update E")
        (simp_all add: ensureAtlas_def l Let_def fst_bind_run bind_run_Inr)
  qed
qed

lemma ensureAtlasMesh_done:
  assumes "snd (ensureAtlasMesh E task a plan) = Inr ()"
  shows "\<exists>items b. il_list_mesh E (itNamespace task) [(''skycluster.io/app-id'', a)] = Inr items
    \<and> fold mesh_store (fst (ensureAtlasMesh E task a plan)) items = [b] \<and> amDeployMap b = plan
    \<and> fold atlas_store (fst (ensureAtlasMesh E task a plan)) ms = ms"
proof -
  obtain items where l: "il_list_mesh E (itNamespace task) [(''skycluster.io/app-id'', a)] = Inr items"
    using assms by (auto simp: ensureAtlasMesh_def bind_run_Inr)
  have "\<not> length items > 1" using assms l by (auto simp: ensureAtlasMesh_def bind_run_Inr)
  then consider "items = []" | x where "items = [x]" using one_element by blast
  then show ?thesis
  proof cases
    case 1
    note l = l [unfolded 1]
    show ?thesis using assms
      by (cases "il_owner_ref E") (simp_all add: ensureAtlasMesh_def l)
  next
    case 2
    note l = l [unfolded 2]
    show ?thesis using assms
      by (cases "amDeployMap x = plan"; cases "il_update E")
        (simp_all add: ensureAtlasMesh_def l Let_def fst_bind_run bind_run_Inr)
  qed
qed

lemma ensure_quiet:
  "il_list_atlas E (itNamespace task) [(''skycluster.io/app-id'', a)] = Inr [b] \<Longrightarrow> amDeployMap b = plan
    \<Longrightarrow> ensureAtlas E task a env plan = pure_run (Inr ())"
  "il_list_mesh E (itNamespace task) [(''skycluster.io/app-id'', a)] = Inr [m] \<Longrightarrow> amDeployMap m = plan
    \<Longrightarrow> ensureAtlasMesh E task a plan = pure_run (Inr ())"
  by (simp_all add: ensureAtlas_def ensureAtlasMesh_def)

text \<open>C16: a settled task converges: when a reconciliation of it returns without error, exactly one
  Atlas and one AtlasMesh of its application hold the recorded plan, and the next reconciliation,
  on the objects as it left them, makes no call.\<close>

theorem ILPTask_converges:
  assumes "accepted E ns n task df dp a" "settled task df dp" "ILPTaskReconcile E ns n = (es, Inr Done)"
  shows "ILPTaskReconcile (after es E) ns n = ([], Inr Done)
    \<and> (\<exists>b m. il_list_atlas (after es E) (itNamespace task) [(''skycluster.io/app-id'', a)] = Inr [b]
        \<and> il_list_mesh (after es E) (itNamespace task) [(''skycluster.io/app-id'', a)] = Inr [m]
        \<and> amDeployMap b = opDeployMap (itOptimization task) \<and> amDeployMap m = opDeployMap (itOptimization task))"
proof -
  let ?plan = "opDeployMap (itOptimization task)"
  let ?A = "ensureAtlas E task a (depExecutionEnvironment dp) ?plan" and ?M = "ensureAtlasMesh E task a ?plan"
  from assms(1) have lab: "mget (dfLabels df) ''skycluster.io/app-id'' = Some a" "mget (depLabels dp) ''skycluster.io/app-id'' = Some a"
    by (simp_all add: accepted_def)
  from assms(1) have acc: "accepted (after es E) ns n task df dp a" by (simp add: accepted_def after_def)
  note run = assms(3) [unfolded accepted_reconcile [OF assms(1)] reconcile_policies_eq [OF lab]]
  have A: "snd ?A = Inr ()" and M: "snd ?M = Inr ()" and es: "es = fst ?A @ fst ?M"
    using arg_cong [OF run, of fst] arg_cong [OF run, of snd] assms(2)
    by (auto simp: fst_bind_run bind_run_Inr)
  from ensureAtlas_done [OF A] obtain xs b where b: "il_list_atlas E (itNamespace task) [(''skycluster.io/app-id'', a)] = Inr xs"
      "fold atlas_store (fst ?A) xs = [b]" "amDeployMap b = ?plan" by blast
  from ensureAtlasMesh_done [OF M] obtain ys m where m: "il_list_mesh E (itNamespace task) [(''skycluster.io/app-id'', a)] = Inr ys"
      "fold mesh_store (fst ?M) ys = [m]" "amDeployMap m = ?plan" by blast
  have keep: "fold mesh_store (fst ?A) ms = ms" "fold atlas_store (fst ?M) as = as" for ms as
    using ensureAtlas_done [OF A] ensureAtlasMesh_done [OF M] by blast+
  have lists: "il_list_atlas (after es E) (itNamespace task) [(''skycluster.io/app-id'', a)] = Inr [b]"
    "il_list_mesh (after es E) (itNamespace task) [(''skycluster.io/app-id'', a)] = Inr [m]"
    using b m by (simp_all add: after_def es keep)
  have "ILPTaskReconcile (after es E) ns n = ([], Inr Done)"
    unfolding accepted_reconcile [OF acc] reconcile_policies_eq [OF lab]
    using assms(2) ensure_quiet(1) [OF lists(1) b(3)] ensure_quiet(2) [OF lists(2) m(3)]
    by (simp add: wrap_run_def pure_run_def bind_run_def)
  with lists b(3) m(3) show ?thesis by blast
qed

text \<open>A failed optimisation is polled again and again: nothing is written and nothing reported.\<close>

theorem ILPTask_failed_pod_waits:
  assumes "accepted E ns n task df dp a" "\<not> settled task df dp" "opPodRef (itOptimization task) \<noteq> []"
    and "il_get_pod E (opPodRef (itOptimization task)) = Inr PodFailed"
  shows "ILPTaskReconcile E ns n = ([], Inr (RequeueAfter 3))"
proof -
  from assms(1) have lab: "mget (dfLabels df) ''skycluster.io/app-id'' = Some a" "mget (depLabels dp) ''skycluster.io/app-id'' = Some a"
    by (simp_all add: accepted_def)
  show ?thesis
    unfolding accepted_reconcile [OF assms(1)] reconcile_policies_eq [OF lab]
    using assms(2-4) by (simp add: reconcile_pod_def Let_def pure_run_def)
qed

text \<open>Only the reconciler itself reads the policies.\<close>

lemma policy_reads_elsewhere:
  "ensureAtlas (E\<lparr>il_get_df := f, il_get_dp := g\<rparr>) = ensureAtlas E"
  "ensureAtlasMesh (E\<lparr>il_get_df := f, il_get_dp := g\<rparr>) = ensureAtlasMesh E"
  "claim_pod (E\<lparr>il_get_df := f, il_get_dp := g\<rparr>) = claim_pod E"
  "getOptimizationConfigMaps (E\<lparr>il_get_df := f, il_get_dp := g\<rparr>) = getOptimizationConfigMaps E"
  "getPodStatusAndResult (E\<lparr>il_get_df := f, il_get_dp := g\<rparr>) = getPodStatusAndResult E"
  "removeOptimizationPod (E\<lparr>il_get_df := f, il_get_dp := g\<rparr>) = removeOptimizationPod E"
  by (simp_all add: fun_eq_iff ensureAtlas_def ensureAtlasMesh_def claim_pod_def getOptimizationConfigMaps_def
      getPodStatusAndResult_def removeOptimizationPod_def Let_def cong: if_cong sum.case_cong option.case_cong)

lemma policy_reads_elsewhere2:
  "prepareAndBuildOptimizationPod (E\<lparr>il_get_df := f, il_get_dp := g\<rparr>) = prepareAndBuildOptimizationPod E"
  "pod_succeeded (E\<lparr>il_get_df := f, il_get_dp := g\<rparr>) = pod_succeeded E"
  by (simp_all add: fun_eq_iff prepareAndBuildOptimizationPod_def buildOptimizationPod_def pod_succeeded_def
      policy_reads_elsewhere Let_def cong: if_cong sum.case_cong option.case_cong)

lemma policy_reads_elsewhere3:
  "reconcile_policies (E\<lparr>il_get_df := f, il_get_dp := g\<rparr>) = reconcile_policies E"
  by (simp add: fun_eq_iff reconcile_policies_def reconcile_pod_def policy_reads_elsewhere policy_reads_elsewhere2
      Let_def cong: if_cong sum.case_cong option.case_cong)

text \<open>The policies a reconciliation works on are the ones that carry the name of the request:
  whatever is stored under any other name, the names in \<open>DataflowPolicyRef\<close> and
  \<open>DeploymentPolicyRef\<close> of the spec included, changes neither its calls nor its result.\<close>

theorem ILPTask_reads_request_name:
  "ILPTaskReconcile (E\<lparr>il_get_df := (\<lambda>ns' n'. if ns' = ns \<and> n' = n then il_get_df E ns n else other_df ns' n'),
       il_get_dp := (\<lambda>ns' n'. if ns' = ns \<and> n' = n then il_get_dp E ns n else other_dp ns' n')\<rparr>) ns n
   = ILPTaskReconcile E ns n"
  by (simp add: ILPTaskReconcile_def policy_reads_elsewhere policy_reads_elsewhere3
      cong: if_cong sum.case_cong option.case_cong)

section \<open>Examples\<close>

definition ex_task :: "string \<Rightarrow> string \<Rightarrow> ILPTask" where
  "ex_task result pod =
     \<lparr>itName = ''t'', itNamespace = ''default'', itDeleting = False, itDataflowPolicyRef = ''df'',
      itDeploymentPolicyRef = ''dp'',
      itOptimization = \<lparr>opStatus = [], opResult = result, opDeployMap = emptyDeployMap, opPodRef = pod,
        opDataflowResourceVersion = ''1'', opDeploymentPlanResourceVersion = ''1''\<rparr>,
      itConditions = []\<rparr>"

definition ex_df :: DataflowPolicy where
  "ex_df = \<lparr>dfName = ''t'', dfResourceVersion = ''1'', dfLabels = [(''skycluster.io/app-id'', ''app'')], dfDataDependencies = []\<rparr>"

definition ex_dp :: DeploymentPolicy where
  "ex_dp = \<lparr>depName = ''t'', depNs = ''default'', depResourceVersion = ''1'',
     depLabels = [(''skycluster.io/app-id'', ''app'')], depExecutionEnvironment = ''Kubernetes'',
     depPolicies = [ex_item ''XNodeGroup'']\<rparr>"

definition ex_ilp :: "ILPTask \<Rightarrow> PodPhase \<Rightarrow> ilp_env" where
  "ex_ilp task phase =
     \<lparr>il_env = ex_env, il_set_cond = (\<lambda>cs c. cs @ [c]), il_rand_suffix = (\<lambda>_. ''x''), il_get_task = (\<lambda>_ _. Inr task),
      il_get_df = (\<lambda>_ _. Inr ex_df), il_get_dp = (\<lambda>_ _. Inr ex_dp), il_get_pod = (\<lambda>_. Inr phase),
      il_get_pod2 = (\<lambda>_. Inr phase), il_get_plan = Inr [], il_parse_plan = (\<lambda>_. Inr emptyDeployMap),
      il_mkdir = Inr (), il_write_file = (\<lambda>_. Inr ()), il_list_scripts = Inr [[(''run'', ''x'')]],
      il_list_task_pods = (\<lambda>_. Inr []), il_list_pods = (\<lambda>_. Inr []), il_create_pod = (\<lambda>_. Inr ''p''),
      il_delete_pod = (\<lambda>_. Inr ()), il_get_orig = Inr task, il_patch_pod_ref = Inr (), il_clear_pod_ref = Inr (),
      il_update_status = Inr (), il_list_atlas = (\<lambda>_ _. Inr []), il_list_mesh = (\<lambda>_ _. Inr []),
      il_owner_ref = Inr (), il_create = Inr (), il_update = Inr (), il_update_obj_status = Inr ()\<rparr>"

lemma ex_accepted: "accepted (ex_ilp (ex_task res pod) phase) ns n (ex_task res pod) ex_df ex_dp ''app''"
  by (simp add: accepted_def ex_ilp_def ex_task_def ex_df_def ex_dp_def mget_Cons)

lemma ex_settled: "settled (ex_task res pod) ex_df ex_dp \<longleftrightarrow> res \<noteq> []"
  by (simp add: settled_def ex_task_def ex_df_def ex_dp_def)

lemma ex_labels: "mget (dfLabels ex_df) ''skycluster.io/app-id'' = Some ''app''"
  "mget (depLabels ex_dp) ''skycluster.io/app-id'' = Some ''app''"
  by (simp_all add: ex_df_def ex_dp_def mget_Cons)

lemmas ex_reconcile = accepted_reconcile [OF ex_accepted] reconcile_policies_eq [OF ex_labels] ex_settled

theorem claim_pod_no_orphan_witness:
  "let E = ex_ilp (ex_task [] []) PodPending; pod = optimizationPod (ex_task [] []) [] [];
       es = [CreatePod pod, PatchPodRef ''p'']
   in ((Inr ''p'' = (Inr ''p'' :: string go) \<and> es = [CreatePod pod, PatchPodRef ''p''] \<and> il_patch_pod_ref E = Inr ())
      \<or> last es = DeletePod ''p'')
    \<and> (case il_list_pods E (itName (ex_task [] [])) of Inl _ \<Rightarrow> True | Inr items \<Rightarrow> list_all snd items)
    \<and> count_list es (CreatePod pod) = 1"
  unfolding Let_def
  by (rule claim_pod_no_orphan) (simp_all add: claim_pod_def ex_ilp_def ex_task_def bind_run_def call_def pure_run_def)

theorem ILPTask_converges_witness:
  "let task = ex_task ''Success'' ''p''; E = ex_ilp task PodSucceeded; es = fst (ILPTaskReconcile E ''default'' ''t'')
   in ILPTaskReconcile (after es E) ''default'' ''t'' = ([], Inr Done)
    \<and> (\<exists>b m. il_list_atlas (after es E) (itNamespace task) [(''skycluster.io/app-id'', ''app'')] = Inr [b]
        \<and> il_list_mesh (after es E) (itNamespace task) [(''skycluster.io/app-id'', ''app'')] = Inr [m]
        \<and> amDeployMap b = opDeployMap (itOptimization task) \<and> amDeployMap m = opDeployMap (itOptimization task))"
proof -
  have "snd (ILPTaskReconcile (ex_ilp (ex_task ''Success'' ''p'') PodSucceeded) ''default'' ''t'') = Inr Done"
    unfolding ex_reconcile by (simp add: bind_run_Inr ensureAtlas_def ensureAtlasMesh_def ex_ilp_def)
  then show ?thesis
    unfolding Let_def
    by (intro ILPTask_converges [OF ex_accepted]) (simp_all add: ex_settled prod_eq_iff)
qed

theorem ILPTask_status_sound_witness:
  "let E = ex_ilp (ex_task [] ''p'') PodSucceeded;
       t = ex_task [] ''p''
   in \<exists>task df dp a doc plan. accepted E ''default'' ''t'' task df dp a \<and> \<not> settled task df dp
    \<and> opPodRef (itOptimization task) \<noteq> []
    \<and> il_get_pod E (opPodRef (itOptimization task)) = Inr PodSucceeded
    \<and> getPodStatusAndResult E (opPodRef (itOptimization task)) = Inr doc \<and> il_parse_plan E doc = Inr plan
    \<and> opDeployMap (itOptimization t) = final_plan E ''default'' dp plan
    \<and> opDataflowResourceVersion (itOptimization t) = dfResourceVersion df
    \<and> opDeploymentPlanResourceVersion (itOptimization t) = depResourceVersion dp
    \<and> opPodRef (itOptimization t) = opPodRef (itOptimization task)
    \<and> opResult (itOptimization t) =
        (if dmComponent (final_plan E ''default'' dp plan) = [] then opResult (itOptimization task) else ''Success'')"
  unfolding Let_def
proof (rule ILPTask_status_sound)
  let ?E = "ex_ilp (ex_task [] ''p'') PodSucceeded"
  have g: "getPodStatusAndResult ?E ''p'' = Inr []" "il_parse_plan ?E [] = Inr emptyDeployMap"
    by (simp_all add: getPodStatusAndResult_def ex_ilp_def mstr_def)
  have f: "final_plan ?E ''default'' ex_dp emptyDeployMap = emptyDeployMap"
    by (simp add: final_plan_def findServicesForDeployPlan_def emptyDeployMap_def add_services_def)
  have "pod_succeeded ?E ''default'' (ex_task [] ''p'') ex_dp ''app'' ''p'' = pure_run (Inr (ex_task [] ''p''))"
    using pod_succeeded_eq [OF g refl refl, where ns = "''default''" and dp = ex_dp and task = "ex_task [] ''p''" and appId = "''app''"]
    by (simp add: f) (simp add: emptyDeployMap_def ex_task_def)
  then show "UpdateTaskStatus (ex_task [] ''p'') \<in> set (fst (ILPTaskReconcile ?E ''default'' ''t''))"
    unfolding ex_reconcile
    by (simp add: reconcile_pod_def ex_task_def ex_ilp_def bind_run_call ex_df_def ex_dp_def)
qed

definition ex_pod :: OptPod where
  "ex_pod = optimizationPod (ex_task [] []) [(''run'', ''x'')]
     [(''tasks.json'', TasksDoc [mkTask (ex_item ''XNodeGroup'') [[mkVS (itoa 1) ex_cps]]]),
      (''tasks-edges.json'', EdgesDoc None), (''providers.json'', ProvidersDoc (projr (generateProvidersJson ex_env))),
      (''providers-attr.json'', AttrsDoc [example_entry])]"

lemma ex_documents:
  "generateTasksJson ex_env ex_dp = Inr [mkTask (ex_item ''XNodeGroup'') [[mkVS (itoa 1) ex_cps]]]"
  "generateTasksEdgesJson ex_df = Inr None"
  "generateProvidersJson ex_env = Inr (projr (generateProvidersJson ex_env))"
  "generateProvidersAttrJson ex_env = Inr [example_entry]"
proof -
  show "generateTasksJson ex_env ex_dp = Inr [mkTask (ex_item ''XNodeGroup'') [[mkVS (itoa 1) ex_cps]]]"
    by (simp add: generateTasksJson_def ex_dp_def ex_k8s) (simp add: mkTask_def mkVS_def ex_cps_def)
  show "generateProvidersJson ex_env = Inr (projr (generateProvidersJson ex_env))"
    by (simp add: generateProvidersJson_def ex_env_def example_env_def)
  show "generateProvidersAttrJson ex_env = Inr [example_entry]"
    using example_matrix by (simp add: generateProvidersAttrJson_def ex_env_def example_env_def)
qed (simp add: generateTasksEdgesJson_def ex_df_def)

theorem ILPTask_pod_documents_witness:
  "let E = ex_ilp (ex_task [] []) PodPending
   in \<exists>task df dp a tasks edges provs attrs. accepted E ''default'' ''t'' task df dp a \<and> \<not> settled task df dp
    \<and> opPodRef (itOptimization task) = []
    \<and> generateTasksJson (il_env E) dp = Inr tasks \<and> generateTasksEdgesJson df = Inr edges
    \<and> generateProvidersJson (il_env E) = Inr provs \<and> generateProvidersAttrJson (il_env E) = Inr attrs
    \<and> podFiles ex_pod = [(''tasks.json'', TasksDoc tasks), (''tasks-edges.json'', EdgesDoc edges),
         (''providers.json'', ProvidersDoc provs), (''providers-attr.json'', AttrsDoc attrs)]"
  unfolding Let_def
proof (rule ILPTask_pod_documents)
  let ?E = "ex_ilp (ex_task [] []) PodPending"
  have env: "il_env ?E = ex_env" by (simp add: ex_ilp_def)
  have "CreatePod ex_pod \<in> set (fst (prepareAndBuildOptimizationPod ?E ex_df ex_dp (ex_task [] [])))"
    unfolding prepareAndBuildOptimizationPod_def env Let_def ex_documents(1,2,4) ex_pod_def
    by (subst ex_documents(3)) (simp add: ex_ilp_def getOptimizationConfigMaps_def buildOptimizationPod_def claim_pod_def
        massign_def mput_def)
  then show "CreatePod ex_pod \<in> set (fst (ILPTaskReconcile ?E ''default'' ''t''))"
    unfolding ex_reconcile by (simp add: bind_run_call) (simp add: ex_task_def)
qed

theorem ILPTask_failed_pod_waits_witness:
  "ILPTaskReconcile (ex_ilp (ex_task [] ''p'') PodFailed) ''default'' ''t'' = ([], Inr (RequeueAfter 3))"
  by (rule ILPTask_failed_pod_waits [OF ex_accepted]) (simp_all add: ex_settled, simp_all add: ex_task_def ex_ilp_def)

end
