(* ===== verification/Runner.thy ===== *)
theory Runner
  imports Prelude Names Conditions Effects Api
begin

text \<open>
  The controllers that run a finder job for a provider and record what it prints:
  \<open>ImageReconciler\<close> (\<open>internal/controller/core/image/image_controller.go\<close>) and
  \<open>InstanceTypeReconciler\<close> (\<open>internal/controller/core/instancetype/instancetype_controller.go\<close>).
  The two files are the same program over two types of offering; \<open>runner_cfg\<close> holds where they
  differ, and the definitions here are that program. \<open>rn_env\<close> gives the replies of one call;
  times and durations are nanoseconds, events of the recorder are left out.
\<close>

section \<open>Data\<close>

text \<open>The status; a time is \<open>None\<close> when it is zero.\<close>

record 'o runner_status =
  rsRegion :: string
  rsOfferings :: "'o list"
  rsObservedGeneration :: int
  rsLastUpdateTime :: "int option"
  rsConditions :: "condition list"

record 'o runner_obj =
  roName :: string
  roNamespace :: string
  roDeleting :: bool
  roGeneration :: int
  roProviderRef :: string
  roOfferings :: "'o list"
  roStatus :: "'o runner_status"

record RunnerProfile = ProviderProfile +
  pfAnnotations :: "string gomap option"

record RunnerPod =
  rpName :: string
  rpNamespace :: string
  rpPhase :: PodPhase
  rpTerminated :: "string option list"

text \<open>The value of an environment variable of the job: a text, or a JSON document.\<close>

datatype 'p env_value = EnvText string | EnvJson 'p

record 'p RunnerJob =
  rjNamespace :: string
  rjGenerateName :: string
  rjLabels :: "string gomap"
  rjImage :: string
  rjEnv :: "(string \<times> 'p env_value) list"
  rjArgs :: "string list"
  rjBackoffLimit :: int
  rjTTLSecondsAfterFinished :: int
  rjActiveDeadlineSeconds :: int

text \<open>A patch is computed by the client from a base and the object: both are the event's.\<close>

datatype ('o, 'p) rn_effect =
    PatchProfile "string gomap option" "string gomap option"
  | UpdateStatus "'o runner_obj"
  | CreateJob "'p RunnerJob"
  | UpdateConfigMap string "string gomap"

datatype run_result = Stop | After int

text \<open>
  Where the two controllers differ; the setter and the reader of the condition library are the
  same for both. \<open>rc_vars\<close> are the variables one of them adds.
\<close>

record ('o, 'p) runner_cfg =
  rc_set_cond :: "condition list \<Rightarrow> condition \<Rightarrow> condition list"
  rc_is_true :: "condition list \<Rightarrow> string \<Rightarrow> bool"
  rc_annotation :: string
  rc_hybrid_msg :: string
  rc_job_type :: string
  rc_suffix :: string
  rc_image :: string
  rc_gcp_key :: string
  rc_data_key :: string
  rc_decode_msg :: string
  rc_cm_msg :: string
  rc_payload :: "ZoneSpec list \<Rightarrow> 'o list \<Rightarrow> 'p"
  rc_vars :: "('o list \<Rightarrow> string go) \<Rightarrow> 'o list \<Rightarrow> (string \<times> 'p env_value) list go"

text \<open>
  The replies. Lists are read by namespace and labels: secrets as their data, jobs as their names,
  config maps as name and data. \<open>rn_yaml\<close> is \<open>EncodeObjectToYAML\<close> of the offerings and
  \<open>rn_unmarshal\<close> the unmarshalled field of the pod's output, \<open>None\<close> when it is absent.
\<close>

record ('o, 'p) rn_env =
  rn_client :: "unit go"
  rn_now :: int
  rn_get :: "string \<Rightarrow> string \<Rightarrow> 'o runner_obj go"
  rn_get_profile :: "string \<Rightarrow> string \<Rightarrow> RunnerProfile go"
  rn_patch_profile :: "unit go"
  rn_update_status :: "unit go"
  rn_secrets :: "string \<Rightarrow> string gomap \<Rightarrow> string gomap list go"
  rn_jobs :: "string \<Rightarrow> string gomap \<Rightarrow> string list go"
  rn_pods :: "string \<Rightarrow> string gomap \<Rightarrow> RunnerPod list go"
  rn_config_maps :: "string \<Rightarrow> string gomap \<Rightarrow> (string \<times> string gomap) list go"
  rn_owner :: "unit go"
  rn_create_job :: "unit go"
  rn_update_cm :: "unit go"
  rn_logs :: "string \<Rightarrow> string \<Rightarrow> string \<Rightarrow> string go"
  rn_yaml :: "'o list \<Rightarrow> string go"
  rn_unmarshal :: "string \<Rightarrow> 'o list option go"

section \<open>Time\<close>

text \<open>\<open>time.Time.Sub\<close> saturates at the bounds of a 64-bit duration; the subtraction of two durations
  wraps.\<close>

definition time_sub :: "int \<Rightarrow> int \<Rightarrow> int" where
  "time_sub t u = max (- (2 ^ 63)) (min (2 ^ 63 - 1) (t - u))"

definition dur_minus :: "int \<Rightarrow> int \<Rightarrow> int" where
  "dur_minus a b = (a - b + 2 ^ 63) mod 2 ^ 64 - 2 ^ 63"

definition second :: int where "second = 1000000000"

definition NormalUpdateThreshold :: int where "NormalUpdateThreshold = 12 * 3600 * second"

definition RequeuePollThreshold :: int where "RequeuePollThreshold = 10 * second"

section \<open>The job\<close>

fun ContainerTerminatedReason :: "string option list \<Rightarrow> string" where
  "ContainerTerminatedReason [] = []"
| "ContainerTerminatedReason (t # ts) =
     (case t of Some reason \<Rightarrow> if reason \<noteq> [] then reason else ContainerTerminatedReason ts
      | None \<Rightarrow> ContainerTerminatedReason ts)"

definition job_labels :: "('o, 'p) runner_cfg \<Rightarrow> RunnerProfile \<Rightarrow> string gomap" where
  "job_labels cfg pf =
     mput ''skycluster.io/provider-profile'' (pfName pf)
       (mput ''skycluster.io/job-type'' (rc_job_type cfg)
         (DefaultLabels (ppPlatform (pfSpec pf)) (ppRegion (pfSpec pf)) []))"

text \<open>What the job needs of the secret of a platform; the name is compared with its case.\<close>

definition platform_cred :: "string \<Rightarrow> string \<Rightarrow> string gomap \<Rightarrow> string gomap go" where
  "platform_cred gcp_key platform data =
     (if platform = ''aws'' then
        (if mget data ''aws_access_key_id'' = None then Inl (Errf ''aws_access_key_id'')
         else if mget data ''aws_secret_access_key'' = None then Inl (Errf ''aws_secret_access_key'')
         else Inr (foldl (\<lambda>m (k, v). mput (to_upper k) v m) [] data))
      else if platform = ''azure'' then
        (case mget data ''configs'' of None \<Rightarrow> Inl (Errf ''configs'')
         | Some v \<Rightarrow> Inr [(''AZ_CONFIG_JSON'', v)])
      else if platform = ''gcp'' then
        (case mget data ''configs'' of None \<Rightarrow> Inl (Errf ''configs'')
         | Some v \<Rightarrow> Inr [(gcp_key, v), (''GOOGLE_CLOUD_PROJECT'', ''dummy'')])
      else Inl (Errf ''unsupported platform for credentials secret''))"

definition fetchProviderProfileCred ::
  "('o, 'p) runner_cfg \<Rightarrow> ('o, 'p) rn_env \<Rightarrow> RunnerProfile \<Rightarrow> string gomap go" where
  "fetchProviderProfileCred cfg E pf =
     (let platform = ppPlatform (pfSpec pf);
          ll = [(''skycluster.io/managed-by'', ''skycluster''), (''skycluster.io/provider-platform'', platform),
                (''skycluster.io/secret-role'', ''credentials'')]
      in bind_go (wrap_go ''unable to list credentials secret'' (rn_secrets E ''skycluster-system'' ll)) (\<lambda>items.
         if length items = 0 then Inl (Errf ''no credentials secret found for platform'')
         else if length items > 1 then Inl (Errf ''multiple credentials secrets found for platform, expected only one'')
         else
           (let data = hd items
            in if length data = 0 then Inl (Errf ''credentials secret is empty'')
               else platform_cred (rc_gcp_key cfg) platform data)))"

definition buildRunner ::
  "('o, 'p) runner_cfg \<Rightarrow> ('o, 'p) rn_env \<Rightarrow> 'o runner_obj \<Rightarrow> RunnerProfile \<Rightarrow> 'p \<Rightarrow> 'p RunnerJob go" where
  "buildRunner cfg E obj pf jsonData =
     bind_go (wrap_go ''failed to fetch provider credentials'' (fetchProviderProfileCred cfg E pf)) (\<lambda>cred.
       let outputPath = ''/data/'' @ roName obj @ ''-'' @ ppPlatform (pfSpec pf) @ ''.yaml''
       in bind_go (wrap_go ''failed to encode offerings to YAML'' (rc_vars cfg (rn_yaml E) (rsOfferings (roStatus obj)))) (\<lambda>vars.
          let mapVars = massign (map (\<lambda>(k, v). (k, EnvText v)) cred)
                 ([(''PROVIDER'', EnvText (ppPlatform (pfSpec pf))), (''REGION'', EnvText (ppRegion (pfSpec pf)))] @ vars @
                  [(''INPUT_JSON'', EnvJson jsonData), (''OUTPUT_PATH'', EnvText outputPath)])
          in bind_go (TruncatedName (roName obj) (rc_suffix cfg)) (\<lambda>generateName.
             bind_go (wrap_go ''failed to set owner reference for job'' (rn_owner E)) (\<lambda>_.
               Inr \<lparr>rjNamespace = roNamespace obj, rjGenerateName = generateName, rjLabels = job_labels cfg pf,
                    rjImage = rc_image cfg, rjEnv = map (\<lambda>(k, v). (to_upper k, v)) mapVars,
                    rjArgs = [''cat '' @ outputPath], rjBackoffLimit = 0, rjTTLSecondsAfterFinished = 300,
                    rjActiveDeadlineSeconds = 600\<rparr>))))"

text \<open>A job that carries the labels is taken as it is; \<open>AlreadyExists\<close> is no error.\<close>

definition ensureJobRunner ::
  "('o, 'p) runner_cfg \<Rightarrow> ('o, 'p) rn_env \<Rightarrow> 'p RunnerJob \<Rightarrow> 'o runner_obj \<Rightarrow> RunnerProfile
    \<Rightarrow> (('o, 'p) rn_effect, unit) run" where
  "ensureJobRunner cfg E job obj pf =
     bind_run (pure_run (wrap_go ''failed to list existing jobs'' (rn_jobs E (roNamespace obj) (job_labels cfg pf)))) (\<lambda>existings.
       if length existings > 0 then pure_run (Inr ())
       else
         bind_run (pure_run (wrap_go ''failed to set controller reference for Job'' (rn_owner E))) (\<lambda>_.
           try_run (call (CreateJob job) (rn_create_job E)) (\<lambda>reply.
             case reply of
               Inl err \<Rightarrow> if is_already_exists err then pure_run (Inr ())
                          else pure_run (Inl (wrap ''failed to create runner Job'' err))
             | Inr _ \<Rightarrow> pure_run (Inr ()))))"

definition fetchPod ::
  "('o, 'p) runner_cfg \<Rightarrow> ('o, 'p) rn_env \<Rightarrow> RunnerProfile \<Rightarrow> 'o runner_obj \<Rightarrow> RunnerPod go" where
  "fetchPod cfg E pf obj =
     bind_go (wrap_go ''failed to list Pods'' (rn_pods E (roNamespace obj) (job_labels cfg pf))) (\<lambda>items.
       if length items = 0 then Inl (ErrNotFound ''no Pod found'')
       else if length items > 1 then Inl (Errf ''multiple Pods found, expected only one'')
       else Inr (hd items))"

definition getPodStdOut :: "('o, 'p) rn_env \<Rightarrow> string \<Rightarrow> string \<Rightarrow> string \<Rightarrow> string go" where
  "getPodStdOut E podName podNS containerName =
     wrap_go ''failed to get logs for pod'' (rn_logs E podNS podName containerName)"

text \<open>The decoder of the pod's output: a document without the field is refused.\<close>

definition decodeOutput :: "('o, 'p) rn_env \<Rightarrow> string \<Rightarrow> 'o list go" where
  "decodeOutput E out =
     bind_go (rn_unmarshal E out) (\<lambda>field.
       case field of None \<Rightarrow> Inl (Errf ''missing or invalid field'') | Some zones \<Rightarrow> Inr zones)"

text \<open>The data keeps its old value when the offerings cannot be encoded, and is written all the same.\<close>

definition updateConfigMap ::
  "('o, 'p) runner_cfg \<Rightarrow> ('o, 'p) rn_env \<Rightarrow> RunnerProfile \<Rightarrow> 'o runner_obj \<Rightarrow> (('o, 'p) rn_effect, unit) run" where
  "updateConfigMap cfg E pf obj =
     (let ll = mput ''skycluster.io/provider-profile'' (pfName pf)
                 (DefaultLabels (ppPlatform (pfSpec pf)) (ppRegion (pfSpec pf)) [])
      in bind_run (pure_run (wrap_go ''unable to list ConfigMaps'' (rn_config_maps E ''skycluster-system'' ll))) (\<lambda>items.
         if length items \<noteq> 1 then pure_run (Inl (Errf ''error listing ConfigMaps: expected 1''))
         else
           (case hd items of (name, data) \<Rightarrow>
             let data = (case rn_yaml E (rsOfferings (roStatus obj)) of
                           Inl _ \<Rightarrow> data | Inr yaml \<Rightarrow> mput (rc_data_key cfg) yaml data)
             in wrap_run ''failed to update ConfigMap'' (call (UpdateConfigMap name data) (rn_update_cm E)))))"

section \<open>The reconciler\<close>

text \<open>\<open>st.SetCondition\<close> and the write of the status.\<close>

definition set_condition ::
  "('o, 'p) runner_cfg \<Rightarrow> string \<Rightarrow> cond_status \<Rightarrow> string \<Rightarrow> string \<Rightarrow> 'o runner_obj \<Rightarrow> 'o runner_obj" where
  "set_condition cfg t status reason msg obj =
     obj\<lparr>roStatus := (roStatus obj)\<lparr>rsConditions :=
       SetCondition (rc_set_cond cfg) t status reason msg (rsConditions (roStatus obj))\<rparr>\<rparr>"

abbreviation flag :: "('o, 'p) runner_cfg \<Rightarrow> 'o runner_obj \<Rightarrow> string \<Rightarrow> bool" where
  "flag cfg obj t \<equiv> rc_is_true cfg (rsConditions (roStatus obj)) t"

definition update_status :: "('o, 'p) rn_env \<Rightarrow> 'o runner_obj \<Rightarrow> run_result \<Rightarrow> (('o, 'p) rn_effect, run_result) run" where
  "update_status E obj result = bind_run (call (UpdateStatus obj) (rn_update_status E)) (\<lambda>_. pure_run (Inr result))"

definition is_cloud :: "RunnerProfile \<Rightarrow> bool" where
  "is_cloud pf = (to_lower (ppPlatform (pfSpec pf)) \<in> set [''aws'', ''azure'', ''gcp''])"

text \<open>A provider that is no cloud: the base of the patch is copied after the annotation is set.\<close>

definition runner_hybrid ::
  "('o, 'p) runner_cfg \<Rightarrow> ('o, 'p) rn_env \<Rightarrow> 'o runner_obj \<Rightarrow> RunnerProfile \<Rightarrow> (('o, 'p) rn_effect, run_result) run" where
  "runner_hybrid cfg E obj pf =
     (let annotations = (case pfAnnotations pf of None \<Rightarrow> [] | Some m \<Rightarrow> m);
          pf = pf\<lparr>pfAnnotations := Some (mput (rc_annotation cfg) (roName obj) annotations)\<rparr>
      in bind_run (call (PatchProfile (pfAnnotations pf) (pfAnnotations pf)) (rn_patch_profile E)) (\<lambda>_.
         let obj = set_condition cfg ''Ready'' CondTrue ''HybridEdgeCloud'' (rc_hybrid_msg cfg) obj;
             obj = obj\<lparr>roStatus := (roStatus obj)\<lparr>rsOfferings := roOfferings obj, rsRegion := ppRegion (pfSpec pf),
                     rsObservedGeneration := roGeneration obj\<rparr>\<rparr>
         in update_status E obj Stop))"

text \<open>A new run: the job is made unless one is listed, and recorded as running.\<close>

definition runner_start ::
  "('o, 'p) runner_cfg \<Rightarrow> ('o, 'p) rn_env \<Rightarrow> 'o runner_obj \<Rightarrow> RunnerProfile \<Rightarrow> (('o, 'p) rn_effect, run_result) run" where
  "runner_start cfg E obj pf =
     bind_run (pure_run (buildRunner cfg E obj pf (rc_payload cfg (ppZones (pfSpec pf)) (roOfferings obj)))) (\<lambda>job.
     bind_run (ensureJobRunner cfg E job obj pf) (\<lambda>_.
       let obj = set_condition cfg ''ResyncRequired'' CondFalse ''JobCreated'' ''Runner Job created'' obj;
           obj = set_condition cfg ''JobRunning'' CondTrue ''JobCreated'' ''Runner Job is running'' obj;
           obj = obj\<lparr>roStatus := (roStatus obj)\<lparr>rsObservedGeneration := roGeneration obj\<rparr>\<rparr>
       in update_status E obj (After RequeuePollThreshold)))"

fun phase_text :: "PodPhase \<Rightarrow> string" where
  "phase_text PodPending = ''Pending''"
| "phase_text PodRunning = ''Running''"
| "phase_text PodSucceeded = ''Succeeded''"
| "phase_text PodFailed = ''Failed''"
| "phase_text PodUnknown = ''Unknown''"

text \<open>The last step of a finished pod.\<close>

definition runner_finalize ::
  "('o, 'p) runner_cfg \<Rightarrow> ('o, 'p) rn_env \<Rightarrow> 'o runner_obj \<Rightarrow> RunnerProfile \<Rightarrow> RunnerPod \<Rightarrow> bool
    \<Rightarrow> (('o, 'p) rn_effect, run_result) run" where
  "runner_finalize cfg E obj pf pod success =
     (let obj = obj\<lparr>roStatus := (roStatus obj)\<lparr>rsLastUpdateTime := Some (rn_now E), rsRegion := ppRegion (pfSpec pf),
                  rsObservedGeneration := roGeneration obj\<rparr>\<rparr>;
          obj = (if success then set_condition cfg ''Ready'' CondTrue ''PodFinished'' ''Runner Pod finished successfully'' obj
                 else set_condition cfg ''Ready'' CondFalse ''PodFailed''
                        (''Runner Pod finished with phase '' @ phase_text (rpPhase pod)) obj)
      in update_status E obj Stop)"

definition runner_finished ::
  "('o, 'p) runner_cfg \<Rightarrow> ('o, 'p) rn_env \<Rightarrow> 'o runner_obj \<Rightarrow> RunnerProfile \<Rightarrow> RunnerPod
    \<Rightarrow> (('o, 'p) rn_effect, run_result) run" where
  "runner_finished cfg E obj pf pod =
     (let obj = set_condition cfg ''JobRunning'' CondFalse ''PodFinished'' ''Runner Pod finished'' obj
      in if flag cfg obj ''ResyncRequired'' then
           update_status E (set_condition cfg ''ResyncRequired'' CondFalse ''StartingNewRun''
             ''Starting a new run as requested'' obj) (After second)
         else
           (case getPodStdOut E (rpName pod) (rpNamespace pod) ''harvest'' of
              Inl logErr \<Rightarrow>
                update_status E (set_condition cfg ''ResyncRequired'' CondTrue ''LogFetchFailed''
                  ''Unable to retrieve runner pod logs, will retry'' obj) (After RequeuePollThreshold)
            | Inr podOutput \<Rightarrow>
                let success = (rpPhase pod = PodSucceeded \<and> ContainerTerminatedReason (rpTerminated pod) = ''Completed'')
                in if success then
                     (case decodeOutput E podOutput of
                        Inl err \<Rightarrow>
                          update_status E (set_condition cfg ''Ready'' CondFalse ''DecodeFailed'' (rc_decode_msg cfg) obj)
                            (After RequeuePollThreshold)
                      | Inr zones \<Rightarrow>
                          let obj = obj\<lparr>roStatus := (roStatus obj)\<lparr>rsOfferings := zones\<rparr>\<rparr>
                          in try_run (updateConfigMap cfg E pf obj) (\<lambda>reply.
                               case reply of
                                 Inl err \<Rightarrow>
                                   update_status E (set_condition cfg ''Ready'' CondFalse ''ConfigMapFailed'' (rc_cm_msg cfg) obj)
                                     (After RequeuePollThreshold)
                               | Inr _ \<Rightarrow> runner_finalize cfg E obj pf pod success))
                   else runner_finalize cfg E obj pf pod success))"

definition runner_poll ::
  "('o, 'p) runner_cfg \<Rightarrow> ('o, 'p) rn_env \<Rightarrow> 'o runner_obj \<Rightarrow> RunnerProfile \<Rightarrow> (('o, 'p) rn_effect, run_result) run" where
  "runner_poll cfg E obj pf =
     (case fetchPod cfg E pf obj of
        Inl err \<Rightarrow>
          if is_not_found err then
            (let msg = ''Runner Pod not found, will try to create a new one'';
                 obj = set_condition cfg ''JobRunning'' CondFalse ''PodNotFound'' msg obj;
                 obj = set_condition cfg ''ResyncRequired'' CondTrue ''PodNotFound'' msg obj
             in update_status E obj (After RequeuePollThreshold))
          else pure_run (Inl err)
      | Inr pod \<Rightarrow>
          if rpPhase pod \<in> {PodPending, PodRunning} then pure_run (Inr (After RequeuePollThreshold))
          else runner_finished cfg E obj pf pod)"

definition runner_cloud ::
  "('o, 'p) runner_cfg \<Rightarrow> ('o, 'p) rn_env \<Rightarrow> 'o runner_obj \<Rightarrow> RunnerProfile \<Rightarrow> (('o, 'p) rn_effect, run_result) run" where
  "runner_cloud cfg E obj pf =
     (let specChanged = (roGeneration obj \<noteq> rsObservedGeneration (roStatus obj));
          jobRunning = flag cfg obj ''JobRunning'';
          reconcileRequired = flag cfg obj ''ResyncRequired'';
          age = (case rsLastUpdateTime (roStatus obj) of None \<Rightarrow> None | Some t \<Rightarrow> Some (time_sub (rn_now E) t));
          withinThreshold = (case age of None \<Rightarrow> False | Some d \<Rightarrow> d < NormalUpdateThreshold)
      in if \<not> specChanged \<and> \<not> jobRunning \<and> \<not> reconcileRequired \<and> withinThreshold then
           pure_run (Inr (After (dur_minus NormalUpdateThreshold (the age))))
         else
           (let obj = obj\<lparr>roStatus := (roStatus obj)\<lparr>rsRegion := ppRegion (pfSpec pf)\<rparr>\<rparr>
            in if specChanged \<and> jobRunning then
                 (let msg = ''Spec changed while a Pod is running'';
                      obj = set_condition cfg ''Ready'' CondFalse ''SpecChanged'' msg obj
                  in if \<not> reconcileRequired then
                       bind_run (ignore (call (UpdateStatus
                           (set_condition cfg ''ResyncRequired'' CondTrue ''SpecChanged'' msg obj)) (rn_update_status E))) (\<lambda>_.
                         pure_run (Inr (After RequeuePollThreshold)))
                     else pure_run (Inr (After RequeuePollThreshold)))
               else if reconcileRequired then runner_start cfg E obj pf
               else runner_poll cfg E obj pf))"

definition runner_reconcile ::
  "('o, 'p) runner_cfg \<Rightarrow> ('o, 'p) rn_env \<Rightarrow> string \<Rightarrow> string \<Rightarrow> (('o, 'p) rn_effect, run_result) run" where
  "runner_reconcile cfg E ns name =
     bind_run (pure_run (rn_client E)) (\<lambda>_.
       case rn_get E ns name of
         Inl err \<Rightarrow> pure_run (if is_not_found err then Inr Stop else Inl err)
       | Inr obj \<Rightarrow>
           if roDeleting obj then pure_run (Inr Stop)
           else
             bind_run (pure_run (wrap_go ''unable to fetch ProviderProfile''
                 (rn_get_profile E (roNamespace obj) (roProviderRef obj)))) (\<lambda>pf.
               if \<not> is_cloud pf then runner_hybrid cfg E obj pf else runner_cloud cfg E obj pf))"

section \<open>The flow of the conditions\<close>

text \<open>
  What the conditions of an object say: whether its spec changed since it was observed, whether a
  job runs, whether a run is asked for, whether it is ready. \<open>runner_flow\<close> is the state machine the
  comment above \<open>Reconcile\<close> describes, as the code has it.
\<close>

record view =
  vwChanged :: bool
  vwRunning :: bool
  vwResync :: bool
  vwReady :: bool

definition view_of :: "('o, 'p) runner_cfg \<Rightarrow> 'o runner_obj \<Rightarrow> view" where
  "view_of cfg obj =
     \<lparr>vwChanged = (roGeneration obj \<noteq> rsObservedGeneration (roStatus obj)), vwRunning = flag cfg obj ''JobRunning'',
      vwResync = flag cfg obj ''ResyncRequired'', vwReady = flag cfg obj ''Ready''\<rparr>"

inductive runner_flow :: "view \<Rightarrow> view \<Rightarrow> bool" where
  conflict: "vwChanged v \<Longrightarrow> vwRunning v \<Longrightarrow> \<not> vwResync v \<Longrightarrow> runner_flow v (v\<lparr>vwResync := True, vwReady := False\<rparr>)"
| start: "\<not> (vwChanged v \<and> vwRunning v) \<Longrightarrow> vwResync v \<Longrightarrow>
    runner_flow v (v\<lparr>vwChanged := False, vwRunning := True, vwResync := False\<rparr>)"
| retry: "\<not> (vwChanged v \<and> vwRunning v) \<Longrightarrow> \<not> vwResync v \<Longrightarrow> runner_flow v (v\<lparr>vwRunning := False, vwResync := True\<rparr>)"
| spoiled: "\<not> (vwChanged v \<and> vwRunning v) \<Longrightarrow> \<not> vwResync v \<Longrightarrow> runner_flow v (v\<lparr>vwRunning := False, vwReady := False\<rparr>)"
| finished: "\<not> (vwChanged v \<and> vwRunning v) \<Longrightarrow> \<not> vwResync v \<Longrightarrow>
    runner_flow v (v\<lparr>vwChanged := False, vwRunning := False, vwReady := r\<rparr>)"

inductive_simps runner_flow_iff: "runner_flow v w"

text \<open>The laws of the setter and the reader are those of \<open>condition_api\<close>.\<close>

definition cfg_laws :: "('o, 'p) runner_cfg \<Rightarrow> bool" where
  "cfg_laws cfg \<longleftrightarrow> condition_api (rc_set_cond cfg) (rc_is_true cfg)"

lemma flag_set_condition [simp]:
  "cfg_laws cfg \<Longrightarrow> flag cfg (set_condition cfg t s r m obj) u = (if u = t then s = CondTrue else flag cfg obj u)"
  by (simp add: set_condition_def cfg_laws_def condition_api.is_true_SetCondition)

lemma set_condition_frame [simp]:
  "roGeneration (set_condition cfg t s r m obj) = roGeneration obj"
  "roName (set_condition cfg t s r m obj) = roName obj"
  "roNamespace (set_condition cfg t s r m obj) = roNamespace obj"
  "roDeleting (set_condition cfg t s r m obj) = roDeleting obj"
  "roProviderRef (set_condition cfg t s r m obj) = roProviderRef obj"
  "roOfferings (set_condition cfg t s r m obj) = roOfferings obj"
  "rsObservedGeneration (roStatus (set_condition cfg t s r m obj)) = rsObservedGeneration (roStatus obj)"
  "rsOfferings (roStatus (set_condition cfg t s r m obj)) = rsOfferings (roStatus obj)"
  "rsLastUpdateTime (roStatus (set_condition cfg t s r m obj)) = rsLastUpdateTime (roStatus obj)"
  "rsRegion (roStatus (set_condition cfg t s r m obj)) = rsRegion (roStatus obj)"
  by (simp_all add: set_condition_def)

lemma update_status_parts [simp]:
  "fst (update_status E obj res) = [UpdateStatus obj]"
  "snd (update_status E obj res) = (case rn_update_status E of Inl e \<Rightarrow> Inl e | Inr _ \<Rightarrow> Inr res)"
  by (cases "rn_update_status E"; simp add: update_status_def)+

lemma ensureJobRunner_calls:
  "c \<in> set (fst (ensureJobRunner cfg E job obj pf)) \<Longrightarrow>
     c = CreateJob job \<and> rn_jobs E (roNamespace obj) (job_labels cfg pf) = Inr []"
  by (auto simp: ensureJobRunner_def bind_run_call split: if_split_asm sum.split_asm)

lemma updateConfigMap_calls:
  assumes "c \<in> set (fst (updateConfigMap cfg E pf obj))"
  shows "\<exists>name data. c = UpdateConfigMap name data
    \<and> (\<forall>yaml. rn_yaml E (rsOfferings (roStatus obj)) = Inr yaml \<longrightarrow> mget data (rc_data_key cfg) = Some yaml)"
proof -
  from assms obtain items where l: "c \<in> set (fst (
      if length items \<noteq> 1 then pure_run (Inl (Errf ''error listing ConfigMaps: expected 1''))
      else (case hd items of (name, data) \<Rightarrow>
        let data = (case rn_yaml E (rsOfferings (roStatus obj)) of
                      Inl _ \<Rightarrow> data | Inr yaml \<Rightarrow> mput (rc_data_key cfg) yaml data)
        in wrap_run ''failed to update ConfigMap'' (call (UpdateConfigMap name data) (rn_update_cm E)))))"
    by (auto simp: updateConfigMap_def Let_def bind_run_call)
  obtain name data where "hd items = (name, data)" by force
  with l show ?thesis
    by (cases "rn_yaml E (rsOfferings (roStatus obj))") (auto simp: Let_def split: if_split_asm)
qed

lemma updateConfigMap_cong:
  assumes "rsOfferings (roStatus a) = rsOfferings (roStatus b)"
  shows "updateConfigMap cfg E pf a = updateConfigMap cfg E pf b"
  unfolding updateConfigMap_def assms ..

text \<open>The status a finished pod leads to.\<close>

definition harvested :: "('o, 'p) rn_env \<Rightarrow> RunnerPod \<Rightarrow> 'o list \<Rightarrow> bool" where
  "harvested E pod zones \<longleftrightarrow>
     rpPhase pod = PodSucceeded \<and> ContainerTerminatedReason (rpTerminated pod) = ''Completed''
     \<and> (\<exists>out. getPodStdOut E (rpName pod) (rpNamespace pod) ''harvest'' = Inr out \<and> decodeOutput E out = Inr zones)"

lemma runner_finished_writes:
  assumes laws: "cfg_laws cfg" and nr: "\<not> flag cfg obj ''ResyncRequired''"
    and w: "UpdateStatus new \<in> set (fst (runner_finished cfg E obj pf pod))"
  obtains (log) "flag cfg new = (flag cfg obj)(''JobRunning'' := False, ''ResyncRequired'' := True)"
      "rsObservedGeneration (roStatus new) = rsObservedGeneration (roStatus obj)" "roGeneration new = roGeneration obj"
  | (spoiled) "flag cfg new = (flag cfg obj)(''JobRunning'' := False, ''Ready'' := False)"
      "rsObservedGeneration (roStatus new) = rsObservedGeneration (roStatus obj)" "roGeneration new = roGeneration obj"
  | (failed) "flag cfg new = (flag cfg obj)(''JobRunning'' := False, ''Ready'' := False)"
      "rsObservedGeneration (roStatus new) = roGeneration obj" "roGeneration new = roGeneration obj"
      "rsOfferings (roStatus new) = rsOfferings (roStatus obj)"
  | (done_) zones where "flag cfg new = (flag cfg obj)(''JobRunning'' := False, ''Ready'' := True)"
      "rsObservedGeneration (roStatus new) = roGeneration obj" "roGeneration new = roGeneration obj"
      "rsOfferings (roStatus new) = zones" "rsLastUpdateTime (roStatus new) = Some (rn_now E)" "harvested E pod zones"
      "snd (updateConfigMap cfg E pf new) = Inr ()"
      "set (fst (updateConfigMap cfg E pf new)) \<subseteq> set (fst (runner_finished cfg E obj pf pod))"
proof -
  let ?o = "set_condition cfg ''JobRunning'' CondFalse ''PodFinished'' ''Runner Pod finished'' obj"
  note fl = flag_set_condition [OF laws]
  have nr': "\<not> flag cfg ?o ''ResyncRequired''" using nr by (simp add: fl)
  show ?thesis
  proof (cases "getPodStdOut E (rpName pod) (rpNamespace pod) ''harvest''")
    case (Inl e)
    with w nr' have "new = set_condition cfg ''ResyncRequired'' CondTrue ''LogFetchFailed''
        ''Unable to retrieve runner pod logs, will retry'' ?o"
      by (simp add: runner_finished_def Let_def)
    then show ?thesis by (intro log) (simp_all add: fl fun_eq_iff)
  next
    case out: (Inr out)
    show ?thesis
    proof (cases "rpPhase pod = PodSucceeded \<and> ContainerTerminatedReason (rpTerminated pod) = ''Completed''")
      case False
      with w nr' out have "UpdateStatus new \<in> set (fst (runner_finalize cfg E ?o pf pod False))"
        by (simp add: runner_finished_def Let_def)
      then show ?thesis
        by (intro failed) (simp_all add: runner_finalize_def Let_def fl fun_eq_iff)
    next
      case success: True
      show ?thesis
      proof (cases "decodeOutput E out")
        case (Inl e)
        with w nr' out success have "new = set_condition cfg ''Ready'' CondFalse ''DecodeFailed'' (rc_decode_msg cfg) ?o"
          by (simp add: runner_finished_def Let_def)
        then show ?thesis by (intro spoiled) (simp_all add: fl fun_eq_iff)
      next
        case zones: (Inr zones)
        let ?z = "?o\<lparr>roStatus := (roStatus ?o)\<lparr>rsOfferings := zones\<rparr>\<rparr>"
        have run: "runner_finished cfg E obj pf pod =
            try_run (updateConfigMap cfg E pf ?z) (\<lambda>reply. case reply of
              Inl err \<Rightarrow> update_status E (set_condition cfg ''Ready'' CondFalse ''ConfigMapFailed'' (rc_cm_msg cfg) ?z)
                           (After RequeuePollThreshold)
            | Inr _ \<Rightarrow> runner_finalize cfg E ?z pf pod True)"
          using nr' out success zones by (simp add: runner_finished_def Let_def)
        have nocm: "UpdateStatus new \<notin> set (fst (updateConfigMap cfg E pf ?z))"
          using updateConfigMap_calls [of "UpdateStatus new" cfg E pf ?z] by auto
        show ?thesis
        proof (cases "snd (updateConfigMap cfg E pf ?z)")
          case (Inl e)
          with w run nocm have "new = set_condition cfg ''Ready'' CondFalse ''ConfigMapFailed'' (rc_cm_msg cfg) ?z"
            by simp
          then show ?thesis by (intro spoiled) (simp_all add: fl fun_eq_iff)
        next
          case (Inr u)
          with w run nocm have "UpdateStatus new \<in> set (fst (runner_finalize cfg E ?z pf pod True))" by simp
          then have new: "new = set_condition cfg ''Ready'' CondTrue ''PodFinished'' ''Runner Pod finished successfully''
              (?z\<lparr>roStatus := (roStatus ?z)\<lparr>rsLastUpdateTime := Some (rn_now E), rsRegion := ppRegion (pfSpec pf),
                  rsObservedGeneration := roGeneration ?z\<rparr>\<rparr>)"
            by (simp add: runner_finalize_def Let_def)
          have cm: "updateConfigMap cfg E pf new = updateConfigMap cfg E pf ?z"
            by (rule updateConfigMap_cong) (simp add: new)
          show ?thesis
          proof (rule done_ [of zones])
            show "flag cfg new = (flag cfg obj)(''JobRunning'' := False, ''Ready'' := True)"
              unfolding new by (simp add: fl fun_eq_iff)
          qed (use new cm Inr run in \<open>auto simp: harvested_def success out zones\<close>)
        qed
      qed
    qed
  qed
qed

abbreviation with_region :: "'o runner_obj \<Rightarrow> RunnerProfile \<Rightarrow> 'o runner_obj" where
  "with_region obj pf \<equiv> obj\<lparr>roStatus := (roStatus obj)\<lparr>rsRegion := ppRegion (pfSpec pf)\<rparr>\<rparr>"

lemma runner_cloud_cases:
  obtains (quiet) d where "\<not> vwChanged (view_of cfg obj)" "\<not> flag cfg obj ''JobRunning''" "\<not> flag cfg obj ''ResyncRequired''"
      "map_option (time_sub (rn_now E)) (rsLastUpdateTime (roStatus obj)) = Some d" "d < NormalUpdateThreshold"
      "runner_cloud cfg E obj pf = pure_run (Inr (After (dur_minus NormalUpdateThreshold d)))"
  | (conflict) "vwChanged (view_of cfg obj)" "flag cfg obj ''JobRunning''" "\<not> flag cfg obj ''ResyncRequired''"
      "runner_cloud cfg E obj pf = ([UpdateStatus (set_condition cfg ''ResyncRequired'' CondTrue ''SpecChanged''
           ''Spec changed while a Pod is running''
           (set_condition cfg ''Ready'' CondFalse ''SpecChanged'' ''Spec changed while a Pod is running'' (with_region obj pf)))],
         Inr (After RequeuePollThreshold))"
  | (waiting) "vwChanged (view_of cfg obj)" "flag cfg obj ''JobRunning''" "flag cfg obj ''ResyncRequired''"
      "runner_cloud cfg E obj pf = ([], Inr (After RequeuePollThreshold))"
  | (start) "\<not> (vwChanged (view_of cfg obj) \<and> flag cfg obj ''JobRunning'')" "flag cfg obj ''ResyncRequired''"
      "runner_cloud cfg E obj pf = runner_start cfg E (with_region obj pf) pf"
  | (poll) "\<not> (vwChanged (view_of cfg obj) \<and> flag cfg obj ''JobRunning'')" "\<not> flag cfg obj ''ResyncRequired''"
      "runner_cloud cfg E obj pf = runner_poll cfg E (with_region obj pf) pf"
proof -
  let ?c = "roGeneration obj \<noteq> rsObservedGeneration (roStatus obj)"
    and ?run = "flag cfg obj ''JobRunning''" and ?rs = "flag cfg obj ''ResyncRequired''"
  let ?within = "case rsLastUpdateTime (roStatus obj) of None \<Rightarrow> False | Some t \<Rightarrow> time_sub (rn_now E) t < NormalUpdateThreshold"
  consider "?c" "?run" "\<not> ?rs" | "?c" "?run" "?rs" | "\<not> (?c \<and> ?run)" "?rs"
    | "\<not> (?c \<and> ?run)" "\<not> ?rs" "\<not> ?c" "\<not> ?run" "?within" | "\<not> (?c \<and> ?run)" "\<not> ?rs" "?c \<or> ?run \<or> \<not> ?within" by blast
  then show ?thesis
  proof cases
    case 1
    then show ?thesis
      by (intro conflict) (simp_all add: runner_cloud_def Let_def view_of_def pure_run_def bind_run_def ignore_def call_def)
  next
    case 2
    then show ?thesis by (intro waiting) (simp_all add: runner_cloud_def Let_def view_of_def pure_run_def)
  next
    case 3
    then show ?thesis by (intro start) (auto simp: runner_cloud_def Let_def view_of_def)
  next
    case 4
    then obtain t where t: "rsLastUpdateTime (roStatus obj) = Some t" by (auto split: option.split_asm)
    with 4 show ?thesis by (intro quiet [of "time_sub (rn_now E) t"]) (simp_all add: runner_cloud_def Let_def view_of_def)
  next
    case 5
    then show ?thesis
      by (intro poll) (cases "rsLastUpdateTime (roStatus obj)"; auto simp: runner_cloud_def Let_def view_of_def)+
  qed
qed

lemma runner_start_write:
  assumes "UpdateStatus new \<in> set (fst (runner_start cfg E obj pf))"
  shows "new = (let o1 = set_condition cfg ''JobRunning'' CondTrue ''JobCreated'' ''Runner Job is running''
      (set_condition cfg ''ResyncRequired'' CondFalse ''JobCreated'' ''Runner Job created'' obj)
      in o1\<lparr>roStatus := (roStatus o1)\<lparr>rsObservedGeneration := roGeneration obj\<rparr>\<rparr>)"
  using assms by (auto simp: runner_start_def Let_def bind_run_call dest: ensureJobRunner_calls)

lemma runner_poll_write:
  assumes "UpdateStatus new \<in> set (fst (runner_poll cfg E obj pf))"
  obtains (missing) e where "fetchPod cfg E pf obj = Inl e" "is_not_found e"
      "new = set_condition cfg ''ResyncRequired'' CondTrue ''PodNotFound'' ''Runner Pod not found, will try to create a new one''
        (set_condition cfg ''JobRunning'' CondFalse ''PodNotFound'' ''Runner Pod not found, will try to create a new one'' obj)"
  | (finished) pod where "fetchPod cfg E pf obj = Inr pod" "rpPhase pod \<notin> {PodPending, PodRunning}"
      "UpdateStatus new \<in> set (fst (runner_finished cfg E obj pf pod))"
      "runner_poll cfg E obj pf = runner_finished cfg E obj pf pod"
  using assms
  by (cases "fetchPod cfg E pf obj") (auto simp: runner_poll_def Let_def split: if_split_asm)

lemma view_of_eq:
  "flag cfg new = f \<Longrightarrow> view_of cfg new =
     \<lparr>vwChanged = (roGeneration new \<noteq> rsObservedGeneration (roStatus new)), vwRunning = f ''JobRunning'',
      vwResync = f ''ResyncRequired'', vwReady = f ''Ready''\<rparr>"
  by (simp add: view_of_def)

lemma runner_cloud_flow:
  assumes "cfg_laws cfg" and "UpdateStatus new \<in> set (fst (runner_cloud cfg E obj pf))"
  shows "runner_flow (view_of cfg obj) (view_of cfg new)"
proof (cases rule: runner_cloud_cases [where cfg = cfg and obj = obj and E = E and pf = pf])
  case (quiet d)
  with assms(2) show ?thesis by simp
next
  case conflict
  with assms(2) have "view_of cfg new = (view_of cfg obj)\<lparr>vwResync := True, vwReady := False\<rparr>"
    by (simp add: view_of_def flag_set_condition [OF assms(1)])
  with conflict show ?thesis using runner_flow.conflict [of "view_of cfg obj"] by (simp add: view_of_def)
next
  case waiting
  with assms(2) show ?thesis by simp
next
  case start
  with assms(2) have "UpdateStatus new \<in> set (fst (runner_start cfg E (with_region obj pf) pf))" by simp
  from runner_start_write [OF this]
  have "view_of cfg new = (view_of cfg obj)\<lparr>vwChanged := False, vwRunning := True, vwResync := False\<rparr>"
    by (simp add: view_of_def flag_set_condition [OF assms(1)] Let_def)
  with start show ?thesis using runner_flow.start [of "view_of cfg obj"] by (simp add: view_of_def)
next
  case poll
  then have guard: "\<not> (vwChanged (view_of cfg obj) \<and> vwRunning (view_of cfg obj))" "\<not> vwResync (view_of cfg obj)"
    by (simp_all add: view_of_def)
  from poll assms(2) have "UpdateStatus new \<in> set (fst (runner_poll cfg E (with_region obj pf) pf))" by simp
  then show ?thesis
  proof (cases rule: runner_poll_write)
    case (missing e)
    then have "view_of cfg new = (view_of cfg obj)\<lparr>vwRunning := False, vwResync := True\<rparr>"
      by (simp add: view_of_def flag_set_condition [OF assms(1)])
    with guard show ?thesis by (simp add: runner_flow.retry)
  next
    case (finished pod)
    have "\<not> flag cfg (with_region obj pf) ''ResyncRequired''" using poll(2) by simp
    from assms(1) this finished(3) show ?thesis
    proof (cases rule: runner_finished_writes)
      case log
      then have "view_of cfg new = (view_of cfg obj)\<lparr>vwRunning := False, vwResync := True\<rparr>"
        by (simp add: view_of_eq [OF log(1)] view_of_def)
      with guard show ?thesis by (simp add: runner_flow.retry)
    next
      case spoiled
      then have "view_of cfg new = (view_of cfg obj)\<lparr>vwRunning := False, vwReady := False\<rparr>"
        by (simp add: view_of_eq [OF spoiled(1)] view_of_def)
      with guard show ?thesis by (simp add: runner_flow.spoiled)
    next
      case failed
      then have "view_of cfg new = (view_of cfg obj)\<lparr>vwChanged := False, vwRunning := False, vwReady := False\<rparr>"
        by (simp add: view_of_eq [OF failed(1)] view_of_def)
      with guard show ?thesis by (simp add: runner_flow.finished)
    next
      case (done_ zones)
      then have "view_of cfg new = (view_of cfg obj)\<lparr>vwChanged := False, vwRunning := False, vwReady := True\<rparr>"
        by (simp add: view_of_eq [OF done_(1)] view_of_def)
      with guard show ?thesis by (simp add: runner_flow.finished)
    qed
  qed
qed


section \<open>Reachable objects\<close>

text \<open>
  What an object becomes: a status a reconciliation for a cloud provider writes, with any replies,
  or an edit of the spec, which raises the generation.
\<close>

inductive runner_steps :: "('o, 'p) runner_cfg \<Rightarrow> 'o runner_obj \<Rightarrow> 'o runner_obj \<Rightarrow> bool"
  for cfg :: "('o, 'p) runner_cfg" and a :: "'o runner_obj" where
  here: "runner_steps cfg a a"
| stores: "runner_steps cfg a b \<Longrightarrow> UpdateStatus c \<in> set (fst (runner_cloud cfg E b pf)) \<Longrightarrow> runner_steps cfg a c"
| edit: "runner_steps cfg a b \<Longrightarrow> roGeneration b < g \<Longrightarrow>
    runner_steps cfg a (b\<lparr>roGeneration := g, roOfferings := offs\<rparr>)"

lemma runner_cloud_generation:
  assumes "cfg_laws cfg" and "UpdateStatus new \<in> set (fst (runner_cloud cfg E obj pf))"
  shows "roGeneration new = roGeneration obj
    \<and> rsObservedGeneration (roStatus new) \<in> {rsObservedGeneration (roStatus obj), roGeneration obj}"
proof (cases rule: runner_cloud_cases [where cfg = cfg and obj = obj and E = E and pf = pf])
  case start
  with assms(2) have "UpdateStatus new \<in> set (fst (runner_start cfg E (with_region obj pf) pf))" by simp
  from runner_start_write [OF this] show ?thesis by (simp add: Let_def)
next
  case poll
  with assms(2) have "UpdateStatus new \<in> set (fst (runner_poll cfg E (with_region obj pf) pf))" by simp
  then show ?thesis
  proof (cases rule: runner_poll_write)
    case (missing e)
    then show ?thesis by simp
  next
    case (finished pod)
    have "\<not> flag cfg (with_region obj pf) ''ResyncRequired''" using poll(2) by simp
    from assms(1) this finished(3) show ?thesis by (cases rule: runner_finished_writes) simp_all
  qed
qed (use assms(2) in simp_all)

text \<open>The object a run leaves behind: its last status write, if there is one.\<close>

definition stored :: "('o, 'p) rn_effect list \<Rightarrow> 'o runner_obj \<Rightarrow> 'o runner_obj" where
  "stored es obj = foldl (\<lambda>a e. case e of UpdateStatus b \<Rightarrow> b | _ \<Rightarrow> a) obj es"

text \<open>An edit of the spec while a job runs is never acted on: from then on, whatever pods and jobs
  there are and however often the spec is edited, the job stays recorded as running and the
  generation as unobserved, and every reconciliation only asks to be called again after the poll
  interval; it starts no job and reads no pod.\<close>

theorem runner_edit_livelock:
  assumes "cfg_laws cfg" "flag cfg a ''JobRunning''" "rsObservedGeneration (roStatus a) < roGeneration a"
    and "runner_steps cfg a b"
  shows "flag cfg b ''JobRunning'' \<and> rsObservedGeneration (roStatus b) < roGeneration b
    \<and> snd (runner_cloud cfg E b pf) = Inr (After RequeuePollThreshold)
    \<and> (fst (runner_cloud cfg E b pf) = [] \<or> (\<exists>c. fst (runner_cloud cfg E b pf) = [UpdateStatus c]))"
proof -
  have "flag cfg b ''JobRunning'' \<and> rsObservedGeneration (roStatus b) < roGeneration b"
    using assms(4)
  proof induction
    case here
    with assms(2,3) show ?case by simp
  next
    case (stores b c E pf)
    then have v: "vwChanged (view_of cfg b)" "vwRunning (view_of cfg b)" by (simp_all add: view_of_def)
    have "runner_flow (view_of cfg b) (view_of cfg c)" by (rule runner_cloud_flow [OF assms(1) stores(2)])
    then have "vwRunning (view_of cfg c) \<and> vwChanged (view_of cfg c)"
      using v by (cases rule: runner_flow.cases) auto
    with runner_cloud_generation [OF assms(1) stores(2)] stores.IH show ?case by (auto simp: view_of_def)
  next
    case (edit b g offs)
    then show ?case by simp
  qed
  then show ?thesis
    by (cases rule: runner_cloud_cases [where cfg = cfg and obj = b and E = E and pf = pf]) (auto simp: view_of_def)
qed

text \<open>C31: from an object without conditions, the generation observed never passes the generation, and
  a run is recorded as asked for while another is recorded as running only when the spec was
  edited during that run.\<close>

theorem runner_flags_invariant:
  assumes "cfg_laws cfg" "\<not> flag cfg a ''JobRunning''" "rsObservedGeneration (roStatus a) \<le> roGeneration a"
    and "runner_steps cfg a b"
  shows "rsObservedGeneration (roStatus b) \<le> roGeneration b
    \<and> \<not> (flag cfg b ''JobRunning'' \<and> flag cfg b ''ResyncRequired''
         \<and> rsObservedGeneration (roStatus b) = roGeneration b)"
  using assms(4)
proof induction
  case here
  with assms(2,3) show ?case by simp
next
  case (stores b c E pf)
  have flow: "runner_flow (view_of cfg b) (view_of cfg c)" by (rule runner_cloud_flow [OF assms(1) stores(2)])
  then have "\<not> (vwRunning (view_of cfg c) \<and> vwResync (view_of cfg c) \<and> \<not> vwChanged (view_of cfg c))"
    by (cases rule: runner_flow.cases) (auto simp: view_of_def)
  with runner_cloud_generation [OF assms(1) stores(2)] stores.IH show ?case by (auto simp: view_of_def)
next
  case (edit b g offs)
  then show ?case by simp
qed


section \<open>Time, edits and progress\<close>

lemma within_range:
  assumes "0 \<le> t - u" "t - u < NormalUpdateThreshold"
  shows "time_sub t u = t - u" "dur_minus NormalUpdateThreshold (t - u) = NormalUpdateThreshold - (t - u)"
  using assms by (simp_all add: time_sub_def dur_minus_def NormalUpdateThreshold_def second_def)

lemma runner_cloud_quiet:
  assumes "rsObservedGeneration (roStatus obj) = roGeneration obj" "\<not> flag cfg obj ''JobRunning''"
    "\<not> flag cfg obj ''ResyncRequired''" "rsLastUpdateTime (roStatus obj) = Some t"
    "t \<le> rn_now E" "rn_now E < t + NormalUpdateThreshold"
  shows "runner_cloud cfg E obj pf = ([], Inr (After (NormalUpdateThreshold - (rn_now E - t))))"
proof -
  have "0 \<le> rn_now E - t" "rn_now E - t < NormalUpdateThreshold" using assms(5,6) by simp_all
  from within_range [OF this] this assms show ?thesis by (simp add: runner_cloud_def pure_run_def)
qed

text \<open>An object whose spec is observed, with no job recorded and no run asked for, is left alone
  within twelve hours of its last update: no call is made, and the next reconciliation is asked
  for when the twelve hours are over, in more than no time.\<close>

theorem runner_quiescent:
  assumes "rsObservedGeneration (roStatus obj) = roGeneration obj" "\<not> flag cfg obj ''JobRunning''"
    "\<not> flag cfg obj ''ResyncRequired''" "rsLastUpdateTime (roStatus obj) = Some t"
    "t \<le> rn_now E" "rn_now E < t + NormalUpdateThreshold"
  shows "\<exists>d. runner_cloud cfg E obj pf = ([], Inr (After d)) \<and> 0 < d \<and> d \<le> NormalUpdateThreshold
    \<and> rn_now E + d = t + NormalUpdateThreshold"
  using runner_cloud_quiet [where cfg = cfg and E = E and obj = obj and pf = pf, OF assms] assms(5,6) by simp

lemma runner_finished_failed:
  assumes laws: "cfg_laws cfg" and nr: "\<not> flag cfg obj ''ResyncRequired''" and ph: "rpPhase pod = PodFailed"
    and out: "getPodStdOut E (rpName pod) (rpNamespace pod) ''harvest'' = Inr out"
  shows "runner_finished cfg E obj pf pod = runner_finalize cfg E
    (set_condition cfg ''JobRunning'' CondFalse ''PodFinished'' ''Runner Pod finished'' obj) pf pod False"
  using nr ph out by (simp add: runner_finished_def Let_def flag_set_condition [OF laws])

text \<open>An edit made while the failed pod of an earlier run is still listed is lost: the
  reconciliation that sees it records the new generation as observed, with the failure of that
  pod and without starting a job, and for the next twelve hours nothing is done for the object.\<close>

theorem runner_edit_lost:
  assumes "cfg_laws cfg" "rsObservedGeneration (roStatus obj) \<noteq> roGeneration obj" "\<not> flag cfg obj ''JobRunning''"
    "\<not> flag cfg obj ''ResyncRequired''" "fetchPod cfg E pf obj = Inr pod" "rpPhase pod = PodFailed"
    "getPodStdOut E (rpName pod) (rpNamespace pod) ''harvest'' = Inr out" "rn_update_status E = Inr ()"
    "rn_now E \<le> rn_now E'" "rn_now E' < rn_now E + NormalUpdateThreshold"
  shows "\<exists>new. runner_cloud cfg E obj pf = ([UpdateStatus new], Inr Stop)
    \<and> rsObservedGeneration (roStatus new) = roGeneration obj \<and> roOfferings new = roOfferings obj
    \<and> rsOfferings (roStatus new) = rsOfferings (roStatus obj) \<and> \<not> flag cfg new ''Ready''
    \<and> fst (runner_cloud cfg E' new pf') = []"
proof -
  note fl = flag_set_condition [OF assms(1)]
  let ?r = "with_region obj pf"
  define new where "new = set_condition cfg ''Ready'' CondFalse ''PodFailed'' (''Runner Pod finished with phase '' @ phase_text (rpPhase pod))
      ((set_condition cfg ''JobRunning'' CondFalse ''PodFinished'' ''Runner Pod finished'' ?r)
        \<lparr>roStatus := (roStatus (set_condition cfg ''JobRunning'' CondFalse ''PodFinished'' ''Runner Pod finished'' ?r))
          \<lparr>rsLastUpdateTime := Some (rn_now E), rsRegion := ppRegion (pfSpec pf), rsObservedGeneration := roGeneration obj\<rparr>\<rparr>)"
  have nr: "\<not> flag cfg ?r ''ResyncRequired''" using assms(4) by simp
  have pod: "fetchPod cfg E pf ?r = Inr pod" using assms(5) by (simp add: fetchPod_def)
  have "runner_cloud cfg E obj pf = runner_poll cfg E ?r pf"
    using assms(2-4) by (simp add: runner_cloud_def Let_def)
  also have "\<dots> = runner_finished cfg E ?r pf pod" by (simp add: runner_poll_def pod assms(6))
  also have "\<dots> = ([UpdateStatus new], Inr Stop)"
    unfolding runner_finished_failed [OF assms(1) nr assms(6,7)]
    using assms(8) by (simp add: runner_finalize_def Let_def prod_eq_iff new_def)
  finally have run: "runner_cloud cfg E obj pf = ([UpdateStatus new], Inr Stop)" .
  have quiet: "runner_cloud cfg E' new pf' = ([], Inr (After (NormalUpdateThreshold - (rn_now E' - rn_now E))))"
    by (rule runner_cloud_quiet) (use assms(4,9,10) in \<open>simp_all add: fl new_def\<close>)
  have "rsObservedGeneration (roStatus new) = roGeneration obj" "roOfferings new = roOfferings obj"
    "rsOfferings (roStatus new) = rsOfferings (roStatus obj)" "\<not> flag cfg new ''Ready''"
    by (simp_all add: new_def fl)
  with run quiet show ?thesis by (intro exI [of _ new]) simp
qed

text \<open>The last reconciliation: what the pod printed is published and the object is ready.\<close>

lemma runner_harvest_run:
  fixes E :: "('o, 'p) rn_env"
  assumes "cfg_laws cfg" and "flag cfg c ''JobRunning''" and "\<not> flag cfg c ''ResyncRequired''"
    and "rsObservedGeneration (roStatus c) = roGeneration c"
    and "fetchPod cfg E pf c = Inr pod" and "harvested E pod zones"
    and "\<And>x. rsOfferings (roStatus x) = zones \<Longrightarrow> snd (updateConfigMap cfg E pf x) = Inr ()"
    and "rn_update_status E = Inr ()" and "d = stored (fst (runner_cloud cfg E c pf)) c"
  shows "snd (runner_cloud cfg E c pf) = Inr Stop \<and> flag cfg d ''Ready'' \<and> \<not> flag cfg d ''JobRunning''
    \<and> rsOfferings (roStatus d) = zones \<and> rsObservedGeneration (roStatus d) = roGeneration c"
proof -
  note fl = flag_set_condition [OF assms(1)]
  have run1: "runner_cloud cfg E c pf = runner_poll cfg E (with_region c pf) pf"
    using assms(2-4) by (simp add: runner_cloud_def Let_def)
  let ?r = "with_region c pf"
  have pod1: "fetchPod cfg E pf ?r = Inr pod" using assms(5) by (simp add: fetchPod_def)
  have run2: "runner_poll cfg E ?r pf = runner_finished cfg E ?r pf pod"
    using assms(6) by (simp add: runner_poll_def pod1 harvested_def)
  define o1 where "o1 = set_condition cfg ''JobRunning'' CondFalse ''PodFinished'' ''Runner Pod finished'' ?r"
  define z where "z = o1\<lparr>roStatus := (roStatus o1)\<lparr>rsOfferings := zones\<rparr>\<rparr>"
  have cm: "snd (updateConfigMap cfg E pf z) = Inr ()" by (rule assms(7)) (simp add: z_def)
  obtain out where out: "getPodStdOut E (rpName pod) (rpNamespace pod) ''harvest'' = Inr out" "decodeOutput E out = Inr zones"
    using assms(6) by (auto simp: harvested_def)
  have nr: "\<not> flag cfg o1 ''ResyncRequired''" using assms(2,3) by (simp add: o1_def fl)
  have run3: "runner_finished cfg E ?r pf pod =
      try_run (updateConfigMap cfg E pf z) (\<lambda>reply. case reply of
        Inl err \<Rightarrow> update_status E (set_condition cfg ''Ready'' CondFalse ''ConfigMapFailed'' (rc_cm_msg cfg) z)
                     (After RequeuePollThreshold)
      | Inr _ \<Rightarrow> runner_finalize cfg E z pf pod True)"
    unfolding z_def using nr out assms(6) by (simp add: runner_finished_def Let_def harvested_def o1_def [symmetric])
  have fin: "fst (runner_cloud cfg E c pf) = fst (updateConfigMap cfg E pf z) @ fst (runner_finalize cfg E z pf pod True)"
    "snd (runner_cloud cfg E c pf) = Inr Stop"
    unfolding run1 run2 run3 using cm assms(8) by (simp_all add: runner_finalize_def Let_def)
  have d: "d = set_condition cfg ''Ready'' CondTrue ''PodFinished'' ''Runner Pod finished successfully''
      (z\<lparr>roStatus := (roStatus z)\<lparr>rsLastUpdateTime := Some (rn_now E), rsRegion := ppRegion (pfSpec pf),
          rsObservedGeneration := roGeneration z\<rparr>\<rparr>)"
    using assms(9) fin(1) by (simp add: stored_def runner_finalize_def Let_def)
  have "flag cfg d ''Ready''" "\<not> flag cfg d ''JobRunning''" "rsOfferings (roStatus d) = zones"
    "rsObservedGeneration (roStatus d) = roGeneration c"
    by (simp_all add: d fl) (simp_all add: z_def o1_def fl)
  with fin(2) show ?thesis by simp
qed

text \<open>C24: the way to ready: for an object without conditions, a reconciliation that finds no pod asks
  for a run, the next one creates the job and observes the generation, and the one that finds the
  pod completed with a decodable output and can write the config map makes the object ready with
  the offerings of that output.\<close>

theorem runner_reaches_ready:
  fixes E1 E2 E3 :: "('o, 'p) rn_env"
  assumes laws: "cfg_laws cfg" and fresh: "\<not> flag cfg a ''JobRunning''" "\<not> flag cfg a ''ResyncRequired''"
      "rsLastUpdateTime (roStatus a) = None"
    and one: "rn_pods E1 (roNamespace a) (job_labels cfg pf) = Inr []" "rn_update_status E1 = Inr ()"
      "b = stored (fst (runner_cloud cfg E1 a pf)) a"
    and two: "buildRunner cfg E2 (with_region b pf) pf (rc_payload cfg (ppZones (pfSpec pf)) (roOfferings b)) = Inr job"
      "rn_jobs E2 (roNamespace b) (job_labels cfg pf) = Inr []" "rn_owner E2 = Inr ()" "rn_create_job E2 = Inr ()"
      "rn_update_status E2 = Inr ()" "c = stored (fst (runner_cloud cfg E2 b pf)) b"
    and three: "fetchPod cfg E3 pf c = Inr pod" "harvested E3 pod zones"
      "\<And>x. rsOfferings (roStatus x) = zones \<Longrightarrow> snd (updateConfigMap cfg E3 pf x) = Inr ()"
      "rn_update_status E3 = Inr ()" "d = stored (fst (runner_cloud cfg E3 c pf)) c"
  shows "snd (runner_cloud cfg E1 a pf) = Inr (After RequeuePollThreshold)
    \<and> snd (runner_cloud cfg E2 b pf) = Inr (After RequeuePollThreshold)
    \<and> snd (runner_cloud cfg E3 c pf) = Inr Stop
    \<and> CreateJob job \<in> set (fst (runner_cloud cfg E2 b pf))
    \<and> flag cfg d ''Ready'' \<and> \<not> flag cfg d ''JobRunning'' \<and> rsOfferings (roStatus d) = zones
    \<and> rsObservedGeneration (roStatus d) = roGeneration a"
proof -
  note fl = flag_set_condition [OF laws]
  have pod1: "fetchPod cfg E1 pf (with_region a pf) = Inl (ErrNotFound ''no Pod found'')"
    using one(1) by (simp add: fetchPod_def)
  have run1: "runner_cloud cfg E1 a pf = runner_poll cfg E1 (with_region a pf) pf"
    using fresh by (simp add: runner_cloud_def Let_def)
  have w1: "fst (runner_cloud cfg E1 a pf) = [UpdateStatus b]" "snd (runner_cloud cfg E1 a pf) = Inr (After RequeuePollThreshold)"
    using one(2,3) unfolding run1 by (simp_all add: runner_poll_def pod1 Let_def stored_def)
  have b: "\<not> flag cfg b ''JobRunning''" "flag cfg b ''ResyncRequired''" "roGeneration b = roGeneration a"
    "roNamespace b = roNamespace a"
    using one(3) unfolding run1 by (simp_all add: runner_poll_def pod1 Let_def stored_def fl)
  have run2: "runner_cloud cfg E2 b pf = runner_start cfg E2 (with_region b pf) pf"
    using b by (simp add: runner_cloud_def Let_def)
  have ens: "ensureJobRunner cfg E2 job (with_region b pf) pf = ([CreateJob job], Inr ())"
    using two(2-4) by (simp add: ensureJobRunner_def try_run_def)
  have w2: "fst (runner_cloud cfg E2 b pf) = [CreateJob job, UpdateStatus c]"
    "snd (runner_cloud cfg E2 b pf) = Inr (After RequeuePollThreshold)"
    using two unfolding run2 by (simp_all add: runner_start_def ens Let_def fst_bind_run snd_bind_run stored_def)
  have "UpdateStatus c \<in> set (fst (runner_start cfg E2 (with_region b pf) pf))" using w2 run2 by simp
  from runner_start_write [OF this]
  have c: "flag cfg c ''JobRunning''" "\<not> flag cfg c ''ResyncRequired''" "roGeneration c = roGeneration a"
    "rsObservedGeneration (roStatus c) = roGeneration a" "roNamespace c = roNamespace a"
    using b by (simp_all add: Let_def fl)
  from runner_harvest_run [OF laws c(1,2) _ three] c(3,4) w1 w2 show ?thesis by simp
qed

section \<open>Credentials and other providers\<close>

lemma fetchProviderProfileCred_Inr:
  assumes "fetchProviderProfileCred cfg E pf = Inr cred"
  obtains data where "platform_cred (rc_gcp_key cfg) (ppPlatform (pfSpec pf)) data = Inr cred"
  using assms by (auto simp: fetchProviderProfileCred_def Let_def split: if_split_asm)

lemma platform_cred_platform:
  "platform_cred gcp platform data = Inr cred \<Longrightarrow> platform \<in> {''aws'', ''azure'', ''gcp''}"
  by (auto simp: platform_cred_def split: if_split_asm)

text \<open>The platform is compared without its case when the object is handled and with it when the
  credentials are chosen: for a cloud provider not written in small letters a requested run always
  ends in an error, with no job created and no status written.\<close>

theorem runner_platform_case:
  assumes "is_cloud pf" "ppPlatform (pfSpec pf) \<noteq> to_lower (ppPlatform (pfSpec pf))"
    "flag cfg obj ''ResyncRequired''" "\<not> flag cfg obj ''JobRunning''"
  shows "\<exists>e. runner_cloud cfg E obj pf = ([], Inl e)"
proof -
  have "ppPlatform (pfSpec pf) \<notin> {''aws'', ''azure'', ''gcp''}"
    using assms(2) by (auto simp: to_lower_def char_lower_def is_upper_def)
  then obtain e where "fetchProviderProfileCred cfg E pf = Inl e"
    by (cases "fetchProviderProfileCred cfg E pf")
      (auto elim: fetchProviderProfileCred_Inr dest: platform_cred_platform)
  then have "\<exists>e. buildRunner cfg E o' pf p = Inl e" for o' p by (simp add: buildRunner_def)
  then obtain e where "buildRunner cfg E (with_region obj pf) pf
      (rc_payload cfg (ppZones (pfSpec pf)) (roOfferings obj)) = Inl e" by blast
  with assms(3,4) show ?thesis by (simp add: runner_cloud_def Let_def runner_start_def pure_run_def bind_run_def)
qed

text \<open>For a provider that is no cloud, a reconciliation whose calls succeed writes the offerings of
  the spec into the status and reports ready; the patch that should leave the annotation on the
  provider profile is computed against the object it was just added to, so it is empty.\<close>

theorem runner_hybrid_spec:
  assumes "cfg_laws cfg" "rn_get E ns n = Inr obj" "\<not> roDeleting obj" "rn_client E = Inr ()"
    "rn_get_profile E (roNamespace obj) (roProviderRef obj) = Inr pf" "\<not> is_cloud pf"
    "rn_patch_profile E = Inr ()" "rn_update_status E = Inr ()"
  shows "\<exists>new anns. runner_reconcile cfg E ns n = ([PatchProfile anns anns, UpdateStatus new], Inr Stop)
    \<and> flag cfg new ''Ready'' \<and> rsOfferings (roStatus new) = roOfferings obj
    \<and> rsRegion (roStatus new) = ppRegion (pfSpec pf) \<and> rsObservedGeneration (roStatus new) = roGeneration obj"
  using assms by (simp add: runner_reconcile_def runner_hybrid_def Let_def prod_eq_iff flag_set_condition)

section \<open>Examples\<close>

definition ex_rcfg :: "(nat, nat list) runner_cfg" where
  "ex_rcfg =
     \<lparr>rc_set_cond = (\<lambda>cs c. SetTypedCondition cs (cdType c) (cdStatus c) (cdReason c) (cdMessage c) (cdTime c)),
      rc_is_true = (\<lambda>cs t. GetTypedConditionStatus cs t = Some CondTrue),
      rc_annotation = ''a'', rc_hybrid_msg = [], rc_job_type = ''finder'', rc_suffix = ''-x-'', rc_image = ''i'',
      rc_gcp_key = ''k'', rc_data_key = ''data.yaml'', rc_decode_msg = [], rc_cm_msg = [],
      rc_payload = (\<lambda>_ offs. offs), rc_vars = (\<lambda>_ _. Inr [])\<rparr>"

definition ex_robj :: "int \<Rightarrow> int \<Rightarrow> string list \<Rightarrow> int option \<Rightarrow> nat runner_obj" where
  "ex_robj gen obs flags t =
     \<lparr>roName = ''o'', roNamespace = ''default'', roDeleting = False, roGeneration = gen, roProviderRef = ''p'',
      roOfferings = [1],
      roStatus = \<lparr>rsRegion = [], rsOfferings = [], rsObservedGeneration = obs, rsLastUpdateTime = t,
        rsConditions = map (\<lambda>f. \<lparr>cdType = f, cdStatus = CondTrue, cdReason = [], cdMessage = [], cdTime = 0\<rparr>) flags\<rparr>\<rparr>"

definition ex_rpf :: "string \<Rightarrow> RunnerProfile" where
  "ex_rpf platform =
     \<lparr>pfName = ''p'', pfSpec = \<lparr>ppPlatform = platform, ppRegion = ''r'', ppRegionAlias = ''r'', ppZones = []\<rparr>,
      pfEgressCosts = [], pfAnnotations = None\<rparr>"

definition ex_rpod :: "PodPhase \<Rightarrow> RunnerPod" where
  "ex_rpod phase = \<lparr>rpName = ''pod'', rpNamespace = ''default'', rpPhase = phase, rpTerminated = [Some ''Completed'']\<rparr>"

definition ex_renv :: "string \<Rightarrow> int \<Rightarrow> RunnerPod list \<Rightarrow> (nat, nat list) rn_env" where
  "ex_renv platform now pods =
     \<lparr>rn_client = Inr (), rn_now = now, rn_get = (\<lambda>_ _. Inr (ex_robj 1 0 [] None)),
      rn_get_profile = (\<lambda>_ _. Inr (ex_rpf platform)), rn_patch_profile = Inr (), rn_update_status = Inr (),
      rn_secrets = (\<lambda>_ _. Inr [[(''configs'', ''c'')]]), rn_jobs = (\<lambda>_ _. Inr []), rn_pods = (\<lambda>_ _. Inr pods),
      rn_config_maps = (\<lambda>_ _. Inr [(''cm'', [])]), rn_owner = Inr (), rn_create_job = Inr (), rn_update_cm = Inr (),
      rn_logs = (\<lambda>_ _ _. Inr ''out''), rn_yaml = (\<lambda>_. Inr ''yaml''), rn_unmarshal = (\<lambda>_. Inr (Some [7]))\<rparr>"

lemma ex_rlaws: "cfg_laws ex_rcfg"
  unfolding cfg_laws_def ex_rcfg_def by simp (rule typed.condition_api_axioms)

lemma ex_flag: "flag ex_rcfg (ex_robj gen obs flags t) u \<longleftrightarrow> u \<in> set flags"
  by (induction flags) (auto simp: ex_rcfg_def ex_robj_def GetTypedConditionStatus_find)

lemma ex_robj_parts [simp]:
  "roGeneration (ex_robj gen obs flags t) = gen" "rsObservedGeneration (roStatus (ex_robj gen obs flags t)) = obs"
  "rsLastUpdateTime (roStatus (ex_robj gen obs flags t)) = t" "roNamespace (ex_robj gen obs flags t) = ''default''"
  by (simp_all add: ex_robj_def)

lemmas ex_runner = ex_flag flag_set_condition [OF ex_rlaws]

definition ex_edited :: "nat runner_obj" where
  "ex_edited = set_condition ex_rcfg ''ResyncRequired'' CondTrue ''SpecChanged'' ''Spec changed while a Pod is running''
     (set_condition ex_rcfg ''Ready'' CondFalse ''SpecChanged'' ''Spec changed while a Pod is running''
       (with_region (ex_robj 2 1 [''JobRunning''] None) (ex_rpf ''gcp'')))"

lemma ex_conflict: "UpdateStatus ex_edited \<in>
    set (fst (runner_cloud ex_rcfg (ex_renv ''gcp'' 0 []) (ex_robj 2 1 [''JobRunning''] None) (ex_rpf ''gcp'')))"
  by (simp add: runner_cloud_def Let_def ex_flag ex_edited_def bind_run_call)


theorem runner_edit_livelock_witness:
  "let b = ex_edited; run = runner_cloud ex_rcfg (ex_renv ''gcp'' 9 []) b (ex_rpf ''gcp'')
   in flag ex_rcfg b ''JobRunning'' \<and> rsObservedGeneration (roStatus b) < roGeneration b
    \<and> snd run = Inr (After RequeuePollThreshold) \<and> (fst run = [] \<or> (\<exists>c. fst run = [UpdateStatus c]))"
  unfolding Let_def
  by (rule runner_edit_livelock [OF ex_rlaws _ _ runner_steps.stores [OF runner_steps.here ex_conflict]])
    (simp_all add: ex_flag)

theorem runner_flags_invariant_witness:
  "let b = stored (fst (runner_cloud ex_rcfg (ex_renv ''gcp'' 0 []) (ex_robj 1 0 [] None) (ex_rpf ''gcp''))) (ex_robj 1 0 [] None)
   in rsObservedGeneration (roStatus b) \<le> roGeneration b
    \<and> \<not> (flag ex_rcfg b ''JobRunning'' \<and> flag ex_rcfg b ''ResyncRequired''
         \<and> rsObservedGeneration (roStatus b) = roGeneration b)"
  unfolding Let_def
proof (rule runner_flags_invariant [OF ex_rlaws])
  let ?a = "ex_robj 1 0 [] None" and ?E = "ex_renv ''gcp'' 0 []" and ?pf = "ex_rpf ''gcp''"
  have "fetchPod ex_rcfg ?E ?pf (with_region ?a ?pf) = Inl (ErrNotFound ''no Pod found'')"
    by (simp add: fetchPod_def ex_renv_def)
  then have "UpdateStatus (stored (fst (runner_cloud ex_rcfg ?E ?a ?pf)) ?a) \<in> set (fst (runner_cloud ex_rcfg ?E ?a ?pf))"
    by (simp add: runner_cloud_def Let_def ex_flag runner_poll_def stored_def)
  then show "runner_steps ex_rcfg ?a (stored (fst (runner_cloud ex_rcfg ?E ?a ?pf)) ?a)"
    by (rule runner_steps.stores [OF runner_steps.here])
qed (simp_all add: ex_flag)

theorem runner_quiescent_witness:
  "\<exists>d. runner_cloud ex_rcfg (ex_renv ''gcp'' 5 []) (ex_robj 1 1 [''Ready''] (Some 3)) (ex_rpf ''gcp'') = ([], Inr (After d))
    \<and> 0 < d \<and> d \<le> NormalUpdateThreshold \<and> rn_now (ex_renv ''gcp'' 5 []) + d = 3 + NormalUpdateThreshold"
  by (rule runner_quiescent) (simp_all add: ex_flag, simp_all add: ex_renv_def NormalUpdateThreshold_def second_def)

theorem runner_edit_lost_witness:
  "let obj = ex_robj 2 1 [] None; pf = ex_rpf ''gcp''
   in \<exists>new. runner_cloud ex_rcfg (ex_renv ''gcp'' 0 [ex_rpod PodFailed]) obj pf = ([UpdateStatus new], Inr Stop)
    \<and> rsObservedGeneration (roStatus new) = roGeneration obj \<and> roOfferings new = roOfferings obj
    \<and> rsOfferings (roStatus new) = rsOfferings (roStatus obj) \<and> \<not> flag ex_rcfg new ''Ready''
    \<and> fst (runner_cloud ex_rcfg (ex_renv ''gcp'' 1 []) new pf) = []"
  unfolding Let_def
  by (rule runner_edit_lost [OF ex_rlaws, where pod = "ex_rpod PodFailed" and out = "''out''"])
    (simp_all add: ex_flag, simp_all add: ex_renv_def ex_rpod_def fetchPod_def getPodStdOut_def NormalUpdateThreshold_def second_def)

theorem runner_platform_case_witness:
  "\<exists>e. runner_cloud ex_rcfg (ex_renv ''GCP'' 0 []) (ex_robj 1 0 [''ResyncRequired''] None) (ex_rpf ''GCP'') = ([], Inl e)"
  by (rule runner_platform_case) (simp_all add: ex_flag, (code_simp)+)

theorem runner_hybrid_spec_witness:
  "\<exists>new anns. runner_reconcile ex_rcfg (ex_renv ''openstack'' 0 []) ''default'' ''o''
      = ([PatchProfile anns anns, UpdateStatus new], Inr Stop)
    \<and> flag ex_rcfg new ''Ready'' \<and> rsOfferings (roStatus new) = roOfferings (ex_robj 1 0 [] None)
    \<and> rsRegion (roStatus new) = ppRegion (pfSpec (ex_rpf ''openstack''))
    \<and> rsObservedGeneration (roStatus new) = roGeneration (ex_robj 1 0 [] None)"
proof (rule runner_hybrid_spec [OF ex_rlaws])
  show "\<not> is_cloud (ex_rpf ''openstack'')" by code_simp
qed (simp_all add: ex_renv_def ex_robj_def)

lemma ex_rpod_parts [simp]:
  "rpName (ex_rpod ph) = ''pod''" "rpNamespace (ex_rpod ph) = ''default''" "rpPhase (ex_rpod ph) = ph"
  "ContainerTerminatedReason (rpTerminated (ex_rpod ph)) = ''Completed''"
  by (simp_all add: ex_rpod_def)

lemma ex_fetchPod:
  "fetchPod ex_rcfg (ex_renv platform now [p]) pf obj = Inr p"
  "fetchPod ex_rcfg (ex_renv platform now []) pf obj = Inl (ErrNotFound ''no Pod found'')"
  by (simp_all add: fetchPod_def ex_renv_def)

lemma ex_updateConfigMap:
  "updateConfigMap ex_rcfg (ex_renv platform now pods) pf obj
     = ([UpdateConfigMap ''cm'' (mput ''data.yaml'' ''yaml'' [])], Inr ())"
  by (simp add: updateConfigMap_def ex_renv_def ex_rcfg_def Let_def prod_eq_iff)

lemma ex_harvested: "harvested (ex_renv platform now pods) (ex_rpod PodSucceeded) [7]"
  by (simp add: harvested_def ex_rpod_def ex_renv_def getPodStdOut_def decodeOutput_def)

lemma ex_buildRunner:
  assumes "roName obj = ''o''"
  shows "\<exists>j. buildRunner ex_rcfg (ex_renv ''gcp'' now pods) obj (ex_rpf ''gcp'') p = Inr j"
proof -
  have cred: "fetchProviderProfileCred ex_rcfg (ex_renv ''gcp'' now pods) (ex_rpf ''gcp'')
      = Inr [(''k'', ''c''), (''GOOGLE_CLOUD_PROJECT'', ''dummy'')]"
    by (simp add: fetchProviderProfileCred_def platform_cred_def Let_def ex_renv_def ex_rpf_def ex_rcfg_def mget_Cons)
  have "TruncatedName ''o'' ''-x-'' = Inr ''o-x-''" by code_simp
  moreover have "rc_suffix ex_rcfg = ''-x-''" "rc_vars ex_rcfg f offs = Inr []" "rn_owner (ex_renv ''gcp'' now pods) = Inr ()"
    for f offs by (simp_all add: ex_rcfg_def ex_renv_def)
  ultimately show ?thesis by (simp add: buildRunner_def cred assms Let_def)
qed

theorem runner_reaches_ready_witness:
  "let a = ex_robj 1 0 [] None; pf = ex_rpf ''gcp''; E1 = ex_renv ''gcp'' 0 []; E3 = ex_renv ''gcp'' 1 [ex_rpod PodSucceeded];
       b = stored (fst (runner_cloud ex_rcfg E1 a pf)) a;
       c = stored (fst (runner_cloud ex_rcfg E1 b pf)) b;
       d = stored (fst (runner_cloud ex_rcfg E3 c pf)) c
   in snd (runner_cloud ex_rcfg E1 a pf) = Inr (After RequeuePollThreshold)
    \<and> snd (runner_cloud ex_rcfg E1 b pf) = Inr (After RequeuePollThreshold)
    \<and> snd (runner_cloud ex_rcfg E3 c pf) = Inr Stop
    \<and> CreateJob (projr (buildRunner ex_rcfg E1 (with_region b pf) pf (roOfferings b))) \<in> set (fst (runner_cloud ex_rcfg E1 b pf))
    \<and> flag ex_rcfg d ''Ready'' \<and> \<not> flag ex_rcfg d ''JobRunning'' \<and> rsOfferings (roStatus d) = [7]
    \<and> rsObservedGeneration (roStatus d) = roGeneration a"
  unfolding Let_def
proof (rule runner_reaches_ready [OF ex_rlaws _ _ _ _ _ refl _ _ _ _ _ refl _ ex_harvested _ _ refl])
  let ?E = "ex_renv ''gcp'' 0 []" and ?pf = "ex_rpf ''gcp''" and ?a = "ex_robj 1 0 [] None"
  let ?b = "stored (fst (runner_cloud ex_rcfg ?E ?a ?pf)) ?a"
  have "runner_cloud ex_rcfg ?E ?a ?pf = runner_poll ex_rcfg ?E (with_region ?a ?pf) ?pf"
    by (simp add: runner_cloud_def Let_def ex_flag)
  then have name: "roName ?b = ''o''"
    by (simp add: runner_poll_def ex_fetchPod stored_def Let_def) (simp add: ex_robj_def)
  from ex_buildRunner [of "with_region ?b ?pf"] name
  have "\<exists>j. buildRunner ex_rcfg ?E (with_region ?b ?pf) ?pf (roOfferings ?b) = Inr j" by simp
  then show "buildRunner ex_rcfg ?E (with_region ?b ?pf) ?pf (rc_payload ex_rcfg (ppZones (pfSpec ?pf)) (roOfferings ?b))
      = Inr (projr (buildRunner ex_rcfg ?E (with_region ?b ?pf) ?pf (roOfferings ?b)))"
    by (auto simp: ex_rcfg_def)
qed (simp_all add: ex_flag ex_fetchPod ex_updateConfigMap, simp_all add: ex_renv_def)


end
