(* ===== verification/Finders.thy ===== *)
theory Finders
  imports Runner Labels
begin

text \<open>
  The two controllers as instances of the runner: images
  (\<open>internal/controller/core/image/image_controller.go\<close>) and instance types
  (\<open>internal/controller/core/instancetype/instancetype_controller.go\<close>). What differs is the document
  the job gets, the variables and labels of the job, the texts and the key of the config map.
\<close>

section \<open>Images\<close>

record ImageOffering =
  imNameLabel :: string
  imPattern :: string
  imName :: string
  imGeneration :: string
  imZone :: string

text \<open>The entries of the document of the job; an empty pattern is left out of it.\<close>

record image_query =
  iqZone :: string
  iqNameLabel :: string
  iqPattern :: string

definition image_generateJSON :: "ZoneSpec list \<Rightarrow> ImageOffering list \<Rightarrow> image_query list" where
  "image_generateJSON zones imageLabels =
     concat (map (\<lambda>zone.
       if \<not> zEnabled zone then []
       else map (\<lambda>img. \<lparr>iqZone = zName zone, iqNameLabel = imNameLabel img, iqPattern = imPattern img\<rparr>) imageLabels) zones)"

definition image_cfg ::
  "(condition list \<Rightarrow> condition \<Rightarrow> condition list) \<Rightarrow> (condition list \<Rightarrow> string \<Rightarrow> bool)
    \<Rightarrow> (ImageOffering, image_query list) runner_cfg" where
  "image_cfg set_cond is_true =
     \<lparr>rc_set_cond = set_cond, rc_is_true = is_true, rc_annotation = ''skycluster.io/image-ref'',
      rc_hybrid_msg = ''image does not require fetching data.'', rc_job_type = ''image-finder'',
      rc_suffix = ''-img-finder-'', rc_image = ''etesami/image-finder:latest'', rc_gcp_key = ''SERVICE_ACCOUNT_JSON'',
      rc_data_key = ''images.yaml'', rc_decode_msg = ''Failed to decode image offerings from runner pod logs'',
      rc_cm_msg = ''Failed to update images ConfigMap'', rc_payload = image_generateJSON, rc_vars = (\<lambda>_ _. Inr [])\<rparr>"

definition ImageReconcile where
  "ImageReconcile set_cond is_true = runner_reconcile (image_cfg set_cond is_true)"

section \<open>Instance types\<close>

definition instancetype_cfg ::
  "(condition list \<Rightarrow> condition \<Rightarrow> condition list) \<Rightarrow> (condition list \<Rightarrow> string \<Rightarrow> bool)
    \<Rightarrow> (ZoneOfferings, ZoneOfferings list) runner_cfg" where
  "instancetype_cfg set_cond is_true =
     \<lparr>rc_set_cond = set_cond, rc_is_true = is_true, rc_annotation = ''skycluster.io/instancetype-ref'',
      rc_hybrid_msg = ''InstanceType does not require fetching data.'', rc_job_type = ''instance-finder'',
      rc_suffix = ''-it-finder-'', rc_image = ''etesami/instance-finder:latest'', rc_gcp_key = ''GCP_SA_JSON'',
      rc_data_key = ''flavors.yaml'', rc_decode_msg = ''Failed to decode offerings from runner pod logs'',
      rc_cm_msg = ''Failed to update offerings ConfigMap'', rc_payload = (\<lambda>zones offerings. offerings),
      rc_vars = (\<lambda>yaml offerings. bind_go (yaml offerings) (\<lambda>offeringsJSON. Inr [(''FAMILY'', EnvText offeringsJSON)]))\<rparr>"

definition InstanceTypeReconcile where
  "InstanceTypeReconcile set_cond is_true = runner_reconcile (instancetype_cfg set_cond is_true)"

text \<open>The functions of the instance type controller, by their names.\<close>

definition it_cloud where "it_cloud sc is = runner_cloud (instancetype_cfg sc is)"
definition it_hybrid where "it_hybrid sc is = runner_hybrid (instancetype_cfg sc is)"
definition it_finished where "it_finished sc is = runner_finished (instancetype_cfg sc is)"
definition it_buildRunner where "it_buildRunner sc is = buildRunner (instancetype_cfg sc is)"
definition it_fetchProviderProfileCred where
  "it_fetchProviderProfileCred sc is = fetchProviderProfileCred (instancetype_cfg sc is)"
definition it_ensureJobRunner where "it_ensureJobRunner sc is = ensureJobRunner (instancetype_cfg sc is)"
definition it_fetchPod where "it_fetchPod sc is = fetchPod (instancetype_cfg sc is)"
definition it_updateConfigMap where "it_updateConfigMap sc is = updateConfigMap (instancetype_cfg sc is)"

lemma InstanceTypeReconcile_eq:
  "InstanceTypeReconcile sc is E ns name =
     bind_run (pure_run (rn_client E)) (\<lambda>_.
       case rn_get E ns name of
         Inl err \<Rightarrow> pure_run (if is_not_found err then Inr Stop else Inl err)
       | Inr obj \<Rightarrow>
           if roDeleting obj then pure_run (Inr Stop)
           else
             bind_run (pure_run (wrap_go ''unable to fetch ProviderProfile''
                 (rn_get_profile E (roNamespace obj) (roProviderRef obj)))) (\<lambda>pf.
               if \<not> is_cloud pf then it_hybrid sc is E obj pf else it_cloud sc is E obj pf))"
  by (simp only: InstanceTypeReconcile_def runner_reconcile_def it_hybrid_def it_cloud_def)

section \<open>Lemmas\<close>

lemma char_upper_idem: "char_upper (char_upper c) = char_upper c"
proof (cases "is_lower c")
  case True
  then have "97 \<le> (of_char c :: nat)" "(of_char c :: nat) \<le> 122"
    by (simp_all add: is_lower_def less_eq_char_def)
  then have "\<not> is_lower (char_upper c)" using True
    by (simp add: char_upper_def) (simp add: is_lower_def less_eq_char_def)
  then show ?thesis by (simp add: char_upper_def [of "char_upper c"])
qed (simp add: char_upper_def)

lemma to_upper_idem: "to_upper (to_upper s) = to_upper s"
  by (simp add: to_upper_def char_upper_idem)

lemma mkeys_mput: "set (mkeys (mput k v m)) = insert k (set (mkeys m))"
  by (auto simp: mkeys_def mput_def dom_update)

text \<open>The keys of a map lie in a set.\<close>

definition mkeys_in :: "string set \<Rightarrow> 'a gomap \<Rightarrow> bool" where
  "mkeys_in S m \<longleftrightarrow> set (mkeys m) \<subseteq> S"

lemma mkeys_in_mput: "mkeys_in S (mput k v m) \<longleftrightarrow> k \<in> S \<and> mkeys_in S m"
  by (simp add: mkeys_in_def mkeys_mput)

lemma mkeys_massign: "set (mkeys (massign a b)) = set (mkeys a) \<union> set (mkeys b)"
proof (induction b arbitrary: a)
  case (Cons kv b)
  then show ?case by (cases kv) (auto simp: massign_def mkeys_mput, auto simp: mkeys_def)
qed (simp add: massign_def mkeys_def)

text \<open>The names of the credentials are in capitals: they stay distinct as names of variables.\<close>

lemma cred_keys:
  assumes "fetchProviderProfileCred cfg E pf = Inr cred" "to_upper (rc_gcp_key cfg) = rc_gcp_key cfg"
    "rc_gcp_key cfg \<noteq> ''GOOGLE_CLOUD_PROJECT''"
  shows "wf_map cred" "\<forall>k\<in>set (mkeys cred). to_upper k = k"
proof -
  have aws: "wf_map (foldl (\<lambda>m (k, v). mput (to_upper k) v m) acc data)
      \<and> mkeys_in {k. to_upper k = k} (foldl (\<lambda>m (k, v). mput (to_upper k) v m) acc data)"
    if "wf_map acc" "mkeys_in {k. to_upper k = k} acc" for acc and data :: "string gomap"
    using that
  proof (induction data arbitrary: acc)
    case (Cons kv data)
    obtain k v where kv: "kv = (k, v)" by force
    show ?case using Cons.IH [of "mput (to_upper k) v acc"] Cons.prems
      by (simp add: kv mkeys_in_mput to_upper_idem)
  qed simp
  have caps: "to_upper ''AZ_CONFIG_JSON'' = ''AZ_CONFIG_JSON''"
    "to_upper ''GOOGLE_CLOUD_PROJECT'' = ''GOOGLE_CLOUD_PROJECT''" by code_simp+
  obtain data where "platform_cred (rc_gcp_key cfg) (ppPlatform (pfSpec pf)) data = Inr cred"
    by (rule fetchProviderProfileCred_Inr [OF assms(1)])
  then consider "cred = foldl (\<lambda>m (k, v). mput (to_upper k) v m) [] data"
    | v where "cred = [(''AZ_CONFIG_JSON'', v)]"
    | v where "cred = [(rc_gcp_key cfg, v), (''GOOGLE_CLOUD_PROJECT'', ''dummy'')]"
    by (cases "mget data ''configs''") (auto simp: platform_cred_def split: if_split_asm)
  then have "wf_map cred \<and> (\<forall>k\<in>set (mkeys cred). to_upper k = k)"
  proof cases
    case 1
    have "mkeys_in {k. to_upper k = k} []" by (simp add: mkeys_in_def mkeys_def)
    with 1 aws [of "[]" data] show ?thesis by (auto simp: mkeys_in_def)
  next
    case 2
    then show ?thesis by (simp add: wf_map_def mkeys_def caps)
  next
    case 3
    then show ?thesis using assms(2,3) by (auto simp: wf_map_def mkeys_def caps)
  qed
  then show "wf_map cred" "\<forall>k\<in>set (mkeys cred). to_upper k = k" by auto
qed

text \<open>The variables of a job, before and after the names are put in capitals, are the same list.\<close>

lemma job_env_eq:
  assumes job: "buildRunner cfg E obj pf p = Inr job"
    and gcp: "to_upper (rc_gcp_key cfg) = rc_gcp_key cfg" "rc_gcp_key cfg \<noteq> ''GOOGLE_CLOUD_PROJECT''"
    and vars: "rc_vars cfg (rn_yaml E) (rsOfferings (roStatus obj)) = Inr vars" "wf_map vars"
      "\<forall>k\<in>set (mkeys vars). to_upper k = k \<and> k \<notin> {''PROVIDER'', ''REGION'', ''INPUT_JSON'', ''OUTPUT_PATH''}"
  obtains cred where "fetchProviderProfileCred cfg E pf = Inr cred"
    "rjEnv job = massign (map (\<lambda>(k, v). (k, EnvText v)) cred)
       ([(''PROVIDER'', EnvText (ppPlatform (pfSpec pf))), (''REGION'', EnvText (ppRegion (pfSpec pf)))] @ vars @
        [(''INPUT_JSON'', EnvJson p),
         (''OUTPUT_PATH'', EnvText (''/data/'' @ roName obj @ ''-'' @ ppPlatform (pfSpec pf) @ ''.yaml''))])"
    "wf_map (rjEnv job)"
proof -
  obtain cred where cred: "fetchProviderProfileCred cfg E pf = Inr cred"
    using job by (auto simp: buildRunner_def)
  define path where "path = ''/data/'' @ roName obj @ ''-'' @ ppPlatform (pfSpec pf) @ ''.yaml''"
  define fixed where "fixed = [(''PROVIDER'', EnvText (ppPlatform (pfSpec pf))), (''REGION'', EnvText (ppRegion (pfSpec pf)))]
      @ vars @ [(''INPUT_JSON'', EnvJson p), (''OUTPUT_PATH'', EnvText path)]"
  define m where "m = massign (map (\<lambda>(k, v). (k, EnvText v)) cred) fixed"
  have env: "rjEnv job = map (\<lambda>(k, v). (to_upper k, v)) m"
    using job by (auto simp: buildRunner_def cred vars(1) Let_def m_def fixed_def path_def)
  have caps: "to_upper ''PROVIDER'' = ''PROVIDER''" "to_upper ''REGION'' = ''REGION''"
    "to_upper ''INPUT_JSON'' = ''INPUT_JSON''" "to_upper ''OUTPUT_PATH'' = ''OUTPUT_PATH''" by code_simp+
  have "set (mkeys m) = set (mkeys cred) \<union> set (mkeys fixed)"
    by (simp add: m_def mkeys_massign) (simp add: mkeys_def image_image split_def)
  moreover have "\<forall>k\<in>set (mkeys fixed). to_upper k = k" using vars(3) caps by (auto simp: fixed_def mkeys_def)
  ultimately have up: "\<forall>k\<in>set (mkeys m). to_upper k = k" using cred_keys(2) [OF cred gcp] by blast
  have "map (\<lambda>(k, v). (to_upper k, v)) m = m"
    by (rule map_idI) (use up in \<open>force simp: mkeys_def\<close>)
  with env have eq: "rjEnv job = m" by simp
  have "wf_map (map (\<lambda>(k, v). (k, EnvText v)) cred)"
    using cred_keys(1) [OF cred gcp] by (simp add: wf_map_def comp_def split_def)
  then have "wf_map m" unfolding m_def by (rule wf_map_massign)
  with that [OF cred] eq show ?thesis by (simp add: m_def fixed_def path_def)
qed

section \<open>Properties\<close>

lemma cfg_fields [simp]:
  "rc_vars (instancetype_cfg sc is) yaml offs = bind_go (yaml offs) (\<lambda>o'. Inr [(''FAMILY'', EnvText o')])"
  "rc_gcp_key (instancetype_cfg sc is) = ''GCP_SA_JSON''" "rc_job_type (instancetype_cfg sc is) = ''instance-finder''"
  "rc_suffix (instancetype_cfg sc is) = ''-it-finder-''" "rc_job_type (image_cfg sc is) = ''image-finder''"
  by (simp_all add: instancetype_cfg_def image_cfg_def)

lemma job_labels_get:
  "mget (job_labels cfg pf) k =
     (if k = ''skycluster.io/provider-profile'' then Some (pfName pf)
      else if k = ''skycluster.io/job-type'' then Some (rc_job_type cfg)
      else mget (DefaultLabels (ppPlatform (pfSpec pf)) (ppRegion (pfSpec pf)) []) k)"
  by (simp add: job_labels_def)

text \<open>The job of an instance type gets one variable per name; the document, the output path, the
  provider, the region and the family are the ones of the object and its provider whatever the
  secret holds, every credential whose name is none of these is passed on, and the output path is
  the one the second container prints.\<close>

theorem it_job_environment:
  assumes "it_buildRunner sc is E obj pf p = Inr job"
  shows "\<exists>cred family. it_fetchProviderProfileCred sc is E pf = Inr cred \<and> rn_yaml E (rsOfferings (roStatus obj)) = Inr family
    \<and> distinct (map fst (rjEnv job))
    \<and> mget (rjEnv job) ''INPUT_JSON'' = Some (EnvJson p) \<and> mget (rjEnv job) ''FAMILY'' = Some (EnvText family)
    \<and> mget (rjEnv job) ''PROVIDER'' = Some (EnvText (ppPlatform (pfSpec pf)))
    \<and> mget (rjEnv job) ''REGION'' = Some (EnvText (ppRegion (pfSpec pf)))
    \<and> (\<exists>path. mget (rjEnv job) ''OUTPUT_PATH'' = Some (EnvText path) \<and> rjArgs job = [''cat '' @ path])
    \<and> (\<forall>k v. mget cred k = Some v \<and> k \<notin> {''INPUT_JSON'', ''FAMILY'', ''PROVIDER'', ''REGION'', ''OUTPUT_PATH''}
         \<longrightarrow> mget (rjEnv job) k = Some (EnvText v))
    \<and> mget (rjLabels job) ''skycluster.io/job-type'' = Some ''instance-finder''
    \<and> mget (rjLabels job) ''skycluster.io/provider-profile'' = Some (pfName pf)"
proof -
  let ?cfg = "instancetype_cfg sc is"
  note job = assms [unfolded it_buildRunner_def]
  obtain family where family: "rn_yaml E (rsOfferings (roStatus obj)) = Inr family"
    using job by (auto simp: buildRunner_def Let_def)
  have vars: "rc_vars ?cfg (rn_yaml E) (rsOfferings (roStatus obj)) = Inr [(''FAMILY'', EnvText family)]"
    by (simp add: family)
  have caps: "to_upper ''FAMILY'' = ''FAMILY''" "to_upper ''GCP_SA_JSON'' = ''GCP_SA_JSON''" by code_simp+
  obtain cred where cred: "fetchProviderProfileCred ?cfg E pf = Inr cred" and wf: "wf_map (rjEnv job)"
    and env: "rjEnv job = massign (map (\<lambda>(k, v). (k, EnvText v)) cred)
       ([(''PROVIDER'', EnvText (ppPlatform (pfSpec pf))), (''REGION'', EnvText (ppRegion (pfSpec pf)))] @
        [(''FAMILY'', EnvText family)] @
        [(''INPUT_JSON'', EnvJson p),
         (''OUTPUT_PATH'', EnvText (''/data/'' @ roName obj @ ''-'' @ ppPlatform (pfSpec pf) @ ''.yaml''))])"
    by (rule job_env_eq [OF job _ _ vars])
      (simp_all add: caps wf_map_def mkeys_def)
  let ?path = "''/data/'' @ roName obj @ ''-'' @ ppPlatform (pfSpec pf) @ ''.yaml''"
  have credv: "mget (map (\<lambda>(k, v). (k, EnvText v)) cred) k = map_option EnvText (mget cred k)" for k
    by (simp add: mget_def map_of_map)
  have get: "mget (rjEnv job) k = (case mget [(''PROVIDER'', EnvText (ppPlatform (pfSpec pf))), (''REGION'', EnvText (ppRegion (pfSpec pf))),
        (''FAMILY'', EnvText family), (''INPUT_JSON'', EnvJson p), (''OUTPUT_PATH'', EnvText ?path)] k of
        None \<Rightarrow> map_option EnvText (mget cred k) | Some v \<Rightarrow> Some v)" for k
    unfolding env by (subst mget_massign) (simp_all add: wf_map_def credv cong: option.case_cong)
  have args: "rjArgs job = [''cat '' @ ?path]" "rjLabels job = job_labels ?cfg pf"
    using job by (auto simp: buildRunner_def Let_def)
  have labels: "mget (rjLabels job) ''skycluster.io/job-type'' = Some ''instance-finder''"
    "mget (rjLabels job) ''skycluster.io/provider-profile'' = Some (pfName pf)"
    by (simp_all add: args(2) job_labels_get)
  have rest: "mget (rjEnv job) k = Some (EnvText v)"
    if "mget cred k = Some v" "k \<notin> {''INPUT_JSON'', ''FAMILY'', ''PROVIDER'', ''REGION'', ''OUTPUT_PATH''}" for k v
    using that by (simp add: get mget_Cons)
  have vals: "mget (rjEnv job) ''INPUT_JSON'' = Some (EnvJson p)" "mget (rjEnv job) ''FAMILY'' = Some (EnvText family)"
    "mget (rjEnv job) ''PROVIDER'' = Some (EnvText (ppPlatform (pfSpec pf)))"
    "mget (rjEnv job) ''REGION'' = Some (EnvText (ppRegion (pfSpec pf)))"
    "mget (rjEnv job) ''OUTPUT_PATH'' = Some (EnvText ?path)"
    by (simp_all add: get mget_Cons)
  have path: "\<exists>path. mget (rjEnv job) ''OUTPUT_PATH'' = Some (EnvText path) \<and> rjArgs job = [''cat '' @ path]"
    by (intro exI conjI) (rule vals(5), rule args(1))
  have passed: "\<forall>k v. mget cred k = Some v \<and> k \<notin> {''INPUT_JSON'', ''FAMILY'', ''PROVIDER'', ''REGION'', ''OUTPUT_PATH''}
      \<longrightarrow> mget (rjEnv job) k = Some (EnvText v)"
    by (intro allI impI) (elim conjE, rule rest)
  have dist: "distinct (map fst (rjEnv job))" using wf by (simp add: wf_map_def)
  show ?thesis
    unfolding it_fetchProviderProfileCred_def
    using cred family dist vals(1-4) path passed labels
    by (intro exI [of _ cred]) (rule exI [of _ family], (rule conjI, assumption)+, assumption)
qed

text \<open>The two finders never take each other's pods or jobs: an object that carries the labels the
  one looks for carries the labels the other looks for under no provider.\<close>

theorem finders_disjoint:
  "\<not> (HasAllLabelsAndValue labels (job_labels (image_cfg sc is) pf)
      \<and> HasAllLabelsAndValue labels (job_labels (instancetype_cfg sc is) pf'))"
proof
  assume both: "HasAllLabelsAndValue labels (job_labels (image_cfg sc is) pf)
      \<and> HasAllLabelsAndValue labels (job_labels (instancetype_cfg sc is) pf')"
  have "mget labels ''skycluster.io/job-type'' = Some ''image-finder''"
    using both mget_in_set [of "job_labels (image_cfg sc is) pf" "''skycluster.io/job-type''" "''image-finder''"]
    by (auto simp: HasAllLabelsAndValue_iff job_labels_get)
  moreover have "mget labels ''skycluster.io/job-type'' = Some ''instance-finder''"
    using both mget_in_set [of "job_labels (instancetype_cfg sc is) pf'" "''skycluster.io/job-type''" "''instance-finder''"]
    by (auto simp: HasAllLabelsAndValue_iff job_labels_get)
  ultimately show False by simp
qed

text \<open>The runs of two objects of one provider and namespace are not told apart: both see the same
  pod, and where a job of the one is listed, asking for a run of the other creates none, whatever
  its spec, and records it as running all the same.\<close>

theorem runner_shared_job:
  assumes "roNamespace a = roNamespace b" "rn_jobs E (roNamespace a) (job_labels cfg pf) = Inr (j # js)"
    "cfg_laws cfg" "flag cfg b ''ResyncRequired''" "\<not> flag cfg b ''JobRunning''"
    "buildRunner cfg E (with_region b pf) pf (rc_payload cfg (ppZones (pfSpec pf)) (roOfferings b)) = Inr job"
    "rn_update_status E = Inr ()"
  shows "fetchPod cfg E pf a = fetchPod cfg E pf b
    \<and> (\<exists>new. runner_cloud cfg E b pf = ([UpdateStatus new], Inr (After RequeuePollThreshold))
        \<and> flag cfg new ''JobRunning'' \<and> rsObservedGeneration (roStatus new) = roGeneration b)"
proof -
  have ens: "ensureJobRunner cfg E job (with_region b pf) pf = ([], Inr ())"
    using assms(1,2) by (simp add: ensureJobRunner_def prod_eq_iff fst_bind_run snd_bind_run)
  have run: "runner_cloud cfg E b pf = runner_start cfg E (with_region b pf) pf"
    using assms(4,5) by (simp add: runner_cloud_def Let_def)
  obtain new where "runner_start cfg E (with_region b pf) pf = ([UpdateStatus new], Inr (After RequeuePollThreshold))"
    using assms(6,7) by (simp add: runner_start_def ens Let_def prod_eq_iff fst_bind_run snd_bind_run)
  moreover from this have "UpdateStatus new \<in> set (fst (runner_start cfg E (with_region b pf) pf))" by simp
  from runner_start_write [OF this] have "flag cfg new ''JobRunning''" "rsObservedGeneration (roStatus new) = roGeneration b"
    by (simp_all add: Let_def flag_set_condition [OF assms(3)])
  ultimately show ?thesis using assms(1) by (simp add: run fetchPod_def)
qed

text \<open>The document of an image job asks for every label of the spec in every enabled zone of the
  provider, zone by zone, and for nothing else.\<close>

theorem image_generateJSON_spec:
  "set (image_generateJSON zones labels) =
     {\<lparr>iqZone = zName z, iqNameLabel = imNameLabel i, iqPattern = imPattern i\<rparr> | z i.
        z \<in> set zones \<and> zEnabled z \<and> i \<in> set labels}
   \<and> length (image_generateJSON zones labels) = length (filter zEnabled zones) * length labels"
proof -
  have "length (image_generateJSON zones labels) = length (filter zEnabled zones) * length labels"
    by (induction zones) (simp_all add: image_generateJSON_def)
  then show ?thesis by (auto simp: image_generateJSON_def)
qed

section \<open>Examples\<close>

lemma buildRunner_jobs: "buildRunner cfg (E\<lparr>rn_jobs := f\<rparr>) obj pf p = buildRunner cfg E obj pf p"
  by (simp add: buildRunner_def fetchProviderProfileCred_def)

lemma ex_robj_name: "roName (ex_robj gen obs flags t) = ''o''"
  by (simp add: ex_robj_def)

lemma with_region_name: "roName (with_region obj pf) = roName obj"
  by simp

theorem runner_shared_job_witness:
  "let E = (ex_renv ''gcp'' 0 [])\<lparr>rn_jobs := (\<lambda>_ _. Inr [''j''])\<rparr>; a = ex_robj 1 0 [] None; b = ex_robj 3 0 [''ResyncRequired''] None;
       pf = ex_rpf ''gcp''
   in fetchPod ex_rcfg E pf a = fetchPod ex_rcfg E pf b
    \<and> (\<exists>new. runner_cloud ex_rcfg E b pf = ([UpdateStatus new], Inr (After RequeuePollThreshold))
        \<and> flag ex_rcfg new ''JobRunning'' \<and> rsObservedGeneration (roStatus new) = roGeneration b)"
proof -
  let ?b = "ex_robj 3 0 [''ResyncRequired''] None" and ?pf = "ex_rpf ''gcp''"
  obtain job where "buildRunner ex_rcfg (ex_renv ''gcp'' 0 []) (with_region ?b ?pf) ?pf
      (rc_payload ex_rcfg (ppZones (pfSpec ?pf)) (roOfferings ?b)) = Inr job"
    using ex_buildRunner [of "with_region ?b ?pf" 0 "[]"] by (metis ex_robj_name with_region_name)
  then show ?thesis
    unfolding Let_def
    by (intro runner_shared_job [where j = "''j''" and js = "[]" and job = job])
      (simp_all add: ex_rlaws ex_flag buildRunner_jobs, simp_all add: ex_renv_def)
qed

definition ex_ienv :: "(ZoneOfferings, ZoneOfferings list) rn_env" where
  "ex_ienv =
     \<lparr>rn_client = Inr (), rn_now = 0, rn_get = (\<lambda>_ _. Inl (ErrNotFound [])),
      rn_get_profile = (\<lambda>_ _. Inr (ex_rpf ''azure'')), rn_patch_profile = Inr (), rn_update_status = Inr (),
      rn_secrets = (\<lambda>_ _. Inr [[(''configs'', ''c'')]]), rn_jobs = (\<lambda>_ _. Inr []), rn_pods = (\<lambda>_ _. Inr []),
      rn_config_maps = (\<lambda>_ _. Inr []), rn_owner = Inr (), rn_create_job = Inr (), rn_update_cm = Inr (),
      rn_logs = (\<lambda>_ _ _. Inr []), rn_yaml = (\<lambda>_. Inr ''yaml''), rn_unmarshal = (\<lambda>_. Inr None)\<rparr>"

definition ex_iobj :: "ZoneOfferings runner_obj" where
  "ex_iobj =
     \<lparr>roName = ''o'', roNamespace = ''default'', roDeleting = False, roGeneration = 1, roProviderRef = ''p'', roOfferings = [],
      roStatus = \<lparr>rsRegion = [], rsOfferings = [], rsObservedGeneration = 0, rsLastUpdateTime = None, rsConditions = []\<rparr>\<rparr>"

definition ex_job where
  "ex_job sc is = projr (it_buildRunner sc is ex_ienv ex_iobj (ex_rpf ''azure'') [])"

lemma ex_job: "it_buildRunner sc is ex_ienv ex_iobj (ex_rpf ''azure'') [] = Inr (ex_job sc is)"
proof -
  have cred: "fetchProviderProfileCred (instancetype_cfg sc is) ex_ienv (ex_rpf ''azure'') = Inr [(''AZ_CONFIG_JSON'', ''c'')]"
    by (simp add: fetchProviderProfileCred_def platform_cred_def Let_def ex_ienv_def ex_rpf_def mget_Cons)
  have "TruncatedName ''o'' ''-it-finder-'' = Inr ''o-it-finder-''" by code_simp
  moreover have "rn_yaml ex_ienv offs = Inr ''yaml''" "rn_owner ex_ienv = Inr ()" for offs by (simp_all add: ex_ienv_def)
  moreover have "roName ex_iobj = ''o''" by (simp add: ex_iobj_def)
  ultimately show ?thesis by (simp add: ex_job_def it_buildRunner_def buildRunner_def cred Let_def)
qed

theorem it_job_environment_witness:
  "let sc = (\<lambda>cs c. cs); is = (\<lambda>cs t. False); job = ex_job sc is; pf = ex_rpf ''azure''
   in \<exists>cred family. it_fetchProviderProfileCred sc is ex_ienv pf = Inr cred
    \<and> rn_yaml ex_ienv (rsOfferings (roStatus ex_iobj)) = Inr family
    \<and> distinct (map fst (rjEnv job))
    \<and> mget (rjEnv job) ''INPUT_JSON'' = Some (EnvJson []) \<and> mget (rjEnv job) ''FAMILY'' = Some (EnvText family)
    \<and> mget (rjEnv job) ''PROVIDER'' = Some (EnvText (ppPlatform (pfSpec pf)))
    \<and> mget (rjEnv job) ''REGION'' = Some (EnvText (ppRegion (pfSpec pf)))
    \<and> (\<exists>path. mget (rjEnv job) ''OUTPUT_PATH'' = Some (EnvText path) \<and> rjArgs job = [''cat '' @ path])
    \<and> (\<forall>k v. mget cred k = Some v \<and> k \<notin> {''INPUT_JSON'', ''FAMILY'', ''PROVIDER'', ''REGION'', ''OUTPUT_PATH''}
         \<longrightarrow> mget (rjEnv job) k = Some (EnvText v))
    \<and> mget (rjLabels job) ''skycluster.io/job-type'' = Some ''instance-finder''
    \<and> mget (rjLabels job) ''skycluster.io/provider-profile'' = Some (pfName pf)"
  unfolding Let_def by (rule it_job_environment [OF ex_job])

end
