(* ===== verification/Profiles.thy ===== *)
theory Profiles
  imports Finders Latency Providers Dependencies Labels
begin

text \<open>
  The reconciler of the \<open>ProviderProfile\<close>
  (\<open>internal/controller/core/providerprofile/providerprofile_controller.go\<close>): it makes the config
  map, the image, the instance type and the latencies of a provider, fills in the egress costs and
  collects what the two finders found. \<open>pp_env\<close> gives the replies of one call, \<open>pp_effect\<close> its
  write calls.
\<close>

section \<open>Data\<close>

text \<open>The egress costs of the spec; those of the status are the field \<open>pfEgressCosts\<close>.\<close>

record Profile = ProviderProfile +
  pfNs :: string
  pfDeleting :: bool
  pfFinalizer :: bool
  pfGeneration :: int
  pfSpecEgressCosts :: "EgressCostSpec list"
  pfStatusPlatform :: string
  pfStatusRegion :: string
  pfStatusZones :: "ZoneSpec list"
  pfObservedGeneration :: int
  pfDependencies :: DependencyManager
  pfConditions :: "condition list"

text \<open>An image or an instance type to be created.\<close>

record 'o new_obj =
  noNamespace :: string
  noGenerateName :: string
  noLabels :: "string gomap"
  noProviderRef :: string
  noOfferings :: "'o list"

record new_latency =
  nlNamespace :: string
  nlName :: string
  nlLabels :: "string gomap"
  nlProviderRefA :: string
  nlProviderRefB :: string
  nlFixedLatencyMs :: string

text \<open>The entry of a managed cluster: its name, price, and node type with its cost.\<close>

record managed_k8s =
  mkName :: string
  mkPrice :: string
  mkInstanceType :: string
  mkCost :: string

datatype pp_effect =
    CreateCM string string "string gomap"
  | UpdateCM string "string gomap"
  | CreateImage "ImageOffering new_obj"
  | CreateInstanceType "ZoneOfferings new_obj"
  | CreateLatency new_latency
  | UpdateProfileStatus Profile
  | UpdateProfile Profile
  | DeleteObj string
  | DeleteLatencies string "string list"

text \<open>
  Replies. A creation replies with the generated name. \<open>pe_sample\<close> is the sampler of a latency, by
  its name; \<open>pe_selector\<close> is the check of the library on the values of an \<open>In\<close> selector.
\<close>

record pp_env =
  pe_set_cond :: "condition list \<Rightarrow> condition \<Rightarrow> condition list"
  pe_is_true :: "condition list \<Rightarrow> string \<Rightarrow> bool"
  pe_get :: "string \<Rightarrow> string \<Rightarrow> Profile go"
  pe_config_maps :: "string \<Rightarrow> string gomap \<Rightarrow> (string \<times> string gomap) list go"
  pe_create_cm :: "string go"
  pe_update_cm :: "unit go"
  pe_images :: "string \<Rightarrow> string gomap \<Rightarrow> ImageOffering runner_obj list go"
  pe_create_image :: "string go"
  pe_instance_types :: "string \<Rightarrow> string gomap \<Rightarrow> ZoneOfferings runner_obj list go"
  pe_create_it :: "string go"
  pe_owner :: "unit go"
  pe_profiles :: "string \<Rightarrow> ProviderProfile list go"
  pe_get_latency :: "string \<Rightarrow> string \<Rightarrow> unit go"
  pe_sample :: "string \<Rightarrow> nat \<Rightarrow> rat \<Rightarrow> rat \<Rightarrow> f64"
  pe_create_latency :: "string \<Rightarrow> unit go"
  pe_update_status :: "unit go"
  pe_update :: "unit go"
  pe_delete :: "string \<Rightarrow> unit go"
  pe_selector :: "string list \<Rightarrow> unit go"
  pe_delete_latencies :: "unit go"
  pe_yaml_images :: "ImageOffering list \<Rightarrow> string go"
  pe_yaml_offerings :: "ZoneOfferings list \<Rightarrow> string go"
  pe_yaml_managed :: "managed_k8s list \<Rightarrow> string go"

section \<open>What a provider is made of\<close>

definition is_major_cloud :: "string \<Rightarrow> bool" where
  "is_major_cloud platform = (to_lower platform \<in> set [''aws'', ''azure'', ''gcp''])"

definition profile_labels :: "('a ProviderProfile_scheme) \<Rightarrow> string gomap" where
  "profile_labels pf =
     mput ''skycluster.io/provider-profile'' (pfName pf) (DefaultLabels (ppPlatform (pfSpec pf)) (ppRegion (pfSpec pf)) [])"

definition cm_labels :: "('a ProviderProfile_scheme) \<Rightarrow> string gomap" where
  "cm_labels pf = mput ''skycluster.io/config-type'' ''provider-profile'' (profile_labels pf)"

definition zero_offering :: InstanceOffering where
  "zero_offering =
     \<lparr>ioName = [], ioNameLabel = [], ioVCPUs = 0, ioRAM = [], ioPrice = [], ioGPU = zeroGPU, ioGeneration = [],
      ioVolumeTypes = [], ioSpot = \<lparr>spPrice = [], spEnabled = False\<rparr>\<rparr>"

definition buildZoneOfferings :: "string \<Rightarrow> string list \<Rightarrow> ZoneOfferings" where
  "buildZoneOfferings zn offerings =
     \<lparr>zoZone = zn, zoOfferings = map (\<lambda>offering. zero_offering\<lparr>ioNameLabel := offering\<rparr>) offerings\<rparr>"

text \<open>\<open>None\<close> is nil: the platform is compared with its case.\<close>

definition getTypeFamilies :: "string \<Rightarrow> ZoneSpec list \<Rightarrow> ZoneOfferings list option" where
  "getTypeFamilies platform zones =
     (let zoneNames = map zName zones
      in if platform = ''aws'' then
           Some (map (\<lambda>z. buildZoneOfferings z [''t3.'', ''m5.'', ''p3.'', ''p5.'', ''g5.'', ''g6.'', ''g6e.'', ''p4d'', ''p3dn'']) zoneNames)
         else if platform = ''azure'' then Some (map (\<lambda>z. buildZoneOfferings z [''Standard_A'', ''Standard_B'']) zoneNames)
         else if platform = ''gcp'' then Some (map (\<lambda>z. buildZoneOfferings z [''e2'', ''g2'', ''a2'']) zoneNames)
         else None)"

text \<open>
  \<open>reflect.DeepEqual\<close> of a field read from the server, where an empty list is nil (the field is
  \<open>omitempty\<close>), and a slice of the program, which can be empty and not nil.
\<close>

definition deep_equal_list :: "'a list \<Rightarrow> 'a list option \<Rightarrow> bool" where
  "deep_equal_list decoded xs = (case xs of None \<Rightarrow> decoded = [] | Some ys \<Rightarrow> ys \<noteq> [] \<and> decoded = ys)"

definition image_defaults :: "ImageOffering list" where
  "image_defaults =
     map (\<lambda>(l, p). \<lparr>imNameLabel = l, imPattern = p, imName = [], imGeneration = [], imZone = []\<rparr>)
       [(''ubuntu-20.04'', ''*hvm-ssd*/ubuntu-focal-20.04-amd64-server*''),
        (''ubuntu-22.04'', ''*hvm-ssd*/ubuntu-jammy-22.04-amd64-server*''),
        (''ubuntu-24.04'', ''*hvm-ssd*/ubuntu-noble-24.04-amd64-server*''),
        (''ubuntu-24.04-gpu'', ''*skypilot-aws-gpu-ubuntu-241104*'')]"

text \<open>A creation that finds the object made meanwhile is no error; the name is then empty.\<close>

definition create_named :: "string \<Rightarrow> 'e \<Rightarrow> string go \<Rightarrow> ('e, string) run" where
  "create_named msg e reply =
     try_run (call e reply) (\<lambda>r. case r of
       Inl err \<Rightarrow> if is_already_exists err then pure_run (Inr []) else pure_run (Inl (wrap msg err))
     | Inr name \<Rightarrow> pure_run (Inr name))"

definition ensureInstanceTypes :: "pp_env \<Rightarrow> Profile \<Rightarrow> (pp_effect, string) run" where
  "ensureInstanceTypes E pf =
     bind_run (pure_run (wrap_go ''unable to fetch InstanceTypes'' (pe_instance_types E (pfNs pf) (profile_labels pf)))) (\<lambda>its.
       let families = getTypeFamilies (ppPlatform (pfSpec pf)) (ppZones (pfSpec pf));
           it = \<lparr>noNamespace = pfNs pf, noGenerateName = pfName pf @ ''-'', noLabels = profile_labels pf,
                 noProviderRef = pfName pf, noOfferings = (case families of None \<Rightarrow> [] | Some l \<Rightarrow> l)\<rparr>
       in if length its > 0 \<and> roProviderRef (hd its) = noProviderRef it \<and> deep_equal_list (roOfferings (hd its)) families
          then pure_run (Inr (roName (hd its)))
          else
            bind_run (pure_run (wrap_go ''unable to set owner reference for InstanceTypes'' (pe_owner E))) (\<lambda>_.
              create_named ''unable to create InstanceTypes'' (CreateInstanceType it) (pe_create_it E)))"

definition ensureImages :: "pp_env \<Rightarrow> Profile \<Rightarrow> (pp_effect, string) run" where
  "ensureImages E pf =
     bind_run (pure_run (wrap_go ''unable to fetch Images'' (pe_images E (pfNs pf) (profile_labels pf)))) (\<lambda>imgs.
       let img = \<lparr>noNamespace = pfNs pf, noGenerateName = pfName pf @ ''-'', noLabels = profile_labels pf,
                  noProviderRef = pfName pf, noOfferings = image_defaults\<rparr>
       in if length imgs > 0 \<and> roProviderRef (hd imgs) = noProviderRef img \<and> roOfferings (hd imgs) = noOfferings img
          then pure_run (Inr (roName (hd imgs)))
          else
            bind_run (pure_run (wrap_go ''unable to set owner reference for Images'' (pe_owner E))) (\<lambda>_.
              create_named ''unable to create Images'' (CreateImage img) (pe_create_image E)))"

definition ensureConfigMap :: "pp_env \<Rightarrow> Profile \<Rightarrow> (pp_effect, string) run" where
  "ensureConfigMap E pf =
     bind_run (pure_run (wrap_go ''unable to fetch ConfigMap'' (pe_config_maps E ''skycluster-system'' (cm_labels pf)))) (\<lambda>cms.
       if length cms > 0 then pure_run (Inr (fst (hd cms)))
       else create_named ''unable to create ConfigMap''
              (CreateCM ''skycluster-system'' (pfName pf @ ''-'') (cm_labels pf)) (pe_create_cm E))"

definition egress_cost :: "string \<Rightarrow> int \<Rightarrow> string \<Rightarrow> EgressCostSpec" where
  "egress_cost t toGB price =
     \<lparr>ecType = t, ecDestination = [], ecUnit = ''GB'',
      ecTiers = [\<lparr>etFromGB = 0, etToGB = toGB, etPricePerGB = price\<rparr>]\<rparr>"

text \<open>The costs of the spec, or defaults by platform.\<close>

definition ensureEgressCosts :: "Profile \<Rightarrow> Profile" where
  "ensureEgressCosts pf =
     (let costs = pfSpecEgressCosts pf; plt = to_lower (ppPlatform (pfSpec pf))
      in pf\<lparr>pfEgressCosts :=
           (if length costs = 0 then
              (if plt = ''aws'' then
                 [egress_cost ''internet'' 10000 ''0.09'', egress_cost ''inter-zone'' 10000 ''0.01'',
                  egress_cost ''inter-region'' 10000 ''0.02'']
               else if plt = ''azure'' then
                 [egress_cost ''internet'' 10000 ''0.087'', egress_cost ''inter-zone'' 10000 ''0.01'',
                  egress_cost ''inter-region'' 10000 ''0.02'']
               else if plt = ''gcp'' then
                 [egress_cost ''internet'' 1000 ''0.12'', egress_cost ''inter-zone'' 10000 ''0.01'',
                  egress_cost ''inter-region'' 10000 ''0.02'']
               else [egress_cost ''internet'' 1000 ''0.0''])
            else costs)\<rparr>)"

section \<open>Latencies\<close>

text \<open>\<open>fmt.Sprintf("%.2f")\<close>: the exact value, rounded to two decimals, halves to even.\<close>

definition fmt_2f :: "f64 \<Rightarrow> string" where
  "fmt_2f v =
     (case v of
        Fin x \<Rightarrow>
          (let n = half_even (\<bar>x\<bar> * 100)
           in (if x < 0 then ''-'' else []) @ nat_dec (nat n div 100) @ ''.''
              @ [digit_char (nat n mod 100 div 10), digit_char (nat n mod 10)])
      | PInf \<Rightarrow> ''+Inf'' | NInf \<Rightarrow> ''-Inf''
      | NaN \<Rightarrow> ''NaN'')"

definition makeLatencyName :: "string \<Rightarrow> string \<Rightarrow> string" where
  "makeLatencyName a b = ''latency-'' @ SanitizeName a @ ''-'' @ SanitizeName b"

definition platform_region :: "('a ProviderProfile_scheme) \<Rightarrow> string" where
  "platform_region pf = ppPlatform (pfSpec pf) @ ''-'' @ ppRegion (pfSpec pf)"

text \<open>The object for a pair of providers; \<open>None\<close> when a default zone is missing or the types of the
  zones give no latency.\<close>

definition latency_object ::
  "(nat \<Rightarrow> rat \<Rightarrow> rat \<Rightarrow> f64) \<Rightarrow> Profile \<Rightarrow> ProviderProfile \<Rightarrow> string \<Rightarrow> string \<Rightarrow> new_latency option" where
  "latency_object sample pf other a b =
     (case (find zDefaultZone (ppZones (pfSpec pf)), find zDefaultZone (ppZones (pfSpec other))) of
        (Some z, Some oz) \<Rightarrow>
          (case GenerateSyntheticLatency sample (ppRegion (pfSpec pf)) (ppRegion (pfSpec other))
                  (ppRegionAlias (pfSpec pf)) (ppRegionAlias (pfSpec other)) (zType z) (zType oz) of
             Inl _ \<Rightarrow> None
           | Inr fixedMs \<Rightarrow>
               Some \<lparr>nlNamespace = pfNs pf, nlName = makeLatencyName a b,
                     nlLabels = [(''skycluster.io/provider-pair'', SanitizeName a @ ''-'' @ SanitizeName b),
                                 (''skycluster.io/provider-platform'', ppPlatform (pfSpec pf)),
                                 (''skycluster.io/provider-region'', ppRegion (pfSpec pf))],
                     nlProviderRefA = a, nlProviderRefB = b, nlFixedLatencyMs = fmt_2f fixedMs\<rparr>)
      | _ \<Rightarrow> None)"

definition ensureLatency :: "pp_env \<Rightarrow> Profile \<Rightarrow> ProviderProfile \<Rightarrow> (pp_effect, unit) run" where
  "ensureLatency E pf other =
     (if pfName other = pfName pf then pure_run (Inr ())
      else
        (let (a, b) = CanonicalPair (platform_region pf) (platform_region other);
             latName = makeLatencyName a b
         in case pe_get_latency E (pfNs pf) latName of
              Inl err \<Rightarrow>
                if is_not_found err then
                  (case latency_object (pe_sample E latName) pf other a b of
                     None \<Rightarrow> pure_run (Inr ())
                   | Some newLat \<Rightarrow> call (CreateLatency newLat) (pe_create_latency E latName))
                else pure_run (Inl err)
            | Inr _ \<Rightarrow> pure_run (Inr ())))"

definition ensureLatencies :: "pp_env \<Rightarrow> Profile \<Rightarrow> (pp_effect, unit) run" where
  "ensureLatencies E pf = bind_run (pure_run (pe_profiles E (pfNs pf))) (\<lambda>items. fold_run (ensureLatency E pf) items)"

section \<open>Clean-up\<close>

text \<open>The values of the selector are built from the names of the profiles.\<close>

definition cleanUpLatencyData :: "pp_env \<Rightarrow> Profile \<Rightarrow> (pp_effect, unit) run" where
  "cleanUpLatencyData E pf =
     bind_run (pure_run (pe_profiles E (pfNs pf))) (\<lambda>items.
       let values = map (\<lambda>other. let (a, b) = CanonicalPair (pfName pf) (pfName other)
                                in SanitizeName a @ ''-'' @ SanitizeName b)
                      (filter (\<lambda>other. pfName other \<noteq> pfName pf) items)
       in bind_run (pure_run (pe_selector E values)) (\<lambda>_.
            call (DeleteLatencies (pfNs pf) values) (pe_delete_latencies E)))"

definition delete_all :: "pp_env \<Rightarrow> string \<Rightarrow> string list \<Rightarrow> (pp_effect, unit) run" where
  "delete_all E msg names = fold_run (\<lambda>n. wrap_run msg (call (DeleteObj n) (pe_delete E n))) names"

definition cleanUpInstanceTypes :: "pp_env \<Rightarrow> Profile \<Rightarrow> (pp_effect, unit) run" where
  "cleanUpInstanceTypes E pf =
     (let ll = DefaultLabels (ppPlatform (pfSpec pf)) (ppRegion (pfSpec pf)) ''instance-types''
      in bind_run (pure_run (wrap_go ''unable to fetch InstanceTypes'' (pe_instance_types E (pfNs pf) ll))) (\<lambda>its.
         if length its = 0 then pure_run (Inr ())
         else delete_all E ''unable to delete InstanceTypes'' (map roName its)))"

definition cleanUpImages :: "pp_env \<Rightarrow> Profile \<Rightarrow> (pp_effect, unit) run" where
  "cleanUpImages E pf =
     (let ll = DefaultLabels (ppPlatform (pfSpec pf)) (ppRegion (pfSpec pf)) ''images''
      in bind_run (pure_run (wrap_go ''unable to fetch Images'' (pe_images E (pfNs pf) ll))) (\<lambda>imgs.
         if length imgs = 0 then pure_run (Inr ())
         else delete_all E ''unable to delete Images'' (map roName imgs)))"

definition cleanUpConfigMap :: "pp_env \<Rightarrow> Profile \<Rightarrow> (pp_effect, unit) run" where
  "cleanUpConfigMap E pf =
     bind_run (pure_run (wrap_go ''unable to fetch ConfigMap'' (pe_config_maps E ''skycluster-system'' (cm_labels pf)))) (\<lambda>cms.
       if length cms = 0 then pure_run (Inr ())
       else delete_all E ''unable to delete ConfigMap'' (map fst cms))"

text \<open>All four are tried; the error names the last one only.\<close>

definition cleanUp :: "pp_env \<Rightarrow> Profile \<Rightarrow> (pp_effect, unit) run" where
  "cleanUp E pf =
     try_run (cleanUpConfigMap E pf) (\<lambda>err1.
     try_run (cleanUpImages E pf) (\<lambda>err2.
     try_run (cleanUpInstanceTypes E pf) (\<lambda>err3.
     try_run (cleanUpLatencyData E pf) (\<lambda>err4.
       if err1 \<noteq> Inr () \<or> err2 \<noteq> Inr () \<or> err3 \<noteq> Inr () \<or> err4 \<noteq> Inr ()
       then pure_run (Inl (Errf ''failed to clean up resources'')) else pure_run (Inr ())))))"

section \<open>The collected data\<close>

definition managed_cluster :: "string \<Rightarrow> managed_k8s" where
  "managed_cluster platform =
     \<lparr>mkName = (if platform = ''aws'' then ''EKS'' else if platform = ''gcp'' then ''GKE'' else ''AKS''),
      mkPrice = (if platform = ''aws'' then ''0.10'' else if platform = ''gcp'' then ''0.15'' else ''0.10''),
      mkInstanceType = (if platform = ''aws'' then ''m5.xlarge''
                        else if platform = ''gcp'' then ''e2-standard-2'' else ''Standard_D2s_v3''),
      mkCost = (if platform = ''aws'' then ''0.096'' else if platform = ''gcp'' then ''0.067'' else ''0.096'')\<rparr>"

text \<open>A document that cannot be encoded is left out; the flag tells whether any was written.\<close>

definition put_doc :: "string \<Rightarrow> string go \<Rightarrow> string gomap \<times> bool \<Rightarrow> string gomap \<times> bool" where
  "put_doc key doc st = (case doc of Inl _ \<Rightarrow> st | Inr yaml \<Rightarrow> (mput key yaml (fst st), True))"

definition pp_updateConfigMap ::
  "pp_env \<Rightarrow> Profile \<Rightarrow> ImageOffering runner_obj option \<Rightarrow> ZoneOfferings runner_obj option \<Rightarrow> (pp_effect, unit) run" where
  "pp_updateConfigMap E pf img it =
     (if img = None \<and> it = None then pure_run (Inr ())
      else
        bind_run (pure_run (wrap_go ''unable to list ConfigMaps for images''
            (pe_config_maps E ''skycluster-system'' (profile_labels pf)))) (\<lambda>items.
          if length items \<noteq> 1 then pure_run (Inl (Errf ''error listing ConfigMaps for images: expected 1''))
          else
            (case hd items of (name, data) \<Rightarrow>
              let st = (data, False);
                  st = (case img of None \<Rightarrow> st
                        | Some i \<Rightarrow> put_doc ''images.yaml'' (pe_yaml_images E (rsOfferings (roStatus i))) st);
                  st = (case it of None \<Rightarrow> st
                        | Some i \<Rightarrow> put_doc ''flavors.yaml'' (pe_yaml_offerings E (rsOfferings (roStatus i))) st);
                  st = (if is_major_cloud (ppPlatform (pfSpec pf))
                        then put_doc ''managed-k8s.yaml'' (pe_yaml_managed E [managed_cluster (ppPlatform (pfSpec pf))]) st
                        else st)
              in if snd st
                 then wrap_run ''failed to update ConfigMap for images'' (call (UpdateCM name (fst st)) (pe_update_cm E))
                 else pure_run (Inr ()))))"

definition fetchImageData :: "pp_env \<Rightarrow> Profile \<Rightarrow> ImageOffering runner_obj go" where
  "fetchImageData E pf =
     bind_go (wrap_go ''unable to fetch Images'' (pe_images E (pfNs pf) (profile_labels pf))) (\<lambda>items.
       if length items = 0 then Inl (ErrNotFound ''no Image found'') else Inr (hd items))"

definition fetchInstanceTypeData :: "pp_env \<Rightarrow> Profile \<Rightarrow> ZoneOfferings runner_obj go" where
  "fetchInstanceTypeData E pf =
     bind_go (wrap_go ''unable to fetch InstanceTypes'' (pe_instance_types E (pfNs pf) (profile_labels pf))) (\<lambda>items.
       if length items = 0 then Inl (ErrNotFound ''no InstanceType found'') else Inr (hd items))"

section \<open>The reconciler\<close>

definition pp_set_condition :: "pp_env \<Rightarrow> string \<Rightarrow> cond_status \<Rightarrow> string \<Rightarrow> string \<Rightarrow> Profile \<Rightarrow> Profile" where
  "pp_set_condition E t status reason msg pf =
     pf\<lparr>pfConditions := SetCondition (pe_set_cond E) t status reason msg (pfConditions pf)\<rparr>"

abbreviation pp_flag :: "pp_env \<Rightarrow> Profile \<Rightarrow> string \<Rightarrow> bool" where
  "pp_flag E pf t \<equiv> pe_is_true E (pfConditions pf) t"

text \<open>What was fetched is nil exactly when its fetch failed.\<close>

definition fetched :: "'a go \<Rightarrow> 'a option" where
  "fetched r = (case r of Inl _ \<Rightarrow> None | Inr x \<Rightarrow> Some x)"

definition fetch_failed :: "pp_env \<Rightarrow> Profile \<Rightarrow> (pp_effect, run_result) run" where
  "fetch_failed E pf =
     (let msg = ''Failed to fetch dependencies, [ResynceRequired]'';
          pf = pp_set_condition E ''Ready'' CondFalse ''DependencyFetchUpdateFailed'' msg pf;
          pf = (if \<not> is_major_cloud (ppPlatform (pfSpec pf))
                then pp_set_condition E ''ResyncRequired'' CondFalse ''NoResyncNeeded''
                       ''Resync not needed, waiting for dependencies to be ready'' pf
                else pp_set_condition E ''ResyncRequired'' CondTrue ''DependencyFetchUpdateFailed'' msg pf)
      in bind_run (call (UpdateProfileStatus pf) (pe_update_status E)) (\<lambda>_. pure_run (Inr (After RequeuePollThreshold))))"

definition dependencies_fetched ::
  "pp_env \<Rightarrow> Profile \<Rightarrow> ImageOffering runner_obj \<Rightarrow> ZoneOfferings runner_obj \<Rightarrow> (pp_effect, run_result) run" where
  "dependencies_fetched E pf img it =
     (let imgReady = pe_is_true E (rsConditions (roStatus img)) ''Ready'';
          instanceTypeReady = pe_is_true E (rsConditions (roStatus it)) ''Ready''
      in if imgReady \<and> instanceTypeReady then
           (let pf = pp_set_condition E ''Ready'' CondTrue ''Ready'' ''Image and InstanceType are ready'' pf;
                pf = pp_set_condition E ''ResyncRequired'' CondFalse ''NoResyncNeeded''
                       ''No resync needed, dependencies are ready'' pf
            in try_run (call (UpdateProfileStatus pf) (pe_update_status E)) (\<lambda>reply.
                 case reply of
                   Inl err \<Rightarrow> if is_conflict err then pure_run (Inr (After (2 * second))) else pure_run (Inl err)
                 | Inr _ \<Rightarrow> pure_run (Inr (After NormalUpdateThreshold))))
         else
           (let pf = pp_set_condition E ''Ready'' CondFalse ''DependenciesNotReady''
                       ''Image or InstanceType not ready, requeuing'' pf
            in bind_run (ignore (call (UpdateProfileStatus pf) (pe_update_status E))) (\<lambda>_.
                 pure_run (Inr (After RequeuePollThreshold)))))"

definition handlerPlatformCloud :: "pp_env \<Rightarrow> Profile \<Rightarrow> (pp_effect, run_result) run" where
  "handlerPlatformCloud E pf =
     (let img = fetchImageData E pf; it = fetchInstanceTypeData E pf
      in try_run (pp_updateConfigMap E pf (fetched img) (fetched it)) (\<lambda>err3.
           case (img, it, err3) of
             (Inr i, Inr t, Inr _) \<Rightarrow> dependencies_fetched E pf i t
           | _ \<Rightarrow> fetch_failed E pf))"

text \<open>The message of the failure, which repeats the error, is cut to its prefix.\<close>

definition handlerPlatformBareMetal :: "pp_env \<Rightarrow> Profile \<Rightarrow> (pp_effect, run_result) run" where
  "handlerPlatformBareMetal E pf =
     try_run (pp_updateConfigMap E pf None None) (\<lambda>reply.
       case reply of
         Inl err \<Rightarrow>
           bind_run (ignore (call (UpdateProfileStatus
               (pp_set_condition E ''Ready'' CondFalse ''ConfigMapUpdateFailed'' ''Failed to update ConfigMap'' pf))
               (pe_update_status E))) (\<lambda>_. pure_run (Inr (After RequeuePollThreshold)))
       | Inr _ \<Rightarrow>
           bind_run (ignore (call (UpdateProfileStatus
               (pp_set_condition E ''Ready'' CondTrue ''Ready'' ''BareMetal platform, configmap configured.'' pf))
               (pe_update_status E))) (\<lambda>_. pure_run (Inr (After NormalUpdateThreshold))))"

definition profile_delete :: "pp_env \<Rightarrow> Profile \<Rightarrow> (pp_effect, run_result) run" where
  "profile_delete E pf =
     (if pfFinalizer pf then
        bind_run (ignore (cleanUp E pf)) (\<lambda>_.
        bind_run (call (UpdateProfile (pf\<lparr>pfFinalizer := False\<rparr>)) (pe_update E)) (\<lambda>_. pure_run (Inr Stop)))
      else pure_run (Inr Stop))"

text \<open>The image and the instance type of a major cloud.\<close>

definition profile_dependencies :: "pp_env \<Rightarrow> Profile \<Rightarrow> (pp_effect, Profile) run" where
  "profile_dependencies E pf =
     (if is_major_cloud (ppPlatform (pfSpec pf)) then
        bind_run (ensureImages E pf) (\<lambda>img.
        bind_run (ensureInstanceTypes E pf) (\<lambda>instanceType.
          pure_run (Inr (pf\<lparr>pfDependencies :=
            SetDependency (SetDependency (pfDependencies pf) img ''Image'' (pfNs pf))
              instanceType ''InstanceType'' (pfNs pf)\<rparr>))))
      else pure_run (Inr pf))"

text \<open>From the latencies on.\<close>

definition profile_finish :: "pp_env \<Rightarrow> Profile \<Rightarrow> (pp_effect, run_result) run" where
  "profile_finish E pf =
     bind_run (ensureLatencies E pf) (\<lambda>_.
       let pf = ensureEgressCosts pf;
           pf = pf\<lparr>pfObservedGeneration := pfGeneration pf\<rparr>;
           pf = pp_set_condition E ''Ready'' CondFalse ''FreshReconcile''
                  ''Fresh reconcile: ConfigMap and dependencies ensured'' pf
       in bind_run (ignore (call (UpdateProfileStatus pf) (pe_update_status E))) (\<lambda>_.
            let pf = pf\<lparr>pfFinalizer := True\<rparr>
            in bind_run (call (UpdateProfile pf) (pe_update E)) (\<lambda>_. pure_run (Inr (After RequeuePollThreshold)))))"

definition profile_sync :: "pp_env \<Rightarrow> Profile \<Rightarrow> (pp_effect, run_result) run" where
  "profile_sync E pf =
     (let resyncRequired = pp_flag E pf ''ResyncRequired''
      in bind_run (ensureConfigMap E pf) (\<lambda>cm.
         let pf = pf\<lparr>pfDependencies := SetDependency (pfDependencies pf) cm ''ConfigMap'' (pfNs pf)\<rparr>;
             pf = (if resyncRequired then pp_set_condition E ''ResyncRequired'' CondFalse ''NoResyncNeeded''
                     ''Resync not needed, waiting for dependencies to be ready'' pf else pf)
         in bind_run (profile_dependencies E pf) (profile_finish E)))"

definition profile_poll :: "pp_env \<Rightarrow> Profile \<Rightarrow> (pp_effect, run_result) run" where
  "profile_poll E pf =
     (let pf = pf\<lparr>pfStatusPlatform := ppPlatform (pfSpec pf), pfStatusRegion := ppRegion (pfSpec pf),
                 pfStatusZones := ppZones (pfSpec pf)\<rparr>;
          platform = to_lower (ppPlatform (pfSpec pf))
      in if platform \<in> set [''aws'', ''azure'', ''gcp'', ''openstack''] then handlerPlatformCloud E pf
         else if platform = ''baremetal'' then handlerPlatformBareMetal E pf
         else
           (let pf = pp_set_condition E ''Ready'' CondFalse ''CustomPlatform''
                       ''Custom platform detected, no specific handler implemented'' pf
            in bind_run (ignore (call (UpdateProfileStatus pf) (pe_update_status E))) (\<lambda>_.
                 pure_run (Inr (After RequeuePollThreshold)))))"

definition ProviderProfileReconcile :: "pp_env \<Rightarrow> string \<Rightarrow> string \<Rightarrow> (pp_effect, run_result) run" where
  "ProviderProfileReconcile E ns name =
     (case pe_get E ns name of
        Inl err \<Rightarrow> pure_run (if is_not_found err then Inr Stop else Inl err)
      | Inr pf \<Rightarrow>
          let specChanged = (pfGeneration pf \<noteq> pfObservedGeneration pf)
          in if pfDeleting pf then profile_delete E pf
             else if specChanged \<or> pp_flag E pf ''ResyncRequired'' then profile_sync E pf
             else profile_poll E pf)"

section \<open>Lemmas\<close>

definition pe_laws :: "pp_env \<Rightarrow> bool" where
  "pe_laws E \<longleftrightarrow> condition_api (pe_set_cond E) (pe_is_true E)"

lemma pp_flag_set [simp]:
  "pe_laws E \<Longrightarrow> pp_flag E (pp_set_condition E t s r m pf) u = (if u = t then s = CondTrue else pp_flag E pf u)"
  by (simp add: pp_set_condition_def pe_laws_def condition_api.is_true_SetCondition)

lemma pp_set_condition_frame [simp]:
  "pfSpec (pp_set_condition E t s r m pf) = pfSpec pf"
  "pfName (pp_set_condition E t s r m pf) = pfName pf"
  "pfNs (pp_set_condition E t s r m pf) = pfNs pf"
  "pfDeleting (pp_set_condition E t s r m pf) = pfDeleting pf"
  "pfGeneration (pp_set_condition E t s r m pf) = pfGeneration pf"
  "pfObservedGeneration (pp_set_condition E t s r m pf) = pfObservedGeneration pf"
  "pfDependencies (pp_set_condition E t s r m pf) = pfDependencies pf"
  "pfEgressCosts (pp_set_condition E t s r m pf) = pfEgressCosts pf"
  "pfSpecEgressCosts (pp_set_condition E t s r m pf) = pfSpecEgressCosts pf"
  "pfStatusZones (pp_set_condition E t s r m pf) = pfStatusZones pf"
  by (simp_all add: pp_set_condition_def)

text \<open>A write of the status: only these four functions make one.\<close>

fun writes_status :: "pp_effect \<Rightarrow> bool" where
  "writes_status (UpdateProfileStatus pf) = True"
| "writes_status _ = False"

lemma fold_run_calls: "c \<in> set (fst (fold_run f xs)) \<Longrightarrow> \<exists>x\<in>set xs. c \<in> set (fst (f x))"
  by (induction xs) (auto simp: run_simps)

lemma create_named_calls: "fst (create_named msg e reply) = [e]"
  by (simp add: create_named_def split: sum.split)

lemma ensureConfigMap_calls:
  "c \<in> set (fst (ensureConfigMap E pf)) \<Longrightarrow> c = CreateCM ''skycluster-system'' (pfName pf @ ''-'') (cm_labels pf)"
  by (auto simp: ensureConfigMap_def run_simps create_named_calls split: if_splits)

lemma ensureImages_calls:
  "c \<in> set (fst (ensureImages E pf)) \<Longrightarrow> \<exists>o'. c = CreateImage o' \<and> noLabels o' = profile_labels pf \<and> noNamespace o' = pfNs pf"
  by (auto simp: ensureImages_def run_simps create_named_calls Let_def split: if_splits)

lemma ensureInstanceTypes_calls:
  "c \<in> set (fst (ensureInstanceTypes E pf)) \<Longrightarrow>
     \<exists>o'. c = CreateInstanceType o' \<and> noLabels o' = profile_labels pf \<and> noNamespace o' = pfNs pf"
  by (auto simp: ensureInstanceTypes_def run_simps create_named_calls Let_def split: if_splits)

lemma ensureLatency_calls:
  assumes "c \<in> set (fst (ensureLatency E pf other))"
  obtains a b l where "CanonicalPair (platform_region pf) (platform_region other) = (a, b)" "c = CreateLatency l"
    "latency_object (pe_sample E (makeLatencyName a b)) pf other a b = Some l" "pfName other \<noteq> pfName pf"
  using assms
  by (auto simp: ensureLatency_def Let_def split: if_splits prod.splits sum.splits option.splits)

lemma ensureLatencies_calls:
  "c \<in> set (fst (ensureLatencies E pf)) \<Longrightarrow> \<exists>l. c = CreateLatency l"
  by (auto simp: ensureLatencies_def run_simps dest!: fold_run_calls elim!: ensureLatency_calls)

lemma cleanUp_calls:
  "c \<in> set (fst (cleanUp E pf)) \<Longrightarrow> (\<exists>n. c = DeleteObj n) \<or> (\<exists>ls. c = DeleteLatencies (pfNs pf) ls)"
  by (auto simp: cleanUp_def cleanUpConfigMap_def cleanUpImages_def cleanUpInstanceTypes_def cleanUpLatencyData_def
      delete_all_def run_simps Let_def split: if_splits dest!: fold_run_calls)

lemma profile_dependencies_calls:
  "c \<in> set (fst (profile_dependencies E pf)) \<Longrightarrow> (\<exists>o'. c = CreateImage o') \<or> (\<exists>o'. c = CreateInstanceType o')"
  by (auto simp: profile_dependencies_def run_simps split: if_splits
      dest!: ensureImages_calls ensureInstanceTypes_calls)

lemma pp_updateConfigMap_calls:
  "c \<in> set (fst (pp_updateConfigMap E pf img it)) \<Longrightarrow> \<exists>n d. c = UpdateCM n d"
  by (auto simp: pp_updateConfigMap_def run_simps Let_def split: if_splits prod.splits)

lemma HasDependency_set_same [simp]: "HasDependency (SetDependency dm n k ns) n k ns"
  by (induction dm n k ns rule: SetDependency.induct) auto

lemma HasDependency_set_other:
  "HasDependency dm n' k' ns' \<Longrightarrow> k' \<noteq> k \<Longrightarrow> HasDependency (SetDependency dm n k ns) n' k' ns'"
  by (induction dm n k ns rule: SetDependency.induct) auto

lemma ensureEgressCosts_frame [simp]:
  "pfSpec (ensureEgressCosts pf) = pfSpec pf" "pfGeneration (ensureEgressCosts pf) = pfGeneration pf"
  "pfNs (ensureEgressCosts pf) = pfNs pf" "pfDependencies (ensureEgressCosts pf) = pfDependencies pf"
  "pfConditions (ensureEgressCosts pf) = pfConditions pf" "pfDeleting (ensureEgressCosts pf) = pfDeleting pf"
  by (simp_all add: ensureEgressCosts_def Let_def)

lemma ensureEgressCosts_some: "pfEgressCosts (ensureEgressCosts pf) \<noteq> []"
  by (simp add: ensureEgressCosts_def Let_def)

lemma profile_dependencies_result:
  assumes "snd (profile_dependencies E pf) = Inr pf'"
  obtains deps where "pf' = pf\<lparr>pfDependencies := deps\<rparr>"
    "\<forall>n ns. HasDependency (pfDependencies pf) n ''ConfigMap'' ns \<longrightarrow> HasDependency deps n ''ConfigMap'' ns"
    "is_major_cloud (ppPlatform (pfSpec pf)) \<longrightarrow> (\<exists>img it. snd (ensureImages E pf) = Inr img
       \<and> snd (ensureInstanceTypes E pf) = Inr it \<and> HasDependency deps img ''Image'' (pfNs pf)
       \<and> HasDependency deps it ''InstanceType'' (pfNs pf))"
proof (cases "is_major_cloud (ppPlatform (pfSpec pf))")
  case True
  with assms obtain img it where r: "snd (ensureImages E pf) = Inr img" "snd (ensureInstanceTypes E pf) = Inr it"
      "pf' = pf\<lparr>pfDependencies := SetDependency (SetDependency (pfDependencies pf) img ''Image'' (pfNs pf)) it ''InstanceType'' (pfNs pf)\<rparr>"
    by (auto simp: profile_dependencies_def bind_run_Inr)
  show ?thesis
    by (rule that [OF r(3)]) (auto simp: r HasDependency_set_other)
next
  case False
  with assms have "pf' = pf" by (simp add: profile_dependencies_def)
  then show ?thesis by (intro that [of "pfDependencies pf"]) (simp_all add: False)
qed

text \<open>A run of the synchronising branch that ends well: the status it writes, then the object.\<close>

lemma profile_sync_result:
  assumes "pe_laws E" and "profile_sync E pf = (es, Inr res)"
  obtains pf' cm es' where "es = es' @ [UpdateProfileStatus pf', UpdateProfile (pf'\<lparr>pfFinalizer := True\<rparr>)]"
    "\<forall>c\<in>set es'. \<not> writes_status c" "res = After RequeuePollThreshold"
    "snd (ensureConfigMap E pf) = Inr cm" "HasDependency (pfDependencies pf') cm ''ConfigMap'' (pfNs pf)"
    "pfObservedGeneration pf' = pfGeneration pf" "pfGeneration pf' = pfGeneration pf"
    "\<not> pp_flag E pf' ''Ready''" "\<not> pp_flag E pf' ''ResyncRequired''"
    "pfEgressCosts pf' \<noteq> []" "pfSpec pf' = pfSpec pf" "pfDeleting pf' = pfDeleting pf"
    "is_major_cloud (ppPlatform (pfSpec pf)) \<longrightarrow> (\<exists>img it. HasDependency (pfDependencies pf') img ''Image'' (pfNs pf)
       \<and> HasDependency (pfDependencies pf') it ''InstanceType'' (pfNs pf))"
proof -
  obtain es1 cm rest where cm: "ensureConfigMap E pf = (es1, Inr cm)" and es_rest: "es = es1 @ rest"
    and r1: "(let pf = pf\<lparr>pfDependencies := SetDependency (pfDependencies pf) cm ''ConfigMap'' (pfNs pf)\<rparr>;
             pf = (if pp_flag E p ''ResyncRequired'' then pp_set_condition E ''ResyncRequired'' CondFalse ''NoResyncNeeded''
                     ''Resync not needed, waiting for dependencies to be ready'' pf else pf)
         in bind_run (profile_dependencies E pf) (profile_finish E)) = (rest, Inr res)" if "p = pf" for p
    using assms(2) unfolding profile_sync_def Let_def bind_run_pair by blast
  define p0 where "p0 = pf\<lparr>pfDependencies := SetDependency (pfDependencies pf) cm ''ConfigMap'' (pfNs pf)\<rparr>"
  define p1 where "p1 = (if pp_flag E pf ''ResyncRequired'' then pp_set_condition E ''ResyncRequired'' CondFalse ''NoResyncNeeded''
                     ''Resync not needed, waiting for dependencies to be ready'' p0 else p0)"
  have "bind_run (profile_dependencies E p1) (profile_finish E) = (rest, Inr res)"
    using r1 [OF refl] unfolding Let_def p1_def p0_def .
  then obtain es2 p2 es3 where p2: "profile_dependencies E p1 = (es2, Inr p2)" and fin: "profile_finish E p2 = (es3, Inr res)"
    and rest: "rest = es2 @ es3" unfolding bind_run_pair by blast
  define p3 where "p3 = pp_set_condition E ''Ready'' CondFalse ''FreshReconcile''
      ''Fresh reconcile: ConfigMap and dependencies ensured''
      ((ensureEgressCosts p2)\<lparr>pfObservedGeneration := pfGeneration (ensureEgressCosts p2)\<rparr>)"
  obtain es4 where lat: "ensureLatencies E p2 = (es4, Inr ())" and res: "res = After RequeuePollThreshold"
    and es3: "es3 = es4 @ [UpdateProfileStatus p3, UpdateProfile (p3\<lparr>pfFinalizer := True\<rparr>)]"
    using fin by (auto simp: profile_finish_def bind_run_pair Let_def p3_def pure_run_def call_def ignore_def)
  obtain deps where d: "p2 = p1\<lparr>pfDependencies := deps\<rparr>"
      "\<forall>n ns. HasDependency (pfDependencies p1) n ''ConfigMap'' ns \<longrightarrow> HasDependency deps n ''ConfigMap'' ns"
      "is_major_cloud (ppPlatform (pfSpec p1)) \<longrightarrow> (\<exists>img it. snd (ensureImages E p1) = Inr img
       \<and> snd (ensureInstanceTypes E p1) = Inr it \<and> HasDependency deps img ''Image'' (pfNs p1)
       \<and> HasDependency deps it ''InstanceType'' (pfNs p1))"
    by (rule profile_dependencies_result [of E p1 p2]) (simp add: p2)
  have es: "es = (es1 @ es2 @ es4) @ [UpdateProfileStatus p3, UpdateProfile (p3\<lparr>pfFinalizer := True\<rparr>)]"
    by (simp add: es_rest rest es3)
  have p1: "pfSpec p1 = pfSpec pf" "pfNs p1 = pfNs pf" "pfGeneration p1 = pfGeneration pf" "pfDeleting p1 = pfDeleting pf"
      "HasDependency (pfDependencies p1) cm ''ConfigMap'' (pfNs pf)" "\<not> pp_flag E p1 ''ResyncRequired''"
    using assms(1) by (auto simp: p1_def p0_def)
  have calls: "\<forall>c\<in>set (es1 @ es2 @ es4). \<not> writes_status c"
    using ensureConfigMap_calls [of _ E pf] profile_dependencies_calls [of _ E p1] ensureLatencies_calls [of _ E p2]
    by (fastforce simp: cm p2 lat)
  have cm': "snd (ensureConfigMap E pf) = Inr cm" by (simp add: cm)
  show ?thesis
  proof (rule that [OF es calls res cm'])
    show "HasDependency (pfDependencies p3) cm ''ConfigMap'' (pfNs pf)" using d(1,2) p1 by (simp add: p3_def)
    show "is_major_cloud (ppPlatform (pfSpec pf)) \<longrightarrow> (\<exists>img it. HasDependency (pfDependencies p3) img ''Image'' (pfNs pf)
       \<and> HasDependency (pfDependencies p3) it ''InstanceType'' (pfNs pf))"
      using d p1 by (auto simp: p3_def)
    show "\<not> pp_flag E p3 ''ResyncRequired''" using p1 assms(1) by (simp add: p3_def d(1))
  qed (use assms(1) p1 in \<open>simp_all add: p3_def d(1) ensureEgressCosts_some\<close>)
qed

lemma fetched_simps [simp]: "fetched (Inl e) = None" "fetched (Inr x) = Some x"
  by (simp_all add: fetched_def)

text \<open>The four ends of the handler of a cloud platform, by what was fetched and whether both are ready.\<close>

lemma handlerPlatformCloud_status:
  assumes "UpdateProfileStatus pf' \<in> set (fst (handlerPlatformCloud E pf))"
  obtains (failed) "UpdateProfileStatus pf' \<in> set (fst (fetch_failed E pf))"
      "(\<exists>e. fetchImageData E pf = Inl e) \<or> (\<exists>e. fetchInstanceTypeData E pf = Inl e)
        \<or> (\<exists>e. snd (pp_updateConfigMap E pf (fetched (fetchImageData E pf)) (fetched (fetchInstanceTypeData E pf))) = Inl e)"
  | (collected) img it where "fetchImageData E pf = Inr img" "fetchInstanceTypeData E pf = Inr it"
      "snd (pp_updateConfigMap E pf (Some img) (Some it)) = Inr ()"
      "UpdateProfileStatus pf' \<in> set (fst (dependencies_fetched E pf img it))"
proof -
  have no: "UpdateProfileStatus pf' \<notin> set (fst (pp_updateConfigMap E pf a b))" for a b
    using pp_updateConfigMap_calls by blast
  show ?thesis
    using assms no that
    by (cases "fetchImageData E pf"; cases "fetchInstanceTypeData E pf";
        cases "snd (pp_updateConfigMap E pf (fetched (fetchImageData E pf)) (fetched (fetchInstanceTypeData E pf)))")
      (auto simp: handlerPlatformCloud_def Let_def)
qed

section \<open>Properties\<close>

text \<open>C7: a reconciliation that synchronises a profile and ends well writes the status once and then the
  object with its finalizer. The status observes the generation and asks for no more
  synchronisation, so that the object it leaves is polled next, it is not ready, has egress costs,
  and names the config map and, for a major cloud, an image and an instance type among its
  dependencies.\<close>

theorem profile_sync_registers:
  assumes "pe_laws E" and "pe_get E ns name = Inr pf" and "\<not> pfDeleting pf"
    and "pfGeneration pf \<noteq> pfObservedGeneration pf \<or> pp_flag E pf ''ResyncRequired''"
    and "ProviderProfileReconcile E ns name = (es, Inr res)"
  shows "\<exists>new cm. filter writes_status es = [UpdateProfileStatus new]
    \<and> last es = UpdateProfile (new\<lparr>pfFinalizer := True\<rparr>) \<and> res = After RequeuePollThreshold
    \<and> (\<forall>E'. pe_get E' ns name = Inr new \<and> pe_is_true E' = pe_is_true E
          \<longrightarrow> ProviderProfileReconcile E' ns name = profile_poll E' new)
    \<and> \<not> pp_flag E new ''Ready'' \<and> pfEgressCosts new \<noteq> []
    \<and> snd (ensureConfigMap E pf) = Inr cm \<and> HasDependency (pfDependencies new) cm ''ConfigMap'' (pfNs pf)
    \<and> (is_major_cloud (ppPlatform (pfSpec pf)) \<longrightarrow>
        (\<exists>img it. HasDependency (pfDependencies new) img ''Image'' (pfNs pf)
          \<and> HasDependency (pfDependencies new) it ''InstanceType'' (pfNs pf)))"
proof -
  have "profile_sync E pf = (es, Inr res)" using assms by (simp add: ProviderProfileReconcile_def Let_def)
  with assms(1) show ?thesis
  proof (cases rule: profile_sync_result)
    case (1 new cm es')
    have "filter writes_status es = [UpdateProfileStatus new]" "last es = UpdateProfile (new\<lparr>pfFinalizer := True\<rparr>)"
      using 1(1,2) by (simp_all add: filter_empty_conv)
    with 1 assms(3) show ?thesis
      by (intro exI [of _ new] exI [of _ cm]) (simp add: ProviderProfileReconcile_def Let_def)
  qed
qed

lemma profile_delete_no_status: "UpdateProfileStatus new \<notin> set (fst (profile_delete E pf))"
  using cleanUp_calls by (auto simp: profile_delete_def run_simps)

lemma profile_sync_not_ready:
  assumes "pe_laws E" and "pp_flag E new ''Ready''"
  shows "UpdateProfileStatus new \<notin> set (fst (profile_sync E pf))"
  using assms
  by (auto simp: profile_sync_def profile_finish_def run_simps Let_def
      dest!: ensureConfigMap_calls profile_dependencies_calls ensureLatencies_calls)


lemma profile_labels_zone: "mget (profile_labels pf) ''skycluster.io/provider-zone'' = None"
  by (simp add: profile_labels_def DefaultLabels_def massign_def mget_mput Let_def)
    (simp add: mget_def)

lemma DefaultLabels_zone: "z \<noteq> [] \<Longrightarrow> (''skycluster.io/provider-zone'', z) \<in> set (DefaultLabels p r z)"
  by (simp add: DefaultLabels_def massign_def mput_def Let_def)

lemma wf_DefaultLabels: "wf_map (DefaultLabels p r z)"
  unfolding DefaultLabels_def Let_def by (intro wf_map_massign) (simp add: wf_map_def)

lemma wf_cm_labels: "wf_map (cm_labels pf)"
  by (simp add: cm_labels_def profile_labels_def wf_DefaultLabels)

text \<open>A poll writes the status and the config map only.\<close>

fun poll_call :: "pp_effect \<Rightarrow> bool" where
  "poll_call (UpdateProfileStatus pf) = True"
| "poll_call (UpdateCM n d) = True"
| "poll_call _ = False"

lemma fetch_failed_calls: "c \<in> set (fst (fetch_failed E pf)) \<Longrightarrow> poll_call c"
  by (auto simp: fetch_failed_def Let_def run_simps)

lemma dependencies_fetched_calls: "c \<in> set (fst (dependencies_fetched E pf img it)) \<Longrightarrow> poll_call c"
  by (auto simp: dependencies_fetched_def Let_def run_simps split: if_splits sum.splits)

lemma handlerPlatformCloud_calls:
  assumes "c \<in> set (fst (handlerPlatformCloud E pf))"
  shows "poll_call c"
proof -
  have cm: "poll_call c" if "c \<in> set (fst (pp_updateConfigMap E pf a b))" for a b
    using pp_updateConfigMap_calls [OF that] by auto
  show ?thesis
    using assms cm fetch_failed_calls [of c E pf] dependencies_fetched_calls [of c E pf]
    by (auto simp: handlerPlatformCloud_def Let_def split: sum.splits)
qed

lemma profile_poll_calls: "c \<in> set (fst (profile_poll E pf)) \<Longrightarrow> poll_call c"
  using handlerPlatformCloud_calls
  by (fastforce simp: profile_poll_def handlerPlatformBareMetal_def pp_updateConfigMap_def Let_def run_simps split: if_splits)

text \<open>C32: a poll of a profile whose image or instance type is not listed, or whose config map is not
  updated, writes it not ready. For a major cloud it asks for synchronisation, and the next
  reconciliation of what it wrote makes the missing objects again; for OpenStack it does not, and
  the profile keeps being polled.\<close>

theorem profile_lost_dependency:
  assumes "pe_laws E" and "\<not> pfDeleting pf" and "pfGeneration pf = pfObservedGeneration pf"
    and "\<not> pp_flag E pf ''ResyncRequired''" and "to_lower (ppPlatform (pfSpec pf)) \<in> {''aws'', ''azure'', ''gcp'', ''openstack''}"
    and "(\<exists>e. fetchImageData E pf = Inl e) \<or> (\<exists>e. fetchInstanceTypeData E pf = Inl e)"
    and "pe_get E ns name = Inr pf"
  shows "\<exists>new. filter writes_status (fst (ProviderProfileReconcile E ns name)) = [UpdateProfileStatus new]
    \<and> \<not> pp_flag E new ''Ready'' \<and> pfSpec new = pfSpec pf
    \<and> (\<forall>E'. pe_get E' ns name = Inr new \<and> pe_is_true E' = pe_is_true E
        \<longrightarrow> ProviderProfileReconcile E' ns name =
              (if is_major_cloud (ppPlatform (pfSpec pf)) then profile_sync E' new else profile_poll E' new))"
proof -
  define p0 where "p0 = pf\<lparr>pfStatusPlatform := ppPlatform (pfSpec pf), pfStatusRegion := ppRegion (pfSpec pf),
                 pfStatusZones := ppZones (pfSpec pf)\<rparr>"
  have p0: "pfSpec p0 = pfSpec pf" "pfGeneration p0 = pfObservedGeneration p0" "\<not> pfDeleting p0"
    "\<not> pp_flag E p0 ''ResyncRequired''" using assms by (simp_all add: p0_def)
  have same: "fetchImageData E p0 = fetchImageData E pf" "fetchInstanceTypeData E p0 = fetchInstanceTypeData E pf"
    by (simp_all add: fetchImageData_def fetchInstanceTypeData_def profile_labels_def p0_def)
  have "ProviderProfileReconcile E ns name = handlerPlatformCloud E p0"
    using assms by (auto simp: ProviderProfileReconcile_def profile_poll_def Let_def p0_def)
  also have "\<dots> = try_run (pp_updateConfigMap E p0 (fetched (fetchImageData E p0)) (fetched (fetchInstanceTypeData E p0)))
      (\<lambda>_. fetch_failed E p0)"
    using assms(6) unfolding same
    by (cases "fetchImageData E pf"; cases "fetchInstanceTypeData E pf") (simp_all add: handlerPlatformCloud_def same)
  finally have run: "ProviderProfileReconcile E ns name = \<dots>" .
  have none: "filter writes_status (fst (pp_updateConfigMap E p0 a b)) = []" for a b
    using pp_updateConfigMap_calls [of _ E p0 a b] by (fastforce simp: filter_empty_conv)
  define p1 where "p1 = pp_set_condition E ''Ready'' CondFalse ''DependencyFetchUpdateFailed''
      ''Failed to fetch dependencies, [ResynceRequired]'' p0"
  define new where "new = (if \<not> is_major_cloud (ppPlatform (pfSpec p1))
                then pp_set_condition E ''ResyncRequired'' CondFalse ''NoResyncNeeded''
                       ''Resync not needed, waiting for dependencies to be ready'' p1
                else pp_set_condition E ''ResyncRequired'' CondTrue ''DependencyFetchUpdateFailed''
                       ''Failed to fetch dependencies, [ResynceRequired]'' p1)"
  have "fst (fetch_failed E p0) = [UpdateProfileStatus new]"
    unfolding fetch_failed_def Let_def fst_bind_run new_def p1_def by (simp split: sum.split)
  then have "filter writes_status (fst (ProviderProfileReconcile E ns name)) = [UpdateProfileStatus new]"
    by (simp add: run none)
  moreover have "pp_flag E new ''ResyncRequired'' = is_major_cloud (ppPlatform (pfSpec pf))" "\<not> pp_flag E new ''Ready''"
    "pfSpec new = pfSpec pf" "pfGeneration new = pfObservedGeneration new" "\<not> pfDeleting new"
    using assms(1) p0 by (simp_all add: new_def p1_def)
  ultimately show ?thesis
    by (intro exI [of _ new]) (simp add: ProviderProfileReconcile_def Let_def)
qed

text \<open>The labels by which a deleted profile looks for its images and instance types name a zone, and no
  image or instance type is made with that label, so a selection by labels gives none of them; the
  config map is looked for with the labels it was made with.\<close>

theorem profile_cleanup_selection:
  "(CreateImage img \<in> set (fst (ProviderProfileReconcile E ns name))
      \<longrightarrow> \<not> HasAllLabelsAndValue (noLabels img) (DefaultLabels p r ''images''))
   \<and> (CreateInstanceType it \<in> set (fst (ProviderProfileReconcile E ns name))
      \<longrightarrow> \<not> HasAllLabelsAndValue (noLabels it) (DefaultLabels p r ''instance-types''))
   \<and> (pe_get E ns name = Inr pf \<and> CreateCM cns gen ll \<in> set (fst (ProviderProfileReconcile E ns name))
      \<longrightarrow> HasAllLabelsAndValue ll (cm_labels pf) \<and> cns = ''skycluster-system'')"
proof -
  have no: "\<not> HasAllLabelsAndValue (profile_labels q) (DefaultLabels p r z)" if "z \<noteq> []" for q :: Profile and z
    using DefaultLabels_zone [OF that, of p r] profile_labels_zone [of q] by (force simp: HasAllLabelsAndValue_iff)
  have poll: "poll_call c" if "c \<in> set (fst (profile_poll E q))" for q c
    using that by (rule profile_poll_calls)
  have del: "\<exists>pf'. c = UpdateProfile pf' \<or> (\<exists>n. c = DeleteObj n) \<or> (\<exists>n ls. c = DeleteLatencies n ls)"
    if "c \<in> set (fst (profile_delete E q))" for q c
    using that cleanUp_calls [of c E q] by (auto simp: profile_delete_def run_simps split: if_splits)
  have sync: "(\<exists>o'. c = CreateImage o' \<and> (\<exists>q'. noLabels o' = profile_labels (q' :: Profile)))
      \<or> (\<exists>o'. c = CreateInstanceType o' \<and> (\<exists>q'. noLabels o' = profile_labels (q' :: Profile)))
      \<or> c = CreateCM ''skycluster-system'' (pfName q @ ''-'') (cm_labels q)
      \<or> (\<exists>l. c = CreateLatency l) \<or> (\<exists>p'. c = UpdateProfileStatus p' \<or> c = UpdateProfile p')"
    if "c \<in> set (fst (profile_sync E q))" for q c
    using that
    by (auto simp: profile_sync_def profile_finish_def profile_dependencies_def Let_def run_simps split: if_splits
      dest!: ensureConfigMap_calls ensureImages_calls ensureInstanceTypes_calls ensureLatencies_calls)
  have all: "HasAllLabelsAndValue (cm_labels pf) (cm_labels pf)"
    using mget_wf [OF wf_cm_labels [of pf]] by (auto simp: HasAllLabelsAndValue_iff)
  let ?es = "set (fst (ProviderProfileReconcile E ns name))"
  have part: "\<exists>q. pe_get E ns name = Inr q \<and> c \<in> set (fst (profile_sync E q))"
    if "c \<in> ?es" "\<not> poll_call c" "\<forall>pf'. c \<noteq> UpdateProfile pf'" "\<forall>n. c \<noteq> DeleteObj n" "\<forall>n ls. c \<noteq> DeleteLatencies n ls" for c
    using that by (auto simp: ProviderProfileReconcile_def Let_def split: sum.splits if_splits dest: poll del)
  have 1: "\<not> HasAllLabelsAndValue (noLabels img) (DefaultLabels p r ''images'')" if "CreateImage img \<in> ?es"
  proof -
    from part [OF that] sync [of "CreateImage img"] obtain q' :: Profile where "noLabels img = profile_labels q'" by auto
    with no [of "''images''" q'] show ?thesis by simp
  qed
  have 2: "\<not> HasAllLabelsAndValue (noLabels it) (DefaultLabels p r ''instance-types'')" if "CreateInstanceType it \<in> ?es"
  proof -
    from part [OF that] sync [of "CreateInstanceType it"] obtain q' :: Profile where "noLabels it = profile_labels q'" by auto
    with no [of "''instance-types''" q'] show ?thesis by simp
  qed
  have 3: "HasAllLabelsAndValue ll (cm_labels pf) \<and> cns = ''skycluster-system''"
    if "pe_get E ns name = Inr pf" "CreateCM cns gen ll \<in> ?es"
    using part [OF that(2)] sync [of "CreateCM cns gen ll" pf] that(1) all by auto
  show ?thesis using 1 2 3 by blast
qed

text \<open>An image or an instance type is made exactly when none that carries the labels is listed or the
  first one listed has another spec, and one that is listed is never changed: a changed spec
  leaves the old object in place beside the new one. For a provider without zones the spec never
  equals the one read back, so every synchronisation makes another instance type.\<close>

theorem ensure_objects_reuse:
  "fst (ensureImages E pf) =
     (case pe_images E (pfNs pf) (profile_labels pf) of
        Inr imgs \<Rightarrow>
          if pe_owner E \<noteq> Inr () \<or> imgs \<noteq> [] \<and> roProviderRef (hd imgs) = pfName pf \<and> roOfferings (hd imgs) = image_defaults
          then [] else [CreateImage \<lparr>noNamespace = pfNs pf, noGenerateName = pfName pf @ ''-'', noLabels = profile_labels pf,
                                     noProviderRef = pfName pf, noOfferings = image_defaults\<rparr>]
      | Inl _ \<Rightarrow> [])
   \<and> (pe_instance_types E (pfNs pf) (profile_labels pf) = Inr its \<and> pe_owner E = Inr () \<longrightarrow>
       (\<exists>it. fst (ensureInstanceTypes E pf) =
         (if its \<noteq> [] \<and> roProviderRef (hd its) = pfName pf
             \<and> deep_equal_list (roOfferings (hd its)) (getTypeFamilies (ppPlatform (pfSpec pf)) (ppZones (pfSpec pf)))
          then [] else [CreateInstanceType it])))
   \<and> (pe_instance_types E (pfNs pf) (profile_labels pf) = Inr its \<and> pe_owner E = Inr ()
       \<and> ppZones (pfSpec pf) = [] \<and> ppPlatform (pfSpec pf) \<in> {''aws'', ''azure'', ''gcp''} \<longrightarrow>
       fst (ensureInstanceTypes E pf) \<noteq> [])"
proof -
  have 1: "fst (ensureImages E pf) =
     (case pe_images E (pfNs pf) (profile_labels pf) of
        Inr imgs \<Rightarrow>
          if pe_owner E \<noteq> Inr () \<or> imgs \<noteq> [] \<and> roProviderRef (hd imgs) = pfName pf \<and> roOfferings (hd imgs) = image_defaults
          then [] else [CreateImage \<lparr>noNamespace = pfNs pf, noGenerateName = pfName pf @ ''-'', noLabels = profile_labels pf,
                                     noProviderRef = pfName pf, noOfferings = image_defaults\<rparr>]
      | Inl _ \<Rightarrow> [])"
    by (cases "pe_owner E") (auto simp: ensureImages_def Let_def fst_bind_run create_named_calls split: sum.split)
  have 2: "\<exists>it. fst (ensureInstanceTypes E pf) =
         (if its \<noteq> [] \<and> roProviderRef (hd its) = pfName pf
             \<and> deep_equal_list (roOfferings (hd its)) (getTypeFamilies (ppPlatform (pfSpec pf)) (ppZones (pfSpec pf)))
          then [] else [CreateInstanceType it])"
    if "pe_instance_types E (pfNs pf) (profile_labels pf) = Inr its \<and> pe_owner E = Inr ()"
    using that by (auto simp: ensureInstanceTypes_def Let_def fst_bind_run create_named_calls)
  have 3: "\<not> deep_equal_list xs (getTypeFamilies p [])" if "p \<in> {''aws'', ''azure'', ''gcp''}" for xs p
    using that by (auto simp: deep_equal_list_def getTypeFamilies_def)
  have 4: "fst (ensureInstanceTypes E pf) \<noteq> []"
    if "pe_instance_types E (pfNs pf) (profile_labels pf) = Inr its \<and> pe_owner E = Inr ()"
      "ppZones (pfSpec pf) = []" "ppPlatform (pfSpec pf) \<in> {''aws'', ''azure'', ''gcp''}"
    using 2 [OF that(1)] 3 [OF that(3)] by (auto simp: that(2))
  show ?thesis using 1 2 4 by (intro conjI impI) (simp_all only: simp_thms)
qed

lemma created_latency:
  assumes "CreateLatency l \<in> set (fst (ensureLatencies E pf))"
  shows "\<exists>items other. pe_profiles E (pfNs pf) = Inr items \<and> other \<in> set items \<and> pfName other \<noteq> pfName pf
    \<and> (\<exists>e. pe_get_latency E (pfNs pf) (nlName l) = Inl e \<and> is_not_found e)
    \<and> (\<forall>pf' E'. platform_region pf' = platform_region other \<and> pfNs pf' = pfNs pf \<and> pe_get_latency E' (pfNs pf) (nlName l) = Inr ()
         \<longrightarrow> ensureLatency E' pf' (ProviderProfile.truncate pf) = pure_run (Inr ()))
    \<and> mstr (nlLabels l) ''skycluster.io/provider-pair'' = pair_label (ProviderProfile.truncate pf) other
    \<and> mstr (nlLabels l) ''skycluster.io/provider-pair'' = pair_label other (ProviderProfile.truncate pf)
    \<and> {nlProviderRefA l, nlProviderRefB l} = {platform_region pf, platform_region other}"
proof -
  from assms obtain items other where items: "pe_profiles E (pfNs pf) = Inr items" "other \<in> set items"
      and c: "CreateLatency l \<in> set (fst (ensureLatency E pf other))"
    by (auto simp: ensureLatencies_def run_simps dest!: fold_run_calls)
  from c obtain a b where ab: "CanonicalPair (platform_region pf) (platform_region other) = (a, b)"
      and l: "latency_object (pe_sample E (makeLatencyName a b)) pf other a b = Some l" and ne: "pfName other \<noteq> pfName pf"
    by (auto elim!: ensureLatency_calls)
  have parts: "nlName l = makeLatencyName a b" "nlProviderRefA l = a" "nlProviderRefB l = b"
    "mstr (nlLabels l) ''skycluster.io/provider-pair'' = SanitizeName a @ ''-'' @ SanitizeName b"
    using l by (auto simp: latency_object_def mstr_def mget_def split: option.splits sum.splits)
  have nf: "\<exists>e. pe_get_latency E (pfNs pf) (nlName l) = Inl e \<and> is_not_found e"
    using c ab by (auto simp: ensureLatency_def parts Let_def split: if_splits sum.splits)
  have trunc: "platform_region (ProviderProfile.truncate pf) = platform_region pf" "pfSpec (ProviderProfile.truncate pf) = pfSpec pf"
    by (simp_all add: platform_region_def ProviderProfile.truncate_def)
  have "pair_label (ProviderProfile.truncate pf) other = SanitizeName a @ ''-'' @ SanitizeName b"
    using ab by (simp add: pair_label_def platform_region_def trunc)
  moreover have "ensureLatency E' pf' (ProviderProfile.truncate pf) = pure_run (Inr ())"
    if "platform_region pf' = platform_region other" "pfNs pf' = pfNs pf" "pe_get_latency E' (pfNs pf) (nlName l) = Inr ()" for pf' E'
    using that ab CanonicalPair_sym [of "platform_region pf" "platform_region other"]
    by (simp add: ensureLatency_def trunc parts)
  moreover have "{a, b} = {platform_region pf, platform_region other}"
    using ab by (auto simp: CanonicalPair_def Let_def split: if_splits)
  ultimately show ?thesis
    using items ne nf parts pair_label_sym by (intro exI [of _ items] exI [of _ other]) auto
qed

text \<open>A latency is made for a pair of a profile and another one listed, only when none of its name
  exists; the name is the same whichever of the two makes it, and its label is the one the optimiser
  looks for, in either order. It names the places of the two providers in order.\<close>

theorem ensureLatencies_pairs:
  assumes "CreateLatency l \<in> set (fst (ensureLatencies E pf))"
  shows "\<exists>items other. pe_profiles E (pfNs pf) = Inr items \<and> other \<in> set items \<and> pfName other \<noteq> pfName pf
    \<and> (\<exists>e. pe_get_latency E (pfNs pf) (nlName l) = Inl e \<and> is_not_found e)
    \<and> (\<forall>pf' E'. platform_region pf' = platform_region other \<and> pfNs pf' = pfNs pf \<and> pe_get_latency E' (pfNs pf) (nlName l) = Inr ()
         \<longrightarrow> ensureLatency E' pf' (ProviderProfile.truncate pf) = pure_run (Inr ()))
    \<and> mstr (nlLabels l) ''skycluster.io/provider-pair'' = pair_label (ProviderProfile.truncate pf) other
    \<and> mstr (nlLabels l) ''skycluster.io/provider-pair'' = pair_label other (ProviderProfile.truncate pf)
    \<and> {nlProviderRefA l, nlProviderRefB l} = {platform_region pf, platform_region other}"
  using assms by (rule created_latency)

text \<open>A number printed with two decimals and parsed again.\<close>

lemma digit_class [simp]: "is_digit (digit_char (n mod 10))" "\<not> is_digit (CHR ''.'')"
  by (simp add: is_digit_char, simp add: is_digit_def less_eq_char_def)

lemma scan_two_decimals:
  "scan_decimal (nat_dec (n div 100) @ ''.'' @ [digit_char (n mod 100 div 10), digit_char (n mod 10)]) = Some (of_nat n / 100)"
proof -
  have d: "n mod 100 div 10 = n div 10 mod 10" using mod_mult2_eq [of n 10 10] by simp
  have h: "(10 * (10 * (n div 100) + n div 10 mod 10) + n mod 10) = n"
    using div_mult2_eq [of n 10 10] by (simp add: algebra_simps)
  have v: "dec_nat (nat_dec (n div 100) @ [digit_char (n div 10 mod 10), digit_char (n mod 10)]) = n"
    using h dec_nat_snoc [of "nat_dec (n div 100) @ [digit_char (n div 10 mod 10)]" "digit_char (n mod 10)"]
    by (simp add: dec_nat_snoc digit_val_char dec_nat_nat_dec)
  have s: "takeWhile is_digit (nat_dec (n div 100) @ CHR ''.'' # r) = nat_dec (n div 100)"
    "dropWhile is_digit (nat_dec (n div 100) @ CHR ''.'' # r) = CHR ''.'' # r" for r
    by (simp_all add: nat_dec_scan)
  show ?thesis unfolding d by (simp add: scan_decimal_def span_def s scan_exp_def v)
qed

lemma parse_fmt_2f:
  assumes "1 \<le> x" and "x \<le> 1000000"
  shows "\<exists>y. parse_float (fmt_2f (Fin x)) = Inr (Fin y) \<and> \<bar>y - x\<bar> \<le> 1 / 100"
proof -
  define m where "m = half_even (\<bar>x\<bar> * 100)"
  have err: "\<bar>of_int m - x * 100\<bar> \<le> 1 / 2" using half_even_error [of "\<bar>x\<bar> * 100"] assms(1) by (simp add: m_def)
  have "(100 :: rat) \<le> of_int m + 1 / 2" using abs_le_D2 [OF err] assms(1) by linarith
  then have "(99 :: rat) < of_int m" by linarith
  then have m: "100 \<le> m" by linarith
  define n where "n = nat m"
  have n: "(of_nat n :: rat) = of_int m" using m by (simp add: n_def)
  have doc: "fmt_2f (Fin x) = nat_dec (n div 100) @ ''.'' @ [digit_char (n mod 100 div 10), digit_char (n mod 10)]"
    using assms(1) by (simp add: fmt_2f_def Let_def n_def m_def)
  have big: "of_int m \<le> (100000001 :: rat)" using abs_le_D1 [OF err] assms(2) by linarith
  have q: "1 \<le> of_nat n / (100 :: rat)" "of_nat n / (100 :: rat) < 2 ^ 1023"
  proof -
    show "1 \<le> of_nat n / (100 :: rat)" using m by (simp add: n)
    have "of_nat n / (100 :: rat) \<le> 1000001" using big by (simp add: n)
    also have "\<dots> < 2 ^ 1023" by simp
    finally show "of_nat n / (100 :: rat) < 2 ^ 1023" .
  qed
  from round64_error [OF q] obtain y where y: "round64 (of_nat n / 100) = Fin y" "\<bar>y - of_nat n / 100\<bar> \<le> of_nat n / 100 / 2 ^ 53"
    by blast
  have c: "is_digit (hd (fmt_2f (Fin x)))" "fmt_2f (Fin x) \<noteq> []"
    using nat_dec_hd nat_dec_not_Nil by (simp_all add: doc)
  then obtain h t where ht: "fmt_2f (Fin x) = h # t" "is_digit h" by (cases "fmt_2f (Fin x)") auto
  then have no: "to_lower (fmt_2f (Fin x)) \<notin> {''inf'', ''infinity''}" "to_lower (fmt_2f (Fin x)) \<noteq> ''nan''"
    using digit_not_letter [of h] by (auto simp: to_lower_def)
  have sign: "strip_sign (fmt_2f (Fin x)) = (False, fmt_2f (Fin x))"
    using ht not_digit_sign by (auto simp: strip_sign_def)
  have "parse_float (fmt_2f (Fin x)) = Inr (Fin y)"
    using no scan_two_decimals [of n] y(1) by (simp add: parse_float_def sign) (simp add: doc)
  moreover have "\<bar>y - x\<bar> \<le> 1 / 100"
  proof -
    have "of_nat n / 100 / 2 ^ 53 \<le> (1000001 :: rat) / 2 ^ 53" using big by (simp add: n divide_right_mono)
    also have "\<dots> \<le> 1 / 1000" by simp
    finally have a: "\<bar>y - of_nat n / 100\<bar> \<le> 1 / 1000" using y(2) by linarith
    have b: "\<bar>of_nat n / 100 - x\<bar> \<le> 1 / 200" using err by (simp add: n abs_le_iff field_simps)
    have "\<bar>y - x\<bar> \<le> \<bar>y - of_nat n / 100\<bar> + \<bar>of_nat n / 100 - x\<bar>"
      using abs_triangle_ineq [of "y - of_nat n / 100" "of_nat n / 100 - x"] by simp
    also have "\<dots> \<le> 1 / 1000 + 1 / 200" using a b by (rule add_mono)
    finally show ?thesis by simp
  qed
  ultimately show ?thesis by blast
qed

text \<open>A decimal between 0 and 1 is a finite number.\<close>

lemma round64_small:
  assumes "0 \<le> x" and "x \<le> 1"
  shows "\<exists>y. round64 x = Fin y"
proof (cases "x = 0")
  case False
  define e where "e = max (ilog2 x - 52) (- 1074)"
  have x: "0 < x" using False assms(1) by simp
  have "pow2 e \<le> 1"
  proof (cases "ilog2 x - 52 \<ge> - 1074")
    case True
    then have "pow2 e = pow2 (ilog2 x) / pow2 52" by (simp add: e_def pow2_diff)
    also have "\<dots> \<le> pow2 (ilog2 x)" by (simp add: pow2_def [of 52] divide_le_eq)
    finally show ?thesis using ilog2_lower [OF x] assms(2) by linarith
  qed (simp add: e_def pow2_def)
  moreover have "of_int (half_even (x / pow2 e)) \<le> x / pow2 e + 1 / 2"
    using abs_le_D1 [OF half_even_error [of "x / pow2 e"]] by linarith
  then have "of_int (half_even (x / pow2 e)) * pow2 e \<le> (x / pow2 e + 1 / 2) * pow2 e"
    by (rule mult_right_mono) (rule less_imp_le [OF pow2_pos])
  then have "of_int (half_even (x / pow2 e)) * pow2 e \<le> x + pow2 e / 2" by (simp add: algebra_simps)
  ultimately have "of_int (half_even (x / pow2 e)) * pow2 e \<le> 2" using assms(2) by linarith
  then have "\<not> 2 ^ 1024 \<le> of_int (half_even (x / pow2 e)) * pow2 e" by simp
  then show ?thesis using x by (simp add: round64_def Let_def flip: e_def)
qed (simp add: round64_def)

lemma parse_decimal:
  assumes "scan_decimal s = Some x" and "0 \<le> x" and "x \<le> 1" and "s \<noteq> []" and "is_digit (hd s)"
  shows "\<exists>y. parse_float s = Inr (Fin y)"
proof -
  obtain h t where s: "s = h # t" "is_digit h" using assms(4,5) by (cases s) auto
  then have "to_lower s \<notin> {''inf'', ''infinity''}" "to_lower s \<noteq> ''nan''"
    using digit_not_letter [of h] by (auto simp: to_lower_def)
  moreover have "strip_sign s = (False, s)" using s not_digit_sign by (auto simp: strip_sign_def)
  ultimately show ?thesis using round64_small [OF assms(2,3)] assms(1) by (auto simp: parse_float_def)
qed

lemma default_prices:
  assumes "s \<in> {''0.09'', ''0.01'', ''0.02'', ''0.087'', ''0.12'', ''0.0''}"
  shows "\<exists>x. parse_float s = Inr (Fin x)"
proof -
  have "scan_decimal ''0.09'' = Some (9 / 100)" "scan_decimal ''0.01'' = Some (1 / 100)"
    "scan_decimal ''0.02'' = Some (2 / 100)" "scan_decimal ''0.087'' = Some (87 / 1000)"
    "scan_decimal ''0.12'' = Some (12 / 100)" "scan_decimal ''0.0'' = Some 0"
    by (simp_all add: scan_decimal_def span_def scan_exp_def is_digit_def less_eq_char_def dec_nat_def digit_val_def)
  with assms show ?thesis
    by (auto intro!: parse_decimal simp: is_digit_def less_eq_char_def)
qed

text \<open>A profile without egress costs of its own gets the default ones. Those of the major clouds, in any
  case of the letters, have a price for each of the three types the optimiser asks for, and it
  parses; those of any other platform have one for the internet only.\<close>

theorem ensureEgressCosts_defaults:
  assumes "pfSpecEgressCosts pf = []" and "t \<in> {''internet'', ''inter-zone'', ''inter-region''}"
  shows "(\<exists>s x. first_price (pfEgressCosts (ensureEgressCosts pf)) t = Inr s \<and> parse_float s = Inr (Fin x))
      \<longleftrightarrow> is_major_cloud (ppPlatform (pfSpec pf)) \<or> t = ''internet''"
proof -
  show ?thesis
    using assms default_prices
    by (auto simp: ensureEgressCosts_def is_major_cloud_def Let_def first_price_def index_go_def egress_cost_def)
qed

section \<open>Witnesses\<close>

definition ex_zone :: ZoneSpec where
  "ex_zone = \<lparr>zName = ''z'', zLocationName = [], zDefaultZone = True, zEnabled = True, zType = ''cloud''\<rparr>"

definition ex_pp :: "string \<Rightarrow> string \<Rightarrow> int \<Rightarrow> Profile" where
  "ex_pp name platform obs =
     \<lparr>pfName = name, pfSpec = \<lparr>ppPlatform = platform, ppRegion = ''r'', ppRegionAlias = ''r'', ppZones = [ex_zone]\<rparr>,
      pfEgressCosts = [], pfNs = ''default'', pfDeleting = False, pfFinalizer = False, pfGeneration = 1,
      pfSpecEgressCosts = [], pfStatusPlatform = [], pfStatusRegion = [], pfStatusZones = [], pfObservedGeneration = obs,
      pfDependencies = [], pfConditions = []\<rparr>"

definition ex_ready :: "condition list" where
  "ex_ready = [\<lparr>cdType = ''Ready'', cdStatus = CondTrue, cdReason = [], cdMessage = [], cdTime = 0\<rparr>]"

definition ex_robj_of :: "'o list \<Rightarrow> 'o runner_obj" where
  "ex_robj_of offs = \<lparr>roName = ''o'', roNamespace = ''default'', roDeleting = False, roGeneration = 1, roProviderRef = ''p'',
      roOfferings = offs, roStatus = \<lparr>rsRegion = [], rsOfferings = offs, rsObservedGeneration = 1, rsLastUpdateTime = None,
        rsConditions = ex_ready\<rparr>\<rparr>"

text \<open>The images and instance types listed are parameters, and so are the other profiles.\<close>

definition ex_pe :: "Profile \<Rightarrow> ImageOffering runner_obj list \<Rightarrow> ZoneOfferings runner_obj list \<Rightarrow> ProviderProfile list \<Rightarrow> pp_env" where
  "ex_pe pf imgs its others =
     \<lparr>pe_set_cond = rc_set_cond ex_rcfg, pe_is_true = rc_is_true ex_rcfg,
      pe_get = (\<lambda>_ _. Inr pf), pe_config_maps = (\<lambda>_ ll. Inr (if mget ll ''skycluster.io/config-type'' = None then [(''cm'', [])] else [])),
      pe_create_cm = Inr ''cm'', pe_update_cm = Inr (),
      pe_images = (\<lambda>_ _. Inr imgs), pe_create_image = Inr ''i'', pe_instance_types = (\<lambda>_ _. Inr its), pe_create_it = Inr ''t'',
      pe_owner = Inr (), pe_profiles = (\<lambda>_. Inr others), pe_get_latency = (\<lambda>_ _. Inl (ErrNotFound [])),
      pe_sample = (\<lambda>_ _ m _. Fin m), pe_create_latency = (\<lambda>_. Inr ()), pe_update_status = Inr (), pe_update = Inr (),
      pe_delete = (\<lambda>_. Inr ()), pe_selector = (\<lambda>_. Inr ()), pe_delete_latencies = Inr (),
      pe_yaml_images = (\<lambda>_. Inr ''y''), pe_yaml_offerings = (\<lambda>_. Inr ''y''), pe_yaml_managed = (\<lambda>_. Inr ''y'')\<rparr>"

lemma ex_pe_laws: "pe_laws (ex_pe pf imgs its others)"
  using ex_rlaws by (simp add: pe_laws_def cfg_laws_def ex_pe_def)

lemma ex_pe_flag: "\<not> pp_flag (ex_pe q imgs its others) (ex_pp n p obs) t" "pe_is_true (ex_pe q imgs its others) ex_ready ''Ready''"
  by (simp_all add: ex_pe_def ex_pp_def ex_ready_def ex_rcfg_def GetTypedConditionStatus_find)

lemma ex_pp_parts [simp]:
  "pfName (ex_pp n p obs) = n" "pfNs (ex_pp n p obs) = ''default''" "pfDeleting (ex_pp n p obs) = False"
  "pfGeneration (ex_pp n p obs) = 1" "pfObservedGeneration (ex_pp n p obs) = obs" "ppPlatform (pfSpec (ex_pp n p obs)) = p"
  "ppZones (pfSpec (ex_pp n p obs)) = [ex_zone]" "pfSpecEgressCosts (ex_pp n p obs) = []" "ppRegion (pfSpec (ex_pp n p obs)) = ''r''"
  by (simp_all add: ex_pp_def)

lemma ex_pe_parts [simp]:
  "pe_get (ex_pe pf imgs its others) = (\<lambda>_ _. Inr pf)" "pe_images (ex_pe pf imgs its others) = (\<lambda>_ _. Inr imgs)"
  "pe_instance_types (ex_pe pf imgs its others) = (\<lambda>_ _. Inr its)" "pe_owner (ex_pe pf imgs its others) = Inr ()"
  "pe_profiles (ex_pe pf imgs its others) = (\<lambda>_. Inr others)" "pe_create_image (ex_pe pf imgs its others) = Inr ''i''"
  "pe_create_it (ex_pe pf imgs its others) = Inr ''t''" "pe_update (ex_pe pf imgs its others) = Inr ()"
  "pe_update_status (ex_pe pf imgs its others) = Inr ()" "pe_get_latency (ex_pe pf imgs its others) = (\<lambda>_ _. Inl (ErrNotFound []))"
  "pe_create_cm (ex_pe pf imgs its others) = Inr ''cm''" "pe_sample (ex_pe pf imgs its others) = (\<lambda>_ _ m _. Fin m)"
  "pe_create_latency (ex_pe pf imgs its others) = (\<lambda>_. Inr ())"
  "pe_config_maps (ex_pe pf imgs its others) =
     (\<lambda>_ ll. Inr (if mget ll ''skycluster.io/config-type'' = None then [(''cm'', [])] else []))"
  by (simp_all add: ex_pe_def)

lemma ex_pp_reconcile:
  "ProviderProfileReconcile (ex_pe (ex_pp n p obs) imgs its others) ns name =
     (if obs = 1 then profile_poll (ex_pe (ex_pp n p obs) imgs its others) (ex_pp n p obs)
      else profile_sync (ex_pe (ex_pp n p obs) imgs its others) (ex_pp n p obs))"
  by (auto simp: ProviderProfileReconcile_def Let_def ex_pe_flag)

lemma ex_major: "is_major_cloud ''gcp''" "to_lower ''gcp'' = ''gcp''"
  by (simp_all add: is_major_cloud_def to_lower_def char_lower_def is_upper_def)

lemma ex_sync:
  "snd (profile_sync (ex_pe (ex_pp ''p'' ''gcp'' 0) [] [] []) (ex_pp ''p'' ''gcp'' 0)) = Inr (After RequeuePollThreshold)"
  "\<exists>l. CreateCM ''skycluster-system'' ''p-'' l \<in> set (fst (profile_sync (ex_pe (ex_pp ''p'' ''gcp'' 0) [] [] []) (ex_pp ''p'' ''gcp'' 0)))"
  by (simp_all add: profile_sync_def profile_finish_def profile_dependencies_def ensureConfigMap_def ensureImages_def
      ensureInstanceTypes_def ensureLatencies_def create_named_def snd_bind_run fst_bind_run Let_def ex_pe_flag ex_major
      cm_labels_def mget_mput)

theorem profile_sync_registers_witness:
  "let pf = ex_pp ''p'' ''gcp'' 0; E = ex_pe pf [] [] []; es = fst (ProviderProfileReconcile E ''default'' ''p'')
   in \<exists>new. filter writes_status es = [UpdateProfileStatus new] \<and> last es = UpdateProfile (new\<lparr>pfFinalizer := True\<rparr>)
      \<and> \<not> pp_flag E new ''Ready'' \<and> pfEgressCosts new \<noteq> []
      \<and> (\<exists>img it. HasDependency (pfDependencies new) img ''Image'' ''default''
          \<and> HasDependency (pfDependencies new) it ''InstanceType'' ''default'')"
proof -
  let ?pf = "ex_pp ''p'' ''gcp'' 0"
  let ?E = "ex_pe ?pf [] [] []"
  have run: "ProviderProfileReconcile ?E ''default'' ''p'' =
      (fst (ProviderProfileReconcile ?E ''default'' ''p''), Inr (After RequeuePollThreshold))"
    using ex_sync(1) by (simp add: ex_pp_reconcile prod_eq_iff)
  have "pe_get ?E ''default'' ''p'' = Inr ?pf" "\<not> pfDeleting ?pf" "pfGeneration ?pf \<noteq> pfObservedGeneration ?pf \<or> pp_flag ?E ?pf ''ResyncRequired''"
    by simp_all
  from profile_sync_registers [OF ex_pe_laws this run] show ?thesis
    unfolding Let_def by (elim exE conjE) (auto simp: ex_major)
qed

lemma ex_poll_calls:
  fixes n :: string
  defines "pf \<equiv> ex_pp n ''gcp'' 1"
  defines "E \<equiv> ex_pe pf [ex_robj_of image_defaults] [ex_robj_of []] []"
  shows "UpdateProfileStatus (pp_set_condition E ''ResyncRequired'' CondFalse ''NoResyncNeeded''
             ''No resync needed, dependencies are ready''
           (pp_set_condition E ''Ready'' CondTrue ''Ready'' ''Image and InstanceType are ready''
             (pf\<lparr>pfStatusPlatform := ''gcp'', pfStatusRegion := ''r'', pfStatusZones := [ex_zone]\<rparr>)))
      \<in> set (fst (profile_poll E pf))"
proof -
  have "profile_labels q \<noteq> [] \<Longrightarrow> mget (profile_labels q) ''skycluster.io/config-type'' = None" for q :: Profile
    by (simp add: profile_labels_def DefaultLabels_def massign_def Let_def mget_mput) (simp add: mget_def)
  then have none: "mget (profile_labels q) ''skycluster.io/config-type'' = None" for q :: Profile
    by (cases "profile_labels q = []") (simp_all add: mget_def)
  have cm: "snd (pp_updateConfigMap E q (Some i) (Some t)) = Inr ()" for q i t
    unfolding E_def pp_updateConfigMap_def by (simp add: none put_doc_def ex_pe_def Let_def)
  have "fetchImageData E q = Inr (ex_robj_of image_defaults)" "fetchInstanceTypeData E q = Inr (ex_robj_of [])" for q
    by (simp_all add: fetchImageData_def fetchInstanceTypeData_def E_def)
  then show ?thesis
    by (simp add: profile_poll_def handlerPlatformCloud_def Let_def cm pf_def ex_major(2)
        dependencies_fetched_def ex_robj_of_def) (simp add: E_def ex_pe_flag)
qed


theorem profile_lost_dependency_witness:
  "let pf = ex_pp ''p'' ''gcp'' 1; E = ex_pe pf [] [ex_robj_of []] []
   in \<exists>new. filter writes_status (fst (ProviderProfileReconcile E ''default'' ''p'')) = [UpdateProfileStatus new]
      \<and> \<not> pp_flag E new ''Ready''
      \<and> ProviderProfileReconcile (E\<lparr>pe_get := (\<lambda>_ _. Inr new)\<rparr>) ''default'' ''p'' = profile_sync (E\<lparr>pe_get := (\<lambda>_ _. Inr new)\<rparr>) new"
proof -
  let ?pf = "ex_pp ''p'' ''gcp'' 1"
  let ?E = "ex_pe ?pf [] [ex_robj_of []] []"
  have f: "\<exists>e. fetchImageData ?E ?pf = Inl e" by (simp add: fetchImageData_def)
  have "\<not> pfDeleting ?pf" "pfGeneration ?pf = pfObservedGeneration ?pf" "\<not> pp_flag ?E ?pf ''ResyncRequired''"
    "to_lower (ppPlatform (pfSpec ?pf)) \<in> {''aws'', ''azure'', ''gcp'', ''openstack''}"
    "(\<exists>e. fetchImageData ?E ?pf = Inl e) \<or> (\<exists>e. fetchInstanceTypeData ?E ?pf = Inl e)" "pe_get ?E ''default'' ''p'' = Inr ?pf"
    using f by (simp_all add: ex_pe_flag ex_major(2))
  from profile_lost_dependency [OF ex_pe_laws this] show ?thesis
    unfolding Let_def by (elim exE conjE, intro exI conjI) (auto simp: ex_major)
qed

theorem profile_cleanup_selection_witness:
  "\<exists>ll. CreateCM ''skycluster-system'' ''p-'' ll
        \<in> set (fst (ProviderProfileReconcile (ex_pe (ex_pp ''p'' ''gcp'' 0) [] [] []) ''default'' ''p''))
      \<and> HasAllLabelsAndValue ll (cm_labels (ex_pp ''p'' ''gcp'' 0))"
proof -
  let ?E = "ex_pe (ex_pp ''p'' ''gcp'' 0) [] [] []"
  obtain ll where c: "CreateCM ''skycluster-system'' ''p-'' ll \<in> set (fst (ProviderProfileReconcile ?E ''default'' ''p''))"
    using ex_sync(2) by (auto simp: ex_pp_reconcile)
  moreover have "HasAllLabelsAndValue ll (cm_labels (ex_pp ''p'' ''gcp'' 0))"
    using profile_cleanup_selection [of undefined ?E "''default''" "''p''" _ _ undefined "ex_pp ''p'' ''gcp'' 0"
        "''skycluster-system''" "''p-''" ll] c by simp
  ultimately show ?thesis by blast
qed

theorem ensure_objects_reuse_witness:
  "let pf = ex_pp ''p'' ''gcp'' 0; E = ex_pe pf [(ex_robj_of image_defaults)] [ex_robj_of []] []
   in fst (ensureImages E pf) = [] \<and> (\<exists>it. fst (ensureInstanceTypes E pf) = [CreateInstanceType it])"
proof -
  let ?pf = "ex_pp ''p'' ''gcp'' 0"
  let ?E = "ex_pe ?pf [ex_robj_of image_defaults] [ex_robj_of []] []"
  have "getTypeFamilies ''gcp'' [ex_zone] = Some [buildZoneOfferings ''z'' [''e2'', ''g2'', ''a2'']]"
    by (simp add: getTypeFamilies_def ex_zone_def)
  then show ?thesis
    using ensure_objects_reuse [of ?E ?pf "[ex_robj_of []]"]
    unfolding Let_def by (simp add: ex_robj_of_def deep_equal_list_def)
qed

lemma ex_latency:
  "\<exists>l. CreateLatency l \<in> set (fst (ensureLatencies
      (ex_pe (ex_pp ''p'' ''gcp'' 0) [] [] [ProviderProfile.truncate (ex_pp ''q'' ''aws'' 0)]) (ex_pp ''p'' ''gcp'' 0)))
    \<and> nlFixedLatencyMs l = fmt_2f (f64_round2 (Fin 10))"
proof -
  let ?E = "ex_pe (ex_pp ''p'' ''gcp'' 0) [] [] [ProviderProfile.truncate (ex_pp ''q'' ''aws'' 0)]"
  have t: "pfName (ProviderProfile.truncate (ex_pp n p obs)) = n" "ppZones (pfSpec (ProviderProfile.truncate (ex_pp n p obs))) = [ex_zone]"
    "ppRegion (pfSpec (ProviderProfile.truncate (ex_pp n p obs))) = ''r''" for n p obs
    by (simp_all add: ex_pp_def ProviderProfile.truncate_def)
  have g: "GenerateSyntheticLatency s ''r'' ''r'' a b (zType ex_zone) (zType ex_zone) = Inr (f64_round2 (s 0 10 3))" for s a b
    by (simp add: GenerateSyntheticLatency_def latency_terms_def ex_zone_def cloudCloudLatency_def Let_def)
  have d: "zDefaultZone ex_zone" by (simp add: ex_zone_def)
  obtain a b where ab: "CanonicalPair (platform_region (ex_pp ''p'' ''gcp'' 0))
      (platform_region (ProviderProfile.truncate (ex_pp ''q'' ''aws'' 0))) = (a, b)" by force
  show ?thesis
    by (simp add: ensureLatencies_def ensureLatency_def t ab latency_object_def d g Let_def fst_bind_run)
qed

theorem ensureLatencies_pairs_witness:
  "let pf = ex_pp ''p'' ''gcp'' 0; other = ProviderProfile.truncate (ex_pp ''q'' ''aws'' 0); E = ex_pe pf [] [] [other]
   in \<exists>l. CreateLatency l \<in> set (fst (ensureLatencies E pf))
      \<and> mstr (nlLabels l) ''skycluster.io/provider-pair'' = pair_label other (ProviderProfile.truncate pf)"
proof -
  let ?E = "ex_pe (ex_pp ''p'' ''gcp'' 0) [] [] [ProviderProfile.truncate (ex_pp ''q'' ''aws'' 0)]"
  obtain l where l: "CreateLatency l \<in> set (fst (ensureLatencies ?E (ex_pp ''p'' ''gcp'' 0)))"
    using ex_latency by blast
  show ?thesis
    using ensureLatencies_pairs [OF l] l unfolding Let_def by (intro exI [of _ l]) auto
qed

theorem ensureEgressCosts_defaults_witness:
  "let gcp = ensureEgressCosts (ex_pp ''p'' ''gcp'' 0); own = ensureEgressCosts (ex_pp ''p'' ''openstack'' 0)
   in (\<exists>s x. first_price (pfEgressCosts gcp) ''inter-zone'' = Inr s \<and> parse_float s = Inr (Fin x))
      \<and> \<not> (\<exists>s x. first_price (pfEgressCosts own) ''inter-zone'' = Inr s \<and> parse_float s = Inr (Fin x))"
proof -
  have "\<not> is_major_cloud ''openstack''" by (simp add: is_major_cloud_def to_lower_def char_lower_def is_upper_def)
  then show ?thesis
    using ensureEgressCosts_defaults [of "ex_pp ''p'' ''gcp'' 0" "''inter-zone''"]
      ensureEgressCosts_defaults [of "ex_pp ''p'' ''openstack'' 0" "''inter-zone''"]
    unfolding Let_def by (simp add: ex_major)
qed

end
