(* ===== verification/Failover.thy ===== *)
theory Failover
  imports ILPTask
begin

text \<open>
  The failover labels of the mesh: \<open>derivePriorities\<close>
  (\<open>internal/controller/core/atlasmesh/atlasmesh_controller.go\<close>). Every edge of the deploy plan
  labels the pods of its target, of the backup of its target, and lists for its source the labels
  to prefer, in order. The comment of the function states how the mesh reads them; that reading is
  \<open>failover_score\<close>, and the properties say which deployment it selects.
\<close>

section \<open>Data and operations\<close>

record orderedLabels =
  olKey :: string
  olValue :: string

text \<open>The pointers of the source's map are not shared between its keys: a write through one is an
  update of its entry.\<close>

record priorityLabels =
  sourceLabels :: "orderedLabels list gomap"
  allLabels :: "string gomap"

definition node_name :: "SkyService \<Rightarrow> string" where
  "node_name c = crName (ssComponentRef c) @ ''-'' @ prName (ssProviderRef c)"

definition init_node :: "string \<Rightarrow> priorityLabels gomap \<Rightarrow> priorityLabels gomap" where
  "init_node n labels =
     (case mget labels n of None \<Rightarrow> mput n \<lparr>sourceLabels = [], allLabels = []\<rparr> labels | Some _ \<Rightarrow> labels)"

definition add_source :: "string \<Rightarrow> string \<Rightarrow> orderedLabels \<Rightarrow> priorityLabels gomap \<Rightarrow> priorityLabels gomap" where
  "add_source fromName toName kv labels =
     (case mget labels fromName of
        None \<Rightarrow> labels
      | Some p \<Rightarrow>
          (let old = (case mget (sourceLabels p) toName of None \<Rightarrow> [] | Some ls \<Rightarrow> ls)
           in mput fromName (p\<lparr>sourceLabels := mput toName (old @ [kv]) (sourceLabels p)\<rparr>) labels))"

definition add_label :: "string \<Rightarrow> string \<Rightarrow> string \<Rightarrow> priorityLabels gomap \<Rightarrow> priorityLabels gomap" where
  "add_label n k v labels =
     (case mget labels n of None \<Rightarrow> labels | Some p \<Rightarrow> mput n (p\<lparr>allLabels := mput k v (allLabels p)\<rparr>) labels)"

text \<open>How many of the three fields of a location match the source.\<close>

definition location_score :: "SkyService \<Rightarrow> SkyService \<Rightarrow> nat" where
  "location_score from c =
     (let s = 0;
          s = (if prRegionAlias (ssProviderRef c) = prRegionAlias (ssProviderRef from) then s + 1 else s);
          s = (if prRegion (ssProviderRef c) = prRegion (ssProviderRef from) then s + 1 else s);
          s = (if prZone (ssProviderRef c) = prZone (ssProviderRef from) then s + 1 else s)
      in s)"

text \<open>A stable sort by a higher score, then by the name of the provider.\<close>

definition backup_order :: "SkyService \<Rightarrow> SkyService list \<Rightarrow> SkyService list" where
  "backup_order from backups =
     sort_key (\<lambda>c. 3 - location_score from c) (sort_key (\<lambda>c. prName (ssProviderRef c)) backups)"

definition backups_of :: "SkyService list \<Rightarrow> SkyService \<Rightarrow> SkyService list" where
  "backups_of cmpnts to' =
     filter (\<lambda>c. crName (ssComponentRef c) = crName (ssComponentRef to')
       \<and> prName (ssProviderRef c) \<noteq> prName (ssProviderRef to')) cmpnts"

definition failover_key :: "string \<Rightarrow> string \<Rightarrow> string" where
  "failover_key a b = ShortenLabelKey (''failover/'' @ a @ ''-'' @ b)"

definition failover_value :: "string \<Rightarrow> string \<Rightarrow> string" where
  "failover_value a b = ShortenLabelKey (a @ ''-'' @ b)"

definition derive_edge ::
  "SkyService list \<Rightarrow> priorityLabels gomap \<Rightarrow> DeployMapEdge \<Rightarrow> priorityLabels gomap" where
  "derive_edge cmpnts labels edge =
     (let from = dmFrom edge; fromName = node_name from; to' = dmTo edge; toName = node_name to';
          labels = init_node toName (init_node fromName labels);
          labelKey = failover_key fromName toName;
          labels = add_source fromName toName \<lparr>olKey = labelKey, olValue = failover_value fromName toName\<rparr> labels;
          labels = add_label toName labelKey (failover_value fromName toName) labels
      in case backup_order from (backups_of cmpnts to') of
           [] \<Rightarrow> labels
         | bk # _ \<Rightarrow>
             (let bkName = node_name bk;
                  labels = init_node bkName labels;
                  bkKey = failover_key fromName bkName;
                  labels = add_source fromName toName
                    \<lparr>olKey = bkKey, olValue = failover_value fromName bkName @ ''-backup''\<rparr> labels;
                  labels = add_label toName bkKey (failover_value fromName bkName @ ''-backup'') labels
              in add_label bkName labelKey (failover_value fromName toName) labels))"

definition derivePriorities :: "SkyService list \<Rightarrow> DeployMapEdge list \<Rightarrow> priorityLabels gomap" where
  "derivePriorities cmpnts edges = foldl (derive_edge cmpnts) [] edges"

text \<open>
  How the mesh selects, by the comment of the function: the pod that matches the largest number of
  the source's labels, where a label counts only when all labels before it match.
\<close>

definition failover_score :: "orderedLabels list \<Rightarrow> string gomap \<Rightarrow> nat" where
  "failover_score ls pod = length (takeWhile (\<lambda>kv. mget pod (olKey kv) = Some (olValue kv)) ls)"

section \<open>What an edge writes\<close>

text \<open>The writes of an edge into the pod labels, and its list of labels for the source.\<close>

definition backup_name :: "SkyService list \<Rightarrow> DeployMapEdge \<Rightarrow> string option" where
  "backup_name cmpnts e = map_option node_name (case backup_order (dmFrom e) (backups_of cmpnts (dmTo e)) of [] \<Rightarrow> None | bk # _ \<Rightarrow> Some bk)"

definition pod_writes :: "SkyService list \<Rightarrow> DeployMapEdge \<Rightarrow> (string \<times> string \<times> string) list" where
  "pod_writes cmpnts e =
     (let a = node_name (dmFrom e); t = node_name (dmTo e)
      in (t, failover_key a t, failover_value a t) #
         (case backup_name cmpnts e of None \<Rightarrow> []
          | Some b \<Rightarrow> [(t, failover_key a b, failover_value a b @ ''-backup''), (b, failover_key a t, failover_value a t)]))"

definition edge_list :: "SkyService list \<Rightarrow> DeployMapEdge \<Rightarrow> orderedLabels list" where
  "edge_list cmpnts e =
     (let a = node_name (dmFrom e); t = node_name (dmTo e)
      in \<lparr>olKey = failover_key a t, olValue = failover_value a t\<rparr> #
         (case backup_name cmpnts e of None \<Rightarrow> []
          | Some b \<Rightarrow> [\<lparr>olKey = failover_key a b, olValue = failover_value a b @ ''-backup''\<rparr>]))"

text \<open>The state as two functions: the label of a pod, the list of a source for a target.\<close>

definition pod_label :: "priorityLabels gomap \<Rightarrow> string \<Rightarrow> string \<Rightarrow> string option" where
  "pod_label L n k = (case mget L n of None \<Rightarrow> None | Some p \<Rightarrow> mget (allLabels p) k)"

definition source_list :: "priorityLabels gomap \<Rightarrow> string \<Rightarrow> string \<Rightarrow> orderedLabels list" where
  "source_list L a t = (case mget L a of None \<Rightarrow> [] | Some p \<Rightarrow> (case mget (sourceLabels p) t of None \<Rightarrow> [] | Some ls \<Rightarrow> ls))"

lemma node_ops_get:
  "mget (init_node n L) m = (if m = n \<and> mget L n = None then Some \<lparr>sourceLabels = [], allLabels = []\<rparr> else mget L m)"
  "mget (add_source a t kv L) m = (if m = a then map_option (\<lambda>p. p\<lparr>sourceLabels :=
      mput t ((case mget (sourceLabels p) t of None \<Rightarrow> [] | Some ls \<Rightarrow> ls) @ [kv]) (sourceLabels p)\<rparr>) (mget L a) else mget L m)"
  "mget (add_label n k v L) m = (if m = n then map_option (\<lambda>p. p\<lparr>allLabels := mput k v (allLabels p)\<rparr>) (mget L n) else mget L m)"
  by (auto simp: init_node_def add_source_def add_label_def mget_mput Let_def split: option.splits)

lemma node_ops_label [simp]:
  "pod_label (init_node n L) m k = pod_label L m k"
  "pod_label (add_source a t kv L) m k = pod_label L m k"
  "mget L n \<noteq> None \<Longrightarrow> pod_label (add_label n k v L) m k' = (if m = n \<and> k' = k then Some v else pod_label L m k')"
  by (auto simp: pod_label_def node_ops_get mget_mput split: option.splits)

lemma node_ops_source [simp]:
  "source_list (init_node n L) a t = source_list L a t"
  "source_list (add_label n k v L) a t = source_list L a t"
  "mget L b \<noteq> None \<Longrightarrow> source_list (add_source b u kv L) a t = (if a = b \<and> t = u then source_list L a t @ [kv] else source_list L a t)"
  by (auto simp: source_list_def node_ops_get mget_mput split: option.splits)

lemma node_ops_dom [simp]:
  "mget (init_node n L) m \<noteq> None \<longleftrightarrow> m = n \<or> mget L m \<noteq> None"
  "mget (add_source a t kv L) m \<noteq> None \<longleftrightarrow> mget L m \<noteq> None"
  "mget (add_label n k v L) m \<noteq> None \<longleftrightarrow> mget L m \<noteq> None"
  by (auto simp: node_ops_get)


definition as_entry :: "string \<times> string \<times> string \<Rightarrow> (string \<times> string) \<times> string" where
  "as_entry w = (case w of (n, k, v) \<Rightarrow> ((n, k), v))"

text \<open>The writes in order, the later ones first.\<close>

definition last_write :: "(string \<times> string \<times> string) list \<Rightarrow> string \<Rightarrow> string \<Rightarrow> string option" where
  "last_write ws n k = map_of (rev (map as_entry ws)) (n, k)"

lemma last_write_simps [simp]:
  "last_write [] n k = None"
  "last_write (ws @ [(m, j, v)]) n k = (if m = n \<and> j = k then Some v else last_write ws n k)"
  by (auto simp: last_write_def as_entry_def)

lemma last_write_append: "last_write (ws @ vs) n k = (case last_write vs n k of None \<Rightarrow> last_write ws n k | Some v \<Rightarrow> Some v)"
  by (simp add: last_write_def map_add_def split: option.split)

lemma last_write_Cons: "last_write ((m, j, v) # ws) n k = (case last_write ws n k of None \<Rightarrow> if m = n \<and> j = k then Some v else None | Some x \<Rightarrow> Some x)"
  using last_write_append [of "[(m, j, v)]" ws n k] by (simp add: last_write_def as_entry_def split: option.split)

lemma last_write_Some: "last_write ws n k = Some v \<Longrightarrow> (n, k, v) \<in> set ws"
  by (auto simp: last_write_def as_entry_def dest!: map_of_SomeD split: prod.splits)

lemma last_write_None: "last_write ws n k = None \<longleftrightarrow> (\<forall>v. (n, k, v) \<notin> set ws)"
  by (auto simp: last_write_def as_entry_def map_of_eq_None_iff image_iff split: prod.splits)

lemma last_write_unique:
  "(n, k, v) \<in> set ws \<Longrightarrow> (\<And>v'. (n, k, v') \<in> set ws \<Longrightarrow> v' = v) \<Longrightarrow> last_write ws n k = Some v"
  using last_write_Some [of ws n k] last_write_None [of ws n k] by (cases "last_write ws n k") auto

lemma derive_edge_effect:
  "pod_label (derive_edge cmpnts L e) n k = (case last_write (pod_writes cmpnts e) n k of None \<Rightarrow> pod_label L n k | Some v \<Rightarrow> Some v)"
  "source_list (derive_edge cmpnts L e) a t = source_list L a t
     @ (if a = node_name (dmFrom e) \<and> t = node_name (dmTo e) then edge_list cmpnts e else [])"
  "mget (derive_edge cmpnts L e) m \<noteq> None \<longleftrightarrow> mget L m \<noteq> None \<or> m = node_name (dmFrom e) \<or> m = node_name (dmTo e)
     \<or> backup_name cmpnts e = Some m"
proof -
  show "pod_label (derive_edge cmpnts L e) n k = (case last_write (pod_writes cmpnts e) n k of None \<Rightarrow> pod_label L n k | Some v \<Rightarrow> Some v)"
    by (cases "backup_order (dmFrom e) (backups_of cmpnts (dmTo e))")
      (auto simp: derive_edge_def pod_writes_def backup_name_def Let_def last_write_Cons simp del: not_None_eq split: option.split)
  show "source_list (derive_edge cmpnts L e) a t = source_list L a t
     @ (if a = node_name (dmFrom e) \<and> t = node_name (dmTo e) then edge_list cmpnts e else [])"
    by (cases "backup_order (dmFrom e) (backups_of cmpnts (dmTo e))")
      (simp_all add: derive_edge_def edge_list_def backup_name_def Let_def del: not_None_eq)
  show "mget (derive_edge cmpnts L e) m \<noteq> None \<longleftrightarrow> mget L m \<noteq> None \<or> m = node_name (dmFrom e) \<or> m = node_name (dmTo e)
     \<or> backup_name cmpnts e = Some m"
    by (cases "backup_order (dmFrom e) (backups_of cmpnts (dmTo e))")
      (auto simp: derive_edge_def backup_name_def Let_def simp del: not_None_eq)
qed

text \<open>All edges: what a pod is labelled, what a source prefers, which deployments have an entry.\<close>

lemma derivePriorities_effect:
  "pod_label (derivePriorities cmpnts edges) n k = last_write (concat (map (pod_writes cmpnts) edges)) n k"
  "source_list (derivePriorities cmpnts edges) a t =
     concat (map (edge_list cmpnts) (filter (\<lambda>e. a = node_name (dmFrom e) \<and> t = node_name (dmTo e)) edges))"
  "mget (derivePriorities cmpnts edges) m \<noteq> None \<longleftrightarrow>
     (\<exists>e\<in>set edges. m = node_name (dmFrom e) \<or> m = node_name (dmTo e) \<or> backup_name cmpnts e = Some m)"
proof -
  have start: "pod_label [] n k = None" "source_list [] a t = []" by (simp_all add: pod_label_def source_list_def)
  show "pod_label (derivePriorities cmpnts edges) n k = last_write (concat (map (pod_writes cmpnts) edges)) n k"
    by (induction edges rule: rev_induct) (simp_all add: derivePriorities_def start derive_edge_effect(1) last_write_append split: option.split)
  show "source_list (derivePriorities cmpnts edges) a t =
     concat (map (edge_list cmpnts) (filter (\<lambda>e. a = node_name (dmFrom e) \<and> t = node_name (dmTo e)) edges))"
    by (induction edges rule: rev_induct) (simp_all add: derivePriorities_def start derive_edge_effect(2))
  show "mget (derivePriorities cmpnts edges) m \<noteq> None \<longleftrightarrow>
     (\<exists>e\<in>set edges. m = node_name (dmFrom e) \<or> m = node_name (dmTo e) \<or> backup_name cmpnts e = Some m)"
    by (induction edges rule: rev_induct) (auto simp: derivePriorities_def derive_edge_effect(3) simp del: not_None_eq)
qed

text \<open>The backup is the best of the other replicas: no other has a higher score, and among those with its
  score none has a smaller provider name.\<close>

lemma backup_order_best:
  assumes "backup_order from bs = bk # rest"
  shows "bk \<in> set bs \<and> (\<forall>c\<in>set bs. location_score from c \<le> location_score from bk
     \<and> (location_score from c = location_score from bk \<longrightarrow> prName (ssProviderRef bk) \<le> prName (ssProviderRef c)))"
proof -
  let ?inner = "sort_key (\<lambda>c. prName (ssProviderRef c)) bs"
  let ?f = "\<lambda>c. 3 - location_score from c"
  have le: "location_score from c \<le> 3" for c by (simp add: location_score_def)
  have sk: "sort_key ?f ?inner = bk # rest" using assms by (simp add: backup_order_def)
  have s: "sorted (map ?f (bk # rest))" using sorted_sort_key [of ?f ?inner] unfolding sk .
  have set: "set (bk # rest) = set bs" using set_sort [of ?f ?inner] unfolding sk by simp
  have stable: "filter (\<lambda>c. ?f c = ?f bk) (bk # rest) = filter (\<lambda>c. ?f c = ?f bk) ?inner"
    using sort_key_stable [of ?f "?f bk" ?inner] unfolding sk .
  have sorted_names: "sorted (map (\<lambda>c. prName (ssProviderRef c)) (filter (\<lambda>c. ?f c = ?f bk) (bk # rest)))"
    unfolding stable by (rule sorted_filter) simp
  have "location_score from c \<le> location_score from bk
     \<and> (location_score from c = location_score from bk \<longrightarrow> prName (ssProviderRef bk) \<le> prName (ssProviderRef c))"
    if "c \<in> set bs" for c
  proof -
    have "?f bk \<le> ?f c" using s that set by auto
    then have "location_score from c \<le> location_score from bk" using le [of c] le [of bk] by linarith
    moreover have "prName (ssProviderRef bk) \<le> prName (ssProviderRef c)" if "location_score from c = location_score from bk"
    proof (cases "c = bk")
      case False
      with that \<open>c \<in> set bs\<close> set have "c \<in> set (filter (\<lambda>c. ?f c = ?f bk) rest)" by auto
      with sorted_names show ?thesis by auto
    qed simp
    ultimately show ?thesis by blast
  qed
  with set show ?thesis by auto
qed


section \<open>Who is preferred\<close>

definition pod_labels :: "priorityLabels gomap \<Rightarrow> string \<Rightarrow> string gomap" where
  "pod_labels L n = (case mget L n of None \<Rightarrow> [] | Some p \<Rightarrow> allLabels p)"

lemma pod_labels_get: "mget (pod_labels L n) k = pod_label L n k"
  by (simp add: pod_labels_def pod_label_def split: option.split)

text \<open>The deployments an edge names: its target and the backup of its target.\<close>

definition edge_targets :: "SkyService list \<Rightarrow> DeployMapEdge \<Rightarrow> string list" where
  "edge_targets cmpnts e = node_name (dmTo e) # (case backup_name cmpnts e of None \<Rightarrow> [] | Some b \<Rightarrow> [b])"

definition plan_nodes :: "SkyService list \<Rightarrow> DeployMapEdge list \<Rightarrow> string set" where
  "plan_nodes cmpnts edges = (\<Union>e\<in>set edges. insert (node_name (dmFrom e)) (set (edge_targets cmpnts e)))"

text \<open>
  The keys tell the pairs of deployments of the plan apart, and the source has one edge among the
  replicas of the target.
\<close>

definition plan_ok :: "SkyService list \<Rightarrow> DeployMapEdge list \<Rightarrow> DeployMapEdge \<Rightarrow> bool" where
  "plan_ok cmpnts edges e \<longleftrightarrow>
     inj_on (\<lambda>(a, b). failover_key a b) (plan_nodes cmpnts edges \<times> plan_nodes cmpnts edges)
     \<and> (\<forall>e'\<in>set edges. node_name (dmFrom e') = node_name (dmFrom e)
          \<and> set (edge_targets cmpnts e') \<inter> set (edge_targets cmpnts e) \<noteq> {}
          \<longrightarrow> edge_targets cmpnts e' = edge_targets cmpnts e)"

lemma backup_name_ne:
  assumes "backup_name cmpnts e = Some b"
  shows "b \<noteq> node_name (dmTo e)"
proof -
  obtain bk rest where o: "backup_order (dmFrom e) (backups_of cmpnts (dmTo e)) = bk # rest" "b = node_name bk"
    using assms by (auto simp: backup_name_def split: list.splits)
  then have "bk \<in> set (backups_of cmpnts (dmTo e))" using backup_order_best by blast
  then show ?thesis by (simp add: o backups_of_def node_name_def)
qed

lemma plan_keys:
  assumes "plan_ok cmpnts edges e" and "a \<in> plan_nodes cmpnts edges" and "x \<in> plan_nodes cmpnts edges"
    and "b \<in> plan_nodes cmpnts edges" and "y \<in> plan_nodes cmpnts edges" and "failover_key a x = failover_key b y"
  shows "(a, x) = (b, y)"
proof (rule inj_onD [of "\<lambda>(a, b). failover_key a b" "plan_nodes cmpnts edges \<times> plan_nodes cmpnts edges"])
  show "inj_on (\<lambda>(a, b). failover_key a b) (plan_nodes cmpnts edges \<times> plan_nodes cmpnts edges)"
    using assms(1) by (simp add: plan_ok_def)
qed (use assms(2-6) in simp_all)

text \<open>Under \<open>plan_ok\<close> a key of the edge is written by edges that name the same deployments only.\<close>

lemma plan_ok_writes:
  assumes ok: "plan_ok cmpnts edges e" and e: "e \<in> set edges" and x: "x \<in> set (edge_targets cmpnts e)"
    and w: "(n, failover_key (node_name (dmFrom e)) x, v) \<in> set (concat (map (pod_writes cmpnts) edges))"
  shows "(n, failover_key (node_name (dmFrom e)) x, v) \<in> set (pod_writes cmpnts e)"
proof -
  let ?a = "node_name (dmFrom e)"
  from w obtain e' where e': "e' \<in> set edges" "(n, failover_key ?a x, v) \<in> set (pod_writes cmpnts e')" by auto
  from e'(2) obtain y where y: "y \<in> set (edge_targets cmpnts e')" "failover_key ?a x = failover_key (node_name (dmFrom e')) y"
    by (auto simp: pod_writes_def edge_targets_def Let_def split: option.splits)
  have mem: "?a \<in> plan_nodes cmpnts edges" "x \<in> plan_nodes cmpnts edges" "node_name (dmFrom e') \<in> plan_nodes cmpnts edges"
    "y \<in> plan_nodes cmpnts edges"
    using e x e'(1) y(1) by (auto simp: plan_nodes_def)
  have "(?a, x) = (node_name (dmFrom e'), y)"
    by (rule plan_keys [OF ok mem y(2)])
  then have a: "node_name (dmFrom e') = ?a" "x = y" by simp_all
  with x y(1) have "set (edge_targets cmpnts e') \<inter> set (edge_targets cmpnts e) \<noteq> {}" by auto
  with ok e'(1) a(1) have t: "edge_targets cmpnts e' = edge_targets cmpnts e" by (simp add: plan_ok_def)
  then have "pod_writes cmpnts e' = pod_writes cmpnts e"
    using a(1) by (auto simp: edge_targets_def pod_writes_def Let_def split: option.splits)
  with e'(2) show ?thesis by simp
qed

lemma keys_differ:
  assumes "plan_ok cmpnts edges e" and "e \<in> set edges" and "backup_name cmpnts e = Some b"
  shows "failover_key (node_name (dmFrom e)) b \<noteq> failover_key (node_name (dmFrom e)) (node_name (dmTo e))"
proof
  assume eq: "failover_key (node_name (dmFrom e)) b = failover_key (node_name (dmFrom e)) (node_name (dmTo e))"
  have "{node_name (dmFrom e), node_name (dmTo e), b} \<subseteq> plan_nodes cmpnts edges"
    using assms(2,3) by (auto simp: plan_nodes_def edge_targets_def intro!: bexI [of _ e])
  then have "(node_name (dmFrom e), b) = (node_name (dmFrom e), node_name (dmTo e))"
    by (intro plan_keys [OF assms(1) _ _ _ _ eq]) simp_all
  then show False using backup_name_ne [OF assms(3)] by simp
qed

lemma plan_ok_label:
  assumes "plan_ok cmpnts edges e" and "e \<in> set edges" and "x \<in> set (edge_targets cmpnts e)"
  shows "pod_label (derivePriorities cmpnts edges) n (failover_key (node_name (dmFrom e)) x)
    = last_write (pod_writes cmpnts e) n (failover_key (node_name (dmFrom e)) x)"
    (is "_ = last_write ?ws n ?k")
proof (cases "last_write ?ws n ?k")
  case None
  then have "\<forall>v. (n, ?k, v) \<notin> set (concat (map (pod_writes cmpnts) edges))"
    using plan_ok_writes [OF assms] by (auto simp: last_write_None)
  then have "last_write (concat (map (pod_writes cmpnts) edges)) n ?k = None" by (simp add: last_write_None)
  with None show ?thesis by (simp add: derivePriorities_effect(1))
next
  case (Some v)
  have uniq: "v' = v" if "(n, ?k, v') \<in> set (concat (map (pod_writes cmpnts) edges))" for v'
  proof (cases "backup_name cmpnts e")
    case None
    with plan_ok_writes [OF assms that] last_write_Some [OF Some] show ?thesis by (simp add: pod_writes_def Let_def)
  next
    case b: (Some b)
    with plan_ok_writes [OF assms that] last_write_Some [OF Some] backup_name_ne [OF b] keys_differ [OF assms(1,2) b]
    show ?thesis by (auto simp: pod_writes_def Let_def)
  qed
  have "(n, ?k, v) \<in> set (concat (map (pod_writes cmpnts) edges))" using last_write_Some [OF Some] assms(2) by auto
  from last_write_unique [OF this uniq] Some show ?thesis by (simp add: derivePriorities_effect(1))
qed


lemma failover_score_full: "list_all (\<lambda>kv. mget pod (olKey kv) = Some (olValue kv)) ls \<Longrightarrow> failover_score ls pod = length ls"
  by (simp add: failover_score_def list_all_iff takeWhile_eq_all_conv [THEN iffD2])

lemma source_list_of:
  assumes "plan_ok cmpnts edges e" and "e \<in> set edges"
  shows "source_list (derivePriorities cmpnts edges) (node_name (dmFrom e)) (node_name (dmTo e))
    = concat (replicate (length (filter (\<lambda>e'. node_name (dmFrom e) = node_name (dmFrom e') \<and> node_name (dmTo e) = node_name (dmTo e')) edges))
        (edge_list cmpnts e))"
proof -
  let ?fs = "filter (\<lambda>e'. node_name (dmFrom e) = node_name (dmFrom e') \<and> node_name (dmTo e) = node_name (dmTo e')) edges"
  have "edge_list cmpnts e' = edge_list cmpnts e" if "e' \<in> set ?fs" for e'
  proof -
    from that have e': "e' \<in> set edges" "node_name (dmFrom e') = node_name (dmFrom e)" "node_name (dmTo e') = node_name (dmTo e)"
      by auto
    then have "set (edge_targets cmpnts e') \<inter> set (edge_targets cmpnts e) \<noteq> {}" by (auto simp: edge_targets_def)
    with assms(1) e' have "edge_targets cmpnts e' = edge_targets cmpnts e" by (simp add: plan_ok_def)
    then show ?thesis using e' by (auto simp: edge_targets_def edge_list_def Let_def split: option.splits)
  qed
  then have "map (edge_list cmpnts) ?fs = replicate (length ?fs) (edge_list cmpnts e)"
    by (intro replicate_eqI) auto
  then show ?thesis by (simp add: derivePriorities_effect(2))
qed

section \<open>Properties\<close>

text \<open>The target the plan chose is preferred, its backup comes next, and no other deployment matches. For
  an edge of the plan whose keys tell the deployments apart and whose source has one edge among the
  replicas of the target, the pods of the target match all the labels the source lists, in order;
  those of the backup match exactly the first; those of any other deployment match none.\<close>

theorem failover_order:
  assumes "plan_ok cmpnts edges e" and "e \<in> set edges"
  shows "let D = derivePriorities cmpnts edges; a = node_name (dmFrom e); t = node_name (dmTo e); ls = source_list D a t
    in ls \<noteq> [] \<and> failover_score ls (pod_labels D t) = length ls
      \<and> (\<forall>b. backup_name cmpnts e = Some b \<longrightarrow> 1 < length ls \<and> failover_score ls (pod_labels D b) = 1)
      \<and> (\<forall>n. n \<notin> set (edge_targets cmpnts e) \<longrightarrow> failover_score ls (pod_labels D n) = 0)"
proof -
  let ?D = "derivePriorities cmpnts edges"
  let ?a = "node_name (dmFrom e)" and ?t = "node_name (dmTo e)"
  define m where "m = length (filter (\<lambda>e'. ?a = node_name (dmFrom e') \<and> ?t = node_name (dmTo e')) edges)"
  have "e \<in> set (filter (\<lambda>e'. ?a = node_name (dmFrom e') \<and> ?t = node_name (dmTo e')) edges)" using assms(2) by simp
  then have "0 < m" unfolding m_def by (rule length_pos_if_in_set)
  then obtain j where j: "m = Suc j" by (cases m) auto
  have ls: "source_list ?D ?a ?t = edge_list cmpnts e @ concat (replicate j (edge_list cmpnts e))"
    using source_list_of [OF assms] by (simp add: m_def [symmetric] j)
  have label: "mget (pod_labels ?D n) (failover_key ?a x) = last_write (pod_writes cmpnts e) n (failover_key ?a x)"
    if "x \<in> set (edge_targets cmpnts e)" for n x
    using plan_ok_label [OF assms that] by (simp add: pod_labels_get)
  show ?thesis
  proof (cases "backup_name cmpnts e")
    case None
    then have el: "edge_list cmpnts e = [\<lparr>olKey = failover_key ?a ?t, olValue = failover_value ?a ?t\<rparr>]"
      and w: "pod_writes cmpnts e = [(?t, failover_key ?a ?t, failover_value ?a ?t)]"
      and tg: "edge_targets cmpnts e = [?t]"
      by (simp_all add: edge_list_def pod_writes_def edge_targets_def Let_def)
    have "failover_score (source_list ?D ?a ?t) (pod_labels ?D ?t) = length (source_list ?D ?a ?t)"
      by (rule failover_score_full) (auto simp: ls el list_all_iff label tg w last_write_Cons)
    moreover have "failover_score (source_list ?D ?a ?t) (pod_labels ?D n) = 0" if "n \<noteq> ?t" for n
      using that by (simp add: failover_score_def ls el label tg w last_write_Cons)
    ultimately show ?thesis by (simp add: Let_def None tg) (simp add: ls el)
  next
    case (Some b)
    note ne = backup_name_ne [OF Some] keys_differ [OF assms Some]
    from Some have el: "edge_list cmpnts e = [\<lparr>olKey = failover_key ?a ?t, olValue = failover_value ?a ?t\<rparr>,
        \<lparr>olKey = failover_key ?a b, olValue = failover_value ?a b @ ''-backup''\<rparr>]"
      and w: "pod_writes cmpnts e = [(?t, failover_key ?a ?t, failover_value ?a ?t),
        (?t, failover_key ?a b, failover_value ?a b @ ''-backup''), (b, failover_key ?a ?t, failover_value ?a ?t)]"
      and tg: "edge_targets cmpnts e = [?t, b]"
      by (simp_all add: edge_list_def pod_writes_def edge_targets_def Let_def)
    have "failover_score (source_list ?D ?a ?t) (pod_labels ?D ?t) = length (source_list ?D ?a ?t)"
      using ne by (intro failover_score_full) (auto simp: ls el list_all_iff label tg w last_write_Cons)
    moreover have "failover_score (source_list ?D ?a ?t) (pod_labels ?D b) = 1"
      using ne by (simp add: failover_score_def ls el label tg w last_write_Cons)
    moreover have "failover_score (source_list ?D ?a ?t) (pod_labels ?D n) = 0" if "n \<noteq> ?t" "n \<noteq> b" for n
      using that by (simp add: failover_score_def ls el label tg w last_write_Cons)
    ultimately show ?thesis by (simp add: Let_def Some tg) (simp add: ls el)
  qed
qed

text \<open>The backup is the replica of the same component at another provider that shares the most of zone,
  region and region alias with the source, the smallest provider name deciding between equals.\<close>

theorem failover_backup_closest:
  assumes "backup_name cmpnts e = Some b"
  shows "\<exists>bk\<in>set cmpnts. b = node_name bk \<and> crName (ssComponentRef bk) = crName (ssComponentRef (dmTo e))
    \<and> prName (ssProviderRef bk) \<noteq> prName (ssProviderRef (dmTo e))
    \<and> (\<forall>c\<in>set cmpnts. crName (ssComponentRef c) = crName (ssComponentRef (dmTo e))
        \<and> prName (ssProviderRef c) \<noteq> prName (ssProviderRef (dmTo e)) \<longrightarrow>
        location_score (dmFrom e) c < location_score (dmFrom e) bk
        \<or> location_score (dmFrom e) c = location_score (dmFrom e) bk \<and> prName (ssProviderRef bk) \<le> prName (ssProviderRef c))"
proof -
  obtain bk rest where o: "backup_order (dmFrom e) (backups_of cmpnts (dmTo e)) = bk # rest" "b = node_name bk"
    using assms by (auto simp: backup_name_def split: list.splits)
  from backup_order_best [OF o(1)] o(2) show ?thesis
    by (intro bexI [of _ bk]) (auto simp: backups_of_def order.order_iff_strict)
qed

section \<open>Examples\<close>

definition ex_svc :: "string \<Rightarrow> string \<Rightarrow> SkyService" where
  "ex_svc c p =
     \<lparr>ssComponentRef = \<lparr>crAPIVersion = ''apps/v1'', crKind = ''Deployment'', crName = c, crNamespace = ''default''\<rparr>,
      ssProviderRef = \<lparr>prName = p, prPlatform = ''aws'', prType = [], prRegion = p, prRegionAlias = [], prZone = p\<rparr>,
      ssManifest = None\<rparr>"

definition ex_edge :: "string \<Rightarrow> DeployMapEdge" where
  "ex_edge p = \<lparr>dmFrom = ex_svc ''a'' ''p1'', dmTo = ex_svc ''x'' p, dmLatency = []\<rparr>"

definition ex_cmpnts :: "SkyService list" where
  "ex_cmpnts = [ex_svc ''a'' ''p1'', ex_svc ''x'' ''p2'', ex_svc ''x'' ''p3'']"

lemma ex_names:
  "node_name (dmFrom (ex_edge p)) = ''a-p1''" "node_name (dmTo (ex_edge p)) = ''x-'' @ p"
  by (simp_all add: node_name_def ex_edge_def ex_svc_def)

lemma ex_backup: "backup_name ex_cmpnts (ex_edge ''p2'') = Some ''x-p3''" "backup_name ex_cmpnts (ex_edge ''p3'') = Some ''x-p2''"
  by (simp_all add: backup_name_def backup_order_def backups_of_def ex_cmpnts_def ex_svc_def ex_edge_def node_name_def)

lemma ex_keys:
  "failover_key ''a-p1'' ''a-p1'' = ''failover/a-p1-a-p1''" "failover_key ''a-p1'' ''x-p2'' = ''failover/a-p1-x-p2''"
  "failover_key ''a-p1'' ''x-p3'' = ''failover/a-p1-x-p3''" "failover_key ''x-p2'' ''a-p1'' = ''failover/x-p2-a-p1''"
  "failover_key ''x-p2'' ''x-p2'' = ''failover/x-p2-x-p2''" "failover_key ''x-p2'' ''x-p3'' = ''failover/x-p2-x-p3''"
  "failover_key ''x-p3'' ''a-p1'' = ''failover/x-p3-a-p1''" "failover_key ''x-p3'' ''x-p2'' = ''failover/x-p3-x-p2''"
  "failover_key ''x-p3'' ''x-p3'' = ''failover/x-p3-x-p3''"
  by code_simp+

lemma ex_values: "failover_value ''a-p1'' ''x-p2'' = ''a-p1-x-p2''" "failover_value ''a-p1'' ''x-p3'' = ''a-p1-x-p3''"
  by code_simp+

lemma ex_plan_ok: "plan_ok ex_cmpnts [ex_edge ''p2''] (ex_edge ''p2'')"
  by (auto simp: plan_ok_def plan_nodes_def edge_targets_def ex_names ex_backup ex_keys intro!: inj_onI)

theorem failover_order_witness:
  "let D = derivePriorities ex_cmpnts [ex_edge ''p2'']; ls = source_list D ''a-p1'' ''x-p2''
   in ls \<noteq> [] \<and> failover_score ls (pod_labels D ''x-p2'') = length ls \<and> 1 < length ls
      \<and> failover_score ls (pod_labels D ''x-p3'') = 1 \<and> failover_score ls (pod_labels D ''a-p1'') = 0"
  using failover_order [OF ex_plan_ok] by (simp add: Let_def ex_names ex_backup edge_targets_def)

theorem failover_backup_closest_witness:
  "\<exists>bk\<in>set ex_cmpnts. ''x-p3'' = node_name bk \<and> prName (ssProviderRef bk) \<noteq> ''p2''"
  using failover_backup_closest [OF ex_backup(1)] by (auto simp: ex_edge_def ex_svc_def)

text \<open>A source with edges to two replicas of one component loses the failover of the first: the writes
  for the second edge replace the labels of the first in the backup, which then matches no label of
  the source, like any other deployment.\<close>

theorem failover_two_replicas:
  "let D = derivePriorities ex_cmpnts [ex_edge ''p2'', ex_edge ''p3'']; ls = source_list D ''a-p1'' ''x-p2''
   in length ls = 2 \<and> failover_score ls (pod_labels D ''x-p2'') = 1 \<and> failover_score ls (pod_labels D ''x-p3'') = 0"
  by (simp add: Let_def failover_score_def pod_labels_get derivePriorities_effect ex_names ex_backup edge_list_def
      pod_writes_def last_write_Cons ex_keys ex_values)

end
