(* ===== verification/Mesh.thy ===== *)
theory Mesh
  imports Failover Values
begin

text \<open>
  The reconciler of the \<open>AtlasMesh\<close>
  (\<open>internal/controller/core/atlasmesh/atlasmesh_controller.go\<close>): from the deploy plan it
  derives the namespaces, config maps, secrets, deployments, services and traffic rules of every
  cluster, records them in the status and, once approved, submits them. A manifest is the object
  the source marshals, its maps in the order of the keys, as \<open>encoding/json\<close> writes them.
  The debugging files are left out.
\<close>

section \<open>Kubernetes and Istio objects\<close>

text \<open>Of the objects of the libraries, the fields the source reads or writes; the rest is opaque.\<close>

record K8sDeployment =
  kdName :: string
  kdNamespace :: string
  kdLabels :: "string gomap"
  kdAnnotations :: "string gomap"
  kdReplicas :: "int option"
  kdMatchLabels :: "string gomap"
  kdMatchExpressions :: string
  kdTemplateLabels :: "string gomap"
  kdTemplateAnnotations :: "string gomap"
  kdPodSpec :: string

record K8sConfigMap =
  kcName :: string
  kcNamespace :: string
  kcLabels :: "string gomap"
  kcData :: "string gomap"

record K8sNamespace =
  knName :: string
  knLabels :: "string gomap"

record K8sService =
  ksName :: string
  ksNamespace :: string
  ksLabels :: "string gomap"
  ksAnnotations :: "string gomap"
  ksResourceVersion :: string
  ksUID :: string
  ksGeneration :: int
  ksOwnerReferences :: "string list"
  ksFinalizers :: "string list"
  ksSelector :: "string gomap"
  ksClusterIP :: string
  ksClusterIPs :: "string list"
  ksLoadBalancerIP :: string
  ksLoadBalancerSourceRanges :: "string list"
  ksExternalIPs :: "string list"
  ksExternalName :: string
  ksPorts :: string
  ksStatus :: string

text \<open>A route: its name, the labels of the source it matches, host and subset.\<close>

record http_route =
  hrName :: string
  hrSourceLabels :: "string gomap"
  hrHost :: string
  hrSubset :: string

record IstioVirtualService =
  ivName :: string
  ivNamespace :: string
  ivLabels :: "string gomap"
  ivHosts :: "string list"
  ivHttp :: "http_route list"

text \<open>A subset; the load balancing and outlier settings are the same constants in each.\<close>

record rule_subset =
  sbName :: string
  sbFailoverPriority :: "string list"

record IstioDestinationRule =
  idName :: string
  idNamespace :: string
  idHost :: string
  idSubsets :: "rule_subset list"

datatype mesh_manifest =
    MNamespace K8sNamespace
  | MConfigMap K8sConfigMap
  | MSecret K8sConfigMap
  | MDeployment K8sDeployment
  | MService K8sService
  | MVirtualService IstioVirtualService
  | MDestinationRule IstioDestinationRule

definition json_map :: "string gomap \<Rightarrow> string gomap" where
  "json_map m = sort_key fst m"

fun marshal_manifest :: "mesh_manifest \<Rightarrow> mesh_manifest" where
  "marshal_manifest (MNamespace n) = MNamespace (n\<lparr>knLabels := json_map (knLabels n)\<rparr>)"
| "marshal_manifest (MConfigMap c) = MConfigMap (c\<lparr>kcLabels := json_map (kcLabels c), kcData := json_map (kcData c)\<rparr>)"
| "marshal_manifest (MSecret c) = MSecret (c\<lparr>kcLabels := json_map (kcLabels c), kcData := json_map (kcData c)\<rparr>)"
| "marshal_manifest (MDeployment d) = MDeployment (d\<lparr>kdLabels := json_map (kdLabels d), kdAnnotations := json_map (kdAnnotations d),
     kdMatchLabels := json_map (kdMatchLabels d), kdTemplateLabels := json_map (kdTemplateLabels d),
     kdTemplateAnnotations := json_map (kdTemplateAnnotations d)\<rparr>)"
| "marshal_manifest (MService s) = MService (s\<lparr>ksLabels := json_map (ksLabels s), ksAnnotations := json_map (ksAnnotations s),
     ksSelector := json_map (ksSelector s)\<rparr>)"
| "marshal_manifest (MVirtualService v) = MVirtualService (v\<lparr>ivLabels := json_map (ivLabels v),
     ivHttp := map (\<lambda>h. h\<lparr>hrSourceLabels := json_map (hrSourceLabels h)\<rparr>) (ivHttp v)\<rparr>)"
| "marshal_manifest (MDestinationRule r) = MDestinationRule r"

text \<open>The fields of \<open>SkyService\<close> the mesh uses: name, namespace, manifest, provider config.\<close>

record MeshObject =
  moName :: string
  moNamespace :: string
  moManifest :: mesh_manifest
  moConfigName :: string

record MeshState = AtlasMesh +
  mtObjects :: "MeshObject list"

text \<open>The wrapper submitted to the API server, and its spec of two fields that vary.\<close>

record mesh_wrapper =
  mwName :: string
  mwNamespace :: string
  mwManifest :: "any gomap"
  mwProviderConfig :: string

datatype mesh_effect =
    UpdateMeshStatus MeshState
  | CreateObject mesh_wrapper
  | UpdateObject "any gomap"

text \<open>
  Replies, by call. \<open>me_json\<close> is the JSON object of a manifest, \<open>me_rand\<close> the five characters of
  \<open>utils.RandSuffix\<close> (a generator of the standard library seeded by the name), \<open>me_order\<close> the order
  in which the runtime visits the keys of a map.
\<close>

record mesh_env =
  me_mesh :: "string \<Rightarrow> string \<Rightarrow> MeshState go"
  me_profiles :: "ProviderProfile list go"
  me_xkubes :: "any gomap list go"
  me_xsetups :: "any gomap list go"
  me_deployment :: "string \<Rightarrow> string \<Rightarrow> K8sDeployment go"
  me_config_maps :: "string gomap \<Rightarrow> K8sConfigMap list go"
  me_secrets :: "string gomap \<Rightarrow> K8sConfigMap list go"
  me_namespaces :: "string gomap \<Rightarrow> K8sNamespace list go"
  me_services :: "string gomap \<Rightarrow> K8sService list go"
  me_update_status :: "unit go"
  me_create :: "string \<Rightarrow> unit go"
  me_get_object :: "string \<Rightarrow> string \<Rightarrow> any gomap go"
  me_update_object :: "unit go"
  me_json :: "mesh_manifest \<Rightarrow> any gomap"
  me_rand :: "string \<Rightarrow> string"
  me_order :: "string list \<Rightarrow> string list"

section \<open>Provider configs\<close>

text \<open>The test looks up the platform of the profile among the names.\<close>

definition fetchProviderProfilesMap :: "ProviderProfile list go \<Rightarrow> ProviderProfile gomap go" where
  "fetchProviderProfilesMap reply =
     bind_go (wrap_go ''listing provider profiles'' reply) (\<lambda>items.
       if length items = 0 then Inl (Errf ''no provider profiles found'')
       else Inr (foldl (\<lambda>m pp. if mget m (ppPlatform (pfSpec pp)) = None then mput (pfName pp) pp m else m) [] items))"

text \<open>One XKube object for one profile: the last that matches wins.\<close>

definition xkube_config :: "string \<Rightarrow> ProviderProfile \<Rightarrow> string gomap \<Rightarrow> any gomap \<Rightarrow> string gomap" where
  "xkube_config pName pp cfg xProvObj =
     (case (GetNestedString xProvObj [''spec'', ''providerRef'', ''region''],
            GetNestedString xProvObj [''spec'', ''providerRef'', ''platform'']) of
        (Inr xpRegion, Inr xpPlatform) \<Rightarrow>
          if xpPlatform \<noteq> ppPlatform (pfSpec pp) \<or> xpRegion \<noteq> ppRegion (pfSpec pp) then cfg
          else (case GetNestedString xProvObj [''status'', ''providerConfigs'', ''k8s''] of
                  Inl _ \<Rightarrow> cfg | Inr provCfgName \<Rightarrow> mput pName provCfgName cfg)
      | _ \<Rightarrow> cfg)"

definition getProviderConfigNameMap :: "mesh_env \<Rightarrow> string gomap go" where
  "getProviderConfigNameMap E =
     bind_go (wrap_go ''failed to fetch provider profiles'' (fetchProviderProfilesMap (me_profiles E))) (\<lambda>provProfiles.
     bind_go (wrap_go ''failed to list XProvider objects'' (me_xkubes E)) (\<lambda>items.
       let cfgPerProv = foldl (\<lambda>m (pName, pp). foldl (xkube_config pName pp) m items) [] provProfiles
       in bind_go (wrap_go ''failed to list XSetup objects'' (me_xsetups E)) (\<lambda>setups.
            if length setups = 0 then Inl (Errf ''no XSetup object found for local cluster'')
            else if length setups > 1 then Inl (Errf ''multiple XSetup objects found for local cluster'')
            else bind_go (wrap_go ''failed to get local provider config name from XSetup''
                   (GetNestedString (hd setups) [''status'', ''providerConfig'', ''kubernetes'', ''name''])) (\<lambda>localProvCfgName.
                 Inr (mput ''local'' localProvCfgName cfgPerProv)))))"

section \<open>Manifests\<close>

fun lo_uniq :: "'a list \<Rightarrow> 'a list" where
  "lo_uniq [] = []"
| "lo_uniq (x # xs) = x # lo_uniq (filter (\<lambda>y. y \<noteq> x) xs)"

definition object_name :: "mesh_env \<Rightarrow> nat \<Rightarrow> string \<Rightarrow> string" where
  "object_name E n name = take (min (length name) n) name @ ''-'' @ me_rand E name"

definition generateObjectWrapper :: "string \<Rightarrow> string \<Rightarrow> mesh_manifest \<Rightarrow> string \<Rightarrow> MeshObject" where
  "generateObjectWrapper name ns obj providerConfigName =
     \<lparr>moName = name, moNamespace = ns, moManifest = marshal_manifest obj, moConfigName = providerConfigName\<rparr>"

definition app_labels :: "string \<Rightarrow> string gomap" where
  "app_labels appId = [(''skycluster.io/app-scope'', ''distributed''), (''skycluster.io/app-id'', appId)]"

definition is_deployment :: "SkyService \<Rightarrow> bool" where
  "is_deployment c = (to_lower (crKind (ssComponentRef c)) = ''deployment'')"

text \<open>The provider and the namespace of every deployment of the plan.\<close>

definition selected_deployments :: "mesh_env \<Rightarrow> string \<Rightarrow> SkyService list \<Rightarrow> (string \<times> string) list go" where
  "selected_deployments E ns cmpnts =
     map_go (\<lambda>c. bind_go (wrap_go ''error getting Deployment.'' (me_deployment E ns (crName (ssComponentRef c)))) (\<lambda>deploy.
         Inr (prName (ssProviderRef c), if kdNamespace deploy \<noteq> [] then kdNamespace deploy else ns)))
       (filter is_deployment cmpnts)"

definition config_object ::
  "mesh_env \<Rightarrow> string gomap \<Rightarrow> string gomap \<Rightarrow> string \<Rightarrow> (K8sConfigMap \<Rightarrow> mesh_manifest) \<Rightarrow> K8sConfigMap \<Rightarrow> string \<Rightarrow> MeshObject" where
  "config_object E labels provCfgNameMap prefix mk cmObj pName =
     (let newCm = \<lparr>kcName = kcName cmObj, kcNamespace = kcNamespace cmObj, kcLabels = labels, kcData = kcData cmObj\<rparr>
      in generateObjectWrapper (object_name E 20 (prefix @ kcName newCm @ ''-'' @ pName)) [] (mk newCm) (mstr provCfgNameMap pName))"

definition generateConfigDataManifests ::
  "mesh_env \<Rightarrow> string \<Rightarrow> string \<Rightarrow> SkyService list \<Rightarrow> string gomap \<Rightarrow> MeshObject list go" where
  "generateConfigDataManifests E ns appId cmpnts provCfgNameMap =
     bind_go (selected_deployments E ns cmpnts) (\<lambda>sel.
       let selectedProvNames = lo_uniq (map fst sel); labels = app_labels appId
       in bind_go (wrap_go ''error listing configmaps.'' (me_config_maps E labels)) (\<lambda>cms.
          bind_go (wrap_go ''error listing secrets.'' (me_secrets E labels)) (\<lambda>secrets.
            Inr (concat (map (\<lambda>cm. map (config_object E labels provCfgNameMap ''cm-'' MConfigMap cm) selectedProvNames) cms)
               @ concat (map (\<lambda>s. map (config_object E labels provCfgNameMap ''sec-'' MSecret s) selectedProvNames) secrets)))))"

definition generateNamespaceManifests ::
  "mesh_env \<Rightarrow> string \<Rightarrow> string \<Rightarrow> SkyService list \<Rightarrow> string gomap \<Rightarrow> MeshObject list go" where
  "generateNamespaceManifests E ns appId cmpnts provCfgNameMap =
     bind_go (selected_deployments E ns cmpnts) (\<lambda>sel.
       let selectedNs = lo_uniq (map snd sel); selectedProvNames = lo_uniq (map fst sel)
       in bind_go (wrap_go ''error listing namespaces.'' (me_namespaces E (app_labels appId))) (\<lambda>nsList.
            Inr (concat (map (\<lambda>nsObj.
              let labels = mput ''istio-injection'' ''enabled'' (mput ''skycluster.io/managed-by'' ''skycluster'' (knLabels nsObj))
              in map (\<lambda>pName. generateObjectWrapper (object_name E 20 (''ns-'' @ knName nsObj @ ''-'' @ pName)) []
                       (MNamespace \<lparr>knName = knName nsObj, knLabels = labels\<rparr>) (mstr provCfgNameMap pName)) selectedProvNames)
              (filter (\<lambda>nsObj. knName nsObj \<in> set selectedNs
                  \<or> mget (knLabels nsObj) ''skycluster.io/app-scope'' = Some ''distributed'') nsList)))))"

definition deepCopyService :: "K8sService \<Rightarrow> bool \<Rightarrow> K8sService" where
  "deepCopyService src clearAnnotations =
     (let dest = src\<lparr>ksResourceVersion := [], ksUID := [], ksGeneration := 0, ksOwnerReferences := [], ksFinalizers := [],
                     ksStatus := [], ksClusterIP := [], ksClusterIPs := [], ksLoadBalancerIP := [],
                     ksLoadBalancerSourceRanges := [], ksExternalIPs := [], ksExternalName := []\<rparr>
      in if clearAnnotations then dest\<lparr>ksAnnotations := []\<rparr> else dest)"

text \<open>A service without labels keeps none: the map made for it is not stored in it.\<close>

definition generateServiceManifests ::
  "mesh_env \<Rightarrow> string \<Rightarrow> SkyService list \<Rightarrow> string gomap \<Rightarrow> MeshObject list go" where
  "generateServiceManifests E appId cmpnts provCfgNameMap =
     (let selectedProvNames = lo_uniq (map (\<lambda>c. prName (ssProviderRef c)) (filter is_deployment cmpnts))
      in bind_go (wrap_go ''error listing Services.'' (me_services E (app_labels appId))) (\<lambda>svcs.
           Inr (concat (map (\<lambda>svc.
             let svc = (if ksLabels svc = [] then svc
                        else svc\<lparr>ksLabels := mput ''skycluster.io/service-name'' (ksName svc)
                                   (mput ''skycluster.io/managed-by'' ''skycluster'' (ksLabels svc))\<rparr>)
             in map (\<lambda>pName. let newSvc = deepCopyService svc True
                     in generateObjectWrapper (object_name E 20 (''svc-'' @ ksName newSvc @ ''-'' @ pName)) (ksNamespace newSvc)
                          (MService newSvc) (mstr provCfgNameMap pName)) selectedProvNames) svcs))))"

definition generateNewDeplyFromDeploy :: "K8sDeployment \<Rightarrow> K8sDeployment" where
  "generateNewDeplyFromDeploy deploy =
     deploy\<lparr>kdAnnotations := mdel ''deployment.kubernetes.io/revision''
       (mdel ''kubectl.kubernetes.io/last-applied-configuration'' (kdAnnotations deploy))\<rparr>"

text \<open>The histogram buckets of the annotation are a constant text, a parameter here.\<close>

definition label_deployment :: "string \<Rightarrow> string \<Rightarrow> string gomap \<Rightarrow> K8sDeployment \<Rightarrow> K8sDeployment" where
  "label_deployment buckets uniqName allLbls newDeploy =
     (let component = [(''skycluster.io/managed-by'', ''skycluster''), (''skycluster.io/component'', uniqName)]
      in newDeploy\<lparr>
           kdTemplateAnnotations := massign (kdTemplateAnnotations newDeploy)
             [(''sidecar.istio.io/statsHistogramBuckets'', buckets)],
           kdTemplateLabels := sort_key fst (massign (massign (kdTemplateLabels newDeploy) component) allLbls),
           kdMatchLabels := massign (kdMatchLabels newDeploy) component,
           kdLabels := massign (kdLabels newDeploy) component\<rparr>)"

text \<open>A deployment without an entry among the labels is a nil pointer, which the source dereferences.\<close>

definition deploy_manifest ::
  "mesh_env \<Rightarrow> string \<Rightarrow> string \<Rightarrow> priorityLabels gomap \<Rightarrow> string gomap \<Rightarrow> SkyService \<Rightarrow> MeshObject go" where
  "deploy_manifest E buckets ns labels provCfgNameMap deployItem =
     bind_go (wrap_go ''error getting Deployment.'' (me_deployment E ns (crName (ssComponentRef deployItem)))) (\<lambda>deploy.
       let newDeploy = generateNewDeplyFromDeploy deploy;
           deployItemUniqName = node_name deployItem
       in case mget labels deployItemUniqName of
            None \<Rightarrow> Inl (Panic ''invalid memory address or nil pointer dereference'')
          | Some p \<Rightarrow>
              (let newDeploy = label_deployment buckets deployItemUniqName (allLabels p) newDeploy
               in Inr (generateObjectWrapper
                    (object_name E 20 (''dp-'' @ kdName newDeploy @ ''-'' @ prName (ssProviderRef deployItem)))
                    (kdNamespace newDeploy) (MDeployment newDeploy)
                    (mstr provCfgNameMap (prName (ssProviderRef deployItem))))))"

definition generateDeployManifests ::
  "mesh_env \<Rightarrow> string \<Rightarrow> string \<Rightarrow> DeployMap \<Rightarrow> string gomap \<Rightarrow> MeshObject list go" where
  "generateDeployManifests E buckets ns dpMap provCfgNameMap =
     (let labels = derivePriorities (dmComponent dpMap) (dmEdges dpMap)
      in map_go (deploy_manifest E buckets ns labels provCfgNameMap) (filter is_deployment (dmComponent dpMap)))"

section \<open>Traffic rules\<close>

definition deploymentHasLabels :: "K8sDeployment \<Rightarrow> string gomap \<Rightarrow> bool" where
  "deploymentHasLabels deploy labels = list_all (\<lambda>(k, v). mstr (kdTemplateLabels deploy) k = v) labels"

text \<open>The two maps of the function: a rule with the provider of its cluster.\<close>

type_synonym istio_rules = "(string \<times> IstioVirtualService) gomap \<times> (string \<times> IstioDestinationRule) gomap"

definition add_route :: "priorityLabels gomap \<Rightarrow> SkyService \<Rightarrow> SkyService \<Rightarrow> K8sService \<Rightarrow> istio_rules \<Rightarrow> istio_rules" where
  "add_route labels from to' svc rules =
     (case rules of (virtualSvcs, dstRules) \<Rightarrow>
        let name = ksName svc @ ''-'' @ prName (ssProviderRef from);
            vs = (case mget virtualSvcs name of
                    Some v \<Rightarrow> v
                  | None \<Rightarrow> (prName (ssProviderRef from),
                      \<lparr>ivName = name, ivNamespace = ksNamespace svc, ivLabels = [(''skycluster.io/service-name'', ksName svc)],
                       ivHosts = [ksName svc], ivHttp = []\<rparr>));
            dr = (case mget dstRules name of
                    Some d \<Rightarrow> d
                  | None \<Rightarrow> (prName (ssProviderRef from),
                      \<lparr>idName = name, idNamespace = ksNamespace svc, idHost = ksName svc, idSubsets = []\<rparr>));
            http = \<lparr>hrName = crName (ssComponentRef from), hrSourceLabels = [(''skycluster.io/component'', node_name from)],
                    hrHost = ksName svc, hrSubset = crName (ssComponentRef from)\<rparr>;
            labelAndKeys = map (\<lambda>kv. olKey kv @ ''='' @ olValue kv) (source_list labels (node_name from) (node_name to'));
            subset = \<lparr>sbName = crName (ssComponentRef from), sbFailoverPriority = labelAndKeys\<rparr>
        in (mput name (fst vs, (snd vs)\<lparr>ivHttp := ivHttp (snd vs) @ [http]\<rparr>) virtualSvcs,
            mput name (fst dr, (snd dr)\<lparr>idSubsets := idSubsets (snd dr) @ [subset]\<rparr>) dstRules))"

text \<open>One edge: the first service whose selector the target's pods carry.\<close>

definition istio_edge ::
  "mesh_env \<Rightarrow> string \<Rightarrow> string \<Rightarrow> priorityLabels gomap \<Rightarrow> istio_rules \<Rightarrow> DeployMapEdge \<Rightarrow> istio_rules go" where
  "istio_edge E ns appId labels rules edge =
     (if \<not> is_deployment (dmTo edge) then Inr rules
      else
        bind_go (wrap_go ''error getting Deployment for edge target.''
            (me_deployment E ns (crName (ssComponentRef (dmTo edge))))) (\<lambda>dep.
        bind_go (wrap_go ''error listing Services for istio configuration.'' (me_services E (app_labels appId))) (\<lambda>svcs.
          case find (\<lambda>svc. deploymentHasLabels dep (ksSelector svc)) svcs of
            None \<Rightarrow> Inr rules
          | Some svc \<Rightarrow> Inr (add_route labels (dmFrom edge) (dmTo edge) svc rules))))"

definition rule_objects ::
  "mesh_env \<Rightarrow> string \<Rightarrow> string gomap \<Rightarrow> ('r \<Rightarrow> string) \<Rightarrow> ('r \<Rightarrow> string) \<Rightarrow> ('r \<Rightarrow> mesh_manifest) \<Rightarrow> (string \<times> 'r) gomap \<Rightarrow> MeshObject list" where
  "rule_objects E prefix provCfgNameMap name_of ns_of mk rules =
     map (\<lambda>(prov, r). generateObjectWrapper (object_name E 25 (prefix @ name_of r)) (ns_of r) (mk r) (mstr provCfgNameMap prov))
       (List.map_filter (mget rules) (me_order E (mkeys rules)))"

definition generateIstioConfig ::
  "mesh_env \<Rightarrow> string \<Rightarrow> string \<Rightarrow> DeployMap \<Rightarrow> string gomap \<Rightarrow> MeshObject list go" where
  "generateIstioConfig E ns appId dpMap provCfgNameMap =
     (let labels = derivePriorities (dmComponent dpMap) (dmEdges dpMap)
      in bind_go (foldl_go (istio_edge E ns appId labels) ([], []) (dmEdges dpMap)) (\<lambda>(virtualSvcs, dstRules).
           Inr (rule_objects E ''vs-'' provCfgNameMap ivName ivNamespace MVirtualService virtualSvcs
              @ rule_objects E ''dr-'' provCfgNameMap idName idNamespace MDestinationRule dstRules)))"

section \<open>The reconciler\<close>

definition mesh_manifests :: "mesh_env \<Rightarrow> string \<Rightarrow> MeshState \<Rightarrow> string \<Rightarrow> string gomap \<Rightarrow> MeshObject list go" where
  "mesh_manifests E buckets atlasmesh appId provCfgNameMap =
     (let ns = amNamespace atlasmesh; cmpnts = dmComponent (amDeployMap atlasmesh)
      in bind_go (wrap_go ''failed to generate namespace manifests'' (generateNamespaceManifests E ns appId cmpnts provCfgNameMap)) (\<lambda>nsManifests.
         bind_go (wrap_go ''failed to generate config data manifests'' (generateConfigDataManifests E ns appId cmpnts provCfgNameMap)) (\<lambda>cdManifests.
         bind_go (wrap_go ''failed to generate application manifests'' (generateDeployManifests E buckets ns (amDeployMap atlasmesh) provCfgNameMap)) (\<lambda>depManifests.
         bind_go (wrap_go ''failed to generate service manifests'' (generateServiceManifests E appId cmpnts provCfgNameMap)) (\<lambda>svcManifests.
         bind_go (wrap_go ''failed to generate istio configuration manifests'' (generateIstioConfig E ns appId (amDeployMap atlasmesh) provCfgNameMap)) (\<lambda>manifestsIstio.
           Inr (nsManifests @ cdManifests @ depManifests @ svcManifests @ manifestsIstio)))))))"

text \<open>Whether the status is rewritten: other names, or another manifest under a name. The last object of
  a name is the one found.\<close>

definition objects_changed :: "MeshObject list \<Rightarrow> MeshObject list \<Rightarrow> bool" where
  "objects_changed oldObjs newObjs =
     (let oldMap = foldl (\<lambda>m o'. mput (moName o') o' m) [] oldObjs
      in if length oldMap \<noteq> length newObjs then True
         else list_ex (\<lambda>m. case mget oldMap (moName m) of None \<Rightarrow> True | Some old \<Rightarrow> moManifest old \<noteq> moManifest m) newObjs)"

definition mesh_status :: "mesh_env \<Rightarrow> MeshState \<Rightarrow> MeshObject list \<Rightarrow> (mesh_effect, unit) run" where
  "mesh_status E atlasmesh newObjects =
     (if objects_changed (mtObjects atlasmesh) newObjects
      then wrap_run ''error updating AtlasMesh status''
             (call (UpdateMeshStatus (atlasmesh\<lparr>mtObjects := newObjects\<rparr>)) (me_update_status E))
      else pure_run (Inr ()))"

text \<open>Marshalled again, with the keys of every map in order.\<close>

fun json_canon :: "any \<Rightarrow> any" where
  "json_canon (AList xs) = AList (map json_canon xs)"
| "json_canon (AMap m) = AMap (sort_key fst (map (\<lambda>(k, v). (k, json_canon v)) m))"
| "json_canon v = v"

definition equalManifests :: "any \<Rightarrow> any \<Rightarrow> bool" where
  "equalManifests a b = (json_canon a = json_canon b)"

definition generateUnstructuredWrapper :: "mesh_env \<Rightarrow> MeshObject \<Rightarrow> MeshState \<Rightarrow> mesh_wrapper" where
  "generateUnstructuredWrapper E skyObj owner =
     \<lparr>mwName = moName skyObj, mwNamespace = amNamespace owner, mwManifest = me_json E (moManifest skyObj),
      mwProviderConfig = moConfigName skyObj\<rparr>"

text \<open>An object that exists gets the new manifest when it differs; its provider config is left.\<close>

definition mesh_update :: "mesh_env \<Rightarrow> mesh_wrapper \<Rightarrow> go_error \<Rightarrow> (mesh_effect, unit) run" where
  "mesh_update E obj err =
     bind_run (pure_run (wrap_go ''error getting existing manifest object'' (me_get_object E (mwName obj) (mwNamespace obj)))) (\<lambda>current.
       case GetNestedValue current [''spec'', ''manifest''] of
         Inl _ \<Rightarrow> pure_run (Inl (wrap ''error getting current manifest'' err))
       | Inr curManifest \<Rightarrow>
           if \<not> equalManifests curManifest (AMap (mwManifest obj)) then
             (case SetNestedField current (AMap (mwManifest obj)) [''spec'', ''manifest''] of
                Inl e \<Rightarrow> pure_run (Inl e)
              | Inr updated \<Rightarrow> wrap_run ''error updating manifest object'' (call (UpdateObject updated) (me_update_object E)))
           else pure_run (Inr ()))"

definition mesh_submit :: "mesh_env \<Rightarrow> MeshState \<Rightarrow> MeshObject \<Rightarrow> (mesh_effect, unit) run" where
  "mesh_submit E atlasmesh m =
     (let obj = generateUnstructuredWrapper E m atlasmesh
      in try_run (call (CreateObject obj) (me_create E (mwName obj))) (\<lambda>reply.
           case reply of
             Inr _ \<Rightarrow> pure_run (Inr ())
           | Inl err \<Rightarrow>
               if is_already_exists err then mesh_update E obj err
               else pure_run (Inl (wrap ''error creating manifest object'' err))))"

definition AtlasMeshReconcile :: "mesh_env \<Rightarrow> string \<Rightarrow> string \<Rightarrow> string \<Rightarrow> (mesh_effect, unit) run" where
  "AtlasMeshReconcile E buckets ns name =
     (case me_mesh E ns name of
        Inl err \<Rightarrow> pure_run (if is_not_found err then Inr () else Inl err)
      | Inr atlasmesh \<Rightarrow>
          bind_run (pure_run (wrap_go ''failed to get provider config name map'' (getProviderConfigNameMap E))) (\<lambda>provCfgNameMap.
            let appId = mstr (amLabels atlasmesh) ''skycluster.io/app-id''
            in if appId = [] then pure_run (Inl (Errf ''missing required label: skycluster.io/app-id''))
               else
                 bind_run (pure_run (mesh_manifests E buckets atlasmesh appId provCfgNameMap)) (\<lambda>manifests.
                 bind_run (mesh_status E atlasmesh manifests) (\<lambda>_.
                   if amApprove atlasmesh then fold_run (mesh_submit E atlasmesh) manifests else pure_run (Inr ())))))"

end
