(* ===== verification/MeshProps.thy ===== *)
theory MeshProps
  imports Mesh
begin

text \<open>
  What the mesh reconciler guarantees: the generated deployments are admissible and their pods offer
  the failover the plan asks for, the traffic rules lead to subsets that exist, the status settles
  when the names are distinct, and nothing but the plan is submitted.
\<close>


section \<open>Deployments of the plan\<close>

lemma failover_key_prefix: "has_prefix (failover_key a b) ''failover/''"
proof -
  have "fst (split_key (''failover/'' @ a @ ''-'' @ b)) = ''failover''" by (simp add: split_key_def)
  then show ?thesis by (simp add: failover_key_def ShortenLabelKey_def split_beta Let_def with_prefix_def)
qed

lemma pod_label_key: "pod_label (derivePriorities cmpnts edges) n k = Some v \<Longrightarrow> has_prefix k ''failover/''"
  by (auto simp: derivePriorities_effect(1) pod_writes_def Let_def failover_key_prefix dest!: last_write_Some split: option.splits)

definition labels_wf :: "priorityLabels gomap \<Rightarrow> bool" where
  "labels_wf L \<longleftrightarrow> (\<forall>n p. mget L n = Some p \<longrightarrow> wf_map (allLabels p))"

lemma labels_wf_ops:
  "labels_wf L \<Longrightarrow> labels_wf (init_node n L)"
  "labels_wf L \<Longrightarrow> labels_wf (add_source a t kv L)"
  "labels_wf L \<Longrightarrow> labels_wf (add_label n k v L)"
  by (auto simp: labels_wf_def node_ops_get split: if_splits)

lemma labels_wf_derive: "labels_wf (derivePriorities cmpnts edges)"
proof -
  have edge: "labels_wf L \<Longrightarrow> labels_wf (derive_edge cmpnts L e)" for L e
    by (auto simp: derive_edge_def Let_def intro!: labels_wf_ops split: list.split)
  show ?thesis
    by (induction edges rule: rev_induct) (simp_all add: derivePriorities_def edge labels_wf_def [of "[]"])
qed

lemma wf_pod_labels: "wf_map (pod_labels (derivePriorities cmpnts edges) n)"
  using labels_wf_derive by (auto simp: pod_labels_def labels_wf_def split: option.split)

definition component_label :: "string \<Rightarrow> string \<Rightarrow> string option" where
  "component_label u k =
     (if k = ''skycluster.io/component'' then Some u
      else if k = ''skycluster.io/managed-by'' then Some ''skycluster'' else None)"

lemma wf_json_map: "wf_map m \<Longrightarrow> wf_map (json_map m)"
  by (simp add: json_map_def wf_map_def distinct_map inj_on_def)

text \<open>The labels of the pods and of the selector of a generated deployment.\<close>

lemma label_deployment_get:
  assumes "wf_map (kdTemplateLabels d)" and "wf_map (kdMatchLabels d)" and "wf_map al"
  shows "mget (json_map (kdTemplateLabels (label_deployment buckets u al d))) k
      = (case mget al k of Some v \<Rightarrow> Some v
         | None \<Rightarrow> (case component_label u k of Some v \<Rightarrow> Some v | None \<Rightarrow> mget (kdTemplateLabels d) k))"
    and "mget (json_map (kdMatchLabels (label_deployment buckets u al d))) k
      = (case component_label u k of Some v \<Rightarrow> Some v | None \<Rightarrow> mget (kdMatchLabels d) k)"
proof -
  let ?c = "[(''skycluster.io/managed-by'', ''skycluster''), (''skycluster.io/component'', u)]"
  have c: "wf_map ?c" "mget ?c k = component_label u k" by (simp_all add: wf_map_def mget_Cons component_label_def)
  have wf: "wf_map (massign (massign (kdTemplateLabels d) ?c) al)" "wf_map (massign (kdMatchLabels d) ?c)"
    using assms by (auto intro!: wf_map_massign)
  then have wf': "wf_map (sort_key fst (massign (massign (kdTemplateLabels d) ?c) al))"
    using wf_json_map [of "massign (massign (kdTemplateLabels d) ?c) al"] by (simp add: json_map_def)
  show "mget (json_map (kdTemplateLabels (label_deployment buckets u al d))) k
      = (case mget al k of Some v \<Rightarrow> Some v
         | None \<Rightarrow> (case component_label u k of Some v \<Rightarrow> Some v | None \<Rightarrow> mget (kdTemplateLabels d) k))"
    using wf wf' by (simp add: label_deployment_def Let_def json_map_def mget_sort_key mget_massign [OF assms(3)]
        mget_massign [OF c(1)] c(2) cong: option.case_cong)
  show "mget (json_map (kdMatchLabels (label_deployment buckets u al d))) k
      = (case component_label u k of Some v \<Rightarrow> Some v | None \<Rightarrow> mget (kdMatchLabels d) k)"
    using wf by (simp add: label_deployment_def Let_def json_map_def mget_sort_key mget_massign [OF c(1)] c(2)
        cong: option.case_cong)
qed

text \<open>What a generated manifest is.\<close>

lemma deploy_manifest_Inr:
  assumes "deploy_manifest E buckets ns labels cfg c = Inr m"
  shows "\<exists>d p. me_deployment E ns (crName (ssComponentRef c)) = Inr d \<and> mget labels (node_name c) = Some p
    \<and> moManifest m = marshal_manifest (MDeployment (label_deployment buckets (node_name c) (allLabels p) (generateNewDeplyFromDeploy d)))
    \<and> moConfigName m = mstr cfg (prName (ssProviderRef c))"
proof -
  from assms obtain d where d: "me_deployment E ns (crName (ssComponentRef c)) = Inr d"
    unfolding deploy_manifest_def bind_go_eq_Inr wrap_go_eq_Inr by (elim exE conjE)
  show ?thesis
  proof (cases "mget labels (node_name c)")
    case None
    with assms d show ?thesis by (simp add: deploy_manifest_def Let_def)
  next
    case (Some p)
    with assms d have "m = generateObjectWrapper
        (object_name E 20 (''dp-'' @ kdName (label_deployment buckets (node_name c) (allLabels p) (generateNewDeplyFromDeploy d))
          @ ''-'' @ prName (ssProviderRef c)))
        (kdNamespace (label_deployment buckets (node_name c) (allLabels p) (generateNewDeplyFromDeploy d)))
        (MDeployment (label_deployment buckets (node_name c) (allLabels p) (generateNewDeplyFromDeploy d)))
        (mstr cfg (prName (ssProviderRef c)))"
      by (simp only: deploy_manifest_def Let_def bind_go_simps wrap_go_simps option.case sum.inject)
    then have "moManifest m = marshal_manifest (MDeployment (label_deployment buckets (node_name c) (allLabels p) (generateNewDeplyFromDeploy d)))"
        "moConfigName m = mstr cfg (prName (ssProviderRef c))"
      by (simp_all only: generateObjectWrapper_def MeshObject.select_convs)
    with d Some show ?thesis by (intro exI [of _ d] exI [of _ p] conjI)
  qed
qed

lemma generateDeployManifests_member:
  assumes "generateDeployManifests E buckets ns dp cfg = Inr ms" and "m \<in> set ms"
  shows "\<exists>c d p. c \<in> set (dmComponent dp) \<and> is_deployment c \<and> me_deployment E ns (crName (ssComponentRef c)) = Inr d
    \<and> mget (derivePriorities (dmComponent dp) (dmEdges dp)) (node_name c) = Some p
    \<and> moManifest m = marshal_manifest (MDeployment (label_deployment buckets (node_name c) (allLabels p) (generateNewDeplyFromDeploy d)))
    \<and> moConfigName m = mstr cfg (prName (ssProviderRef c))"
proof -
  from assms obtain c where c: "c \<in> set (filter is_deployment (dmComponent dp))"
      "deploy_manifest E buckets ns (derivePriorities (dmComponent dp) (dmEdges dp)) cfg c = Inr m"
    using map_go_set [OF assms(1) [unfolded generateDeployManifests_def Let_def] assms(2)] by (elim bexE)
  from c(1) have "c \<in> set (dmComponent dp)" "is_deployment c" by simp_all
  moreover obtain d p where "me_deployment E ns (crName (ssComponentRef c)) = Inr d"
      "mget (derivePriorities (dmComponent dp) (dmEdges dp)) (node_name c) = Some p"
      "moManifest m = marshal_manifest (MDeployment (label_deployment buckets (node_name c) (allLabels p) (generateNewDeplyFromDeploy d)))"
      "moConfigName m = mstr cfg (prName (ssProviderRef c))"
    using deploy_manifest_Inr [OF c(2)] by (elim exE conjE)
  ultimately show ?thesis by (intro exI [of _ c] exI [of _ d] exI [of _ p] conjI)
qed

text \<open>A deployment the user may hand in: its maps are maps, its selector selects its own pods (the API server
  refuses any other) and no label key has the prefix of the failover labels.\<close>

definition user_deployment :: "K8sDeployment \<Rightarrow> bool" where
  "user_deployment d \<longleftrightarrow> wf_map (kdTemplateLabels d) \<and> wf_map (kdMatchLabels d)
     \<and> (\<forall>k v. mget (kdMatchLabels d) k = Some v \<longrightarrow> mget (kdTemplateLabels d) k = Some v)
     \<and> (\<forall>k. mget (kdTemplateLabels d) k \<noteq> None \<longrightarrow> \<not> has_prefix k ''failover/'')"

lemma generated_labels:
  assumes "generateDeployManifests E buckets ns dp cfg = Inr ms" and "m \<in> set ms"
    and user: "\<forall>name d. me_deployment E ns name = Inr d \<longrightarrow> user_deployment d"
  shows "\<exists>c d d'. c \<in> set (dmComponent dp) \<and> is_deployment c \<and> me_deployment E ns (crName (ssComponentRef c)) = Inr d
    \<and> moManifest m = MDeployment d'
    \<and> (\<forall>k. mget (kdTemplateLabels d') k
        = (case pod_label (derivePriorities (dmComponent dp) (dmEdges dp)) (node_name c) k of Some v \<Rightarrow> Some v
           | None \<Rightarrow> (case component_label (node_name c) k of Some v \<Rightarrow> Some v | None \<Rightarrow> mget (kdTemplateLabels d) k)))
    \<and> (\<forall>k. mget (kdMatchLabels d') k
        = (case component_label (node_name c) k of Some v \<Rightarrow> Some v | None \<Rightarrow> mget (kdMatchLabels d) k))"
proof -
  let ?D = "derivePriorities (dmComponent dp) (dmEdges dp)"
  obtain c d p where c: "c \<in> set (dmComponent dp)" "is_deployment c" "me_deployment E ns (crName (ssComponentRef c)) = Inr d"
      "mget ?D (node_name c) = Some p"
    and m: "moManifest m = marshal_manifest (MDeployment (label_deployment buckets (node_name c) (allLabels p) (generateNewDeplyFromDeploy d)))"
    using generateDeployManifests_member [OF assms(1,2)] by (elim exE conjE)
  let ?d0 = "label_deployment buckets (node_name c) (allLabels p) (generateNewDeplyFromDeploy d)"
  let ?d' = "?d0\<lparr>kdLabels := json_map (kdLabels ?d0), kdAnnotations := json_map (kdAnnotations ?d0),
     kdMatchLabels := json_map (kdMatchLabels ?d0), kdTemplateLabels := json_map (kdTemplateLabels ?d0),
     kdTemplateAnnotations := json_map (kdTemplateAnnotations ?d0)\<rparr>"
  have al: "pod_labels ?D (node_name c) = allLabels p" by (simp add: pod_labels_def c(4))
  have wf: "wf_map (allLabels p)" using wf_pod_labels [of "dmComponent dp" "dmEdges dp" "node_name c"] by (simp add: al)
  have d: "wf_map (kdTemplateLabels (generateNewDeplyFromDeploy d))" "wf_map (kdMatchLabels (generateNewDeplyFromDeploy d))"
    "kdTemplateLabels (generateNewDeplyFromDeploy d) = kdTemplateLabels d" "kdMatchLabels (generateNewDeplyFromDeploy d) = kdMatchLabels d"
    using user c(3) by (simp_all add: user_deployment_def generateNewDeplyFromDeploy_def)
  have fields: "kdTemplateLabels ?d' = json_map (kdTemplateLabels ?d0)" "kdMatchLabels ?d' = json_map (kdMatchLabels ?d0)"
    by simp_all
  have t: "\<forall>k. mget (kdTemplateLabels ?d') k
        = (case pod_label ?D (node_name c) k of Some v \<Rightarrow> Some v
           | None \<Rightarrow> (case component_label (node_name c) k of Some v \<Rightarrow> Some v | None \<Rightarrow> mget (kdTemplateLabels d) k))"
    unfolding fields label_deployment_get [OF d(1,2) wf] d(3) pod_labels_get [symmetric] al by simp
  have s: "\<forall>k. mget (kdMatchLabels ?d') k
        = (case component_label (node_name c) k of Some v \<Rightarrow> Some v | None \<Rightarrow> mget (kdMatchLabels d) k)"
    unfolding fields label_deployment_get [OF d(1,2) wf] d(4) by simp
  have "moManifest m = MDeployment ?d'" using m by (simp only: marshal_manifest.simps)
  with c(1-3) t s show ?thesis by (intro exI [of _ c] exI [of _ d] exI [of _ ?d'] conjI)
qed

lemma component_label_key: "component_label u k = Some v \<Longrightarrow> \<not> has_prefix k ''failover/''"
  by (auto simp: component_label_def split: if_splits)

text \<open>Every generated deployment is one the API server admits, the labels of its pods include its selector:
  the failover labels cannot overwrite a label the selector uses. The selector also asks for the
  name of the deployment and its provider, so two replicas in one cluster do not select each
  other's pods.\<close>

theorem generated_selector_matches:
  assumes "generateDeployManifests E buckets ns dp cfg = Inr ms" and "m \<in> set ms"
    and "\<forall>name d. me_deployment E ns name = Inr d \<longrightarrow> user_deployment d"
  shows "\<exists>c d. c \<in> set (dmComponent dp) \<and> moManifest m = MDeployment d
    \<and> (\<forall>k v. mget (kdMatchLabels d) k = Some v \<longrightarrow> mget (kdTemplateLabels d) k = Some v)
    \<and> mget (kdMatchLabels d) ''skycluster.io/component'' = Some (node_name c)"
proof -
  let ?D = "derivePriorities (dmComponent dp) (dmEdges dp)"
  obtain c d d' where c: "c \<in> set (dmComponent dp)" "me_deployment E ns (crName (ssComponentRef c)) = Inr d"
    and m: "moManifest m = MDeployment d'"
    and t: "\<And>k. mget (kdTemplateLabels d') k = (case pod_label ?D (node_name c) k of Some v \<Rightarrow> Some v
           | None \<Rightarrow> (case component_label (node_name c) k of Some v \<Rightarrow> Some v | None \<Rightarrow> mget (kdTemplateLabels d) k))"
    and s: "\<And>k. mget (kdMatchLabels d') k
        = (case component_label (node_name c) k of Some v \<Rightarrow> Some v | None \<Rightarrow> mget (kdMatchLabels d) k)"
    using generated_labels [OF assms] by (elim exE conjE) (rule that, (assumption | simp)+)
  have u: "user_deployment d" using assms(3) c(2) by blast
  have "mget (kdTemplateLabels d') k = Some v" if sk: "mget (kdMatchLabels d') k = Some v" for k v
  proof -
    from sk have src: "component_label (node_name c) k = Some v \<or> component_label (node_name c) k = None \<and> mget (kdMatchLabels d) k = Some v"
      by (simp add: s split: option.splits)
    then have "\<not> has_prefix k ''failover/''"
      using component_label_key u unfolding user_deployment_def by (metis option.discI)
    then have "pod_label ?D (node_name c) k = None"
      using pod_label_key by (cases "pod_label ?D (node_name c) k") blast+
    with src u show ?thesis by (auto simp: t user_deployment_def)
  qed
  with c m show ?thesis by (intro exI [of _ c] exI [of _ d']) (simp add: s component_label_def)
qed


definition in_plan :: "DeployMap \<Rightarrow> SkyService \<Rightarrow> bool" where
  "in_plan dp c \<longleftrightarrow> (\<exists>e\<in>set (dmEdges dp). node_name c = node_name (dmFrom e) \<or> node_name c = node_name (dmTo e)
     \<or> backup_name (dmComponent dp) e = Some (node_name c))"

lemma in_plan_labels: "in_plan dp c \<longleftrightarrow> (\<exists>p. mget (derivePriorities (dmComponent dp) (dmEdges dp)) (node_name c) = Some p)"
  using derivePriorities_effect(3) [of "dmComponent dp" "dmEdges dp" "node_name c"]
  by (cases "mget (derivePriorities (dmComponent dp) (dmEdges dp)) (node_name c)") (simp_all add: in_plan_def)

lemma generateDeployManifests_total:
  assumes "\<forall>c\<in>set (dmComponent dp). is_deployment c \<longrightarrow> (\<exists>d. me_deployment E ns (crName (ssComponentRef c)) = Inr d)"
  shows "if \<forall>c\<in>set (dmComponent dp). is_deployment c \<longrightarrow> in_plan dp c
    then \<exists>ms. generateDeployManifests E buckets ns dp cfg = Inr ms
    else generateDeployManifests E buckets ns dp cfg = Inl (Panic ''invalid memory address or nil pointer dereference'')"
proof -
  let ?f = "deploy_manifest E buckets ns (derivePriorities (dmComponent dp) (dmEdges dp)) cfg"
  have "\<forall>c\<in>set (filter is_deployment (dmComponent dp)). if in_plan dp c then \<exists>y. ?f c = Inr y
      else ?f c = Inl (Panic ''invalid memory address or nil pointer dereference'')"
  proof
    fix c
    assume "c \<in> set (filter is_deployment (dmComponent dp))"
    with assms obtain d where d: "me_deployment E ns (crName (ssComponentRef c)) = Inr d" by auto
    show "if in_plan dp c then \<exists>y. ?f c = Inr y else ?f c = Inl (Panic ''invalid memory address or nil pointer dereference'')"
      by (cases "mget (derivePriorities (dmComponent dp) (dmEdges dp)) (node_name c)")
        (simp_all add: in_plan_labels deploy_manifest_def d Let_def)
  qed
  from map_go_if [OF this] show ?thesis
    by (simp add: generateDeployManifests_def Let_def Ball_def)
qed

text \<open>C38: the deployments of a plan are generated, one manifest each, exactly when every deployment of the plan
  is an end of an edge or the backup of one; a deployment without connections makes the reconciler
  panic on a nil pointer.\<close>

theorem lonely_deployment_panics:
  assumes "\<forall>c\<in>set (dmComponent dp). is_deployment c \<longrightarrow> (\<exists>d. me_deployment E ns (crName (ssComponentRef c)) = Inr d)"
  shows "if \<forall>c\<in>set (dmComponent dp). is_deployment c \<longrightarrow> in_plan dp c
    then \<exists>ms. generateDeployManifests E buckets ns dp cfg = Inr ms \<and> length ms = length (filter is_deployment (dmComponent dp))
    else generateDeployManifests E buckets ns dp cfg = Inl (Panic ''invalid memory address or nil pointer dereference'')"
  using generateDeployManifests_total [OF assms, of buckets cfg]
  by (auto simp: generateDeployManifests_def Let_def dest: map_go_length split: if_splits)

section \<open>The status\<close>

lemma named_map:
  "wf_map (foldl (\<lambda>m o'. mput (moName o') o' m) [] os)
   \<and> fst ` set (foldl (\<lambda>m o'. mput (moName o') o' m) [] os) = moName ` set os"
  by (induction os rule: rev_induct) (auto simp: wf_map_def mput_def distinct_update dom_update)

lemma length_named_map: "length (foldl (\<lambda>m o'. mput (moName o') o' m) [] os) = card (moName ` set os)"
  using named_map [of os] distinct_card [of "map fst (foldl (\<lambda>m o'. mput (moName o') o' m) [] os)"]
  by (simp add: wf_map_def)

lemma mget_named_map:
  "distinct (map moName os) \<Longrightarrow> m \<in> set os \<Longrightarrow> mget (foldl (\<lambda>m o'. mput (moName o') o' m) [] os) (moName m) = Some m"
  by (induction os rule: rev_induct) (auto simp: image_iff)

lemma objects_changed_same: "objects_changed os os \<longleftrightarrow> \<not> distinct (map moName os)"
proof (cases "distinct (map moName os)")
  case True
  then have "card (moName ` set os) = length os" using distinct_card [OF True] by simp
  with True show ?thesis
    by (auto simp: objects_changed_def length_named_map list_ex_iff mget_named_map)
next
  case False
  then have "card (moName ` set os) \<noteq> length os" using card_distinct [of "map moName os"] by auto
  with False show ?thesis by (simp add: objects_changed_def length_named_map)
qed

lemma AtlasMeshReconcile_manifests:
  assumes "me_mesh E ns name = Inr M" and "getProviderConfigNameMap E = Inr cfg"
    and "mstr (amLabels M) ''skycluster.io/app-id'' = appId" and "appId \<noteq> []"
    and "mesh_manifests E buckets M appId cfg = Inr ms"
  shows "AtlasMeshReconcile E buckets ns name = bind_run (mesh_status E M ms)
    (\<lambda>_. if amApprove M then fold_run (mesh_submit E M) ms else pure_run (Inr ()))"
  using assms by (simp add: AtlasMeshReconcile_def)

lemma mesh_update_calls: "c \<in> set (fst (mesh_update E w err)) \<Longrightarrow> \<exists>cur old u. c = UpdateObject u
   \<and> me_get_object E (mwName w) (mwNamespace w) = Inr cur \<and> GetNestedValue cur [''spec'', ''manifest''] = Inr old
   \<and> \<not> equalManifests old (AMap (mwManifest w)) \<and> SetNestedField cur (AMap (mwManifest w)) [''spec'', ''manifest''] = Inr u"
proof -
  assume "c \<in> set (fst (mesh_update E w err))"
  then obtain cur where cur: "me_get_object E (mwName w) (mwNamespace w) = Inr cur"
    and c: "c \<in> set (fst (case GetNestedValue cur [''spec'', ''manifest''] of
         Inl _ \<Rightarrow> pure_run (Inl (wrap ''error getting current manifest'' err))
       | Inr curManifest \<Rightarrow>
           if \<not> equalManifests curManifest (AMap (mwManifest w)) then
             (case SetNestedField cur (AMap (mwManifest w)) [''spec'', ''manifest''] of
                Inl e \<Rightarrow> pure_run (Inl e)
              | Inr updated \<Rightarrow> wrap_run ''error updating manifest object'' (call (UpdateObject updated) (me_update_object E)))
           else pure_run (Inr ())))"
    unfolding mesh_update_def bind_run_call by (auto simp del: SetNestedField.simps)
  from c obtain old where old: "GetNestedValue cur [''spec'', ''manifest''] = Inr old"
    by (cases "GetNestedValue cur [''spec'', ''manifest'']") simp_all
  show ?thesis
  proof (cases "SetNestedField cur (AMap (mwManifest w)) [''spec'', ''manifest'']")
    case (Inl e)
    with c old show ?thesis by (simp del: SetNestedField.simps split: if_splits)
  next
    case (Inr u)
    with c old have "c = UpdateObject u" "\<not> equalManifests old (AMap (mwManifest w))"
      by (simp_all del: SetNestedField.simps split: if_splits)
    with cur old Inr show ?thesis by (intro exI [of _ cur] exI [of _ old] exI [of _ u] conjI)
  qed
qed

lemma mesh_submit_calls:
  "c \<in> set (fst (mesh_submit E M m)) \<longleftrightarrow> c = CreateObject (generateUnstructuredWrapper E m M)
     \<or> (\<exists>err. me_create E (moName m) = Inl err \<and> is_already_exists err
          \<and> c \<in> set (fst (mesh_update E (generateUnstructuredWrapper E m M) err)))"
  by (auto simp: mesh_submit_def Let_def generateUnstructuredWrapper_def split: sum.splits)

lemma mesh_status_calls:
  "fst (mesh_status E M ms) = (if objects_changed (mtObjects M) ms then [UpdateMeshStatus (M\<lparr>mtObjects := ms\<rparr>)] else [])"
  by (simp add: mesh_status_def)

lemma submit_no_status: "UpdateMeshStatus S \<notin> set (fst (fold_run (mesh_submit E M) ms))"
  by (auto dest!: fold_run_call mesh_update_calls simp: mesh_submit_calls)

text \<open>The status settles exactly when the names of the generated objects are distinct. When the status
  already holds what is generated, another reconciliation writes it once more if and only if two
  of the objects have one name, and then it does so every time.\<close>

theorem mesh_status_settles:
  assumes "me_mesh E ns name = Inr M" and "getProviderConfigNameMap E = Inr cfg"
    and "mstr (amLabels M) ''skycluster.io/app-id'' = appId" and "appId \<noteq> []"
    and "mesh_manifests E buckets M appId cfg = Inr ms" and "mtObjects M = ms"
  shows "(\<exists>S. UpdateMeshStatus S \<in> set (fst (AtlasMeshReconcile E buckets ns name))) \<longleftrightarrow> \<not> distinct (map moName ms)"
proof -
  have "(\<exists>S. UpdateMeshStatus S \<in> set (fst (AtlasMeshReconcile E buckets ns name))) \<longleftrightarrow> objects_changed ms ms"
    by (auto simp: AtlasMeshReconcile_manifests [OF assms(1-5)] bind_run_call mesh_status_calls assms(6) submit_no_status
        split: if_splits)
  then show ?thesis by (simp add: objects_changed_same)
qed

section \<open>What is submitted\<close>

lemma AtlasMeshReconcile_calls:
  assumes "c \<in> set (fst (AtlasMeshReconcile E buckets ns name))"
  obtains M cfg ms where "me_mesh E ns name = Inr M" "getProviderConfigNameMap E = Inr cfg"
    "mesh_manifests E buckets M (mstr (amLabels M) ''skycluster.io/app-id'') cfg = Inr ms"
    "c \<in> set (fst (mesh_status E M ms)) \<or> amApprove M \<and> c \<in> set (fst (fold_run (mesh_submit E M) ms))"
proof (cases "me_mesh E ns name")
  case (Inl e)
  with assms show thesis by (simp add: AtlasMeshReconcile_def)
next
  case (Inr M)
  with assms obtain cfg where cfg: "getProviderConfigNameMap E = Inr cfg" and
    c: "c \<in> set (fst (let appId = mstr (amLabels M) ''skycluster.io/app-id''
            in if appId = [] then pure_run (Inl (Errf ''missing required label: skycluster.io/app-id''))
               else
                 bind_run (pure_run (mesh_manifests E buckets M appId cfg)) (\<lambda>manifests.
                 bind_run (mesh_status E M manifests) (\<lambda>_.
                   if amApprove M then fold_run (mesh_submit E M) manifests else pure_run (Inr ())))))"
    by (auto simp: AtlasMeshReconcile_def bind_run_call)
  from c obtain ms where "mesh_manifests E buckets M (mstr (amLabels M) ''skycluster.io/app-id'') cfg = Inr ms"
      "c \<in> set (fst (mesh_status E M ms)) \<or> amApprove M \<and> c \<in> set (fst (fold_run (mesh_submit E M) ms))"
    by (auto simp: Let_def bind_run_call split: if_splits)
  with Inr cfg show thesis by (rule that)
qed

definition manifest_path :: "string list" where
  "manifest_path = [''spec'', ''manifest'']"

text \<open>An update changes the manifest inside the wrapper and nothing beside it.\<close>

lemma mesh_update_kept:
  assumes "c \<in> set (fst (mesh_update E (generateUnstructuredWrapper E m M) err))"
  shows "\<exists>u cur old. c = UpdateObject u
    \<and> me_get_object E (moName m) (amNamespace M) = Inr cur \<and> GetNestedValue cur manifest_path = Inr old
    \<and> \<not> equalManifests old (AMap (me_json E (moManifest m)))
    \<and> GetNestedValue u manifest_path = Inr (AMap (me_json E (moManifest m)))
    \<and> (\<forall>qs w. disjoint_paths manifest_path qs \<longrightarrow> (GetNestedValue u qs = Inr w) = (GetNestedValue cur qs = Inr w))"
proof -
  from mesh_update_calls [OF assms] obtain cur old u where u: "c = UpdateObject u"
    "me_get_object E (moName m) (amNamespace M) = Inr cur" "GetNestedValue cur manifest_path = Inr old"
    "\<not> equalManifests old (AMap (me_json E (moManifest m)))"
    "SetNestedField cur (AMap (me_json E (moManifest m))) manifest_path = Inr u"
    unfolding generateUnstructuredWrapper_def manifest_path_def mesh_wrapper.select_convs by (elim exE conjE)
  have two: "2 \<le> length manifest_path" by (simp add: manifest_path_def)
  have "GetNestedValue u manifest_path = Inr (AMap (me_json E (moManifest m)))"
    using nested.rd_wr [OF u(5)] two by (simp add: GetNestedValue_iff)
  moreover have "\<forall>qs w. disjoint_paths manifest_path qs \<longrightarrow> (GetNestedValue u qs = Inr w) = (GetNestedValue cur qs = Inr w)"
    using nested.rd_wr_disjoint [OF u(5)] by (simp add: GetNestedValue_iff)
  ultimately show ?thesis using u by blast
qed

text \<open>C10: nothing reaches the API server but what the plan generates. The status written is the list of the
  generated objects; objects are created or updated only once the mesh is approved; an object
  created wraps a generated manifest; an update is of an object that was read, whose manifest
  differs from the one generated, and changes nothing outside the manifest.\<close>

theorem mesh_submits_the_plan:
  assumes "c \<in> set (fst (AtlasMeshReconcile E buckets ns name))"
  shows "\<exists>M cfg ms. me_mesh E ns name = Inr M \<and> getProviderConfigNameMap E = Inr cfg
    \<and> mesh_manifests E buckets M (mstr (amLabels M) ''skycluster.io/app-id'') cfg = Inr ms
    \<and> (case c of
         UpdateMeshStatus S \<Rightarrow> S = M\<lparr>mtObjects := ms\<rparr> \<and> objects_changed (mtObjects M) ms
       | CreateObject w \<Rightarrow> amApprove M \<and> w \<in> (\<lambda>m. generateUnstructuredWrapper E m M) ` set ms
       | UpdateObject u \<Rightarrow> amApprove M \<and> (\<exists>m\<in>set ms. \<exists>cur old.
           me_get_object E (moName m) (amNamespace M) = Inr cur \<and> GetNestedValue cur manifest_path = Inr old
           \<and> \<not> equalManifests old (AMap (me_json E (moManifest m)))
           \<and> GetNestedValue u manifest_path = Inr (AMap (me_json E (moManifest m)))
           \<and> (\<forall>qs w. disjoint_paths manifest_path qs \<longrightarrow> (GetNestedValue u qs = Inr w) = (GetNestedValue cur qs = Inr w))))"
proof -
  from assms obtain M cfg ms where M: "me_mesh E ns name = Inr M" "getProviderConfigNameMap E = Inr cfg"
    "mesh_manifests E buckets M (mstr (amLabels M) ''skycluster.io/app-id'') cfg = Inr ms"
    and c: "c \<in> set (fst (mesh_status E M ms)) \<or> amApprove M \<and> c \<in> set (fst (fold_run (mesh_submit E M) ms))"
    by (rule AtlasMeshReconcile_calls)
  let ?post = "case c of
         UpdateMeshStatus S \<Rightarrow> S = M\<lparr>mtObjects := ms\<rparr> \<and> objects_changed (mtObjects M) ms
       | CreateObject w \<Rightarrow> amApprove M \<and> w \<in> (\<lambda>m. generateUnstructuredWrapper E m M) ` set ms
       | UpdateObject u \<Rightarrow> amApprove M \<and> (\<exists>m\<in>set ms. \<exists>cur old.
           me_get_object E (moName m) (amNamespace M) = Inr cur \<and> GetNestedValue cur manifest_path = Inr old
           \<and> \<not> equalManifests old (AMap (me_json E (moManifest m)))
           \<and> GetNestedValue u manifest_path = Inr (AMap (me_json E (moManifest m)))
           \<and> (\<forall>qs w. disjoint_paths manifest_path qs \<longrightarrow> (GetNestedValue u qs = Inr w) = (GetNestedValue cur qs = Inr w)))"
  from c have ?post
  proof
    assume "c \<in> set (fst (mesh_status E M ms))"
    then show ?post by (auto simp: mesh_status_calls split: if_splits)
  next
    assume a: "amApprove M \<and> c \<in> set (fst (fold_run (mesh_submit E M) ms))"
    then obtain m where m: "m \<in> set ms" "c \<in> set (fst (mesh_submit E M m))" by (auto dest: fold_run_call)
    from m(2) consider "c = CreateObject (generateUnstructuredWrapper E m M)"
      | err where "c \<in> set (fst (mesh_update E (generateUnstructuredWrapper E m M) err))"
      by (auto simp: mesh_submit_calls)
    then show ?post
    proof cases
      case 1
      with a m(1) show ?post by simp
    next
      case 2
      from mesh_update_kept [OF 2] a m(1) show ?post by (elim exE conjE, simp, blast)
    qed
  qed
  with M show ?thesis by (intro exI [of _ M] exI [of _ cfg] exI [of _ ms] conjI)
qed

text \<open>C37: once approved, a reconciliation that returns no error has submitted every generated object.\<close>

theorem mesh_submits_all:
  assumes "me_mesh E ns name = Inr M" and "getProviderConfigNameMap E = Inr cfg"
    and "mstr (amLabels M) ''skycluster.io/app-id'' = appId" and "appId \<noteq> []"
    and "mesh_manifests E buckets M appId cfg = Inr ms" and "amApprove M"
    and "snd (AtlasMeshReconcile E buckets ns name) = Inr ()" and "m \<in> set ms"
  shows "CreateObject (generateUnstructuredWrapper E m M) \<in> set (fst (AtlasMeshReconcile E buckets ns name))"
proof -
  from assms(7) have ok: "snd (fold_run (mesh_submit E M) ms) = Inr ()" "\<exists>x. snd (mesh_status E M ms) = Inr x"
    by (auto simp: AtlasMeshReconcile_manifests [OF assms(1-5)] bind_run_Inr assms(6))
  have "CreateObject (generateUnstructuredWrapper E m M) \<in> set (fst (fold_run (mesh_submit E M) ms))"
    using fold_run_all [OF ok(1) assms(8)] mesh_submit_calls by blast
  with ok(2) show ?thesis by (auto simp: AtlasMeshReconcile_manifests [OF assms(1-5)] bind_run_call assms(6))
qed

text \<open>Whether the status is written depends on the names and the manifests alone.\<close>

lemma objects_changed_names:
  assumes "distinct (map moName old)" and "map moName new = map moName old" and "map moManifest new = map moManifest old"
  shows "\<not> objects_changed old new"
proof -
  have len: "length new = length old" using assms(2) map_eq_imp_length_eq by blast
  have "moManifest m = moManifest (the (mget (foldl (\<lambda>m o'. mput (moName o') o' m) [] old) (moName m)))
      \<and> mget (foldl (\<lambda>m o'. mput (moName o') o' m) [] old) (moName m) \<noteq> None" if "m \<in> set new" for m
  proof -
    from that obtain i where i: "i < length new" "m = new ! i" by (auto simp: in_set_conv_nth)
    have n: "moName (new ! i) = moName (old ! i)" "moManifest (new ! i) = moManifest (old ! i)"
      using i(1) len assms(2,3) by (metis nth_map)+
    have "mget (foldl (\<lambda>m o'. mput (moName o') o' m) [] old) (moName (old ! i)) = Some (old ! i)"
      using i(1) len by (intro mget_named_map [OF assms(1)]) simp
    then show ?thesis by (simp add: i(2) n)
  qed
  then have "\<not> list_ex (\<lambda>m. case mget (foldl (\<lambda>m o'. mput (moName o') o' m) [] old) (moName m) of None \<Rightarrow> True
      | Some old \<Rightarrow> moManifest old \<noteq> moManifest m) new"
    by (auto simp: list_ex_iff split: option.splits)
  moreover have "length (foldl (\<lambda>m o'. mput (moName o') o' m) [] old) = length new"
    using distinct_card [OF assms(1)] len by (simp add: length_named_map)
  ultimately show ?thesis by (simp add: objects_changed_def)
qed

text \<open>Another provider config is not noticed. When only the provider configs of the generated objects differ
  from the status, the status keeps the old ones, and an object that exists keeps its own.\<close>

theorem provider_config_change_lost:
  assumes "distinct (map moName (mtObjects M))" and "map moName ms = map moName (mtObjects M)"
    and "map moManifest ms = map moManifest (mtObjects M)"
  shows "fst (mesh_status E M ms) = []
    \<and> (\<forall>m err cur. me_create E (moName m) = Inl err \<and> is_already_exists err
         \<and> me_get_object E (moName m) (amNamespace M) = Inr cur
         \<and> GetNestedValue cur manifest_path = Inr (AMap (me_json E (moManifest m))) \<longrightarrow>
         mesh_submit E M m = ([CreateObject (generateUnstructuredWrapper E m M)], Inr ()))"
proof (intro conjI allI impI)
  show "fst (mesh_status E M ms) = []" using objects_changed_names [OF assms] by (simp add: mesh_status_calls)
next
  fix m :: MeshObject and err cur
  assume "me_create E (moName m) = Inl err \<and> is_already_exists err
         \<and> me_get_object E (moName m) (amNamespace M) = Inr cur
         \<and> GetNestedValue cur manifest_path = Inr (AMap (me_json E (moManifest m)))"
  then show "mesh_submit E M m = ([CreateObject (generateUnstructuredWrapper E m M)], Inr ())"
    by (intro prod_eqI) (simp_all add: mesh_submit_def generateUnstructuredWrapper_def mesh_update_def manifest_path_def
        equalManifests_def Let_def)
qed

section \<open>Names of config maps\<close>

lemma object_name_inj: "kcName a = kcName b \<Longrightarrow> moName (config_object E l cfg p mk a pn) = moName (config_object E l cfg p mk b pn)"
  by (simp add: config_object_def generateObjectWrapper_def Let_def)

lemma set_lo_uniq: "set (lo_uniq xs) = set xs"
  by (induction xs rule: lo_uniq.induct) auto

lemma lo_uniq_distinct: "distinct (lo_uniq xs)"
  by (induction xs rule: lo_uniq.induct) (auto simp: set_lo_uniq)

lemma config_maps_collide:
  assumes "generateConfigDataManifests E ns appId cmpnts cfg = Inr ms" and "me_config_maps E (app_labels appId) = Inr cms"
    and "i < j" and "j < length cms" and "kcName (cms ! i) = kcName (cms ! j)" and "\<exists>c\<in>set cmpnts. is_deployment c"
  shows "\<not> distinct (map moName ms)"
proof -
  from assms(1) obtain sel where sel: "selected_deployments E ns cmpnts = Inr sel"
    unfolding generateConfigDataManifests_def by auto
  have "length sel = length (filter is_deployment cmpnts)" using sel map_go_length unfolding selected_deployments_def by blast
  moreover have "filter is_deployment cmpnts \<noteq> []" using assms(6) by (simp add: filter_empty_conv)
  ultimately obtain p where p: "p \<in> set (lo_uniq (map fst sel))" by (cases sel) (auto simp: set_lo_uniq)
  let ?f = "\<lambda>cm. map (config_object E (app_labels appId) cfg ''cm-'' MConfigMap cm) (lo_uniq (map fst sel))"
  obtain rest where ms: "ms = concat (map ?f cms) @ rest"
    using assms(1,2) sel by (auto simp: generateConfigDataManifests_def Let_def)
  have "\<not> distinct (map moName (concat (map ?f cms)))"
    by (rule concat_not_distinct [OF assms(3,4), where y = "config_object E (app_labels appId) cfg ''cm-'' MConfigMap (cms ! i) p"
        and z = "config_object E (app_labels appId) cfg ''cm-'' MConfigMap (cms ! j) p"])
      (use p object_name_inj [OF assms(5)] in auto)
  then show ?thesis by (simp add: ms)
qed

text \<open>Config maps of one name in two namespaces collide. The names of the generated objects leave the
  namespace out, so with two such config maps and a deployment in the plan the status of the mesh
  is written again even when it holds what was generated, and both objects are submitted under one name.\<close>

theorem config_maps_of_one_name:
  assumes "me_mesh E ns name = Inr M" and "getProviderConfigNameMap E = Inr cfg"
    and "mstr (amLabels M) ''skycluster.io/app-id'' = appId" and "appId \<noteq> []"
    and "mesh_manifests E buckets M appId cfg = Inr ms"
    and "me_config_maps E (app_labels appId) = Inr cms"
    and "i < j" and "j < length cms" and "kcName (cms ! i) = kcName (cms ! j)"
    and "\<exists>c\<in>set (dmComponent (amDeployMap M)). is_deployment c"
    and "mtObjects M = ms"
  shows "UpdateMeshStatus (M\<lparr>mtObjects := ms\<rparr>) \<in> set (fst (AtlasMeshReconcile E buckets ns name))"
proof -
  obtain a cd b where parts: "generateConfigDataManifests E (amNamespace M) appId (dmComponent (amDeployMap M)) cfg = Inr cd"
      "ms = a @ cd @ b"
    using assms(5) by (auto simp: mesh_manifests_def Let_def)
  have "\<not> distinct (map moName cd)" by (rule config_maps_collide [OF parts(1) assms(6-10)])
  then have nd: "\<not> distinct (map moName ms)" by (auto simp: parts(2))
  show ?thesis
    using nd by (simp add: AtlasMeshReconcile_manifests [OF assms(1-5)] bind_run_call mesh_status_calls assms(11) objects_changed_same)
qed

section \<open>Routes and subsets\<close>

definition rule_name :: "K8sService \<Rightarrow> SkyService \<Rightarrow> string" where
  "rule_name svc from = ksName svc @ ''-'' @ prName (ssProviderRef from)"

text \<open>The service an edge is routed by.\<close>

definition edge_service :: "mesh_env \<Rightarrow> string \<Rightarrow> K8sService list \<Rightarrow> DeployMapEdge \<Rightarrow> K8sService option" where
  "edge_service E ns svcs e =
     (if \<not> is_deployment (dmTo e) then None
      else (case me_deployment E ns (crName (ssComponentRef (dmTo e))) of
              Inl _ \<Rightarrow> None | Inr dep \<Rightarrow> find (\<lambda>svc. deploymentHasLabels dep (ksSelector svc)) svcs))"

lemma istio_edge_Inr:
  assumes "me_services E (app_labels appId) = Inr svcs" and "istio_edge E ns appId L rules e = Inr rules'"
  shows "rules' = (case edge_service E ns svcs e of None \<Rightarrow> rules | Some svc \<Rightarrow> add_route L (dmFrom e) (dmTo e) svc rules)"
  using assms by (auto simp: istio_edge_def edge_service_def split: if_splits option.splits)

lemma edge_service_mem: "edge_service E ns svcs e = Some svc \<Longrightarrow> svc \<in> set svcs"
  by (auto simp: edge_service_def find_Some_iff split: if_splits sum.splits)

definition edge_subset :: "priorityLabels gomap \<Rightarrow> DeployMapEdge \<Rightarrow> rule_subset" where
  "edge_subset L e =
     \<lparr>sbName = crName (ssComponentRef (dmFrom e)),
      sbFailoverPriority = map (\<lambda>kv. olKey kv @ ''='' @ olValue kv) (source_list L (node_name (dmFrom e)) (node_name (dmTo e)))\<rparr>"

definition rule_subsets :: "(string \<times> IstioDestinationRule) gomap \<Rightarrow> string \<Rightarrow> rule_subset list" where
  "rule_subsets D n = (case mget D n of None \<Rightarrow> [] | Some d \<Rightarrow> idSubsets (snd d))"

lemma add_route_subsets:
  "rule_subsets (snd (add_route L (dmFrom e) (dmTo e) svc rules)) n
    = rule_subsets (snd rules) n @ (if n = rule_name svc (dmFrom e) then [edge_subset L e] else [])"
  by (cases rules) (auto simp: add_route_def rule_subsets_def rule_name_def edge_subset_def Let_def split: option.splits)

lemma istio_subsets:
  assumes "me_services E (app_labels appId) = Inr svcs" and "foldl_go (istio_edge E ns appId L) ([], []) edges = Inr (V, D)"
  shows "rule_subsets D n = map (edge_subset L)
    (filter (\<lambda>e. case edge_service E ns svcs e of None \<Rightarrow> False | Some svc \<Rightarrow> n = rule_name svc (dmFrom e)) edges)"
  using assms(2)
proof (induction edges arbitrary: V D rule: rev_induct)
  case Nil
  then show ?case by (simp add: rule_subsets_def)
next
  case (snoc e edges)
  then obtain V' D' where r: "foldl_go (istio_edge E ns appId L) ([], []) edges = Inr (V', D')"
      "istio_edge E ns appId L (V', D') e = Inr (V, D)"
    by (auto simp: foldl_go_append)
  show ?case
  proof (cases "edge_service E ns svcs e")
    case None
    with istio_edge_Inr [OF assms(1) r(2)] snoc.IH [OF r(1)] show ?thesis by simp
  next
    case (Some svc)
    with istio_edge_Inr [OF assms(1) r(2)] have "(V, D) = add_route L (dmFrom e) (dmTo e) svc (V', D')" by simp
    then have "rule_subsets D n = rule_subsets (snd (add_route L (dmFrom e) (dmTo e) svc (V', D'))) n"
      by (metis snd_conv)
    with Some snoc.IH [OF r(1)] show ?thesis by (simp add: add_route_subsets)
  qed
qed

definition names_apart :: "K8sService list \<Rightarrow> DeployMapEdge list \<Rightarrow> bool" where
  "names_apart svcs edges \<longleftrightarrow> (\<forall>s\<in>set svcs. \<forall>s'\<in>set svcs. \<forall>e\<in>set edges. \<forall>e'\<in>set edges.
     rule_name s (dmFrom e) = rule_name s' (dmFrom e') \<longrightarrow> s = s' \<and> prName (ssProviderRef (dmFrom e)) = prName (ssProviderRef (dmFrom e')))"

text \<open>Under every name a virtual service and a destination rule of one host, whose routes are the subsets.\<close>

definition rule_agrees ::
  "K8sService list \<Rightarrow> DeployMapEdge list \<Rightarrow> string \<Rightarrow> string \<times> IstioVirtualService \<Rightarrow> (string \<times> IstioDestinationRule) option \<Rightarrow> bool" where
  "rule_agrees svcs edges n pv d \<longleftrightarrow> (\<exists>r s e. d = Some (fst pv, r) \<and> s \<in> set svcs \<and> e \<in> set edges \<and> n = rule_name s (dmFrom e)
     \<and> fst pv = prName (ssProviderRef (dmFrom e)) \<and> ivNamespace (snd pv) = ksNamespace s \<and> idNamespace r = ksNamespace s
     \<and> idHost r = ksName s \<and> ivHosts (snd pv) = [ksName s] \<and> list_all (\<lambda>h. hrHost h = ksName s) (ivHttp (snd pv))
     \<and> map hrSubset (ivHttp (snd pv)) = map sbName (idSubsets r))"

definition rules_agree :: "K8sService list \<Rightarrow> DeployMapEdge list \<Rightarrow> istio_rules \<Rightarrow> bool" where
  "rules_agree svcs edges rules \<longleftrightarrow> (\<forall>n. case mget (fst rules) n of None \<Rightarrow> mget (snd rules) n = None
     | Some pv \<Rightarrow> rule_agrees svcs edges n pv (mget (snd rules) n))"

lemma rules_agreeD:
  "rules_agree svcs edges rules \<Longrightarrow> mget (fst rules) n = None \<Longrightarrow> mget (snd rules) n = None"
  "rules_agree svcs edges rules \<Longrightarrow> mget (fst rules) n = Some pv \<Longrightarrow> rule_agrees svcs edges n pv (mget (snd rules) n)"
  by (auto simp: rules_agree_def dest!: spec [of _ n])

lemma add_route_other:
  "n \<noteq> rule_name svc from \<Longrightarrow> mget (fst (add_route L from to' svc rules)) n = mget (fst rules) n"
  "n \<noteq> rule_name svc from \<Longrightarrow> mget (snd (add_route L from to' svc rules)) n = mget (snd rules) n"
  by (cases rules; simp add: add_route_def rule_name_def Let_def)+

lemma add_route_agree:
  assumes ok: "rules_agree svcs edges rules" and apart: "names_apart svcs edges" and s: "svc \<in> set svcs" and e: "e \<in> set edges"
  shows "rules_agree svcs edges (add_route L (dmFrom e) (dmTo e) svc rules)"
proof -
  let ?n = "rule_name svc (dmFrom e)" and ?A = "add_route L (dmFrom e) (dmTo e) svc rules"
  have "\<exists>pv. mget (fst ?A) ?n = Some pv \<and> rule_agrees svcs edges ?n pv (mget (snd ?A) ?n)"
  proof (cases "mget (fst rules) ?n")
    case None
    with rules_agreeD(1) [OF ok None] s e show ?thesis
      by (cases rules) (auto simp: add_route_def rule_name_def Let_def rule_agrees_def intro!: bexI [of _ svc] exI [of _ svc] exI [of _ e])
  next
    case (Some pv)
    obtain p v where pv: "pv = (p, v)" by (cases pv)
    from rules_agreeD(2) [OF ok Some] obtain d s' e' where
      d: "mget (snd rules) ?n = Some (p, d)" "s' \<in> set svcs" "e' \<in> set edges" "?n = rule_name s' (dmFrom e')" 
        "p = prName (ssProviderRef (dmFrom e'))" "ivNamespace v = ksNamespace s'" "idNamespace d = ksNamespace s'"
        "idHost d = ksName s'" "ivHosts v = [ksName s']" "list_all (\<lambda>h. hrHost h = ksName s') (ivHttp v)"
        "map hrSubset (ivHttp v) = map sbName (idSubsets d)"
      by (auto simp: rule_agrees_def pv)
    have "svc = s'" "p = prName (ssProviderRef (dmFrom e))"
      using apart [unfolded names_apart_def, rule_format, OF s d(2) e d(3,4)] d(5) by simp_all
    with d Some s e show ?thesis
      by (cases rules) (auto simp: add_route_def rule_name_def Let_def rule_agrees_def pv intro!: exI [of _ s'] exI [of _ e])
  qed
  then show ?thesis
    using rules_agreeD [OF ok] by (auto simp: rules_agree_def add_route_other split: option.split)
      (metis add_route_other option.distinct(1) option.inject)+
qed

lemma istio_agree:
  assumes svcs: "me_services E (app_labels appId) = Inr svcs" and apart: "names_apart svcs edges"
    and "foldl_go (istio_edge E ns appId L) ([], []) edges = Inr rules"
  shows "rules_agree svcs edges rules"
  using assms(3)
proof (rule foldl_go_invariant)
  show "rules_agree svcs edges ([], [])" by (simp add: rules_agree_def)
next
  fix s e t
  assume "rules_agree svcs edges s" "e \<in> set edges" "istio_edge E ns appId L s e = Inr t"
  then show "rules_agree svcs edges t"
    using istio_edge_Inr [OF svcs, of ns L s e t] add_route_agree [OF _ apart, of s _ e L]
    by (cases "edge_service E ns svcs e") (simp_all add: edge_service_mem)
qed

lemma rule_objects_member:
  assumes "\<forall>ks. set (me_order E ks) = set ks"
  shows "m \<in> set (rule_objects E prefix cfg name_of ns_of mk rules) \<longleftrightarrow>
    (\<exists>n prov r. mget rules n = Some (prov, r)
      \<and> m = generateObjectWrapper (object_name E 25 (prefix @ name_of r)) (ns_of r) (mk r) (mstr cfg prov))"
proof -
  have "(\<exists>n\<in>set (mkeys rules). mget rules n = Some x) \<longleftrightarrow> (\<exists>n. mget rules n = Some x)" for x
    using mget_None_iff [of rules] by (metis option.distinct(1))
  then have "x \<in> set (List.map_filter (mget rules) (me_order E (mkeys rules))) \<longleftrightarrow> (\<exists>n. mget rules n = Some x)" for x
    by (simp add: map_filter_mem assms)
  then have "m \<in> set (rule_objects E prefix cfg name_of ns_of mk rules) \<longleftrightarrow> (\<exists>x. (\<exists>n. mget rules n = Some x)
      \<and> m = (case x of (prov, r) \<Rightarrow> generateObjectWrapper (object_name E 25 (prefix @ name_of r)) (ns_of r) (mk r) (mstr cfg prov)))"
    unfolding rule_objects_def set_map image_iff by blast
  then show ?thesis by (simp only: split_paired_Ex case_prod_conv) blast
qed

text \<open>C25: every route of the generated traffic rules leads somewhere. A virtual service has a destination rule
  for the same host, in the same namespace and the same cluster, whose subsets are the subsets of
  its routes in order.\<close>

theorem istio_routes_resolve:
  assumes "generateIstioConfig E ns appId dp cfg = Inr ms" and "me_services E (app_labels appId) = Inr svcs"
    and "names_apart svcs (dmEdges dp)" and "\<forall>ks. set (me_order E ks) = set ks"
    and "m \<in> set ms" and "moManifest m = MVirtualService v"
  shows "\<exists>m'\<in>set ms. \<exists>r. moManifest m' = MDestinationRule r \<and> moConfigName m' = moConfigName m
    \<and> idNamespace r = ivNamespace v \<and> ivHosts v = [idHost r] \<and> list_all (\<lambda>h. hrHost h = idHost r) (ivHttp v)
    \<and> map hrSubset (ivHttp v) = map sbName (idSubsets r)"
proof -
  let ?L = "derivePriorities (dmComponent dp) (dmEdges dp)"
  obtain V D where fold: "foldl_go (istio_edge E ns appId ?L) ([], []) (dmEdges dp) = Inr (V, D)"
    and ms: "ms = rule_objects E ''vs-'' cfg ivName ivNamespace MVirtualService V
              @ rule_objects E ''dr-'' cfg idName idNamespace MDestinationRule D"
    using assms(1) by (auto simp: generateIstioConfig_def Let_def)
  have agree: "rules_agree svcs (dmEdges dp) (V, D)" by (rule istio_agree [OF assms(2,3) fold])
  have "m \<in> set (rule_objects E ''vs-'' cfg ivName ivNamespace MVirtualService V)"
    using assms(5,6) by (auto simp: ms rule_objects_member assms(4) generateObjectWrapper_def)
  then obtain n prov v0 where n: "mget V n = Some (prov, v0)"
      "m = generateObjectWrapper (object_name E 25 (''vs-'' @ ivName v0)) (ivNamespace v0) (MVirtualService v0) (mstr cfg prov)"
    by (auto simp: rule_objects_member assms(4))
  have v: "ivNamespace v = ivNamespace v0" "ivHosts v = ivHosts v0" "map hrHost (ivHttp v) = map hrHost (ivHttp v0)"
    "map hrSubset (ivHttp v) = map hrSubset (ivHttp v0)"
    using assms(6) by (auto simp: n(2) generateObjectWrapper_def)
  have "rule_agrees svcs (dmEdges dp) n (prov, v0) (mget D n)"
    using rules_agreeD(2) [OF agree, of n "(prov, v0)"] n(1) by simp
  then obtain d s e where d: "mget D n = Some (prov, d)" and "s \<in> set svcs" "e \<in> set (dmEdges dp)" "n = rule_name s (dmFrom e)"
      "prov = prName (ssProviderRef (dmFrom e))" and e: "ivNamespace v0 = ksNamespace s" "idNamespace d = ksNamespace s"
      "idHost d = ksName s" "ivHosts v0 = [ksName s]" "list_all (\<lambda>h. hrHost h = ksName s) (ivHttp v0)"
      "map hrSubset (ivHttp v0) = map sbName (idSubsets d)"
    unfolding rule_agrees_def fst_conv snd_conv by (elim exE conjE)
  let ?m' = "generateObjectWrapper (object_name E 25 (''dr-'' @ idName d)) (idNamespace d) (MDestinationRule d) (mstr cfg prov)"
  have "?m' \<in> set (rule_objects E ''dr-'' cfg idName idNamespace MDestinationRule D)"
    unfolding rule_objects_member [OF assms(4)] using d by (intro exI [of _ n] exI [of _ prov] exI [of _ d] conjI refl)
  then have "?m' \<in> set ms" by (simp add: ms)
  moreover have "list_all (\<lambda>h. hrHost h = idHost d) (ivHttp v)"
  proof -
    have "list_all (\<lambda>x. x = idHost d) (map hrHost (ivHttp v0))" using e(3,5) by (simp add: list_all_iff)
    then show ?thesis by (simp add: v(3) [symmetric] list_all_iff)
  qed
  moreover have "moManifest ?m' = MDestinationRule d" "moConfigName ?m' = moConfigName m"
    by (simp_all add: generateObjectWrapper_def n(2))
  ultimately show ?thesis using v e by (intro bexI [of _ ?m'] exI [of _ d]) simp_all
qed

text \<open>Two edges of one component at one provider to deployments of one service give two subsets of one name.\<close>

theorem istio_duplicate_subset:
  assumes "me_services E (app_labels appId) = Inr svcs" and "foldl_go (istio_edge E ns appId L) ([], []) edges = Inr (V, D)"
    and "i < j" and "j < length edges" and "dmFrom (edges ! i) = dmFrom (edges ! j)"
    and "edge_service E ns svcs (edges ! i) = Some svc" and "edge_service E ns svcs (edges ! j) = Some svc"
  shows "\<not> distinct (map sbName (rule_subsets D (rule_name svc (dmFrom (edges ! j)))))"
proof -
  let ?P = "\<lambda>e. case edge_service E ns svcs e of None \<Rightarrow> False | Some svc' \<Rightarrow> rule_name svc (dmFrom (edges ! j)) = rule_name svc' (dmFrom e)"
  have eq: "map sbName (rule_subsets D (rule_name svc (dmFrom (edges ! j))))
      = map (sbName \<circ> edge_subset L) (concat (map (\<lambda>e. if ?P e then [e] else []) edges))"
    unfolding istio_subsets [OF assms(1,2)] filter_as_concat by simp
  show ?thesis unfolding eq
    by (rule concat_not_distinct [OF assms(3,4), where y = "edges ! i" and z = "edges ! j"])
      (simp_all add: assms(5-7) edge_subset_def)
qed

section \<open>The profiles of the mesh\<close>

text \<open>A profile that is named like a platform hides the profiles of that platform listed after it.\<close>

theorem profile_named_like_platform:
  assumes "pfName pp = ppPlatform (pfSpec later)" and "pfName later \<noteq> pfName pp"
    and "ppPlatform (pfSpec pp) \<noteq> pfName pp"
  shows "\<exists>m. fetchProviderProfilesMap (Inr [pp, later]) = Inr m \<and> mget m (pfName later) = None"
  using assms by (simp add: fetchProviderProfilesMap_def)

section \<open>Examples\<close>

definition ex_deploy :: "string \<Rightarrow> K8sDeployment" where
  "ex_deploy n =
     \<lparr>kdName = n, kdNamespace = ''default'', kdLabels = [], kdAnnotations = [], kdReplicas = Some 1,
      kdMatchLabels = [(''app'', n)], kdMatchExpressions = [], kdTemplateLabels = [(''app'', n)],
      kdTemplateAnnotations = [], kdPodSpec = []\<rparr>"

definition ex_cm :: "string \<Rightarrow> K8sConfigMap" where
  "ex_cm ns = \<lparr>kcName = ''settings'', kcNamespace = ns, kcLabels = [], kcData = []\<rparr>"

definition ex_service :: K8sService where
  "ex_service =
     \<lparr>ksName = ''x'', ksNamespace = ''default'', ksLabels = [], ksAnnotations = [], ksResourceVersion = [], ksUID = [],
      ksGeneration = 0, ksOwnerReferences = [], ksFinalizers = [], ksSelector = [(''app'', ''x'')], ksClusterIP = [],
      ksClusterIPs = [], ksLoadBalancerIP = [], ksLoadBalancerSourceRanges = [], ksExternalIPs = [], ksExternalName = [],
      ksPorts = [], ksStatus = []\<rparr>"

definition ex_setup :: "any gomap" where
  "ex_setup = [(''status'', AMap [(''providerConfig'', AMap [(''kubernetes'', AMap [(''name'', AStr ''here'')])])])]"

definition ex_plan :: DeployMap where
  "ex_plan = \<lparr>dmComponent = ex_cmpnts, dmEdges = [ex_edge ''p2'']\<rparr>"

definition ex_mesh :: "MeshObject list \<Rightarrow> MeshState" where
  "ex_mesh os =
     \<lparr>amName = ''m'', amNamespace = ''default'', amLabels = [(''skycluster.io/app-id'', ''shop'')], amApprove = True,
      amDataflowPolicyRef = [], amDeploymentPolicyRef = [], amDeployMap = ex_plan, amConditions = [], mtObjects = os\<rparr>"

definition ex_menv :: "K8sConfigMap list \<Rightarrow> mesh_env" where
  "ex_menv cms =
     \<lparr>me_mesh = \<lambda>_ _. Inr (ex_mesh []),
      me_profiles = Inr [\<lparr>pfName = ''p1'', pfSpec = \<lparr>ppPlatform = ''aws'', ppRegion = ''p1'', ppRegionAlias = [], ppZones = []\<rparr>,
                          pfEgressCosts = []\<rparr>],
      me_xkubes = Inr [], me_xsetups = Inr [ex_setup], me_deployment = \<lambda>_ n. Inr (ex_deploy n), me_config_maps = \<lambda>_. Inr cms,
      me_secrets = \<lambda>_. Inr [], me_namespaces = \<lambda>_. Inr [], me_services = \<lambda>_. Inr [ex_service], me_update_status = Inr (),
      me_create = \<lambda>_. Inr (), me_get_object = \<lambda>_ _. Inl (ErrNotFound []), me_update_object = Inr (), me_json = \<lambda>_. [],
      me_rand = \<lambda>_. ''abcde'', me_order = \<lambda>ks. ks\<rparr>"

lemma ex_menv_sel:
  "me_mesh (ex_menv cms) ns n = Inr (ex_mesh [])" "me_deployment (ex_menv cms) ns n = Inr (ex_deploy n)"
  "me_config_maps (ex_menv cms) l = Inr cms" "me_secrets (ex_menv cms) l = Inr []" "me_namespaces (ex_menv cms) l = Inr []"
  "me_services (ex_menv cms) l = Inr [ex_service]" "me_order (ex_menv cms) ks = ks" "me_create (ex_menv cms) n = Inr ()"
  "me_update_status (ex_menv cms) = Inr ()"
  by (simp_all add: ex_menv_def)

lemma ex_cfg: "getProviderConfigNameMap (ex_menv cms) = Inr [(''local'', ''here'')]"
  by (simp add: getProviderConfigNameMap_def ex_menv_def fetchProviderProfilesMap_def ex_setup_def GetNestedString_def
      init_fields_def GetNestedField_def mput_def mget_def)

lemma ex_user: "\<forall>name d. me_deployment (ex_menv cms) ns name = Inr d \<longrightarrow> user_deployment d"
  by (auto simp: ex_menv_sel user_deployment_def ex_deploy_def wf_map_def mget_Cons split: if_splits)

lemma ex_plan_sel: "dmComponent ex_plan = ex_cmpnts" "dmEdges ex_plan = [ex_edge ''p2'']"
  by (simp_all add: ex_plan_def)

lemma ex_in_plan: "\<forall>c\<in>set ex_cmpnts. in_plan ex_plan c"
proof -
  have "\<forall>c\<in>set ex_cmpnts. node_name c = ''a-p1'' \<or> node_name c = ''x-p2'' \<or> node_name c = ''x-p3''"
    by (simp add: ex_cmpnts_def ex_svc_def node_name_def)
  then show ?thesis by (auto simp: in_plan_def ex_plan_sel ex_names ex_backup)
qed

lemma ex_is_deployment: "is_deployment (ex_svc n p)"
proof -
  have "to_lower ''Deployment'' = ''deployment''" by code_simp
  then show ?thesis by (simp add: is_deployment_def ex_svc_def)
qed

lemma ex_deploys: "\<exists>ms. generateDeployManifests (ex_menv cms) b ns ex_plan cfg = Inr ms \<and> length ms = 3"
proof -
  obtain ms where ms: "generateDeployManifests (ex_menv cms) b ns ex_plan cfg = Inr ms"
    using generateDeployManifests_total [of ex_plan "ex_menv cms" ns b cfg] ex_in_plan
    by (auto simp: ex_menv_sel ex_plan_sel)
  have "length (filter is_deployment ex_cmpnts) = 3"
    by (simp add: ex_cmpnts_def ex_is_deployment)
  with ms show ?thesis by (auto simp: generateDeployManifests_def Let_def ex_plan_sel dest: map_go_length)
qed

text \<open>What is generated does not depend on the status.\<close>

lemma mesh_manifests_frame:
  "mesh_manifests (E\<lparr>me_mesh := f\<rparr>) b (M\<lparr>mtObjects := os\<rparr>) appId cfg = mesh_manifests E b M appId cfg"
proof -
  let ?E = "E\<lparr>me_mesh := f\<rparr>"
  have o: "object_name ?E = object_name E" by (intro ext) (simp add: object_name_def)
  have c: "config_object ?E = config_object E" by (intro ext) (simp add: config_object_def o)
  have d: "deploy_manifest ?E = deploy_manifest E" by (intro ext) (simp add: deploy_manifest_def o cong: option.case_cong if_cong)
  have i: "istio_edge ?E = istio_edge E" by (intro ext) (simp add: istio_edge_def cong: option.case_cong if_cong)
  have r: "rule_objects ?E p m n s k q = rule_objects E p m n s k q" for p m and n s :: "'r \<Rightarrow> string" and k q
    by (simp add: rule_objects_def o)
  have s: "selected_deployments ?E = selected_deployments E" by (intro ext) (simp add: selected_deployments_def)
  have "generateNamespaceManifests ?E = generateNamespaceManifests E" by (intro ext) (simp add: generateNamespaceManifests_def s o cong: option.case_cong if_cong)
  moreover have "generateConfigDataManifests ?E = generateConfigDataManifests E"
    by (intro ext) (simp add: generateConfigDataManifests_def s c cong: option.case_cong if_cong)
  moreover have "generateDeployManifests ?E = generateDeployManifests E" by (intro ext) (simp add: generateDeployManifests_def d)
  moreover have "generateServiceManifests ?E = generateServiceManifests E"
    by (intro ext) (simp add: generateServiceManifests_def o cong: option.case_cong if_cong)
  moreover have "generateIstioConfig ?E = generateIstioConfig E" by (intro ext) (simp add: generateIstioConfig_def i r)
  ultimately show ?thesis by (simp add: mesh_manifests_def)
qed

lemma ex_manifests: "\<exists>ms. mesh_manifests (ex_menv cms) b (ex_mesh os) ''shop'' cfg = Inr ms"
proof -
  let ?E = "ex_menv cms"
  obtain dm where dm: "generateDeployManifests ?E b ''default'' ex_plan cfg = Inr dm" using ex_deploys by blast
  have "\<exists>ys. map_go (\<lambda>c. bind_go (wrap_go ''error getting Deployment.'' (me_deployment ?E ''default'' (crName (ssComponentRef c)))) (\<lambda>deploy.
         Inr (prName (ssProviderRef c), if kdNamespace deploy \<noteq> [] then kdNamespace deploy else ''default''))) cs = Inr ys" for cs
    by (induction cs) (auto simp: ex_menv_sel)
  then obtain sel where sel: "selected_deployments ?E ''default'' ex_cmpnts = Inr sel" by (auto simp: selected_deployments_def)
  have istio: "\<exists>ys. generateIstioConfig ?E ''default'' ''shop'' ex_plan cfg = Inr ys"
    by (auto simp: generateIstioConfig_def Let_def istio_edge_def ex_menv_sel ex_plan_sel split: option.split)
  show ?thesis
    using istio by (auto simp: mesh_manifests_def ex_mesh_def ex_plan_sel generateNamespaceManifests_def generateConfigDataManifests_def
        generateServiceManifests_def sel dm ex_menv_sel Let_def)
qed

theorem generated_selector_matches_witness:
  "\<exists>ms m c d. generateDeployManifests (ex_menv []) [] ''default'' ex_plan [] = Inr ms \<and> m \<in> set ms
     \<and> c \<in> set ex_cmpnts \<and> moManifest m = MDeployment d
     \<and> mget (kdMatchLabels d) ''skycluster.io/component'' = Some (node_name c)"
proof -
  obtain ms where ms: "generateDeployManifests (ex_menv []) [] ''default'' ex_plan [] = Inr ms" "length ms = 3"
    using ex_deploys by blast
  then have "ms ! 0 \<in> set ms" by (intro nth_mem) simp
  from generated_selector_matches [OF ms(1) this ex_user] ms(1) \<open>ms ! 0 \<in> set ms\<close> show ?thesis
    unfolding ex_plan_sel by blast
qed


theorem lonely_deployment_panics_witness:
  "generateDeployManifests (ex_menv []) [] ''default'' \<lparr>dmComponent = ex_cmpnts, dmEdges = []\<rparr> []
     = Inl (Panic ''invalid memory address or nil pointer dereference'')"
proof -
  let ?dp = "\<lparr>dmComponent = ex_cmpnts, dmEdges = []\<rparr>"
  have "\<not> (\<forall>c\<in>set (dmComponent ?dp). is_deployment c \<longrightarrow> in_plan ?dp c)"
    by (simp add: in_plan_def ex_cmpnts_def ex_is_deployment)
  then show ?thesis
    using lonely_deployment_panics [of ?dp "ex_menv []" "''default''" "[]" "[]"] by (simp add: ex_menv_sel)
qed

text \<open>The example mesh whose status holds what is generated.\<close>

definition ex_settled :: "K8sConfigMap list \<Rightarrow> MeshObject list \<Rightarrow> mesh_env" where
  "ex_settled cms os = ex_menv cms\<lparr>me_mesh := \<lambda>_ _. Inr (ex_mesh os)\<rparr>"

lemma ex_settled_facts:
  assumes "mesh_manifests (ex_menv cms) b (ex_mesh []) ''shop'' [(''local'', ''here'')] = Inr ms"
  shows "me_mesh (ex_settled cms ms) ns n = Inr (ex_mesh ms)" "getProviderConfigNameMap (ex_settled cms ms) = Inr [(''local'', ''here'')]"
    "mesh_manifests (ex_settled cms ms) b (ex_mesh ms) ''shop'' [(''local'', ''here'')] = Inr ms"
    "me_config_maps (ex_settled cms ms) l = Inr cms" "mtObjects (ex_mesh ms) = ms"
    "mstr (amLabels (ex_mesh ms)) ''skycluster.io/app-id'' = ''shop''" "amDeployMap (ex_mesh ms) = ex_plan"
    "(ex_mesh ms)\<lparr>mtObjects := os\<rparr> = ex_mesh os" "amApprove (ex_mesh ms)"
proof -
  have "getProviderConfigNameMap (ex_settled cms ms) = getProviderConfigNameMap (ex_menv cms)"
    by (simp add: getProviderConfigNameMap_def ex_settled_def)
  then show "getProviderConfigNameMap (ex_settled cms ms) = Inr [(''local'', ''here'')]" by (simp add: ex_cfg)
  have "ex_mesh ms = (ex_mesh [])\<lparr>mtObjects := ms\<rparr>" by (simp add: ex_mesh_def)
  then show "mesh_manifests (ex_settled cms ms) b (ex_mesh ms) ''shop'' [(''local'', ''here'')] = Inr ms"
    using assms by (simp add: ex_settled_def mesh_manifests_frame)
qed (simp_all add: ex_settled_def ex_menv_sel ex_mesh_def mstr_def mget_Cons)

theorem mesh_status_settles_witness:
  "\<exists>ms. mesh_manifests (ex_menv []) [] (ex_mesh []) ''shop'' [(''local'', ''here'')] = Inr ms
    \<and> ((\<exists>S. UpdateMeshStatus S \<in> set (fst (AtlasMeshReconcile (ex_settled [] ms) [] ''default'' ''m''))) \<longleftrightarrow> \<not> distinct (map moName ms))"
proof -
  obtain ms where ms: "mesh_manifests (ex_menv []) [] (ex_mesh []) ''shop'' [(''local'', ''here'')] = Inr ms"
    using ex_manifests by blast
  note f = ex_settled_facts [OF ms]
  from mesh_status_settles [OF f(1,2,6) _ f(3,5)] ms show ?thesis by (intro exI [of _ ms] conjI) simp_all
qed

theorem config_maps_of_one_name_witness:
  "\<exists>ms. UpdateMeshStatus (ex_mesh ms)
     \<in> set (fst (AtlasMeshReconcile (ex_settled [ex_cm ''a'', ex_cm ''b''] ms) [] ''default'' ''m''))"
proof -
  let ?cms = "[ex_cm ''a'', ex_cm ''b'']"
  obtain ms where ms: "mesh_manifests (ex_menv ?cms) [] (ex_mesh []) ''shop'' [(''local'', ''here'')] = Inr ms"
    using ex_manifests by blast
  note f = ex_settled_facts [OF ms]
  have "\<exists>c\<in>set (dmComponent (amDeployMap (ex_mesh ms))). is_deployment c"
    by (simp add: f(7) ex_plan_sel ex_cmpnts_def ex_is_deployment)
  from config_maps_of_one_name [OF f(1,2,6) _ f(3,4) _ _ _ this f(5), of 0 1] show ?thesis
    by (intro exI [of _ ms]) (simp add: ex_cm_def f(8))
qed

lemma ex_run:
  assumes "mesh_manifests (ex_menv []) [] (ex_mesh []) ''shop'' [(''local'', ''here'')] = Inr ms"
  shows "AtlasMeshReconcile (ex_menv []) [] ''default'' ''m'' = bind_run (mesh_status (ex_menv []) (ex_mesh []) ms)
    (\<lambda>_. fold_run (mesh_submit (ex_menv []) (ex_mesh [])) ms)"
  and "\<exists>m. m \<in> set ms" and "objects_changed [] ms"
  and "snd (AtlasMeshReconcile (ex_menv []) [] ''default'' ''m'') = Inr ()"
proof -
  show run: "AtlasMeshReconcile (ex_menv []) [] ''default'' ''m'' = bind_run (mesh_status (ex_menv []) (ex_mesh []) ms)
    (\<lambda>_. fold_run (mesh_submit (ex_menv []) (ex_mesh [])) ms)"
    by (subst AtlasMeshReconcile_manifests [OF ex_menv_sel(1) ex_cfg _ _ assms]) (simp_all add: ex_mesh_def mstr_def mget_Cons)
  obtain dm where dm: "generateDeployManifests (ex_menv []) [] ''default'' ex_plan [(''local'', ''here'')] = Inr dm" "length dm = 3"
    using ex_deploys by blast
  obtain x y z w where "ms = x @ y @ dm @ z @ w" using assms dm(1) by (auto simp: mesh_manifests_def ex_mesh_def Let_def)
  with dm(2) have ne: "ms \<noteq> []" by (cases dm) auto
  then show "\<exists>m. m \<in> set ms" by (cases ms) auto
  show "objects_changed [] ms" using ne by (simp add: objects_changed_def)
  have "snd (fold_run (mesh_submit (ex_menv []) M) os) = Inr ()" for M and os
    by (induction os) (simp_all add: snd_bind_run mesh_submit_def generateUnstructuredWrapper_def ex_menv_sel Let_def)
  then show "snd (AtlasMeshReconcile (ex_menv []) [] ''default'' ''m'') = Inr ()"
    by (simp add: run snd_bind_run mesh_status_def ex_menv_sel)
qed

theorem mesh_submits_the_plan_witness:
  "\<exists>M cfg ms. me_mesh (ex_menv []) ''default'' ''m'' = Inr M
    \<and> mesh_manifests (ex_menv []) [] M (mstr (amLabels M) ''skycluster.io/app-id'') cfg = Inr ms
    \<and> objects_changed (mtObjects M) ms"
proof -
  obtain ms where ms: "mesh_manifests (ex_menv []) [] (ex_mesh []) ''shop'' [(''local'', ''here'')] = Inr ms"
    using ex_manifests by blast
  have "mtObjects (ex_mesh []) = []" by (simp add: ex_mesh_def)
  then have "UpdateMeshStatus ((ex_mesh [])\<lparr>mtObjects := ms\<rparr>) \<in> set (fst (AtlasMeshReconcile (ex_menv []) [] ''default'' ''m''))"
    using ex_run(1,3) [OF ms] by (simp add: bind_run_call mesh_status_calls)
  from mesh_submits_the_plan [OF this] show ?thesis by auto
qed

theorem mesh_submits_all_witness:
  "\<exists>m. CreateObject (generateUnstructuredWrapper (ex_menv []) m (ex_mesh []))
     \<in> set (fst (AtlasMeshReconcile (ex_menv []) [] ''default'' ''m''))"
proof -
  obtain ms where ms: "mesh_manifests (ex_menv []) [] (ex_mesh []) ''shop'' [(''local'', ''here'')] = Inr ms"
    using ex_manifests by blast
  obtain m where m: "m \<in> set ms" using ex_run(2) [OF ms] by blast
  show ?thesis
    using mesh_submits_all [OF ex_menv_sel(1) ex_cfg _ _ ms _ ex_run(4) [OF ms] m]
    by (intro exI [of _ m]) (simp add: ex_mesh_def mstr_def mget_Cons)
qed

definition ex_object :: "string \<Rightarrow> MeshObject" where
  "ex_object cfg = \<lparr>moName = ''o'', moNamespace = [], moManifest = MNamespace \<lparr>knName = ''n'', knLabels = []\<rparr>, moConfigName = cfg\<rparr>"

theorem provider_config_change_lost_witness:
  "fst (mesh_status (ex_menv []) (ex_mesh [ex_object ''old'']) [ex_object ''new'']) = []"
  using provider_config_change_lost [of "ex_mesh [ex_object ''old'']" "[ex_object ''new'']" "ex_menv []"]
  by (simp add: ex_mesh_def ex_object_def)

theorem istio_routes_resolve_witness:
  "\<exists>ms m' r. generateIstioConfig (ex_menv []) ''default'' ''shop'' ex_plan [] = Inr ms \<and> m' \<in> set ms
     \<and> moManifest m' = MDestinationRule r \<and> idHost r = ''x''"
proof -
  let ?L = "derivePriorities ex_cmpnts [ex_edge ''p2'']" and ?e = "ex_edge ''p2''"
  let ?R = "add_route ?L (dmFrom ?e) (dmTo ?e) ex_service ([], [])"
  have sel: "is_deployment (dmTo ?e)" "deploymentHasLabels (ex_deploy ''x'') (ksSelector ex_service)" "crName (ssComponentRef (dmTo ?e)) = ''x''"
    "rule_name ex_service (dmFrom ?e) = ''x-p1''"
    by (simp_all add: ex_edge_def ex_is_deployment deploymentHasLabels_def ex_deploy_def ex_service_def mstr_def mget_Cons
        rule_name_def) (simp_all add: ex_svc_def)
  have fold: "foldl_go (istio_edge (ex_menv []) ''default'' ''shop'' ?L) ([], []) [?e] = Inr ?R"
    by (simp add: istio_edge_def sel ex_menv_sel)
  obtain ms where ms: "generateIstioConfig (ex_menv []) ''default'' ''shop'' ex_plan [] = Inr ms"
      "ms = rule_objects (ex_menv []) ''vs-'' [] ivName ivNamespace MVirtualService (fst ?R)
        @ rule_objects (ex_menv []) ''dr-'' [] idName idNamespace MDestinationRule (snd ?R)"
    using fold by (cases ?R) (simp add: generateIstioConfig_def ex_plan_sel Let_def)
  obtain v where v: "mget (fst ?R) ''x-p1'' = Some (''p1'', v)" "ivHosts v = [''x'']"
    by (simp add: add_route_def Let_def ex_service_def ex_edge_def ex_svc_def)
  let ?m = "generateObjectWrapper (object_name (ex_menv []) 25 (''vs-'' @ ivName v)) (ivNamespace v) (MVirtualService v) (mstr [] ''p1'')"
  have order: "\<forall>ks. set (me_order (ex_menv []) ks) = set ks" by (simp add: ex_menv_sel)
  have m: "?m \<in> set ms"
    unfolding ms(2) set_append rule_objects_member [OF order] using v(1)
    by (intro UnI1) (unfold rule_objects_member [OF order], intro exI [of _ "''x-p1''"] exI [of _ "''p1''"] exI [of _ v] conjI refl)
  have apart: "names_apart [ex_service] (dmEdges ex_plan)" by (simp add: names_apart_def ex_plan_sel)
  obtain v' where v': "moManifest ?m = MVirtualService v'" "ivHosts v' = [''x'']" using v(2) by (simp add: generateObjectWrapper_def)
  from istio_routes_resolve [OF ms(1) ex_menv_sel(6) apart order m v'(1)] v'(2) obtain m' r where
    "m' \<in> set ms" "moManifest m' = MDestinationRule r" "idHost r = ''x''" by auto
  with ms(1) show ?thesis by (intro exI [of _ ms] exI [of _ m'] exI [of _ r] conjI)
qed

end
