(* ===== verification/Atlas.thy ===== *)
theory Atlas
  imports Mesh Names
begin

text \<open>
  The reconciler of the \<open>Atlas\<close> (\<open>internal/controller/core/atlas/atlas_controller.go\<close>,
  \<open>atlas_helper.go\<close>): from the deploy plan it makes one \<open>XProvider\<close> per provider, with a network of
  its own, and one \<open>XKube\<close> per provider or one \<open>XInstance\<close> per component, records them in the
  status and creates them once approved. The names go through \<open>EnsureK8sName\<close>, which may not
  return; so may not what uses it: the value \<open>None\<close>.
\<close>

section \<open>Data\<close>

record PodCidrSpec =
  pcCidr :: string
  pcPublic :: string
  pcPrivate :: string

text \<open>Of the metadata of a provider, the fields the source reads.\<close>

record providerMetadata =
  pmVPCCIDR :: string
  pmServiceCidr :: string
  pmNodeCidr :: string
  pmPodCidr :: PodCidrSpec

text \<open>An unstructured object of the composite resources.\<close>

record xrd_object =
  xoAPIVersion :: string
  xoKind :: string
  xoName :: string
  xoGenerateName :: string
  xoAnnotations :: "string gomap"
  xoSpec :: "any gomap"

text \<open>A \<open>SkyService\<close> whose manifest is such an object.\<close>

record XManifest =
  xmComponentRef :: ComponentRef
  xmManifest :: "xrd_object option"
  xmProviderRef :: ProviderRefSpec

text \<open>\<open>None\<close> is the nil slice of a status never written.\<close>

record AtlasState = Atlas +
  asManifests :: "XManifest list option"

record XInstanceSpec =
  xiPreferSpot :: bool
  xiImage :: string
  xiPublicKey :: string
  xiPublicIP :: bool
  xiUserData :: string
  xiSecurityGroups :: any
  xiRootVolumes :: any

datatype atlas_effect = CreateXrd xrd_object | UpdateAtlasStatus AtlasState

text \<open>
  Replies, by call, and the code outside the repository: \<open>ae_subnets\<close> is \<open>helper.Subnets\<close>, a call of
  the package \<open>ipnets\<close>, \<open>ae_rand\<close> is \<open>utils.RandSuffix\<close>, \<open>ae_order\<close> the order in which the runtime
  visits the keys of a map, the decoders are those of YAML and JSON.
\<close>

record atlas_env =
  ae_atlas :: "string \<Rightarrow> string \<Rightarrow> AtlasState go"
  ae_profiles :: "ProviderProfile list go"
  ae_metadata_maps :: "string gomap list go"
  ae_yaml_metadata :: "string \<Rightarrow> providerMetadata list go"
  ae_policy :: "string \<Rightarrow> string \<Rightarrow> DeploymentPolicy go"
  ae_xinstance :: "string \<Rightarrow> string \<Rightarrow> XInstanceSpec go"
  ae_config_maps :: "string gomap \<Rightarrow> string gomap list go"
  ae_yaml_offerings :: "string \<Rightarrow> ZoneOfferings list go"
  ae_yaml_devices :: "string \<Rightarrow> (string \<times> InstanceOffering option) list go"
  ae_decode_services :: "any \<Rightarrow> VirtualServiceSelector list list gomap go"
  ae_subnets :: "string \<Rightarrow> nat \<Rightarrow> string list go"
  ae_rand :: "string \<Rightarrow> string"
  ae_order :: "string list \<Rightarrow> string list"
  ae_create :: "string \<Rightarrow> unit go"
  ae_update_status :: "unit go"

section \<open>Code that may not return\<close>

type_synonym 'a dgo = "'a go option"

definition bind_d :: "'a dgo \<Rightarrow> ('a \<Rightarrow> 'b dgo) \<Rightarrow> 'b dgo" where
  "bind_d m f = (case m of None \<Rightarrow> None | Some r \<Rightarrow> (case r of Inl e \<Rightarrow> Some (Inl e) | Inr x \<Rightarrow> f x))"

definition wrap_d :: "string \<Rightarrow> 'a dgo \<Rightarrow> 'a dgo" where
  "wrap_d msg m = map_option (wrap_go msg) m"

fun foldl_d :: "('s \<Rightarrow> 'a \<Rightarrow> 's dgo) \<Rightarrow> 's \<Rightarrow> 'a list \<Rightarrow> 's dgo" where
  "foldl_d f s [] = Some (Inr s)"
| "foldl_d f s (x # xs) = bind_d (f s x) (\<lambda>s'. foldl_d f s' xs)"

lemma bind_d_simps [simp, go_simps]:
  "bind_d None f = None" "bind_d (Some (Inl e)) f = Some (Inl e)" "bind_d (Some (Inr x)) f = f x"
  by (simp_all add: bind_d_def)

lemma bind_d_Inr [simp]: "bind_d m f = Some (Inr y) \<longleftrightarrow> (\<exists>x. m = Some (Inr x) \<and> f x = Some (Inr y))"
  by (auto simp: bind_d_def split: option.splits sum.splits)

lemma wrap_d_Inr [simp]: "wrap_d msg m = Some (Inr y) \<longleftrightarrow> m = Some (Inr y)"
  by (auto simp: wrap_d_def)

lemma foldl_d_append: "foldl_d f s (xs @ ys) = bind_d (foldl_d f s xs) (\<lambda>s'. foldl_d f s' ys)"
  by (induction xs arbitrary: s) (auto simp: bind_d_def split: option.splits sum.splits)

section \<open>Helpers\<close>

definition findSecondaryZone :: "ProviderProfile \<Rightarrow> string \<Rightarrow> string" where
  "findSecondaryZone p primary =
     (case find (\<lambda>z. zName z \<noteq> primary) (ppZones (pfSpec p)) of None \<Rightarrow> [] | Some z \<Rightarrow> zName z)"

text \<open>From a platform to the rank of the names of its providers.\<close>

definition typed_providers :: "ProviderRefSpec gomap \<Rightarrow> string list gomap" where
  "typed_providers pvs =
     foldl (\<lambda>m (pname, p).
         mput (prPlatform p) ((case mget m (prPlatform p) of None \<Rightarrow> [] | Some ns \<Rightarrow> ns) @ [pname]) m) [] pvs"

definition rank_map :: "string list \<Rightarrow> nat gomap" where
  "rank_map pnames = foldl (\<lambda>m (i, pname). mput pname i m) [] (enumerate 0 pnames)"

definition buildIndexMap :: "ProviderRefSpec gomap \<Rightarrow> nat gomap gomap" where
  "buildIndexMap pvs = map (\<lambda>(pltf, pnames). (pltf, rank_map (sort pnames))) (typed_providers pvs)"

text \<open>\<open>m[platform][name]\<close>: zero when either is missing.\<close>

definition index_of :: "nat gomap gomap \<Rightarrow> string \<Rightarrow> string \<Rightarrow> nat" where
  "index_of provToIdx pltf pname =
     (case mget provToIdx pltf of None \<Rightarrow> 0 | Some m \<Rightarrow> (case mget m pname of None \<Rightarrow> 0 | Some i \<Rightarrow> i))"

definition fetchProviderMetadataMap :: "atlas_env \<Rightarrow> string gomap go" where
  "fetchProviderMetadataMap E =
     bind_go (wrap_go ''listing provider metadata ConfigMaps'' (ae_metadata_maps E)) (\<lambda>items.
       if length items = 0 then Inl (Errf ''no provider metadata ConfigMaps found'')
       else if length items > 1 then Inl (Errf ''more than one provider metadata ConfigMap found'')
       else Inr (hd items))"

definition loadProviderMetadata :: "atlas_env \<Rightarrow> providerMetadata list gomap go" where
  "loadProviderMetadata E =
     bind_go (wrap_go ''fetching provider metadata map'' (fetchProviderMetadataMap E)) (\<lambda>providerData.
       foldl_go (\<lambda>m (key, yamlStr).
           bind_go (wrap_go (''unmarshalling provider metadata for key '' @ key) (ae_yaml_metadata E yamlStr)) (\<lambda>metas.
             Inr (mput key metas m))) [] providerData)"

text \<open>\<open>metadata[platform][idx]\<close>\<close>

definition metadata_at :: "providerMetadata list gomap \<Rightarrow> string \<Rightarrow> nat \<Rightarrow> providerMetadata go" where
  "metadata_at metadata pltf idx =
     (let ms = (case mget metadata pltf of None \<Rightarrow> [] | Some ms \<Rightarrow> ms)
      in if idx < length ms then Inr (ms ! idx) else Inl (Panic ''index out of range''))"

definition fetchDeploymentPolicy :: "atlas_env \<Rightarrow> string \<Rightarrow> string \<Rightarrow> DeploymentPolicy go" where
  "fetchDeploymentPolicy E ns dpRef = ae_policy E ns dpRef"

text \<open>The name of an object: at most fifteen bytes of the sanitised name and the suffix.\<close>

definition xrd_name :: "atlas_env \<Rightarrow> string \<Rightarrow> string dgo" where
  "xrd_name E s =
     (case EnsureK8sName s of None \<Rightarrow> None
      | Some name \<Rightarrow> Some (Inr (take (min (length name) 15) name @ ''-'' @ ae_rand E name)))"

definition zones_of :: "ProviderProfile gomap \<Rightarrow> string \<Rightarrow> ZoneSpec list" where
  "zones_of profiles pName = (case mget profiles pName of None \<Rightarrow> [] | Some pp \<Rightarrow> ppZones (pfSpec pp))"

definition str_map :: "string gomap \<Rightarrow> any" where
  "str_map m = AMap (map (\<lambda>(k, v). (k, AStr v)) m)"

section \<open>Providers\<close>

text \<open>The subnets: the first zones of the profile, as many as are enabled, each with a part of the network.\<close>

definition subnet_entry :: "string \<Rightarrow> string \<Rightarrow> ZoneSpec \<Rightarrow> any" where
  "subnet_entry pltf cidr z =
     (let sn = [(''cidr'', AStr cidr), (''zone'', AStr (zName z))];
          sn = (if pltf = ''aws'' then mput ''type'' (AStr (zType z)) sn else sn);
          sn = (if pltf = ''baremetal'' \<and> zType z = ''public'' then mput ''default'' (ABool True) sn else sn);
          sn = (if pltf = ''openstack'' then mput ''default'' (ABool True) sn else sn)
      in AMap sn)"

definition subnet_list :: "string \<Rightarrow> string list \<Rightarrow> ZoneSpec list \<Rightarrow> nat \<Rightarrow> any list go" where
  "subnet_list pltf subnets zones zoneCount =
     map_go (\<lambda>i. if i < length subnets then Inr (subnet_entry pltf (subnets ! i) (zones ! i))
                 else Inl (Panic ''index out of range'')) [0..<zoneCount]"

definition gateway_spec :: "string \<Rightarrow> any" where
  "gateway_spec pltf =
     (let fields = (if pltf = ''aws'' then [(''volumeType'', AStr ''gp2''), (''volumeSize'', AInt 30)] else [])
      in AMap (mput ''flavor'' (AStr (if pltf = ''aws'' \<or> pltf = ''openstack'' then ''4vCPU-16GB'' else ''2vCPU-8GB'')) fields))"

definition external_network :: "string \<Rightarrow> string \<Rightarrow> any" where
  "external_network pltf region =
     (if pltf \<noteq> ''openstack'' then ANil
      else if region = ''SCINET'' then
        str_map [(''networkName'', ''ext-net''), (''networkId'', ''0a23c4ae-98ba-4f3a-8c85-5a7dc614cc4e''),
                 (''subnetName'', ''ext-subnet''), (''subnetId'', ''ae9a8eac-5f6f-4681-98f6-71acf18dcfbb'')]
      else if region = ''VAUGHAN'' then
        str_map [(''networkName'', ''ext-net''), (''networkId'', ''ac6641d9-9a20-4796-b95c-24254834c7e8''),
                 (''subnetName'', ''ext-subnet''), (''subnetId'', ''6da2a42c-d746-4a95-aae0-e5807ce0250d'')]
      else ANil)"

definition openstack_annotations :: "string gomap" where
  "openstack_annotations =
     [(''skycluster.io/external-resources'',
       ''[{\"apiVersion\":\"identity.openstack.crossplane.io/v1alpha1\",\"kind\":\"ProjectV3\",\"id\":\"1e1c724728544ec2a9058303ddc8f30b\"}]'')]"

definition provider_spec ::
  "string \<Rightarrow> ProviderRefSpec \<Rightarrow> string \<Rightarrow> any list \<Rightarrow> string \<Rightarrow> string \<Rightarrow> any gomap" where
  "provider_spec appId p cidr subnetList primary secondary =
     [(''applicationId'', AStr appId),
      (''vpcCidr'', AStr (if prPlatform p = ''aws'' \<or> prPlatform p = ''gcp'' \<or> prPlatform p = ''openstack'' then cidr else [])),
      (''gateway'', gateway_spec (prPlatform p)),
      (''subnets'', AList subnetList),
      (''externalNetwork'', external_network (prPlatform p) (prRegion p)),
      (''providerRef'', AMap [(''platform'', AStr (prPlatform p)), (''region'', AStr (prRegion p)),
                              (''zones'', str_map [(''primary'', primary), (''secondary'', secondary)])])]"

text \<open>One provider. Without a secondary zone its name is empty.\<close>

definition provider_manifest ::
  "atlas_env \<Rightarrow> string \<Rightarrow> nat gomap gomap \<Rightarrow> providerMetadata list gomap \<Rightarrow> ProviderProfile gomap \<Rightarrow> string \<Rightarrow> ProviderRefSpec \<Rightarrow> XManifest dgo" where
  "provider_manifest E appId idxs metadata profiles pName p =
     bind_d (xrd_name E (''xp-'' @ pName @ ''-'' @ appId)) (\<lambda>name.
       let zones = zones_of profiles pName
       in case find zDefaultZone zones of
            None \<Rightarrow> Some (Inl (Errf (''No primary zone found, provider: '' @ pName)))
          | Some znPrimary \<Rightarrow>
              (let znSecondary = find (\<lambda>z. zName z \<noteq> zName znPrimary) zones
               in if znSecondary = None \<and> prPlatform p \<notin> {''baremetal'', ''openstack''}
                  then Some (Inl (Errf (''No secondary zone found, provider: '' @ pName)))
                  else
                    bind_d (Some (metadata_at metadata (prPlatform p) (index_of idxs (prPlatform p) pName))) (\<lambda>meta.
                      let zoneCount = length (filter zEnabled zones)
                      in bind_d (Some (wrap_go ''Error calculating subnets.'' (ae_subnets E (pmVPCCIDR meta) zoneCount))) (\<lambda>subnets.
                         bind_d (Some (subnet_list (prPlatform p) subnets zones zoneCount)) (\<lambda>subnetList.
                           let obj = \<lparr>xoAPIVersion = ''skycluster.io/v1alpha1'', xoKind = ''XProvider'', xoName = name,
                                 xoGenerateName = [],
                                 xoAnnotations = (if prPlatform p = ''openstack'' then openstack_annotations else []),
                                 xoSpec = provider_spec appId p (pmVPCCIDR meta) subnetList (zName znPrimary)
                                   (case znSecondary of None \<Rightarrow> [] | Some z \<Rightarrow> zName z)\<rparr>
                           in Some (Inr \<lparr>xmComponentRef = \<lparr>crAPIVersion = xoAPIVersion obj, crKind = xoKind obj,
                                                          crName = xoName obj, crNamespace = []\<rparr>,
                                         xmManifest = Some obj, xmProviderRef = p\<lparr>prName := pName\<rparr>\<rparr>))))))"

definition unique_providers :: "SkyService list \<Rightarrow> ProviderRefSpec gomap" where
  "unique_providers cmpnts =
     foldl (\<lambda>m c. let n = prName (ssProviderRef c)
              in if mget m n \<noteq> None then m else mput n (ssProviderRef c) m) [] cmpnts"

definition generateProviderManifests ::
  "atlas_env \<Rightarrow> string \<Rightarrow> SkyService list \<Rightarrow> (XManifest gomap \<times> nat gomap gomap) dgo" where
  "generateProviderManifests E appId cmpnts =
     (let uniqueProviders = unique_providers cmpnts;
          indexedSortedProviders = buildIndexMap uniqueProviders
      in bind_d (Some (wrap_go ''Error loading provider metadata.'' (loadProviderMetadata E))) (\<lambda>provMetadata.
         bind_d (Some (wrap_go ''Error fetching provider profiles.'' (fetchProviderProfilesMap (ae_profiles E)))) (\<lambda>providerProfiles.
         bind_d (foldl_d (\<lambda>manifests pName.
               case mget uniqueProviders pName of None \<Rightarrow> Some (Inr manifests)
               | Some p \<Rightarrow>
                   if prPlatform p = ''baremetal'' then Some (Inr manifests)
                   else bind_d (provider_manifest E appId indexedSortedProviders provMetadata providerProfiles pName p) (\<lambda>m.
                          Some (Inr (mput pName m manifests))))
             [] (ae_order E (mkeys uniqueProviders))) (\<lambda>manifests.
           Some (Inr (manifests, indexedSortedProviders))))))"

section \<open>Managed clusters and virtual machines\<close>

text \<open>The services in the manifest of a component; a component without a manifest is a nil pointer.\<close>

definition decode_services :: "atlas_env \<Rightarrow> SkyService \<Rightarrow> VirtualServiceSelector list list go" where
  "decode_services E c =
     (case ssManifest c of
        None \<Rightarrow> Inl (Panic ''invalid memory address or nil pointer dereference'')
      | Some (Services s) \<Rightarrow> Inr s
      | Some (RawManifest v) \<Rightarrow>
          bind_go (wrap_go ''Error unmarshalling virtual services.'' (ae_decode_services E v)) (\<lambda>m.
            Inr (case mget m ''services'' of None \<Rightarrow> [] | Some s \<Rightarrow> s)))"

text \<open>The instance types of one set of alternatives and the largest count among them, at least one.\<close>

definition group_types :: "VirtualServiceSelector list \<Rightarrow> string list \<times> int" where
  "group_types altServiceSets =
     foldl (\<lambda>(its, cnt) svc.
         if vsKind svc \<noteq> ''ComputeProfile'' then (its, cnt)
         else (its @ [vsName svc],
               if vsCount svc \<noteq> [] then (case atoi (vsCount svc) of Inl _ \<Rightarrow> cnt | Inr n \<Rightarrow> if n > cnt then n else cnt)
               else cnt)) ([], 1) altServiceSets"

definition node_group :: "VirtualServiceSelector list \<Rightarrow> any" where
  "node_group altServiceSets =
     (case group_types altServiceSets of (its, cnt) \<Rightarrow>
        AMap [(''instanceTypes'', AList (map AStr its)), (''nodeCount'', AInt cnt), (''publicAccess'', ABool False),
              (''autoScaling'', AMap [(''enabled'', ABool True), (''minSize'', AInt 1), (''maxSize'', AInt 10)])])"

definition pod_cidr :: "string \<Rightarrow> PodCidrSpec \<Rightarrow> any" where
  "pod_cidr pltf pc =
     (let fields = (if pltf = ''aws'' then [(''public'', AStr (pcPublic pc)), (''private'', AStr (pcPrivate pc))] else [])
      in AMap (mput ''cidr'' (AStr (pcCidr pc)) fields))"

definition k8s_provider_ref :: "ProviderProfileSpec \<Rightarrow> string \<Rightarrow> string option \<Rightarrow> any" where
  "k8s_provider_ref pp primary secondary =
     (let fields = [(''platform'', AStr (ppPlatform pp)), (''region'', AStr (ppRegion pp))];
          fields = (if ppPlatform pp = ''aws'' then
                      (case secondary of None \<Rightarrow> fields
                       | Some s \<Rightarrow> mput ''zones'' (str_map [(''primary'', primary), (''secondary'', s)]) fields)
                    else fields);
          fields = (if ppPlatform pp = ''gcp'' then mput ''zones'' (str_map [(''primary'', primary)]) fields else fields)
      in AMap fields)"

definition buildK8SSpec ::
  "atlas_env \<Rightarrow> string \<Rightarrow> SkyService \<Rightarrow> providerMetadata list gomap \<Rightarrow> ProviderProfileSpec \<Rightarrow> nat \<Rightarrow> string \<Rightarrow> string option \<Rightarrow> any gomap go" where
  "buildK8SSpec E appId c k8sMetadata pp idx primary secondary =
     bind_go (case ssManifest c of
           Some (RawManifest (AMap _)) \<Rightarrow> Inr () | Some (RawManifest ANil) \<Rightarrow> Inr ()
         | Some (RawManifest _) \<Rightarrow> Inl (Errf ''Error unmarshalling XKube spec.'') | _ \<Rightarrow> Inr ()) (\<lambda>_.
     bind_go (decode_services E c) (\<lambda>services.
     bind_go (metadata_at k8sMetadata (ppPlatform pp) idx) (\<lambda>meta.
       Inr [(''applicationId'', AStr appId),
            (''serviceCidr'', AStr (pmServiceCidr meta)),
            (''nodeCidr'', AStr (if ppPlatform pp = ''gcp'' then pmNodeCidr meta else [])),
            (''podCidr'', pod_cidr (ppPlatform pp) (pmPodCidr meta)),
            (''nodeGroups'', AList (map node_group services)),
            (''principal'', AMap (if ppPlatform pp = ''aws''
               then [(''type'', AStr ''servicePrincipal''), (''id'', AStr ''arn:aws:iam::885707601199:root'')] else [])),
            (''providerRef'', k8s_provider_ref pp primary secondary)])))"

definition zero_profile_spec :: ProviderProfileSpec where
  "zero_profile_spec = \<lparr>ppPlatform = [], ppRegion = [], ppRegionAlias = [], ppZones = []\<rparr>"

text \<open>The cluster of one component.\<close>

definition k8s_manifest ::
  "atlas_env \<Rightarrow> string \<Rightarrow> nat gomap gomap \<Rightarrow> providerMetadata list gomap \<Rightarrow> ProviderProfile gomap \<Rightarrow> SkyService \<Rightarrow> XManifest dgo" where
  "k8s_manifest E appId provToIdx k8sMetadata provProfiles skySvc =
     (let pName = prName (ssProviderRef skySvc);
          pp = (case mget provProfiles pName of None \<Rightarrow> zero_profile_spec | Some p \<Rightarrow> pfSpec p);
          idx = index_of provToIdx (ppPlatform pp) pName
      in case find zDefaultZone (ppZones pp) of
           None \<Rightarrow> Some (Inl (Errf ''No primary zone found''))
         | Some znPrimary \<Rightarrow>
             (let znSecondary = find (\<lambda>z. zName z \<noteq> zName znPrimary) (ppZones pp)
              in if znSecondary = None \<and> ppPlatform pp \<notin> {''baremetal'', ''openstack''}
                 then Some (Inl (Errf ''No secondary zone found''))
                 else
                   bind_d (xrd_name E (''xk-'' @ pName @ ''-'' @ appId)) (\<lambda>name.
                   bind_d (Some (wrap_go ''Error building XKube spec.''
                       (buildK8SSpec E appId skySvc k8sMetadata pp idx (zName znPrimary) (map_option zName znSecondary)))) (\<lambda>spec.
                     let obj = \<lparr>xoAPIVersion = ''skycluster.io/v1alpha1'', xoKind = ''XKube'', xoName = name,
                                xoGenerateName = [], xoAnnotations = [], xoSpec = spec\<rparr>
                     in Some (Inr \<lparr>xmComponentRef = \<lparr>crAPIVersion = xoAPIVersion obj, crKind = xoKind obj,
                                                    crName = xoName obj, crNamespace = []\<rparr>,
                                   xmManifest = Some obj,
                                   xmProviderRef = \<lparr>prName = pName, prPlatform = ppPlatform pp, prType = zType znPrimary,
                                     prRegion = ppRegion pp, prRegionAlias = ppRegionAlias pp, prZone = zName znPrimary\<rparr>\<rparr>)))))"

text \<open>One cluster per provider: the first component of the provider decides.\<close>

definition generateK8SManifests ::
  "atlas_env \<Rightarrow> string \<Rightarrow> nat gomap gomap \<Rightarrow> SkyService list \<Rightarrow> XManifest gomap dgo" where
  "generateK8SManifests E appId provToIdx cmpnts =
     bind_d (Some (wrap_go ''Error loading provider metadata.'' (loadProviderMetadata E))) (\<lambda>k8sMetadata.
     bind_d (Some (wrap_go ''Error fetching provider profiles.'' (fetchProviderProfilesMap (ae_profiles E)))) (\<lambda>provProfiles.
       foldl_d (\<lambda>manifests skySvc.
           let pName = prName (ssProviderRef skySvc)
           in if mget manifests pName \<noteq> None then Some (Inr manifests)
              else bind_d (k8s_manifest E appId provToIdx k8sMetadata provProfiles skySvc) (\<lambda>m.
                     Some (Inr (mput pName m manifests)))) [] cmpnts))"

definition vm_spec :: "string \<Rightarrow> string \<Rightarrow> XInstanceSpec \<Rightarrow> ProviderRefSpec \<Rightarrow> any gomap" where
  "vm_spec appId flavor xi p =
     [(''applicationId'', AStr appId), (''flavor'', AStr flavor), (''preferSpot'', ABool (xiPreferSpot xi)),
      (''image'', AStr (xiImage xi)), (''rootVolumes'', xiRootVolumes xi), (''userData'', AStr (xiUserData xi)),
      (''securityGroups'', xiSecurityGroups xi), (''publicIp'', ABool (xiPublicIP xi)), (''publicKey'', AStr (xiPublicKey xi)),
      (''providerRef'', str_map [(''platform'', prPlatform p), (''region'', prRegion p), (''zone'', prZone p)])]"

definition vm_manifest :: "atlas_env \<Rightarrow> string \<Rightarrow> SkyService \<Rightarrow> XManifest dgo" where
  "vm_manifest E appId c =
     bind_d (Some (wrap_go (''Error fetching XInstance for component: '' @ crName (ssComponentRef c))
         (ae_xinstance E (crNamespace (ssComponentRef c)) (crName (ssComponentRef c))))) (\<lambda>xi.
     bind_d (Some (decode_services E c)) (\<lambda>services.
       case services of
         ((computeProfile # _) # _) \<Rightarrow>
           (if vsKind computeProfile \<noteq> ''ComputeProfile''
            then Some (Inl (Errf (''Expected ComputeProfile, got '' @ vsKind computeProfile)))
            else
              bind_d (xrd_name E (''xvm-'' @ ''-'' @ appId)) (\<lambda>name.
                let p = ssProviderRef c;
                    obj = \<lparr>xoAPIVersion = ''skycluster.io/v1alpha1'', xoKind = ''XInstance'', xoName = name,
                           xoGenerateName = [], xoAnnotations = [], xoSpec = vm_spec appId (vsName computeProfile) xi p\<rparr>
                in Some (Inr \<lparr>xmComponentRef = \<lparr>crAPIVersion = xoAPIVersion obj, crKind = xoKind obj,
                                               crName = xoName obj, crNamespace = []\<rparr>,
                              xmManifest = Some obj,
                              xmProviderRef = \<lparr>prName = [], prPlatform = prPlatform p, prType = [], prRegion = prRegion p,
                                prRegionAlias = [], prZone = prZone p\<rparr>\<rparr>)))
       | _ \<Rightarrow> Some (Inl (Panic ''index out of range''))))"

definition generateVMManifests :: "atlas_env \<Rightarrow> string \<Rightarrow> SkyService list \<Rightarrow> XManifest list dgo" where
  "generateVMManifests E appId cmpnts =
     foldl_d (\<lambda>manifests c.
         if crKind (ssComponentRef c) \<noteq> ''XInstance'' then Some (Inr manifests)
         else bind_d (vm_manifest E appId c) (\<lambda>m. Some (Inr (manifests @ [m])))) [] cmpnts"

text \<open>The mesh of the clusters; nothing calls it.\<close>

definition generateK8sMeshManifests :: "atlas_env \<Rightarrow> string \<Rightarrow> XManifest list \<Rightarrow> XManifest dgo" where
  "generateK8sMeshManifests E appId xKubeList =
     bind_d (xrd_name E (''xkmesh-'' @ appId)) (\<lambda>name.
       let clusterNames = sort (map (\<lambda>x. crName (xmComponentRef x)) xKubeList);
           obj = \<lparr>xoAPIVersion = ''skycluster.io/v1alpha1'', xoKind = ''XKubeMesh'', xoName = name, xoGenerateName = [],
                  xoAnnotations = [],
                  xoSpec = [(''clusterNames'', AList (map AStr clusterNames)),
                            (''localCluster'', str_map [(''podCidr'', ''10.0.0.0/19''), (''serviceCidr'', ''10.0.32.0/19'')])]\<rparr>
       in Some (Inr \<lparr>xmComponentRef = \<lparr>crAPIVersion = xoAPIVersion obj, crKind = xoKind obj, crName = xoName obj, crNamespace = []\<rparr>,
                     xmManifest = Some obj,
                     xmProviderRef = \<lparr>prName = [], prPlatform = [], prType = [], prRegion = [], prRegionAlias = [], prZone = []\<rparr>\<rparr>))"

section \<open>The reconciler\<close>

definition map_values :: "atlas_env \<Rightarrow> 'a gomap \<Rightarrow> 'a list" where
  "map_values E m = List.map_filter (mget m) (ae_order E (mkeys m))"

definition createManifests :: "atlas_env \<Rightarrow> string \<Rightarrow> string \<Rightarrow> AtlasState \<Rightarrow> XManifest list dgo" where
  "createManifests E appId ns atlas =
     (let cmpnts = dmComponent (amDeployMap atlas)
      in bind_d (wrap_d ''Error generating provider manifests.'' (generateProviderManifests E appId cmpnts)) (\<lambda>(providersManifests, provToMetadataIdx).
         bind_d (Some (wrap_go ''fetching deployment policy'' (fetchDeploymentPolicy E ns (amDeploymentPolicyRef atlas)))) (\<lambda>dpPolicy.
           if atExecutionEnvironment atlas = ''Kubernetes'' then
             bind_d (wrap_d ''Error generating Kubernetes manifests.'' (generateK8SManifests E appId provToMetadataIdx cmpnts)) (\<lambda>k8sManifests.
               Some (Inr (map_values E providersManifests @ map_values E k8sManifests)))
           else if atExecutionEnvironment atlas = ''VirtualMachine'' then
             bind_d (wrap_d ''Error generating VirtualMachine manifests.'' (generateVMManifests E appId cmpnts)) (\<lambda>vmManifests.
               Some (Inr (map_values E providersManifests @ vmManifests)))
           else Some (Inl (Errf (''unsupported execution environment: '' @ atExecutionEnvironment atlas))))))"

text \<open>Only providers and clusters are created; an object that exists is passed over.\<close>

definition atlas_submit :: "atlas_env \<Rightarrow> XManifest \<Rightarrow> (atlas_effect, unit) run" where
  "atlas_submit E xrd =
     (case xmManifest xrd of
        None \<Rightarrow> pure_run (Inr ())
      | Some obj \<Rightarrow>
          (let ref = xmComponentRef xrd
           in if crKind ref \<noteq> ''XProvider'' \<and> crKind ref \<noteq> ''XKube'' then pure_run (Inr ())
              else
                (let unstrObj = obj\<lparr>xoAPIVersion := crAPIVersion ref, xoKind := crKind ref, xoGenerateName := crName ref @ ''-''\<rparr>
                 in try_run (call (CreateXrd unstrObj) (ae_create E (xoName unstrObj))) (\<lambda>reply.
                      case reply of
                        Inr _ \<Rightarrow> pure_run (Inr ())
                      | Inl err \<Rightarrow> if is_already_exists err then pure_run (Inr ()) else pure_run (Inl err)))))"

definition sort_manifests :: "XManifest list \<Rightarrow> XManifest list" where
  "sort_manifests ms = sort_key (\<lambda>m. crKind (xmComponentRef m)) (sort_key (\<lambda>m. crName (xmComponentRef m)) ms)"

definition atlas_status :: "atlas_env \<Rightarrow> AtlasState \<Rightarrow> XManifest list \<Rightarrow> (atlas_effect, unit) run" where
  "atlas_status E atlas manifests =
     (if asManifests atlas \<noteq> Some manifests
      then wrap_run ''error updating Atlas status'' (call (UpdateAtlasStatus (atlas\<lparr>asManifests := Some manifests\<rparr>)) (ae_update_status E))
      else pure_run (Inr ()))"

definition AtlasReconcile :: "atlas_env \<Rightarrow> string \<Rightarrow> string \<Rightarrow> (atlas_effect, unit) run option" where
  "AtlasReconcile E ns name =
     (case ae_atlas E ns name of
        Inl err \<Rightarrow> Some (pure_run (if is_not_found err then Inr () else Inl err))
      | Inr atlas \<Rightarrow>
          (case wrap_d ''error creating manifests.'' (createManifests E name ns atlas) of
             None \<Rightarrow> None
           | Some (Inl err) \<Rightarrow> Some (pure_run (Inl err))
           | Some (Inr manifests) \<Rightarrow>
               Some (bind_run (if amApprove atlas then fold_run (atlas_submit E) manifests else pure_run (Inr ())) (\<lambda>_.
                     atlas_status E atlas (sort_manifests manifests)))))"

section \<open>Costs of virtual services\<close>

definition fetchVirtualServiceCfgMap :: "atlas_env \<Rightarrow> ProviderRefSpec \<Rightarrow> string gomap go" where
  "fetchVirtualServiceCfgMap E p =
     bind_go (wrap_go ''listing provider profile ConfigMaps'' (ae_config_maps E
         [(''skycluster.io/config-type'', ''provider-profile''), (''skycluster.io/managed-by'', ''skycluster''),
          (''skycluster.io/provider-platform'', prPlatform p), (''skycluster.io/provider-profile'', prName p),
          (''skycluster.io/provider-region'', prRegion p)])) (\<lambda>items.
       if length items = 0 then Inl (Errf ''no provider profile ConfigMaps found'')
       else if length items > 1 then Inl (Errf ''multiple provider profile ConfigMaps found'')
       else Inr (hd items))"

definition offering_price :: "FlavorPattern \<Rightarrow> InstanceOffering \<Rightarrow> f64 option" where
  "offering_price pat off =
     (if \<not> fst (OfferingMatches2 pat off) then None
      else (case parse_float (ioPrice off) of Inl _ \<Rightarrow> None | Inr f \<Rightarrow> Some f))"

fun first_some :: "('a \<Rightarrow> 'b option) \<Rightarrow> 'a list \<Rightarrow> 'b option" where
  "first_some f [] = None"
| "first_some f (x # xs) = (case f x of None \<Rightarrow> first_some f xs | Some y \<Rightarrow> Some y)"

text \<open>The devices of a map, in the order given; a device without a configuration is a nil pointer.\<close>

fun device_price :: "FlavorPattern \<Rightarrow> (string \<times> InstanceOffering option) list \<Rightarrow> f64 option go" where
  "device_price pat [] = Inr None"
| "device_price pat ((n, None) # ds) = Inl (Panic ''invalid memory address or nil pointer dereference'')"
| "device_price pat ((n, Some off) # ds) =
     (case offering_price pat off of Some f \<Rightarrow> Inr (Some f) | None \<Rightarrow> device_price pat ds)"

definition calculateVirtualServiceSetCost :: "atlas_env \<Rightarrow> string gomap \<Rightarrow> PolicyVirtualService \<Rightarrow> string \<Rightarrow> f64 go" where
  "calculateVirtualServiceSetCost E virtualSrvcMap vs zone =
     (let none = Inl (Errf (''no matching virtual service offering found for '' @ pvName vs))
      in if pvKind vs = ''ComputeProfile'' then
           bind_go (wrap_go ''parsing flavor from JSON'' (ParseFlavorFromJSON (pvSpec vs))) (\<lambda>pat.
             case (case ae_yaml_offerings E (mstr virtualSrvcMap ''flavors.yaml'') of
                     Inl _ \<Rightarrow> None
                   | Inr zos \<Rightarrow> first_some (offering_price pat) (concat (map zoOfferings (filter (\<lambda>zo. zoZone zo = zone) zos)))) of
               Some f \<Rightarrow> Inr f
             | None \<Rightarrow>
                 (case ae_yaml_devices E (mstr virtualSrvcMap ''worker'') of
                    Inl _ \<Rightarrow> none
                  | Inr ds \<Rightarrow> bind_go (device_price pat ds) (\<lambda>r. case r of Some f \<Rightarrow> Inr f | None \<Rightarrow> none)))
         else none)"

definition f64_max :: f64 where
  "f64_max = Fin (of_int (2 ^ 53 - 1) * 2 ^ 971)"

definition findCheapestVirtualSvcs ::
  "atlas_env \<Rightarrow> ProviderRefSpec \<Rightarrow> PolicyVirtualService list \<Rightarrow> PolicyVirtualService option go" where
  "findCheapestVirtualSvcs E p virtualServices =
     (if length virtualServices = 0 then Inr None
      else
        bind_go (wrap_go ''failed fetching virtual service config map'' (fetchVirtualServiceCfgMap E p)) (\<lambda>virtSvcMap.
        bind_go (foldl_go (\<lambda>(best, minCost) vs.
            bind_go (calculateVirtualServiceSetCost E virtSvcMap vs (prZone p)) (\<lambda>cost.
              if cost < Fin 0 then Inr (best, minCost)
              else if cost < minCost then Inr (Some vs, cost) else Inr (best, minCost))) (None, f64_max) virtualServices) (\<lambda>(best, _).
          case best of None \<Rightarrow> Inl (Errf (''no valid virtual service found for provider '' @ prName p)) | Some vs \<Rightarrow> Inr (Some vs))))"

text \<open>The CPUs of a flavor written as a string become a number.\<close>

definition fixFlavorVCPUsFormat :: "any option \<Rightarrow> any" where
  "fixFlavorVCPUsFormat flavor =
     (case flavor of
        Some (AMap tmp) \<Rightarrow>
          json_canon (AMap (case mget tmp ''vcpus'' of
              Some (AStr v) \<Rightarrow> (case atoi v of Inr n \<Rightarrow> mput ''vcpus'' (AInt n) tmp | Inl _ \<Rightarrow> tmp)
            | _ \<Rightarrow> tmp))
      | _ \<Rightarrow> ANil)"

end
