(* ===== verification/AtlasProps.thy ===== *)
theory AtlasProps
  imports Atlas
begin

text \<open>
  What the atlas reconciler guarantees: the networks of the providers are apart, the clusters live in
  them, the status settles whatever the order of the maps, and nothing but the plan is created.
\<close>

section \<open>The entry of a provider\<close>

definition platform_names :: "ProviderRefSpec gomap \<Rightarrow> string \<Rightarrow> string list" where
  "platform_names pvs pl = map fst (filter (\<lambda>(n, p). prPlatform p = pl) pvs)"

lemma typed_providers_get:
  "(case mget (typed_providers pvs) pl of None \<Rightarrow> [] | Some ns \<Rightarrow> ns) = platform_names pvs pl"
  by (induction pvs rule: rev_induct) (auto simp: typed_providers_def platform_names_def split: option.splits)

lemma rank_map_nth: "distinct ns \<Longrightarrow> i < length ns \<Longrightarrow> mget (rank_map ns) (ns ! i) = Some i"
proof (induction ns arbitrary: i rule: rev_induct)
  case (snoc n ns)
  have eq: "rank_map (ns @ [n]) = mput n (length ns) (rank_map ns)"
    by (simp add: rank_map_def enumerate_append_eq)
  show ?case
  proof (cases "i = length ns")
    case False
    with snoc have "i < length ns" "ns ! i \<noteq> n" by (auto simp: nth_append)
    with snoc show ?thesis by (simp add: eq nth_append)
  qed (simp add: eq nth_append)
qed simp

lemma index_of_nth:
  assumes "wf_map pvs" and "mget pvs n = Some p"
  shows "index_of (buildIndexMap pvs) (prPlatform p) n < length (platform_names pvs (prPlatform p))
    \<and> sort (platform_names pvs (prPlatform p)) ! index_of (buildIndexMap pvs) (prPlatform p) n = n"
proof -
  let ?ns = "platform_names pvs (prPlatform p)"
  have n: "n \<in> set (sort ?ns)" using mget_in_set [OF assms(2)] by (force simp: platform_names_def)
  have d: "distinct (sort ?ns)"
    using assms(1) by (auto simp: wf_map_def platform_names_def intro: distinct_map_filter)
  obtain ns where ns: "mget (typed_providers pvs) (prPlatform p) = Some ns" "ns = ?ns"
    using typed_providers_get [of pvs "prPlatform p"] n by (cases "mget (typed_providers pvs) (prPlatform p)") auto
  from n obtain i where i: "i < length (sort ?ns)" "sort ?ns ! i = n" unfolding in_set_conv_nth by blast
  have "mget (rank_map (sort ?ns)) n = Some i" using rank_map_nth [OF d i(1)] i(2) by simp
  then have "index_of (buildIndexMap pvs) (prPlatform p) n = i"
    by (simp add: index_of_def buildIndexMap_def mget_map_values ns)
  with i show ?thesis by simp
qed

lemma index_of_inj:
  assumes "wf_map pvs" and "mget pvs n = Some p" and "mget pvs n' = Some p'" and "prPlatform p = prPlatform p'"
    and "index_of (buildIndexMap pvs) (prPlatform p) n = index_of (buildIndexMap pvs) (prPlatform p') n'"
  shows "n = n'"
  using index_of_nth [OF assms(1,2)] index_of_nth [OF assms(1,3)] assms(4,5) by metis

lemma unique_providers_fold:
  "wf_map (unique_providers cs) \<and> (\<forall>n. mget (unique_providers cs) n =
     map_option ssProviderRef (find (\<lambda>c. prName (ssProviderRef c) = n) cs))"
  by (induction cs rule: rev_induct) (auto simp: unique_providers_def Let_def find_append split: option.split)

section \<open>Loops\<close>

text \<open>A loop that stores what a call returns per key: the keys decide, not their order.\<close>

definition put_result :: "('k \<Rightarrow> string) \<Rightarrow> ('k \<Rightarrow> 'v option dgo) \<Rightarrow> 'v gomap \<Rightarrow> 'k \<Rightarrow> 'v gomap dgo" where
  "put_result key g ms k = bind_d (g k) (\<lambda>r. Some (Inr (case r of None \<Rightarrow> ms | Some v \<Rightarrow> mput (key k) v ms)))"

definition result_of :: "'v option dgo \<Rightarrow> 'v option" where
  "result_of r = (case r of Some (Inr v) \<Rightarrow> v | _ \<Rightarrow> None)"

lemma foldl_put_result:
  "foldl_d (put_result key g) ms0 ks = Some (Inr ms) \<longleftrightarrow>
     (\<forall>k\<in>set ks. \<exists>r. g k = Some (Inr r))
     \<and> ms = foldl (\<lambda>m k. case result_of (g k) of None \<Rightarrow> m | Some v \<Rightarrow> mput (key k) v m) ms0 ks"
proof (induction ks arbitrary: ms0)
  case (Cons k ks)
  show ?case
  proof (cases "\<exists>r. g k = Some (Inr r)")
    case True
    then obtain r where r: "g k = Some (Inr r)" by blast
    then have "put_result key g ms0 k = Some (Inr (case r of None \<Rightarrow> ms0 | Some v \<Rightarrow> mput (key k) v ms0))" "result_of (g k) = r"
      by (simp_all add: put_result_def result_of_def)
    with r show ?thesis by (simp add: Cons.IH)
  next
    case False
    then have "bind_d (g k) f \<noteq> Some (Inr y)" for f and y :: "(char list \<times> 'a) list" by auto
    with False show ?thesis by (simp add: put_result_def)
  qed
qed auto

lemma fold_results:
  "wf_map (foldl (\<lambda>m k. case h k of None \<Rightarrow> m | Some v \<Rightarrow> mput k v m) [] ks)
   \<and> (\<forall>k. mget (foldl (\<lambda>m k. case h k of None \<Rightarrow> m | Some v \<Rightarrow> mput k v m) [] ks) k = (if k \<in> set ks then h k else None))"
  by (induction ks rule: rev_induct) (auto split: option.split)

lemma foldl_put_own:
  assumes "foldl_d (put_result (\<lambda>k. k) g) [] ks = Some (Inr ms)"
  shows "\<forall>k\<in>set ks. \<exists>r. g k = Some (Inr r)" and "wf_map ms"
    and "mget ms k = (if k \<in> set ks then result_of (g k) else None)"
  using assms fold_results [of "\<lambda>k. result_of (g k)" ks] by (auto simp: foldl_put_result)

section \<open>The manifests of the providers\<close>

definition provider_result ::
  "atlas_env \<Rightarrow> string \<Rightarrow> ProviderRefSpec gomap \<Rightarrow> providerMetadata list gomap \<Rightarrow> ProviderProfile gomap \<Rightarrow> string \<Rightarrow> XManifest option dgo" where
  "provider_result E appId uniq metadata profiles pName =
     (case mget uniq pName of None \<Rightarrow> Some (Inr None)
      | Some p \<Rightarrow> if prPlatform p = ''baremetal'' then Some (Inr None)
                  else bind_d (provider_manifest E appId (buildIndexMap uniq) metadata profiles pName p) (\<lambda>m. Some (Inr (Some m))))"

lemma generateProviderManifests_Inr:
  assumes "generateProviderManifests E appId cs = Some (Inr (ms, idxs))"
  obtains metadata profiles where "loadProviderMetadata E = Inr metadata" "fetchProviderProfilesMap (ae_profiles E) = Inr profiles"
    "idxs = buildIndexMap (unique_providers cs)"
    "foldl_d (put_result (\<lambda>k. k) (provider_result E appId (unique_providers cs) metadata profiles)) []
       (ae_order E (mkeys (unique_providers cs))) = Some (Inr ms)"
proof -
  have step: "(\<lambda>manifests pName.
               case mget (unique_providers cs) pName of None \<Rightarrow> Some (Inr manifests)
               | Some p \<Rightarrow>
                   if prPlatform p = ''baremetal'' then Some (Inr manifests)
                   else bind_d (provider_manifest E appId (buildIndexMap (unique_providers cs)) metadata profiles pName p) (\<lambda>m.
                          Some (Inr (mput pName m manifests))))
      = put_result (\<lambda>k. k) (provider_result E appId (unique_providers cs) metadata profiles)" for metadata profiles
    by (intro ext) (simp add: put_result_def provider_result_def bind_d_def split: option.split sum.split)
  from assms show thesis
    unfolding generateProviderManifests_def Let_def step by (auto intro: that)
qed

text \<open>The entry of the metadata a provider is given.\<close>

definition provider_entry :: "providerMetadata list gomap \<Rightarrow> ProviderRefSpec gomap \<Rightarrow> string \<Rightarrow> providerMetadata go" where
  "provider_entry metadata uniq n =
     (case mget uniq n of None \<Rightarrow> Inl (Panic ''index out of range'')
      | Some p \<Rightarrow> metadata_at metadata (prPlatform p) (index_of (buildIndexMap uniq) (prPlatform p) n))"

lemma provider_manifest_Inr:
  assumes "provider_manifest E appId idxs metadata profiles pName p = Some (Inr m)"
  obtains name zp md subnets sl where "xrd_name E (''xp-'' @ pName @ ''-'' @ appId) = Some (Inr name)"
    "find zDefaultZone (zones_of profiles pName) = Some zp"
    "metadata_at metadata (prPlatform p) (index_of idxs (prPlatform p) pName) = Inr md"
    "ae_subnets E (pmVPCCIDR md) (length (filter zEnabled (zones_of profiles pName))) = Inr subnets"
    "subnet_list (prPlatform p) subnets (zones_of profiles pName) (length (filter zEnabled (zones_of profiles pName))) = Inr sl"
    "crKind (xmComponentRef m) = ''XProvider''" "crName (xmComponentRef m) = name" "xmProviderRef m = p\<lparr>prName := pName\<rparr>"
    "map_option xoName (xmManifest m) = Some name" "map_option xoKind (xmManifest m) = Some ''XProvider''"
    "map_option xoSpec (xmManifest m) = Some (provider_spec appId p (pmVPCCIDR md) sl (zName zp)
        (case find (\<lambda>z. zName z \<noteq> zName zp) (zones_of profiles pName) of None \<Rightarrow> [] | Some z \<Rightarrow> zName z))"
proof -
  from assms obtain name where name: "xrd_name E (''xp-'' @ pName @ ''-'' @ appId) = Some (Inr name)"
    unfolding provider_manifest_def by auto
  show thesis
  proof (cases "find zDefaultZone (zones_of profiles pName)")
    case None
    with assms name show thesis by (simp add: provider_manifest_def)
  next
    case (Some zp)
    let ?zs = "find (\<lambda>z. zName z \<noteq> zName zp) (zones_of profiles pName)"
    from assms name Some have "\<not> (?zs = None \<and> prPlatform p \<notin> {''baremetal'', ''openstack''})"
      by (auto simp: provider_manifest_def Let_def split: if_splits)
    with assms name Some obtain md subnets sl where
      md: "metadata_at metadata (prPlatform p) (index_of idxs (prPlatform p) pName) = Inr md"
        "ae_subnets E (pmVPCCIDR md) (length (filter zEnabled (zones_of profiles pName))) = Inr subnets"
        "subnet_list (prPlatform p) subnets (zones_of profiles pName) (length (filter zEnabled (zones_of profiles pName))) = Inr sl"
      and m: "m = \<lparr>xmComponentRef = \<lparr>crAPIVersion = ''skycluster.io/v1alpha1'', crKind = ''XProvider'', crName = name, crNamespace = []\<rparr>,
         xmManifest = Some \<lparr>xoAPIVersion = ''skycluster.io/v1alpha1'', xoKind = ''XProvider'', xoName = name, xoGenerateName = [],
            xoAnnotations = (if prPlatform p = ''openstack'' then openstack_annotations else []),
            xoSpec = provider_spec appId p (pmVPCCIDR md) sl (zName zp) (case ?zs of None \<Rightarrow> [] | Some z \<Rightarrow> zName z)\<rparr>,
         xmProviderRef = p\<lparr>prName := pName\<rparr>\<rparr>"
      by (auto simp: provider_manifest_def Let_def)
    show thesis by (rule that [OF name Some md]) (simp_all add: m)
  qed
qed

section \<open>Networks\<close>

definition xm_spec :: "XManifest \<Rightarrow> string \<Rightarrow> any option" where
  "xm_spec m field = (case xmManifest m of None \<Rightarrow> None | Some obj \<Rightarrow> mget (xoSpec obj) field)"

lemma provider_spec_fields:
  assumes "map_option xoSpec (xmManifest m) = Some (provider_spec appId p cidr sl pri sec)"
  shows "xm_spec m ''vpcCidr'' = Some (AStr (if prPlatform p \<in> {''aws'', ''gcp'', ''openstack''} then cidr else []))"
    and "xm_spec m ''subnets'' = Some (AList sl)"
  using assms by (auto simp: xm_spec_def provider_spec_def mget_Cons)

lemma provider_result_Some:
  assumes "result_of (provider_result E appId uniq metadata profiles n) = Some m"
  obtains p where "mget uniq n = Some p" "prPlatform p \<noteq> ''baremetal''"
    "provider_manifest E appId (buildIndexMap uniq) metadata profiles n p = Some (Inr m)"
  using assms by (auto simp: result_of_def provider_result_def bind_d_def split: option.splits sum.splits if_splits)

lemma generated_loop:
  assumes "generateProviderManifests E appId cs = Some (Inr (ms, idxs))" and "loadProviderMetadata E = Inr metadata"
  obtains profiles where "fetchProviderProfilesMap (ae_profiles E) = Inr profiles"
    "foldl_d (put_result (\<lambda>k. k) (provider_result E appId (unique_providers cs) metadata profiles)) []
       (ae_order E (mkeys (unique_providers cs))) = Some (Inr ms)"
proof -
  obtain metadata' profiles where "loadProviderMetadata E = Inr metadata'" "fetchProviderProfilesMap (ae_profiles E) = Inr profiles"
    "idxs = buildIndexMap (unique_providers cs)"
    "foldl_d (put_result (\<lambda>k. k) (provider_result E appId (unique_providers cs) metadata' profiles)) []
       (ae_order E (mkeys (unique_providers cs))) = Some (Inr ms)"
    by (rule generateProviderManifests_Inr [OF assms(1)])
  with assms(2) show thesis by (intro that) simp_all
qed

lemma generated_provider:
  assumes "generateProviderManifests E appId cs = Some (Inr (ms, idxs))" and "loadProviderMetadata E = Inr metadata"
    and "fetchProviderProfilesMap (ae_profiles E) = Inr profiles" and "mget ms n = Some m"
  obtains p md sl subnets pri sec where "mget (unique_providers cs) n = Some p" "prPlatform p \<noteq> ''baremetal''"
    "provider_entry metadata (unique_providers cs) n = Inr md"
    "map_option xoSpec (xmManifest m) = Some (provider_spec appId p (pmVPCCIDR md) sl pri sec)"
    "subnet_list (prPlatform p) subnets (zones_of profiles n) (length (filter zEnabled (zones_of profiles n))) = Inr sl"
    "xmProviderRef m = p\<lparr>prName := n\<rparr>"
proof -
  obtain profiles' where "fetchProviderProfilesMap (ae_profiles E) = Inr profiles'"
    "foldl_d (put_result (\<lambda>k. k) (provider_result E appId (unique_providers cs) metadata profiles')) []
       (ae_order E (mkeys (unique_providers cs))) = Some (Inr ms)"
    by (rule generated_loop [OF assms(1,2)])
  with assms(3) have fold: "foldl_d (put_result (\<lambda>k. k) (provider_result E appId (unique_providers cs) metadata profiles)) []
       (ae_order E (mkeys (unique_providers cs))) = Some (Inr ms)" by simp
  have "result_of (provider_result E appId (unique_providers cs) metadata profiles n) = Some m"
    using foldl_put_own(3) [OF fold, of n] assms(4) by (simp split: if_splits)
  then obtain p where p: "mget (unique_providers cs) n = Some p" "prPlatform p \<noteq> ''baremetal''"
    "provider_manifest E appId (buildIndexMap (unique_providers cs)) metadata profiles n p = Some (Inr m)"
    by (rule provider_result_Some)
  show thesis
  proof (rule provider_manifest_Inr [OF p(3)])
    fix name md subnets sl and zp :: ZoneSpec
    assume "metadata_at metadata (prPlatform p) (index_of (buildIndexMap (unique_providers cs)) (prPlatform p) n) = Inr md"
      and sl: "subnet_list (prPlatform p) subnets (zones_of profiles n) (length (filter zEnabled (zones_of profiles n))) = Inr sl"
      and ref: "xmProviderRef m = p\<lparr>prName := n\<rparr>"
      and spec: "map_option xoSpec (xmManifest m) = Some (provider_spec appId p (pmVPCCIDR md) sl (zName zp)
        (case find (\<lambda>z. zName z \<noteq> zName zp) (zones_of profiles n) of None \<Rightarrow> [] | Some z \<Rightarrow> zName z))"
    then have "provider_entry metadata (unique_providers cs) n = Inr md" by (simp add: provider_entry_def p(1))
    from that [OF p(1,2) this spec sl ref] show thesis .
  qed
qed

lemma generated_network:
  assumes "generateProviderManifests E appId cs = Some (Inr (ms, idxs))" and "loadProviderMetadata E = Inr metadata"
    and "mget ms n = Some m" and "prPlatform (xmProviderRef m) \<in> {''aws'', ''gcp'', ''openstack''}"
  shows "\<exists>p md. mget (unique_providers cs) n = Some p
    \<and> metadata_at metadata (prPlatform p) (index_of (buildIndexMap (unique_providers cs)) (prPlatform p) n) = Inr md
    \<and> xm_spec m ''vpcCidr'' = Some (AStr (pmVPCCIDR md))"
proof -
  obtain profiles where pr: "fetchProviderProfilesMap (ae_profiles E) = Inr profiles" by (rule generated_loop [OF assms(1,2)])
  show ?thesis
  proof (rule generated_provider [OF assms(1,2) pr assms(3)])
    fix p md sl subnets pri sec
    assume p: "mget (unique_providers cs) n = Some p" and e: "provider_entry metadata (unique_providers cs) n = Inr md"
      and s: "map_option xoSpec (xmManifest m) = Some (provider_spec appId p (pmVPCCIDR md) sl pri sec)"
      and r: "xmProviderRef m = p\<lparr>prName := n\<rparr>"
    have "prPlatform p \<in> {''aws'', ''gcp'', ''openstack''}" using assms(4) r by simp
    then have "xm_spec m ''vpcCidr'' = Some (AStr (pmVPCCIDR md))" using provider_spec_fields(1) [OF s] by simp
    moreover have "metadata_at metadata (prPlatform p) (index_of (buildIndexMap (unique_providers cs)) (prPlatform p) n) = Inr md"
      using e by (simp add: provider_entry_def p)
    ultimately show ?thesis using p by blast
  qed
qed

text \<open>C3: the networks of an application do not overlap. Whatever relation holds between the networks of any
  two entries of the metadata holds between the networks of any two providers generated: no two
  providers of a plan are given the same entry.\<close>

theorem atlas_networks_apart:
  assumes "generateProviderManifests E appId cs = Some (Inr (ms, idxs))" and "loadProviderMetadata E = Inr metadata"
    and apart: "\<forall>pl i md pl' j md'. metadata_at metadata pl i = Inr md \<and> metadata_at metadata pl' j = Inr md' \<and> (pl, i) \<noteq> (pl', j)
      \<longrightarrow> R (pmVPCCIDR md) (pmVPCCIDR md')"
    and "mget ms n = Some m" and "mget ms n' = Some m'" and "n \<noteq> n'"
    and "prPlatform (xmProviderRef m) \<in> {''aws'', ''gcp'', ''openstack''}"
    and "prPlatform (xmProviderRef m') \<in> {''aws'', ''gcp'', ''openstack''}"
  shows "\<exists>c c'. xm_spec m ''vpcCidr'' = Some (AStr c) \<and> xm_spec m' ''vpcCidr'' = Some (AStr c') \<and> R c c'"
proof -
  let ?u = "unique_providers cs"
  obtain p md where p: "mget ?u n = Some p" "metadata_at metadata (prPlatform p) (index_of (buildIndexMap ?u) (prPlatform p) n) = Inr md"
    and v: "xm_spec m ''vpcCidr'' = Some (AStr (pmVPCCIDR md))"
    using generated_network [OF assms(1,2,4,7)] by blast
  obtain p' md' where p': "mget ?u n' = Some p'" "metadata_at metadata (prPlatform p') (index_of (buildIndexMap ?u) (prPlatform p') n') = Inr md'"
    and v': "xm_spec m' ''vpcCidr'' = Some (AStr (pmVPCCIDR md'))"
    using generated_network [OF assms(1,2,5,8)] by blast
  have "(prPlatform p, index_of (buildIndexMap ?u) (prPlatform p) n) \<noteq> (prPlatform p', index_of (buildIndexMap ?u) (prPlatform p') n')"
    using index_of_inj [OF _ p(1) p'(1)] assms(6) unique_providers_fold [of cs] by auto
  then have "R (pmVPCCIDR md) (pmVPCCIDR md')"
    using apart p(2) p'(2) by blast
  with v v' show ?thesis by blast
qed

text \<open>C23: a plan asks for no more networks than there are. When the providers are generated, every platform but
  bare metal has at least as many entries in the metadata as the plan has providers on it; with
  fewer the reconciler panics, or fails before.\<close>

theorem atlas_metadata_suffices:
  assumes "generateProviderManifests E appId cs = Some (Inr (ms, idxs))" and "loadProviderMetadata E = Inr metadata"
    and "\<forall>ks. set (ae_order E ks) = set ks" and "pl \<noteq> ''baremetal''"
  shows "length (platform_names (unique_providers cs) pl) \<le> (case mget metadata pl of None \<Rightarrow> 0 | Some l \<Rightarrow> length l)"
proof (rule ccontr)
  let ?u = "unique_providers cs" and ?ns = "platform_names (unique_providers cs) pl"
  let ?l = "case mget metadata pl of None \<Rightarrow> [] | Some l \<Rightarrow> l"
  assume "\<not> length ?ns \<le> (case mget metadata pl of None \<Rightarrow> 0 | Some l \<Rightarrow> length l)"
  then have short: "length ?l < length ?ns" by (simp split: option.splits)
  let ?n = "sort ?ns ! (length ?ns - 1)"
  have "?n \<in> set (sort ?ns)" using short by (intro nth_mem) simp
  then have "?n \<in> set ?ns" by simp
  then obtain p where p: "(?n, p) \<in> set ?u" "prPlatform p = pl" unfolding platform_names_def by auto
  have wf: "wf_map ?u" using unique_providers_fold by blast
  have get: "mget ?u ?n = Some p" by (rule mget_wf [OF wf p(1)])
  obtain profiles where fold: "foldl_d (put_result (\<lambda>k. k) (provider_result E appId ?u metadata profiles)) []
       (ae_order E (mkeys ?u)) = Some (Inr ms)"
    by (rule generated_loop [OF assms(1,2)])
  have "?n \<in> set (ae_order E (mkeys ?u))" using assms(3) p(1) by (force simp: mkeys_def)
  then obtain r where "provider_result E appId ?u metadata profiles ?n = Some (Inr r)" using foldl_put_own(1) [OF fold] by blast
  then obtain m where m: "provider_manifest E appId (buildIndexMap ?u) metadata profiles ?n p = Some (Inr m)"
    using assms(4) p(2) get by (auto simp: provider_result_def)
  obtain md where "metadata_at metadata (prPlatform p) (index_of (buildIndexMap ?u) (prPlatform p) ?n) = Inr md"
    by (rule provider_manifest_Inr [OF m]) (rule that)
  then have "index_of (buildIndexMap ?u) pl ?n < length ?l" by (auto simp: p(2) metadata_at_def Let_def split: if_splits)
  moreover have "distinct (sort ?ns)" using wf by (auto simp: wf_map_def platform_names_def intro: distinct_map_filter)
  ultimately have "index_of (buildIndexMap ?u) pl ?n = length ?ns - 1"
    using index_of_nth [OF wf get] p(2) short by (simp add: nth_eq_iff_index_eq)
  with \<open>index_of (buildIndexMap ?u) pl ?n < length ?l\<close> short show False by linarith
qed

text \<open>The subnets go to the first zones of the profile, as many as are enabled. They are the enabled zones
  exactly when the enabled zones come first; otherwise a disabled zone gets a subnet and an enabled
  one does not.\<close>

theorem atlas_subnets_first_zones:
  assumes "generateProviderManifests E appId cs = Some (Inr (ms, idxs))" and "mget ms n = Some m"
    and "fetchProviderProfilesMap (ae_profiles E) = Inr profiles"
  shows "\<exists>sl. xm_spec m ''subnets'' = Some (AList sl)
    \<and> (let zones = zones_of profiles n; k = length (filter zEnabled zones)
       in map (\<lambda>s. case s of AMap e \<Rightarrow> mget e ''zone'' | _ \<Rightarrow> None) sl = map (\<lambda>z. Some (AStr (zName z))) (take k zones)
          \<and> (take k zones = filter zEnabled zones \<longleftrightarrow> (\<forall>z\<in>set (take k zones). zEnabled z)))"
proof -
  obtain metadata where meta: "loadProviderMetadata E = Inr metadata" by (rule generateProviderManifests_Inr [OF assms(1)])
  let ?zones = "zones_of profiles n"
  let ?k = "length (filter zEnabled ?zones)"
  obtain p sl subnets pri sec and md :: providerMetadata where spec: "map_option xoSpec (xmManifest m) = Some (provider_spec appId p (pmVPCCIDR md) sl pri sec)"
    and sl: "subnet_list (prPlatform p) subnets ?zones ?k = Inr sl"
    by (rule generated_provider [OF assms(1) meta assms(3,2)]) (rule that)
  have len: "length sl = ?k" "\<forall>i<?k. sl ! i = subnet_entry (prPlatform p) (subnets ! i) (?zones ! i)"
    using sl by (auto simp: subnet_list_def map_go_Inr split: if_splits)
  have entry: "(case subnet_entry pl c z of AMap e \<Rightarrow> mget e ''zone'' | _ \<Rightarrow> None) = Some (AStr (zName z))" for pl c z
    by (simp add: subnet_entry_def Let_def mget_Cons)
  have "?k \<le> length ?zones" by simp
  then have "map (\<lambda>s. case s of AMap e \<Rightarrow> mget e ''zone'' | _ \<Rightarrow> None) sl = map (\<lambda>z. Some (AStr (zName z))) (take ?k ?zones)"
    using len by (intro nth_equalityI) (simp_all add: entry)
  with provider_spec_fields(2) [OF spec] show ?thesis
    by (intro exI [of _ sl]) (simp only: Let_def take_filter_iff simp_thms)
qed

section \<open>Clusters\<close>

lemma first_put:
  assumes "foldl_d (\<lambda>ms c. if mget ms (key c) \<noteq> None then Some (Inr ms) else bind_d (g c) (\<lambda>m. Some (Inr (mput (key c) m ms)))) [] cs
    = Some (Inr ms)"
  shows "case find (\<lambda>c. key c = n) cs of None \<Rightarrow> mget ms n = None | Some c \<Rightarrow> \<exists>m. g c = Some (Inr m) \<and> mget ms n = Some m"
  using assms
proof (induction cs arbitrary: ms rule: rev_induct)
  case (snoc c cs)
  let ?step = "\<lambda>ms c. if mget ms (key c) \<noteq> None then Some (Inr ms) else bind_d (g c) (\<lambda>m. Some (Inr (mput (key c) m ms)))"
  from snoc.prems obtain ms' where ms': "foldl_d ?step [] cs = Some (Inr ms')" "?step ms' c = Some (Inr ms)"
    by (auto simp: foldl_d_append)
  note IH = snoc.IH [OF ms'(1)]
  show ?case
  proof (cases "find (\<lambda>c. key c = n) cs")
    case None
    with IH have none: "mget ms' n = None" by simp
    from ms'(2) none None show ?thesis by (auto simp: find_append split: if_splits)
  next
    case (Some d)
    with IH obtain m where m: "g d = Some (Inr m)" "mget ms' n = Some m" by auto
    from ms'(2) m have "mget ms n = Some m" by (auto split: if_splits)
    with m Some show ?thesis by (auto simp: find_append)
  qed
qed simp

lemma k8s_manifest_Inr:
  assumes "k8s_manifest E appId idxs metadata profiles c = Some (Inr k)"
  shows "\<exists>pp md services. mget profiles (prName (ssProviderRef c)) = Some pp \<and> decode_services E c = Inr services
    \<and> metadata_at metadata (ppPlatform (pfSpec pp)) (index_of idxs (ppPlatform (pfSpec pp)) (prName (ssProviderRef c))) = Inr md
    \<and> crKind (xmComponentRef k) = ''XKube''
    \<and> xm_spec k ''serviceCidr'' = Some (AStr (pmServiceCidr md)) \<and> xm_spec k ''podCidr'' = Some (pod_cidr (ppPlatform (pfSpec pp)) (pmPodCidr md))
    \<and> xm_spec k ''nodeGroups'' = Some (AList (map node_group services))"
proof (cases "mget profiles (prName (ssProviderRef c))")
  case None
  with assms show ?thesis by (simp add: k8s_manifest_def zero_profile_spec_def)
next
  case (Some pp)
  let ?pp = "pfSpec pp"
  obtain zp where zp: "find zDefaultZone (ppZones ?pp) = Some zp"
    using assms Some by (cases "find zDefaultZone (ppZones ?pp)") (simp_all add: k8s_manifest_def Let_def)
  let ?sec = "map_option zName (find (\<lambda>z. zName z \<noteq> zName zp) (ppZones ?pp))"
  from assms obtain name spec where spec: "buildK8SSpec E appId c metadata ?pp (index_of idxs (ppPlatform ?pp) (prName (ssProviderRef c))) (zName zp) ?sec = Inr spec"
    and k: "crKind (xmComponentRef k) = ''XKube''" "map_option xoSpec (xmManifest k) = Some spec"
    by (auto simp: k8s_manifest_def Let_def Some zp split: if_splits)
  from k(2) have f: "xm_spec k field = mget spec field" for field by (auto simp: xm_spec_def)
  from spec k(1) show ?thesis
    by (intro exI [of _ pp]) (auto simp: buildK8SSpec_def Some f mget_Cons split: option.splits)
qed

lemma generated_cluster:
  assumes "generateK8SManifests E appId idxs cs = Some (Inr ks)" and "loadProviderMetadata E = Inr metadata"
    and "fetchProviderProfilesMap (ae_profiles E) = Inr profiles"
  shows "case find (\<lambda>c. prName (ssProviderRef c) = n) cs of None \<Rightarrow> mget ks n = None
    | Some c \<Rightarrow> \<exists>k. k8s_manifest E appId idxs metadata profiles c = Some (Inr k) \<and> mget ks n = Some k"
  by (rule first_put [of "\<lambda>c. prName (ssProviderRef c)" "k8s_manifest E appId idxs metadata profiles"])
    (use assms in \<open>simp add: generateK8SManifests_def Let_def\<close>)

text \<open>One cluster per provider of the plan, made for its first component: the node groups are those of the
  services of that component alone; what the other components of the provider need is dropped.\<close>

theorem atlas_cluster_first_component:
  assumes "generateK8SManifests E appId idxs cs = Some (Inr ks)"
  shows "case find (\<lambda>c. prName (ssProviderRef c) = n) cs of None \<Rightarrow> mget ks n = None
    | Some c \<Rightarrow> \<exists>k services. mget ks n = Some k \<and> decode_services E c = Inr services
        \<and> xm_spec k ''nodeGroups'' = Some (AList (map node_group services))"
proof -
  obtain metadata profiles where m: "loadProviderMetadata E = Inr metadata" "fetchProviderProfilesMap (ae_profiles E) = Inr profiles"
    using assms unfolding generateK8SManifests_def by auto
  show ?thesis
    using generated_cluster [OF assms m, of n] by (auto split: option.splits dest!: k8s_manifest_Inr)
qed

text \<open>C18: a cluster lives in the network of its provider: the provider and the cluster generated under one name
  take their addresses from one entry of the metadata, when the profile has the platform the plan
  names.\<close>

theorem atlas_cluster_in_network:
  assumes "generateProviderManifests E appId cs = Some (Inr (ms, idxs))" and "generateK8SManifests E appId idxs cs = Some (Inr ks)"
    and "loadProviderMetadata E = Inr metadata" and "fetchProviderProfilesMap (ae_profiles E) = Inr profiles"
    and "mget ms n = Some m" and "mget ks n = Some k" and "mget profiles n = Some pp"
    and "ppPlatform (pfSpec pp) = prPlatform (xmProviderRef m)" and "prPlatform (xmProviderRef m) \<in> {''aws'', ''gcp'', ''openstack''}"
  shows "\<exists>md i. metadata_at metadata (prPlatform (xmProviderRef m)) i = Inr md \<and> xm_spec m ''vpcCidr'' = Some (AStr (pmVPCCIDR md))
    \<and> xm_spec k ''serviceCidr'' = Some (AStr (pmServiceCidr md))
    \<and> xm_spec k ''podCidr'' = Some (pod_cidr (prPlatform (xmProviderRef m)) (pmPodCidr md))"
proof -
  obtain p md sl subnets pri sec where p: "mget (unique_providers cs) n = Some p"
    and e: "provider_entry metadata (unique_providers cs) n = Inr md"
    and s: "map_option xoSpec (xmManifest m) = Some (provider_spec appId p (pmVPCCIDR md) sl pri sec)"
    and r: "xmProviderRef m = p\<lparr>prName := n\<rparr>"
    by (rule generated_provider [OF assms(1,3,4,5)]) (rule that)
  have pl: "prPlatform p = prPlatform (xmProviderRef m)" using r by simp
  have vpc: "xm_spec m ''vpcCidr'' = Some (AStr (pmVPCCIDR md))" using provider_spec_fields(1) [OF s] assms(9) pl by simp
  have idx: "idxs = buildIndexMap (unique_providers cs)" by (rule generateProviderManifests_Inr [OF assms(1)])
  have at: "metadata_at metadata (prPlatform p) (index_of idxs (prPlatform p) n) = Inr md"
    using e by (simp add: provider_entry_def p idx)
  obtain c where c: "find (\<lambda>c. prName (ssProviderRef c) = n) cs = Some c"
    using generated_cluster [OF assms(2-4), of n] assms(6) by (auto split: option.splits)
  then have n: "prName (ssProviderRef c) = n" by (auto dest: find_SomeD)
  from generated_cluster [OF assms(2-4), of n] c assms(6) have k: "k8s_manifest E appId idxs metadata profiles c = Some (Inr k)" by simp
  from k8s_manifest_Inr [OF k] obtain md' where "metadata_at metadata (prPlatform p) (index_of idxs (prPlatform p) n) = Inr md'"
    "xm_spec k ''serviceCidr'' = Some (AStr (pmServiceCidr md'))"
    "xm_spec k ''podCidr'' = Some (pod_cidr (prPlatform p) (pmPodCidr md'))"
    using assms(7,8) pl by (auto simp: n)
  with at vpc pl show ?thesis by auto
qed

text \<open>All virtual machines of an application have one name: the component is not part of it.\<close>

theorem vm_names_equal:
  assumes "vm_manifest E appId c = Some (Inr m)" and "vm_manifest E appId c' = Some (Inr m')"
  shows "crName (xmComponentRef m) = crName (xmComponentRef m')"
proof -
  have "\<exists>name. xrd_name E (''xvm-'' @ ''-'' @ appId) = Some (Inr name) \<and> crName (xmComponentRef m) = name"
    if "vm_manifest E appId c = Some (Inr m)" for c m
    using that unfolding vm_manifest_def bind_d_Inr
    by (elim exE conjE) (split list.split_asm; (split list.split_asm)?; auto simp: Let_def split: if_splits)
  from this [OF assms(1)] this [OF assms(2)] show ?thesis by auto
qed

section \<open>What the reconciler writes\<close>

lemma AtlasReconcile_run:
  assumes "AtlasReconcile E ns name = Some (es, r)" and "c \<in> set es"
  obtains a ms where "ae_atlas E ns name = Inr a" "createManifests E name ns a = Some (Inr ms)"
    "(es, r) = bind_run (if amApprove a then fold_run (atlas_submit E) ms else pure_run (Inr ()))
       (\<lambda>_. atlas_status E a (sort_manifests ms))"
proof (cases "ae_atlas E ns name")
  case (Inl err)
  with assms show thesis by (auto simp: AtlasReconcile_def pure_run_def)
next
  case (Inr a)
  show thesis
  proof (cases "createManifests E name ns a")
    case None
    with Inr assms show thesis by (simp add: AtlasReconcile_def wrap_d_def)
  next
    case (Some res)
    show thesis
    proof (cases res)
      case (Inl e)
      with Inr Some assms show thesis by (auto simp: AtlasReconcile_def wrap_d_def pure_run_def)
    next
      case inr: (Inr ms)
      with Inr Some assms(1) have "(es, r) = bind_run (if amApprove a then fold_run (atlas_submit E) ms else pure_run (Inr ()))
       (\<lambda>_. atlas_status E a (sort_manifests ms))"
        by (simp add: AtlasReconcile_def wrap_d_def)
      from that [OF Inr _ this] Some inr show thesis by simp
    qed
  qed
qed

lemma atlas_submit_calls:
  "c \<in> set (fst (atlas_submit E m)) \<Longrightarrow> \<exists>obj. xmManifest m = Some obj \<and> crKind (xmComponentRef m) \<in> {''XProvider'', ''XKube''}
    \<and> c = CreateXrd (obj\<lparr>xoAPIVersion := crAPIVersion (xmComponentRef m), xoKind := crKind (xmComponentRef m),
                        xoGenerateName := crName (xmComponentRef m) @ ''-''\<rparr>)"
  by (auto simp: atlas_submit_def Let_def split: option.splits if_splits sum.splits)

lemma atlas_status_calls:
  "fst (atlas_status E a ms) = (if asManifests a \<noteq> Some ms then [UpdateAtlasStatus (a\<lparr>asManifests := Some ms\<rparr>)] else [])"
  by (simp add: atlas_status_def)

text \<open>C4: what the reconciler writes is what the plan gives. An object is created only once the atlas is
  approved, and is the manifest of a provider or of a cluster; a virtual machine is never created.
  The status written lists all manifests, and differs from the one read.\<close>

theorem atlas_writes_the_plan:
  assumes "AtlasReconcile E ns name = Some (es, r)" and "c \<in> set es"
  shows "\<exists>a ms. ae_atlas E ns name = Inr a \<and> createManifests E name ns a = Some (Inr ms)
    \<and> (case c of
         CreateXrd obj \<Rightarrow> amApprove a \<and> (\<exists>m\<in>set ms. \<exists>o'. xmManifest m = Some o' \<and> xoName obj = xoName o' \<and> xoSpec obj = xoSpec o'
           \<and> xoKind obj = crKind (xmComponentRef m) \<and> xoKind obj \<in> {''XProvider'', ''XKube''})
       | UpdateAtlasStatus S \<Rightarrow> S = a\<lparr>asManifests := Some (sort_manifests ms)\<rparr> \<and> S \<noteq> a \<and> mset (the (asManifests S)) = mset ms)"
proof (rule AtlasReconcile_run [OF assms])
  fix a ms
  assume a: "ae_atlas E ns name = Inr a" "createManifests E name ns a = Some (Inr ms)"
    and run: "(es, r) = bind_run (if amApprove a then fold_run (atlas_submit E) ms else pure_run (Inr ())) (\<lambda>_. atlas_status E a (sort_manifests ms))"
  from run assms(2) consider "amApprove a" "c \<in> set (fst (fold_run (atlas_submit E) ms))" | "c \<in> set (fst (atlas_status E a (sort_manifests ms)))"
    by (cases "amApprove a") (auto simp: bind_run_call dest!: arg_cong [where f = fst])
  then show ?thesis
  proof cases
    case 1
    then obtain m where "m \<in> set ms" "c \<in> set (fst (atlas_submit E m))" by (auto dest: fold_run_call)
    with 1 a atlas_submit_calls show ?thesis by (fastforce intro!: exI [of _ a] exI [of _ ms])
  next
    case 2
    then have "c = UpdateAtlasStatus (a\<lparr>asManifests := Some (sort_manifests ms)\<rparr>)" "asManifests a \<noteq> Some (sort_manifests ms)"
      by (auto simp: atlas_status_calls split: if_splits)
    moreover from this(2) have "a\<lparr>asManifests := Some (sort_manifests ms)\<rparr> \<noteq> a" by (metis AtlasState.select_convs(1) AtlasState.surjective AtlasState.update_convs(1))
    ultimately show ?thesis using a by (intro exI [of _ a] exI [of _ ms]) (simp add: sort_manifests_def)
  qed
qed

section \<open>The order of maps\<close>

lemma sort_two_keys:
  assumes "i < j" and "j < length (sort_key f (sort_key g ms))"
  shows "f (sort_key f (sort_key g ms) ! i) < f (sort_key f (sort_key g ms) ! j)
    \<or> f (sort_key f (sort_key g ms) ! i) = f (sort_key f (sort_key g ms) ! j) \<and> g (sort_key f (sort_key g ms) ! i) \<le> g (sort_key f (sort_key g ms) ! j)"
proof -
  define zs where "zs = sort_key f (sort_key g ms)"
  have len: "i < length zs" "j < length zs" "i < j" using assms by (simp_all add: zs_def)
  have le: "f (zs ! i) \<le> f (zs ! j)" using sorted_nth_mono [of "map f zs" i j] len by (simp add: zs_def)
  have "g (zs ! i) \<le> g (zs ! j)" if eq: "f (zs ! i) = f (zs ! j)"
  proof -
    let ?Q = "\<lambda>x. f x = f (zs ! j)"
    have "filter ?Q zs = filter ?Q (sort_key g ms)" unfolding zs_def by (rule sort_key_stable)
    moreover have "sorted (map g (filter ?Q (sort_key g ms)))" by (rule sorted_filter) simp
    ultimately have s: "sorted (map g (filter ?Q zs))" by simp
    have "zs = take j zs @ zs ! j # drop (Suc j) zs" using len(2) by (rule id_take_nth_drop)
    then have "filter ?Q zs = filter ?Q (take j zs) @ zs ! j # filter ?Q (drop (Suc j) zs)"
      using filter_append [of ?Q "take j zs" "zs ! j # drop (Suc j) zs"] by simp
    with s have "\<forall>x\<in>set (filter ?Q (take j zs)). g x \<le> g (zs ! j)" by (simp add: sorted_append)
    moreover have "zs ! i \<in> set (filter ?Q (take j zs))" using len eq by (auto simp: in_set_conv_nth intro!: exI [of _ i])
    ultimately show ?thesis by blast
  qed
  with le show ?thesis unfolding zs_def by (auto simp: order.order_iff_strict)
qed

definition manifest_key :: "XManifest \<Rightarrow> string \<times> string" where
  "manifest_key m = (crKind (xmComponentRef m), crName (xmComponentRef m))"

text \<open>With distinct kinds and names the order of the manifests is decided by them.\<close>

lemma sort_manifests_cong:
  assumes "mset ms = mset ms'" and "distinct (map manifest_key ms)"
  shows "sort_manifests ms = sort_manifests ms'"
proof -
  define less where "less a b \<longleftrightarrow> crKind (xmComponentRef a) < crKind (xmComponentRef b)
    \<or> crKind (xmComponentRef a) = crKind (xmComponentRef b) \<and> crName (xmComponentRef a) \<le> crName (xmComponentRef b)" for a b :: XManifest
  have sorted: "sorted_wrt less (sort_manifests ns)" for ns
    unfolding sorted_wrt_iff_nth_less sort_manifests_def less_def using sort_two_keys by blast
  have msets: "mset (sort_manifests ns) = mset ns" for ns by (simp add: sort_manifests_def)
  have anti: "a = b" if "less a b" "less b a" "a \<in> set ms" "b \<in> set ms" for a b
  proof -
    from that(1,2) have "manifest_key a = manifest_key b" by (auto simp: less_def manifest_key_def)
    with that(3,4) assms(2) show ?thesis by (simp add: distinct_map inj_on_def)
  qed
  have uniq: "xs = ys" if "mset xs = mset ys" "sorted_wrt less xs" "sorted_wrt less ys" "set xs \<subseteq> set ms" for xs ys
    using that
  proof (induction xs arbitrary: ys)
    case (Cons x xs)
    then obtain y zs where ys: "ys = y # zs" by (cases ys) auto
    have sets: "set (x # xs) = set (y # zs)" using Cons.prems(1) ys by (metis set_mset_mset)
    have "x = y"
    proof (rule ccontr)
      assume ne: "x \<noteq> y"
      with sets have "y \<in> set xs" "x \<in> set zs" by auto
      with Cons.prems ys have "less x y" "less y x" by auto
      with anti Cons.prems(4) \<open>y \<in> set xs\<close> ne show False by auto
    qed
    with Cons ys show ?case by auto
  qed auto
  show ?thesis by (rule uniq) (use sorted msets assms(1) in \<open>simp_all add: sort_manifests_def\<close>)
qed

text \<open>Another status, another order of the maps: nothing else of the environment changes.\<close>

definition reorder :: "(string \<Rightarrow> string \<Rightarrow> AtlasState go) \<Rightarrow> (string list \<Rightarrow> string list) \<Rightarrow> atlas_env \<Rightarrow> atlas_env" where
  "reorder f o' E = E\<lparr>ae_atlas := f, ae_order := o'\<rparr>"

lemma reorder_frame:
  "xrd_name (reorder f o' E) = xrd_name E" "loadProviderMetadata (reorder f o' E) = loadProviderMetadata E"
  "ae_profiles (reorder f o' E) = ae_profiles E" "decode_services (reorder f o' E) = decode_services E"
  "ae_subnets (reorder f o' E) = ae_subnets E" "ae_xinstance (reorder f o' E) = ae_xinstance E"
  "fetchDeploymentPolicy (reorder f o' E) = fetchDeploymentPolicy E" "ae_order (reorder f o' E) = o'"
  "ae_atlas (reorder f o' E) = f" "ae_update_status (reorder f o' E) = ae_update_status E"
proof -
  have sel: "ae_rand (reorder f o' E) = ae_rand E" "ae_metadata_maps (reorder f o' E) = ae_metadata_maps E"
    "ae_yaml_metadata (reorder f o' E) = ae_yaml_metadata E" "ae_decode_services (reorder f o' E) = ae_decode_services E"
    "ae_policy (reorder f o' E) = ae_policy E"
    by (simp_all add: reorder_def)
  show "xrd_name (reorder f o' E) = xrd_name E" unfolding xrd_name_def [abs_def] sel ..
  show "loadProviderMetadata (reorder f o' E) = loadProviderMetadata E"
    unfolding loadProviderMetadata_def fetchProviderMetadataMap_def sel ..
  show "decode_services (reorder f o' E) = decode_services E" unfolding decode_services_def [abs_def] sel ..
  show "fetchDeploymentPolicy (reorder f o' E) = fetchDeploymentPolicy E" unfolding fetchDeploymentPolicy_def [abs_def] sel ..
qed (simp_all add: reorder_def)

lemma reorder_manifests:
  "provider_manifest (reorder f o' E) = provider_manifest E" "k8s_manifest (reorder f o' E) = k8s_manifest E"
  "vm_manifest (reorder f o' E) = vm_manifest E"
  unfolding provider_manifest_def [abs_def] k8s_manifest_def [abs_def] vm_manifest_def [abs_def] buildK8SSpec_def [abs_def] reorder_frame
  by (rule refl)+

lemma reorder_generate:
  "generateK8SManifests (reorder f o' E) = generateK8SManifests E" "generateVMManifests (reorder f o' E) = generateVMManifests E"
  "provider_result (reorder f o' E) = provider_result E"
  unfolding generateK8SManifests_def [abs_def] generateVMManifests_def [abs_def] provider_result_def [abs_def] reorder_frame
    reorder_manifests
  by (rule refl)+

definition permutes_keys :: "(string list \<Rightarrow> string list) \<Rightarrow> bool" where
  "permutes_keys o' \<longleftrightarrow> (\<forall>ks. mset (o' ks) = mset ks)"

lemma map_values_mset:
  assumes "permutes_keys (ae_order E)" and "permutes_keys (ae_order E')" and "wf_map m" and "wf_map m'" and "\<And>k. mget m k = mget m' k"
  shows "mset (map_values E m) = mset (map_values E' m')"
proof -
  have "set (mkeys m) = set (mkeys m')" using mget_None_iff [of m] mget_None_iff [of m'] assms(5) by auto
  then have "mset (mkeys m) = mset (mkeys m')"
    using assms(3,4) set_eq_iff_mset_eq_distinct [of "mkeys m" "mkeys m'"] by (simp add: wf_map_def mkeys_def)
  moreover have "mset (List.map_filter h xs) = mset (List.map_filter h ys)" if "mset xs = mset ys" for h :: "string \<Rightarrow> 'a option" and xs ys
    using that by (simp add: map_filter_def)
  moreover have "mget m = mget m'" by (rule ext) (rule assms(5))
  ultimately show ?thesis using assms(1,2) unfolding map_values_def permutes_keys_def by metis
qed

lemma first_put_wf:
  "foldl_d (\<lambda>ms c. if mget ms (key c) \<noteq> None then Some (Inr ms) else bind_d (g c) (\<lambda>m. Some (Inr (mput (key c) m ms)))) [] cs
    = Some (Inr ms) \<Longrightarrow> wf_map ms"
  by (induction cs arbitrary: ms rule: rev_induct) (auto simp: foldl_d_append split: if_splits)

lemma generateK8SManifests_wf: "generateK8SManifests E appId idxs cs = Some (Inr ks) \<Longrightarrow> wf_map ks"
  unfolding generateK8SManifests_def Let_def bind_d_Inr by (elim exE conjE) (rule first_put_wf)

lemma generateProviderManifests_reorder:
  assumes "generateProviderManifests E appId cs = Some (Inr (ms, idxs))" and "permutes_keys (ae_order E)" and "permutes_keys o'"
  shows "\<exists>ms'. generateProviderManifests (reorder f o' E) appId cs = Some (Inr (ms', idxs)) \<and> wf_map ms \<and> wf_map ms'
    \<and> (\<forall>k. mget ms k = mget ms' k)"
proof (rule generateProviderManifests_Inr [OF assms(1)])
  fix metadata profiles
  let ?u = "unique_providers cs"
  let ?g = "provider_result E appId ?u metadata profiles"
  assume m: "loadProviderMetadata E = Inr metadata" "fetchProviderProfilesMap (ae_profiles E) = Inr profiles"
    and idxs: "idxs = buildIndexMap ?u"
    and fold: "foldl_d (put_result (\<lambda>k. k) ?g) [] (ae_order E (mkeys ?u)) = Some (Inr ms)"
  have keys: "set (o' (mkeys ?u)) = set (ae_order E (mkeys ?u))"
    using assms(2,3) by (metis permutes_keys_def set_mset_mset)
  define ms' where "ms' = foldl (\<lambda>m k. case result_of (?g k) of None \<Rightarrow> m | Some v \<Rightarrow> mput k v m) [] (o' (mkeys ?u))"
  have fold': "foldl_d (put_result (\<lambda>k. k) ?g) [] (o' (mkeys ?u)) = Some (Inr ms')"
    using foldl_put_own(1) [OF fold] by (simp add: foldl_put_result ms'_def keys)
  have step: "(\<lambda>manifests pName.
               case mget ?u pName of None \<Rightarrow> Some (Inr manifests)
               | Some p \<Rightarrow>
                   if prPlatform p = ''baremetal'' then Some (Inr manifests)
                   else bind_d (provider_manifest E appId (buildIndexMap ?u) metadata profiles pName p) (\<lambda>m.
                          Some (Inr (mput pName m manifests)))) = put_result (\<lambda>k. k) ?g"
    by (intro ext) (simp add: put_result_def provider_result_def bind_d_def split: option.split sum.split)
  have "generateProviderManifests (reorder f o' E) appId cs = Some (Inr (ms', idxs))"
    unfolding generateProviderManifests_def Let_def reorder_frame reorder_manifests m wrap_go_simps bind_d_simps step fold' idxs ..
  moreover have "\<forall>k. mget ms k = mget ms' k" using foldl_put_own(3) [OF fold] foldl_put_own(3) [OF fold'] keys by simp
  ultimately show ?thesis using foldl_put_own(2) [OF fold] foldl_put_own(2) [OF fold'] by (intro exI [of _ ms'] conjI)
qed

lemma createManifests_reorder:
  assumes "createManifests E appId ns a = Some (Inr ms)" and "permutes_keys (ae_order E)" and "permutes_keys o'"
  shows "\<exists>ms'. createManifests (reorder f o' E) appId ns (a\<lparr>asManifests := st\<rparr>) = Some (Inr ms') \<and> mset ms' = mset ms"
proof -
  let ?E = "reorder f o' E" and ?cs = "dmComponent (amDeployMap a)"
  from assms(1) obtain ps idxs dp where ps: "generateProviderManifests E appId ?cs = Some (Inr (ps, idxs))"
      "fetchDeploymentPolicy E ns (amDeploymentPolicyRef a) = Inr dp"
    by (auto simp: createManifests_def Let_def)
  obtain ps' where ps': "generateProviderManifests ?E appId ?cs = Some (Inr (ps', idxs))" "wf_map ps" "wf_map ps'" "\<forall>k. mget ps k = mget ps' k"
    using generateProviderManifests_reorder [OF ps(1) assms(2,3)] by blast
  have pv: "mset (map_values ?E ps') = mset (map_values E ps)"
    using ps' assms(2,3) by (intro map_values_mset) (simp_all add: reorder_frame)
  consider ks where "atExecutionEnvironment a = ''Kubernetes''" "generateK8SManifests E appId idxs ?cs = Some (Inr ks)"
      "ms = map_values E ps @ map_values E ks"
    | vs where "atExecutionEnvironment a = ''VirtualMachine''" "generateVMManifests E appId ?cs = Some (Inr vs)" "ms = map_values E ps @ vs"
    using assms(1) ps by (auto simp: createManifests_def Let_def wrap_d_def split: if_splits)
  then show ?thesis
  proof cases
    case 1
    have "mset (map_values ?E ks) = mset (map_values E ks)"
      using generateK8SManifests_wf [OF 1(2)] assms(2,3) by (intro map_values_mset) (simp_all add: reorder_frame)
    with 1 ps ps' pv show ?thesis by (simp add: createManifests_def Let_def reorder_frame reorder_generate wrap_d_def)
  next
    case 2
    with ps ps' pv show ?thesis by (simp add: createManifests_def Let_def reorder_frame reorder_generate wrap_d_def)
  qed
qed


section \<open>Examples\<close>

definition ex_azone :: "string \<Rightarrow> bool \<Rightarrow> ZoneSpec" where
  "ex_azone n dflt = \<lparr>zName = n, zLocationName = [], zDefaultZone = dflt, zEnabled = True, zType = []\<rparr>"

definition ex_profile :: "string \<Rightarrow> ProviderProfile" where
  "ex_profile n = \<lparr>pfName = n, pfSpec = \<lparr>ppPlatform = ''aws'', ppRegion = n, ppRegionAlias = [],
     ppZones = [ex_azone ''z1'' True, ex_azone ''z2'' False]\<rparr>, pfEgressCosts = []\<rparr>"

definition ex_metadata :: "string \<Rightarrow> providerMetadata" where
  "ex_metadata net = \<lparr>pmVPCCIDR = net, pmServiceCidr = ''s'' @ net, pmNodeCidr = [], pmPodCidr = \<lparr>pcCidr = ''p'' @ net, pcPublic = [], pcPrivate = []\<rparr>\<rparr>"

definition ex_services :: "SkyService \<Rightarrow> SkyService" where
  "ex_services c = c\<lparr>ssManifest := Some (Services
     [[\<lparr>vsName = ''t3'', vsApiVersion = [], vsKind = ''ComputeProfile'', vsCount = ''2'', vsPrice = Fin 0\<rparr>]])\<rparr>"

definition ex_parts :: "SkyService list" where
  "ex_parts = [ex_services (ex_svc ''a'' ''p1''), ex_services (ex_svc ''x'' ''p2'')]"

definition ex_atlas :: AtlasState where
  "ex_atlas =
     \<lparr>amName = ''app'', amNamespace = ''default'', amLabels = [], amApprove = True, amDataflowPolicyRef = [],
      amDeploymentPolicyRef = ''pol'', amDeployMap = \<lparr>dmComponent = ex_parts, dmEdges = []\<rparr>, amConditions = [],
      atExecutionEnvironment = ''Kubernetes'', asManifests = None\<rparr>"

definition ex_dpol :: DeploymentPolicy where
  "ex_dpol = \<lparr>depName = ''pol'', depNs = ''default'', depResourceVersion = ''1'', depLabels = [], depExecutionEnvironment = ''Kubernetes'', depPolicies = []\<rparr>"

definition ex_aenv :: atlas_env where
  "ex_aenv =
     \<lparr>ae_atlas = \<lambda>_ _. Inr ex_atlas, ae_profiles = Inr [ex_profile ''p1'', ex_profile ''p2''],
      ae_metadata_maps = Inr [[(''aws'', ''yaml'')]], ae_yaml_metadata = \<lambda>_. Inr [ex_metadata ''n1'', ex_metadata ''n2''],
      ae_policy = \<lambda>_ _. Inr ex_dpol, ae_xinstance = \<lambda>_ _. Inl (ErrNotFound []), ae_config_maps = \<lambda>_. Inr [],
      ae_yaml_offerings = \<lambda>_. Inr [], ae_yaml_devices = \<lambda>_. Inr [], ae_decode_services = \<lambda>_. Inr [],
      ae_subnets = \<lambda>c n. Inr (replicate n c), ae_rand = \<lambda>_. ''abcde'', ae_order = \<lambda>ks. ks, ae_create = \<lambda>_. Inr (),
      ae_update_status = Inr ()\<rparr>"

lemma ex_ensure:
  "EnsureK8sName ''xp-p1-app'' = Some ''xp-p1-app''" "EnsureK8sName ''xp-p2-app'' = Some ''xp-p2-app''"
  "EnsureK8sName ''xk-p1-app'' = Some ''xk-p1-app''" "EnsureK8sName ''xk-p2-app'' = Some ''xk-p2-app''"
  by code_simp+

definition ex_idx :: "nat gomap gomap" where
  "ex_idx = [(''aws'', [(''p1'', 0), (''p2'', 1)])]"

definition ex_md :: "providerMetadata list gomap" where
  "ex_md = [(''aws'', [ex_metadata ''n1'', ex_metadata ''n2''])]"

definition ex_pps :: "ProviderProfile gomap" where
  "ex_pps = [(''p1'', ex_profile ''p1''), (''p2'', ex_profile ''p2'')]"

lemma ex_meta: "loadProviderMetadata ex_aenv = Inr ex_md"
  by (simp add: loadProviderMetadata_def fetchProviderMetadataMap_def ex_aenv_def mput_def ex_md_def)

lemma ex_fetch: "fetchProviderProfilesMap (ae_profiles ex_aenv) = Inr ex_pps"
  by (simp add: fetchProviderProfilesMap_def ex_aenv_def ex_profile_def mput_def mget_Cons ex_pps_def)

lemma ex_unique: "unique_providers ex_parts = [(''p1'', ssProviderRef (ex_svc ''a'' ''p1'')), (''p2'', ssProviderRef (ex_svc ''x'' ''p2''))]"
  by (simp add: unique_providers_def ex_parts_def ex_services_def ex_svc_def mput_def mget_Cons Let_def)

lemma ex_index: "buildIndexMap (unique_providers ex_parts) = ex_idx"
  unfolding ex_unique
  by (simp add: buildIndexMap_def typed_providers_def rank_map_def ex_svc_def mput_def mget_def ex_idx_def)

lemma ex_manifest:
  "\<exists>m. provider_manifest ex_aenv ''app'' ex_idx ex_md
     ex_pps ''p1'' (ssProviderRef (ex_svc ''a'' ''p1'')) = Some (Inr m)
     \<and> prPlatform (xmProviderRef m) = ''aws'' \<and> manifest_key m = (''XProvider'', ''xp-p1-app-abcde'')"
  "\<exists>m. provider_manifest ex_aenv ''app'' ex_idx ex_md
     ex_pps ''p2'' (ssProviderRef (ex_svc ''x'' ''p2'')) = Some (Inr m)
     \<and> prPlatform (xmProviderRef m) = ''aws'' \<and> manifest_key m = (''XProvider'', ''xp-p2-app-abcde'')"
  by (simp_all add: provider_manifest_def xrd_name_def ex_ensure zones_of_def ex_profile_def ex_azone_def ex_svc_def index_of_def
      metadata_at_def ex_aenv_def subnet_list_def mget_Cons Let_def ex_idx_def ex_md_def ex_pps_def manifest_key_def)

lemma ex_networks_eq:
  obtains m m' where "generateProviderManifests ex_aenv ''app'' ex_parts = Some (Inr ([(''p1'', m), (''p2'', m')], ex_idx))"
    "prPlatform (xmProviderRef m) = ''aws''" "prPlatform (xmProviderRef m') = ''aws''"
    "manifest_key m = (''XProvider'', ''xp-p1-app-abcde'')" "manifest_key m' = (''XProvider'', ''xp-p2-app-abcde'')"
proof -
  obtain m m' where m: "provider_manifest ex_aenv ''app'' ex_idx ex_md ex_pps ''p1'' (ssProviderRef (ex_svc ''a'' ''p1'')) = Some (Inr m)"
    "provider_manifest ex_aenv ''app'' ex_idx ex_md ex_pps ''p2'' (ssProviderRef (ex_svc ''x'' ''p2'')) = Some (Inr m')"
    "prPlatform (xmProviderRef m) = ''aws''" "prPlatform (xmProviderRef m') = ''aws''"
    "manifest_key m = (''XProvider'', ''xp-p1-app-abcde'')" "manifest_key m' = (''XProvider'', ''xp-p2-app-abcde'')"
    using ex_manifest by blast
  have order: "ae_order ex_aenv = (\<lambda>ks. ks)" by (simp add: ex_aenv_def)
  have aws: "prPlatform (ssProviderRef (ex_svc c p)) = ''aws''" for c p by (simp add: ex_svc_def)
  have "generateProviderManifests ex_aenv ''app'' ex_parts = Some (Inr ([(''p1'', m), (''p2'', m')], ex_idx))"
    unfolding generateProviderManifests_def Let_def ex_index ex_meta ex_fetch
    by (simp add: ex_unique mkeys_def order mget_Cons aws m mput_def)
  from that [OF this m(3-6)] show thesis .
qed

lemma ex_networks:
  "\<exists>ms m m'. generateProviderManifests ex_aenv ''app'' ex_parts = Some (Inr (ms, ex_idx))
    \<and> mget ms ''p1'' = Some m \<and> mget ms ''p2'' = Some m'
    \<and> prPlatform (xmProviderRef m) = ''aws'' \<and> prPlatform (xmProviderRef m') = ''aws''"
  by (rule ex_networks_eq) (simp add: mget_Cons)

theorem atlas_networks_apart_witness:
  "\<exists>ms m m' c c'. generateProviderManifests ex_aenv ''app'' ex_parts = Some (Inr (ms, ex_idx))
    \<and> xm_spec m ''vpcCidr'' = Some (AStr c) \<and> xm_spec m' ''vpcCidr'' = Some (AStr c') \<and> c \<noteq> c'"
proof -
  obtain ms m m' where ms: "generateProviderManifests ex_aenv ''app'' ex_parts = Some (Inr (ms, ex_idx))"
    "mget ms ''p1'' = Some m" "mget ms ''p2'' = Some m'" "prPlatform (xmProviderRef m) = ''aws''" "prPlatform (xmProviderRef m') = ''aws''"
    using ex_networks by blast
  let ?meta = ex_md
  have apart: "\<forall>pl i md pl' j md'. metadata_at ?meta pl i = Inr md \<and> metadata_at ?meta pl' j = Inr md' \<and> (pl, i) \<noteq> (pl', j)
      \<longrightarrow> pmVPCCIDR md \<noteq> pmVPCCIDR md'"
    by (auto simp: metadata_at_def mget_Cons ex_metadata_def ex_md_def less_Suc_eq nth_Cons' Let_def split: if_splits)
  from atlas_networks_apart [OF ms(1) ex_meta apart ms(2,3)] ms show ?thesis by auto
qed

lemma ex_clusters_eq:
  obtains k k' where "generateK8SManifests ex_aenv ''app'' ex_idx ex_parts = Some (Inr [(''p1'', k), (''p2'', k')])"
    "manifest_key k = (''XKube'', ''xk-p1-app-abcde'')" "manifest_key k' = (''XKube'', ''xk-p2-app-abcde'')"
proof -
  have "\<exists>k. k8s_manifest ex_aenv ''app'' ex_idx ex_md ex_pps (ex_services (ex_svc ''a'' ''p1'')) = Some (Inr k)
      \<and> manifest_key k = (''XKube'', ''xk-p1-app-abcde'')"
    "\<exists>k. k8s_manifest ex_aenv ''app'' ex_idx ex_md ex_pps (ex_services (ex_svc ''x'' ''p2'')) = Some (Inr k)
      \<and> manifest_key k = (''XKube'', ''xk-p2-app-abcde'')"
    by (simp_all add: k8s_manifest_def xrd_name_def ex_ensure ex_profile_def ex_azone_def ex_svc_def ex_services_def
        index_of_def metadata_at_def ex_aenv_def buildK8SSpec_def decode_services_def mget_Cons Let_def ex_idx_def ex_md_def ex_pps_def
        manifest_key_def)
  then obtain k k' where k: "k8s_manifest ex_aenv ''app'' ex_idx ex_md ex_pps (ex_services (ex_svc ''a'' ''p1'')) = Some (Inr k)"
    "k8s_manifest ex_aenv ''app'' ex_idx ex_md ex_pps (ex_services (ex_svc ''x'' ''p2'')) = Some (Inr k')"
    "manifest_key k = (''XKube'', ''xk-p1-app-abcde'')" "manifest_key k' = (''XKube'', ''xk-p2-app-abcde'')"
    by blast
  have names: "prName (ssProviderRef (ex_services (ex_svc c p))) = p" for c p by (simp add: ex_services_def ex_svc_def)
  have "generateK8SManifests ex_aenv ''app'' ex_idx ex_parts = Some (Inr [(''p1'', k), (''p2'', k')])"
    unfolding generateK8SManifests_def ex_meta ex_fetch wrap_go_simps bind_d_simps
    by (simp add: ex_parts_def k names mget_Cons mput_def)
  from that [OF this k(3,4)] show thesis .
qed

lemma ex_clusters:
  "\<exists>ks k. generateK8SManifests ex_aenv ''app'' ex_idx ex_parts = Some (Inr ks) \<and> mget ks ''p1'' = Some k"
  by (rule ex_clusters_eq) (simp add: mget_Cons)

theorem atlas_metadata_suffices_witness:
  "length (platform_names (unique_providers ex_parts) ''aws'') \<le> 2"
proof -
  obtain ms where ms: "generateProviderManifests ex_aenv ''app'' ex_parts = Some (Inr (ms, ex_idx))"
    using ex_networks by blast
  from atlas_metadata_suffices [OF ms ex_meta, of "''aws''"] show ?thesis by (simp add: ex_aenv_def ex_md_def mget_Cons)
qed

theorem atlas_subnets_first_zones_witness:
  "\<exists>m sl. xm_spec m ''subnets'' = Some (AList sl)
    \<and> map (\<lambda>s. case s of AMap e \<Rightarrow> mget e ''zone'' | _ \<Rightarrow> None) sl = [Some (AStr ''z1''), Some (AStr ''z2'')]"
proof -
  obtain ms m where ms: "generateProviderManifests ex_aenv ''app'' ex_parts = Some (Inr (ms, ex_idx))"
    "mget ms ''p1'' = Some m"
    using ex_networks by blast
  from atlas_subnets_first_zones [OF ms ex_fetch] show ?thesis
    by (intro exI [of _ m]) (auto simp: Let_def zones_of_def mget_Cons ex_profile_def ex_azone_def ex_pps_def)
qed

theorem atlas_cluster_first_component_witness:
  "\<exists>ks k. generateK8SManifests ex_aenv ''app'' ex_idx ex_parts = Some (Inr ks) \<and> mget ks ''p1'' = Some k
     \<and> xm_spec k ''nodeGroups'' = Some (AList [AMap [(''instanceTypes'', AList [AStr ''t3'']), (''nodeCount'', AInt 2), (''publicAccess'', ABool False),
              (''autoScaling'', AMap [(''enabled'', ABool True), (''minSize'', AInt 1), (''maxSize'', AInt 10)])]])"
proof -
  obtain ks where ks: "generateK8SManifests ex_aenv ''app'' ex_idx ex_parts = Some (Inr ks)"
    using ex_clusters by blast
  have first: "find (\<lambda>c. prName (ssProviderRef c) = ''p1'') ex_parts = Some (ex_services (ex_svc ''a'' ''p1''))"
    by (simp add: ex_parts_def ex_services_def ex_svc_def)
  have "atoi ''2'' = Inr 2" by code_simp
  then have "node_group [\<lparr>vsName = ''t3'', vsApiVersion = [], vsKind = ''ComputeProfile'', vsCount = ''2'', vsPrice = Fin 0\<rparr>]
    = AMap [(''instanceTypes'', AList [AStr ''t3'']), (''nodeCount'', AInt 2), (''publicAccess'', ABool False),
              (''autoScaling'', AMap [(''enabled'', ABool True), (''minSize'', AInt 1), (''maxSize'', AInt 10)])]"
    by (simp add: node_group_def group_types_def)
  with atlas_cluster_first_component [OF ks, of "''p1''"] ks show ?thesis
    by (auto simp: first decode_services_def ex_services_def)
qed

theorem atlas_cluster_in_network_witness:
  "\<exists>m k md. xm_spec m ''vpcCidr'' = Some (AStr (pmVPCCIDR md)) \<and> xm_spec k ''serviceCidr'' = Some (AStr (pmServiceCidr md))
     \<and> md \<in> {ex_metadata ''n1'', ex_metadata ''n2''}"
proof -
  obtain ms m where ms: "generateProviderManifests ex_aenv ''app'' ex_parts = Some (Inr (ms, ex_idx))"
    "mget ms ''p1'' = Some m" "prPlatform (xmProviderRef m) = ''aws''"
    using ex_networks by blast
  obtain ks k where ks: "generateK8SManifests ex_aenv ''app'' ex_idx ex_parts = Some (Inr ks)" "mget ks ''p1'' = Some k"
    using ex_clusters by blast
  have pp: "mget ex_pps ''p1'' = Some (ex_profile ''p1'')" by (simp add: mget_Cons ex_pps_def)
  have "ppPlatform (pfSpec (ex_profile ''p1'')) = prPlatform (xmProviderRef m)" "prPlatform (xmProviderRef m) \<in> {''aws'', ''gcp'', ''openstack''}"
    by (simp_all add: ms ex_profile_def)
  from atlas_cluster_in_network [OF ms(1) ks(1) ex_meta ex_fetch ms(2) ks(2) pp this] obtain md i where
    md: "metadata_at ex_md ''aws'' i = Inr md"
      "xm_spec m ''vpcCidr'' = Some (AStr (pmVPCCIDR md))" "xm_spec k ''serviceCidr'' = Some (AStr (pmServiceCidr md))"
    by (auto simp: ms(3))
  from md(1) have "md \<in> {ex_metadata ''n1'', ex_metadata ''n2''}"
    by (auto simp: metadata_at_def mget_Cons ex_md_def Let_def less_Suc_eq split: if_splits)
  with md show ?thesis by blast
qed

lemma ex_created: "\<exists>ms. createManifests ex_aenv ''app'' ''default'' ex_atlas = Some (Inr ms) \<and> distinct (map manifest_key ms)"
proof (rule ex_networks_eq, rule ex_clusters_eq)
  fix m m' k k'
  assume g: "generateProviderManifests ex_aenv ''app'' ex_parts = Some (Inr ([(''p1'', m), (''p2'', m')], ex_idx))"
    "generateK8SManifests ex_aenv ''app'' ex_idx ex_parts = Some (Inr [(''p1'', k), (''p2'', k')])"
    and keys: "manifest_key m = (''XProvider'', ''xp-p1-app-abcde'')" "manifest_key m' = (''XProvider'', ''xp-p2-app-abcde'')"
    "manifest_key k = (''XKube'', ''xk-p1-app-abcde'')" "manifest_key k' = (''XKube'', ''xk-p2-app-abcde'')"
  have "dmComponent (amDeployMap ex_atlas) = ex_parts" "atExecutionEnvironment ex_atlas = ''Kubernetes''"
    "fetchDeploymentPolicy ex_aenv ''default'' (amDeploymentPolicyRef ex_atlas) = Inr ex_dpol" "ae_order ex_aenv = (\<lambda>ks. ks)"
    by (simp_all add: ex_atlas_def fetchDeploymentPolicy_def ex_aenv_def)
  then have "createManifests ex_aenv ''app'' ''default'' ex_atlas = Some (Inr [m, m', k, k'])"
    using g by (simp add: createManifests_def wrap_d_def map_values_def mkeys_def List.map_filter_simps mget_Cons)
  with keys show ?thesis by (intro exI [of _ "[m, m', k, k']"]) simp
qed

lemma ex_atlas_run:
  obtains ms es r where "distinct (map manifest_key ms)" "createManifests ex_aenv ''app'' ''default'' ex_atlas = Some (Inr ms)"
    "AtlasReconcile ex_aenv ''default'' ''app'' = Some (es, r)" "UpdateAtlasStatus (ex_atlas\<lparr>asManifests := Some (sort_manifests ms)\<rparr>) \<in> set es"
proof -
  obtain ms where ms: "createManifests ex_aenv ''app'' ''default'' ex_atlas = Some (Inr ms)" "distinct (map manifest_key ms)"
    using ex_created by blast
  have at: "ae_atlas ex_aenv ''default'' ''app'' = Inr ex_atlas" "asManifests ex_atlas = None" "ae_create ex_aenv = (\<lambda>_. Inr ())"
    by (simp_all add: ex_aenv_def ex_atlas_def)
  have ok: "snd (fold_run (atlas_submit ex_aenv) ns) = Inr ()" for ns
    by (induction ns) (simp_all add: snd_bind_run atlas_submit_def at Let_def split: option.split)
  obtain es r where run: "bind_run (if amApprove ex_atlas then fold_run (atlas_submit ex_aenv) ms else pure_run (Inr ()))
       (\<lambda>_. atlas_status ex_aenv ex_atlas (sort_manifests ms)) = (es, r)" by (meson surj_pair)
  have "UpdateAtlasStatus (ex_atlas\<lparr>asManifests := Some (sort_manifests ms)\<rparr>) \<in> set es"
    using arg_cong [OF run, of fst] ok by (auto simp: fst_bind_run atlas_status_calls at)
  moreover have "AtlasReconcile ex_aenv ''default'' ''app'' = Some (es, r)"
    using run by (simp add: AtlasReconcile_def at(1) ms wrap_d_def)
  ultimately show thesis using that ms by blast
qed

theorem atlas_writes_the_plan_witness:
  "\<exists>es r S ms. AtlasReconcile ex_aenv ''default'' ''app'' = Some (es, r) \<and> UpdateAtlasStatus S \<in> set es
     \<and> createManifests ex_aenv ''app'' ''default'' ex_atlas = Some (Inr ms) \<and> mset (the (asManifests S)) = mset ms"
proof (rule ex_atlas_run)
  fix ms es r
  assume ms: "createManifests ex_aenv ''app'' ''default'' ex_atlas = Some (Inr ms)"
    and run: "AtlasReconcile ex_aenv ''default'' ''app'' = Some (es, r)"
    and c: "UpdateAtlasStatus (ex_atlas\<lparr>asManifests := Some (sort_manifests ms)\<rparr>) \<in> set es"
  have "ae_atlas ex_aenv ''default'' ''app'' = Inr ex_atlas" by (simp add: ex_aenv_def)
  with atlas_writes_the_plan [OF run c] ms run c show ?thesis by fastforce
qed


end
