(* ===== verification/Interleaving.thy ===== *)
theory Interleaving
  imports Prelude
begin

text \<open>
  Reconcilers that run at the same time against one API server. A reconciler is a program: it
  returns, or makes a call and goes on with the reply. What a call does to the server is a
  parameter \<open>serve\<close>, whose second argument is chosen from outside (an answer or a failure). A
  schedule says who moves next; \<open>Outside\<close> is everybody else. \<open>holds\<close> is the assertion that a program
  keeps to its guarantee and ends in its postcondition whatever the others do within its rely.
\<close>

section \<open>Programs\<close>

datatype ('q, 'r, 'a) prog = Return 'a | Call 'q "'r \<Rightarrow> ('q, 'r, 'a) prog"

primrec bind_prog :: "('q, 'r, 'a) prog \<Rightarrow> ('a \<Rightarrow> ('q, 'r, 'b) prog) \<Rightarrow> ('q, 'r, 'b) prog" where
  "bind_prog (Return x) f = f x"
| "bind_prog (Call q k) f = Call q (\<lambda>r. bind_prog (k r) f)"

text \<open>A function run again while its error asks for it, at most \<open>n\<close> more times.\<close>

fun attempts :: "(go_error \<Rightarrow> bool) \<Rightarrow> nat \<Rightarrow> ('q, 'r, 'a go) prog \<Rightarrow> ('q, 'r, 'a go) prog" where
  "attempts again 0 p = p"
| "attempts again (Suc n) p =
     bind_prog p (\<lambda>r. case r of
       Inl e \<Rightarrow> if again e then attempts again n p else Return (Inl e)
     | Inr x \<Rightarrow> Return (Inr x))"

text \<open>A program that runs alone.\<close>

primrec exec :: "('s \<Rightarrow> 'q \<Rightarrow> 's \<times> 'r) \<Rightarrow> ('q, 'r, 'a) prog \<Rightarrow> 's \<Rightarrow> 'a \<times> 's" where
  "exec answer (Return a) = (\<lambda>s. (a, s))"
| "exec answer (Call q k) = (\<lambda>s. exec answer (k (snd (answer s q))) (fst (answer s q)))"

lemma exec_bind: "exec answer (bind_prog p f) s = (case exec answer p s of (a, s') \<Rightarrow> exec answer (f a) s')"
  by (induction p arbitrary: s) auto

lemma exec_attempts:
  "exec answer p s = (Inr x, s') \<Longrightarrow> exec answer (attempts again n p) s = (Inr x, s')"
  by (cases n) (auto simp: exec_bind)

section \<open>Schedules\<close>

datatype ('f, 's) move = Step nat 'f | Outside 's

type_synonym ('q, 'r, 'a, 's) system = "('q, 'r, 'a) prog list \<times> 's"

fun advance ::
  "('s \<Rightarrow> 'f \<Rightarrow> 'q \<Rightarrow> 's \<times> 'r) \<Rightarrow> ('q, 'r, 'a, 's) system \<Rightarrow> ('f, 's) move \<Rightarrow> ('q, 'r, 'a, 's) system" where
  "advance serve (ps, s) (Outside s') = (ps, s')"
| "advance serve (ps, s) (Step i f) =
     (if i < length ps then
        (case ps ! i of
           Return a \<Rightarrow> (ps, s)
         | Call q k \<Rightarrow> (case serve s f q of (s', r) \<Rightarrow> (ps[i := k r], s')))
      else (ps, s))"

text \<open>The moves are allowed: the answers are, and the others keep to \<open>Env\<close>.\<close>

fun allowed ::
  "('s \<Rightarrow> 'f \<Rightarrow> 'q \<Rightarrow> 's \<times> 'r) \<Rightarrow> ('f \<Rightarrow> bool) \<Rightarrow> ('s \<Rightarrow> 's \<Rightarrow> bool) \<Rightarrow> ('q, 'r, 'a, 's) system \<Rightarrow> ('f, 's) move list \<Rightarrow> bool" where
  "allowed serve ok Env sy [] = True"
| "allowed serve ok Env sy (m # ms) =
     ((case m of Step i f \<Rightarrow> ok f | Outside s' \<Rightarrow> Env (snd sy) s') \<and> allowed serve ok Env (advance serve sy m) ms)"

section \<open>Rely and guarantee\<close>

primrec holds ::
  "('s \<Rightarrow> 'f \<Rightarrow> 'q \<Rightarrow> 's \<times> 'r) \<Rightarrow> ('f \<Rightarrow> bool) \<Rightarrow> ('s \<Rightarrow> 's \<Rightarrow> bool) \<Rightarrow> ('s \<Rightarrow> 's \<Rightarrow> bool) \<Rightarrow> ('a \<Rightarrow> 's \<Rightarrow> bool)
    \<Rightarrow> ('q, 'r, 'a) prog \<Rightarrow> 's \<Rightarrow> bool" where
  "holds serve ok R G Q (Return a) = (\<lambda>s. \<forall>s'. R s s' \<longrightarrow> Q a s')"
| "holds serve ok R G Q (Call q k) =
     (\<lambda>s. \<forall>s' f. R s s' \<longrightarrow> ok f \<longrightarrow>
        G s' (fst (serve s' f q)) \<and> holds serve ok R G Q (k (snd (serve s' f q))) (fst (serve s' f q)))"

lemma holds_rely:
  assumes "\<And>a b c. R a b \<Longrightarrow> R b c \<Longrightarrow> R a c" and "R s s'" and "holds serve ok R G Q p s"
  shows "holds serve ok R G Q p s'"
proof (cases p)
  case (Return a)
  with assms(3) show ?thesis by (auto intro: assms(1) [OF assms(2)])
next
  case (Call q k)
  with assms(3) show ?thesis by (auto dest: assms(1) [OF assms(2)])
qed

lemma holds_bind:
  assumes "holds serve ok R G P p s" and "\<And>a s. P a s \<Longrightarrow> holds serve ok R G Q (f a) s"
    and "\<And>s. R s s"
  shows "holds serve ok R G Q (bind_prog p f) s"
  using assms by (induction p arbitrary: s) auto

lemma holds_post:
  assumes "holds serve ok R G P p s" and "\<And>a s. P a s \<Longrightarrow> Q a s"
  shows "holds serve ok R G Q p s"
  using assms(1) by (induction p arbitrary: s) (simp_all add: assms(2))

text \<open>What a program assumes of the state at its start is kept by its rely.\<close>

lemma holds_attempts:
  assumes p: "\<And>s. I s \<Longrightarrow> holds serve ok R G Q p s" and post: "\<And>a s. Q a s \<Longrightarrow> I s"
    and refl: "\<And>s. R s s" and stable: "\<And>a s s'. Q a s \<Longrightarrow> R s s' \<Longrightarrow> Q a s'"
  shows "I s \<Longrightarrow> holds serve ok R G Q (attempts again n p) s"
proof (induction n arbitrary: s)
  case 0
  then show ?case using p by simp
next
  case (Suc n)
  show ?case unfolding attempts.simps
  proof (rule holds_bind [OF p [OF Suc.prems]])
    fix a s assume Q: "Q a s"
    then have "holds serve ok R G Q (attempts again n p) s" by (rule Suc.IH [OF post])
    with Q show "holds serve ok R G Q
      (case a of Inl e \<Rightarrow> if again e then attempts again n p else Return (Inl e) | Inr x \<Rightarrow> Return (Inr x)) s"
      by (auto dest: stable [OF Q] split: sum.split)
  qed (rule refl)
qed

locale interference =
  fixes serve :: "'s \<Rightarrow> 'f \<Rightarrow> 'q \<Rightarrow> 's \<times> 'r" and ok :: "'f \<Rightarrow> bool"
    and R G :: "nat \<Rightarrow> 's \<Rightarrow> 's \<Rightarrow> bool" and Env :: "'s \<Rightarrow> 's \<Rightarrow> bool"
  assumes rely_refl: "R i s s"
    and rely_trans: "R i a b \<Longrightarrow> R i b c \<Longrightarrow> R i a c"
    and guarantee_rely: "i \<noteq> j \<Longrightarrow> G i a b \<Longrightarrow> R j a b"
    and env_rely: "Env a b \<Longrightarrow> R j a b"
begin

lemma advance_holds:
  assumes "\<forall>i<length ps. holds serve ok (R i) (G i) (Q i) (ps ! i) s"
    and "case m of Step i f \<Rightarrow> ok f | Outside s' \<Rightarrow> Env s s'"
    and "advance serve (ps, s) m = (ps', s')"
  shows "length ps' = length ps \<and> (\<forall>i<length ps'. holds serve ok (R i) (G i) (Q i) (ps' ! i) s')"
proof (cases m)
  case (Outside t)
  with assms have e: "ps' = ps" "s' = t" "Env s t" by auto
  have "holds serve ok (R i) (G i) (Q i) (ps ! i) t" if "i < length ps" for i
    by (rule holds_rely [where R = "R i", OF _ env_rely [OF e(3)]]) (use assms(1) that in \<open>auto intro: rely_trans\<close>)
  then show ?thesis using e by simp
next
  case (Step i f)
  show ?thesis
  proof (cases "i < length ps")
    case True
    show ?thesis
    proof (cases "ps ! i")
      case (Return a)
      with assms Step True show ?thesis by simp
    next
      case (Call q k)
      have i: "holds serve ok (R i) (G i) (Q i) (Call q k) s" using assms(1) True Call by metis
      with assms(2) Step have g: "G i s (fst (serve s f q))"
        and h: "holds serve ok (R i) (G i) (Q i) (k (snd (serve s f q))) (fst (serve s f q))"
        by (auto simp: rely_refl)
      have e: "ps' = ps[i := k (snd (serve s f q))]" "s' = fst (serve s f q)"
        using assms(3) Step True Call by (auto split: prod.splits)
      have "holds serve ok (R j) (G j) (Q j) (ps' ! j) s'" if "j < length ps'" for j
      proof (cases "j = i")
        case True
        with e \<open>i < length ps\<close> h show ?thesis by simp
      next
        case False
        have "holds serve ok (R j) (G j) (Q j) (ps ! j) s'" unfolding e(2)
          by (rule holds_rely [where R = "R j", OF _ guarantee_rely [OF _ g]])
            (use False that e assms(1) in \<open>auto intro: rely_trans\<close>)
        with False e show ?thesis by simp
      qed
      then show ?thesis using e by simp
    qed
  next
    case False
    with assms Step show ?thesis by simp
  qed
qed

text \<open>Every program that has returned satisfies its postcondition, under every allowed schedule.\<close>

lemma interleaving_sound:
  assumes "\<forall>i<length ps. holds serve ok (R i) (G i) (Q i) (ps ! i) s"
    and "allowed serve ok Env (ps, s) ms"
    and "foldl (advance serve) (ps, s) ms = (ps', s')"
    and "i < length ps" "ps' ! i = Return a"
  shows "Q i a s'"
proof -
  have "length ps' = length ps \<and> (\<forall>i<length ps'. holds serve ok (R i) (G i) (Q i) (ps' ! i) s')"
    using assms(1-3)
  proof (induction ms arbitrary: ps s)
    case (Cons m ms)
    obtain qs t where qt: "advance serve (ps, s) m = (qs, t)" by (cases "advance serve (ps, s) m") auto
    have qs: "length qs = length ps \<and> (\<forall>i<length qs. holds serve ok (R i) (G i) (Q i) (qs ! i) t)"
      by (rule advance_holds [OF Cons.prems(1) _ qt]) (use Cons.prems(2) in \<open>simp split: move.splits\<close>)
    have "length ps' = length qs \<and> (\<forall>i<length ps'. holds serve ok (R i) (G i) (Q i) (ps' ! i) s')"
      by (rule Cons.IH) (use qs Cons.prems qt in auto)
    with qs show ?case by simp
  qed auto
  then have "holds serve ok (R i) (G i) (Q i) (Return a) s'" using assms(4,5) by metis
  then show ?thesis by (simp add: rely_refl)
qed

end

end
