(* ===== verification/Policies.thy ===== *)
theory Policies
  imports Interleaving Api
begin

text \<open>
  What starts an optimisation. The reconcilers of \<open>XKube\<close> and \<open>XInstance\<close>
  (\<open>internal/controller/svc\<close>) write a \<open>DeploymentPolicy\<close> and a \<open>DataflowPolicy\<close>; the reconcilers of
  the two policies (\<open>internal/controller/policy\<close>) write their reference into one \<open>ILPTask\<close> of the same
  name, whichever comes first. Every call is a step of its own, so that the reconcilers interleave.
  \<open>serve\<close> is the documented behaviour of the API server: not found, already exists, optimistic
  locking of an update, the merge patch of the fields that differ.
\<close>

section \<open>Data\<close>

type_synonym key = "string \<times> string"

text \<open>The owner references are kind and name of the owner.\<close>

record DataflowObject = DataflowPolicy +
  dfNs :: string
  dfOwners :: "(string \<times> string) list"

record DeploymentObject = DeploymentPolicy +
  depOwners :: "(string \<times> string) list"

record PolicyRef =
  rfName :: string
  rfVersion :: string

record TaskObject =
  toName :: string
  toNs :: string
  toOwners :: "(string \<times> string) list"
  toDataflow :: PolicyRef
  toDeployment :: PolicyRef

definition no_ref :: PolicyRef where
  "no_ref = \<lparr>rfName = [], rfVersion = []\<rparr>"

record XKube =
  xkName :: string
  xkNs :: string
  xkDeleting :: bool
  xkApplicationID :: string
  xkNodeGroups :: "ComputeFlavor list list"
  xkProviderRef :: ProviderRefSpec

record XInstance =
  xnName :: string
  xnNs :: string
  xnDeleting :: bool
  xnApplicationID :: string
  xnFlavor :: ComputeFlavor
  xnProviderRef :: ProviderRefSpec

section \<open>The API server\<close>

text \<open>\<open>client.MergeFrom\<close>: the fields of the two references that differ.\<close>

record task_patch =
  tpDataflowName :: "string option"
  tpDataflowVersion :: "string option"
  tpDeploymentName :: "string option"
  tpDeploymentVersion :: "string option"

definition diff :: "string \<Rightarrow> string \<Rightarrow> string option" where
  "diff old new = (if old = new then None else Some new)"

definition merge_from :: "TaskObject \<Rightarrow> TaskObject \<Rightarrow> task_patch" where
  "merge_from orig ilp =
     \<lparr>tpDataflowName = diff (rfName (toDataflow orig)) (rfName (toDataflow ilp)),
      tpDataflowVersion = diff (rfVersion (toDataflow orig)) (rfVersion (toDataflow ilp)),
      tpDeploymentName = diff (rfName (toDeployment orig)) (rfName (toDeployment ilp)),
      tpDeploymentVersion = diff (rfVersion (toDeployment orig)) (rfVersion (toDeployment ilp))\<rparr>"

definition patched :: "string option \<Rightarrow> string \<Rightarrow> string" where
  "patched p old = (case p of None \<Rightarrow> old | Some new \<Rightarrow> new)"

definition apply_patch :: "task_patch \<Rightarrow> TaskObject \<Rightarrow> TaskObject" where
  "apply_patch p t = t\<lparr>
     toDataflow := \<lparr>rfName = patched (tpDataflowName p) (rfName (toDataflow t)),
                    rfVersion = patched (tpDataflowVersion p) (rfVersion (toDataflow t))\<rparr>,
     toDeployment := \<lparr>rfName = patched (tpDeploymentName p) (rfName (toDeployment t)),
                      rfVersion = patched (tpDeploymentVersion p) (rfVersion (toDeployment t))\<rparr>\<rparr>"

record cluster =
  clDf :: "key \<Rightarrow> DataflowObject option"
  clDp :: "key \<Rightarrow> DeploymentObject option"
  clTask :: "key \<Rightarrow> TaskObject option"
  clXKube :: "key \<Rightarrow> XKube option"
  clXInstance :: "key \<Rightarrow> XInstance option"
  clRev :: nat

text \<open>The server answers; or the call fails before it has an effect, or after.\<close>

datatype fault = Answered | Refused go_error | Lost go_error

datatype request =
    GetDf key | CreateDf DataflowObject | UpdateDf DataflowObject
  | GetDp key | CreateDp DeploymentObject | UpdateDp DeploymentObject
  | GetTask key | CreateTask TaskObject | PatchTask key task_patch
  | GetXKube key | GetXInstance key

datatype reply =
    GotDf "DataflowObject go" | GotDp "DeploymentObject go" | GotTask "TaskObject go"
  | GotXKube "XKube go" | GotXInstance "XInstance go" | Written "unit go"

definition get_go :: "fault \<Rightarrow> 'a option \<Rightarrow> 'a go" where
  "get_go f x = (case f of
     Answered \<Rightarrow> (case x of None \<Rightarrow> Inl (ErrNotFound ''not found'') | Some y \<Rightarrow> Inr y)
   | Refused e \<Rightarrow> Inl e | Lost e \<Rightarrow> Inl e)"

text \<open>A write that the server refuses for the reason given, or that leads to \<open>cl'\<close>.\<close>

definition write_go :: "fault \<Rightarrow> cluster \<Rightarrow> go_error option \<Rightarrow> cluster \<Rightarrow> cluster \<times> reply" where
  "write_go f cl bad cl' =
     (case f of
        Refused e \<Rightarrow> (cl, Written (Inl e))
      | Lost e \<Rightarrow> (case bad of None \<Rightarrow> (cl'\<lparr>clRev := Suc (clRev cl)\<rparr>, Written (Inl e)) | Some _ \<Rightarrow> (cl, Written (Inl e)))
      | Answered \<Rightarrow> (case bad of None \<Rightarrow> (cl'\<lparr>clRev := Suc (clRev cl)\<rparr>, Written (Inr ())) | Some e \<Rightarrow> (cl, Written (Inl e))))"

definition exists_err :: "'a option \<Rightarrow> go_error option" where
  "exists_err x = (case x of None \<Rightarrow> None | Some _ \<Rightarrow> Some (ErrAlreadyExists ''already exists''))"

definition stale_err :: "('a \<Rightarrow> string) \<Rightarrow> 'a option \<Rightarrow> string \<Rightarrow> go_error option" where
  "stale_err version x v =
     (case x of None \<Rightarrow> Some (ErrNotFound ''not found'')
      | Some cur \<Rightarrow> if version cur = v then None else Some (ErrConflict ''the object has been modified''))"

definition revision :: "cluster \<Rightarrow> string" where
  "revision cl = nat_dec (Suc (clRev cl))"

fun serve :: "cluster \<Rightarrow> fault \<Rightarrow> request \<Rightarrow> cluster \<times> reply" where
  "serve cl f (GetDf k) = (cl, GotDf (get_go f (clDf cl k)))"
| "serve cl f (GetDp k) = (cl, GotDp (get_go f (clDp cl k)))"
| "serve cl f (GetTask k) = (cl, GotTask (get_go f (clTask cl k)))"
| "serve cl f (GetXKube k) = (cl, GotXKube (get_go f (clXKube cl k)))"
| "serve cl f (GetXInstance k) = (cl, GotXInstance (get_go f (clXInstance cl k)))"
| "serve cl f (CreateDf df) =
     (let k = (dfNs df, dfName df)
      in write_go f cl (exists_err (clDf cl k))
           (cl\<lparr>clDf := (clDf cl)(k \<mapsto> df\<lparr>dfResourceVersion := revision cl\<rparr>)\<rparr>))"
| "serve cl f (UpdateDf df) =
     (let k = (dfNs df, dfName df)
      in write_go f cl (stale_err dfResourceVersion (clDf cl k) (dfResourceVersion df))
           (cl\<lparr>clDf := (clDf cl)(k \<mapsto> df\<lparr>dfResourceVersion := revision cl\<rparr>)\<rparr>))"
| "serve cl f (CreateDp dp) =
     (let k = (depNs dp, depName dp)
      in write_go f cl (exists_err (clDp cl k))
           (cl\<lparr>clDp := (clDp cl)(k \<mapsto> dp\<lparr>depResourceVersion := revision cl\<rparr>)\<rparr>))"
| "serve cl f (UpdateDp dp) =
     (let k = (depNs dp, depName dp)
      in write_go f cl (stale_err depResourceVersion (clDp cl k) (depResourceVersion dp))
           (cl\<lparr>clDp := (clDp cl)(k \<mapsto> dp\<lparr>depResourceVersion := revision cl\<rparr>)\<rparr>))"
| "serve cl f (CreateTask t) =
     (let k = (toNs t, toName t)
      in write_go f cl (exists_err (clTask cl k)) (cl\<lparr>clTask := (clTask cl)(k \<mapsto> t)\<rparr>))"
| "serve cl f (PatchTask k p) =
     (case clTask cl k of
        None \<Rightarrow> write_go f cl (Some (ErrNotFound ''not found'')) cl
      | Some t \<Rightarrow> write_go f cl None (cl\<lparr>clTask := (clTask cl)(k \<mapsto> apply_patch p t)\<rparr>))"

section \<open>Calls\<close>

type_synonym 'a proc = "(request, reply, 'a) prog"

definition no_reply :: go_error where
  "no_reply = Panic ''reply of another call''"

definition df_call :: "request \<Rightarrow> (DataflowObject go \<Rightarrow> 'a proc) \<Rightarrow> 'a proc" where
  "df_call q k = Call q (\<lambda>r. k (case r of GotDf x \<Rightarrow> x | _ \<Rightarrow> Inl no_reply))"

definition dp_call :: "request \<Rightarrow> (DeploymentObject go \<Rightarrow> 'a proc) \<Rightarrow> 'a proc" where
  "dp_call q k = Call q (\<lambda>r. k (case r of GotDp x \<Rightarrow> x | _ \<Rightarrow> Inl no_reply))"

definition task_call :: "request \<Rightarrow> (TaskObject go \<Rightarrow> 'a proc) \<Rightarrow> 'a proc" where
  "task_call q k = Call q (\<lambda>r. k (case r of GotTask x \<Rightarrow> x | _ \<Rightarrow> Inl no_reply))"

definition xkube_call :: "request \<Rightarrow> (XKube go \<Rightarrow> 'a proc) \<Rightarrow> 'a proc" where
  "xkube_call q k = Call q (\<lambda>r. k (case r of GotXKube x \<Rightarrow> x | _ \<Rightarrow> Inl no_reply))"

definition xinstance_call :: "request \<Rightarrow> (XInstance go \<Rightarrow> 'a proc) \<Rightarrow> 'a proc" where
  "xinstance_call q k = Call q (\<lambda>r. k (case r of GotXInstance x \<Rightarrow> x | _ \<Rightarrow> Inl no_reply))"

definition write_call :: "request \<Rightarrow> (unit go \<Rightarrow> 'a proc) \<Rightarrow> 'a proc" where
  "write_call q k = Call q (\<lambda>r. k (case r of Written x \<Rightarrow> x | _ \<Rightarrow> Inl no_reply))"

text \<open>\<open>if err != nil { return err }\<close> on the outcome of a function that makes calls.\<close>

definition on_ok :: "'a go proc \<Rightarrow> ('a \<Rightarrow> 'b go proc) \<Rightarrow> 'b go proc" where
  "on_ok p f = bind_prog p (\<lambda>r. case r of Inl e \<Rightarrow> Return (Inl e) | Inr x \<Rightarrow> f x)"

section \<open>The policies\<close>

text \<open>\<open>ctrl.Result{}\<close> and \<open>ctrl.Result{Requeue: true}\<close>.\<close>

datatype outcome = Settled | Requeue

text \<open>
  \<open>pv_retry\<close> is \<open>retry.RetryOnConflict\<close> with its back-off, a function of \<open>client-go\<close>;
  \<open>pv_owner_ref\<close> the outcome of \<open>ctrl.SetControllerReference\<close> for an owner and an object's owners.
\<close>

record policy_env =
  pv_retry :: "unit go proc \<Rightarrow> unit go proc"
  pv_owner_ref :: "string \<times> string \<Rightarrow> (string \<times> string) list \<Rightarrow> (string \<times> string) list go"

definition patch_ref :: "TaskObject \<Rightarrow> TaskObject \<Rightarrow> unit go proc" where
  "patch_ref orig ilp =
     write_call (PatchTask (toNs ilp, toName ilp) (merge_from orig ilp)) (\<lambda>r. case r of
       Inl err \<Rightarrow> Return (if is_conflict err then Inr () else Inl err)
     | Inr _ \<Rightarrow> Return (Inr ()))"

definition dataflow_updateILPTaskRef :: "TaskObject \<Rightarrow> string \<Rightarrow> string \<Rightarrow> unit go proc" where
  "dataflow_updateILPTaskRef ilp name ver =
     patch_ref ilp (ilp\<lparr>toDataflow := \<lparr>rfName = name, rfVersion = ver\<rparr>\<rparr>)"

definition deployment_updateILPTaskRef :: "TaskObject \<Rightarrow> string \<Rightarrow> string \<Rightarrow> unit go proc" where
  "deployment_updateILPTaskRef ilp name ver =
     patch_ref ilp (ilp\<lparr>toDeployment := \<lparr>rfName = name, rfVersion = ver\<rparr>\<rparr>)"

text \<open>The first part of both handlers: the task is made, or its reference set. \<open>True\<close>: requeue.\<close>

definition create_task :: "policy_env \<Rightarrow> string \<times> string \<Rightarrow> TaskObject \<Rightarrow> bool go proc" where
  "create_task E owner newILP =
     (case pv_owner_ref E owner (toOwners newILP) of
        Inl err \<Rightarrow> Return (Inl err)
      | Inr owners \<Rightarrow>
          write_call (CreateTask (newILP\<lparr>toOwners := owners\<rparr>)) (\<lambda>r. case r of
            Inl err \<Rightarrow> if is_already_exists err then Return (Inr True) else Return (Inl err)
          | Inr _ \<Rightarrow> Return (Inr False)))"

definition dataflow_first :: "policy_env \<Rightarrow> DataflowObject \<Rightarrow> bool go proc" where
  "dataflow_first E df =
     task_call (GetTask (dfNs df, dfName df)) (\<lambda>r. case r of
       Inl err \<Rightarrow>
         if is_not_found err then
           create_task E (''DataflowPolicy'', dfName df)
             \<lparr>toName = dfName df, toNs = dfNs df, toOwners = [],
              toDataflow = \<lparr>rfName = dfName df, rfVersion = dfResourceVersion df\<rparr>, toDeployment = no_ref\<rparr>
         else Return (Inl err)
     | Inr ilp \<Rightarrow> on_ok (dataflow_updateILPTaskRef ilp (dfName df) (dfResourceVersion df)) (\<lambda>_. Return (Inr False)))"

definition DataflowReconcile :: "policy_env \<Rightarrow> string \<Rightarrow> string \<Rightarrow> outcome go proc" where
  "DataflowReconcile E ns name =
     df_call (GetDf (ns, name)) (\<lambda>r. case r of
       Inl err \<Rightarrow> Return (if is_not_found err then Inr Settled else Inl err)
     | Inr df \<Rightarrow>
         on_ok (dataflow_first E df) (\<lambda>requeue.
           if requeue then Return (Inr Requeue)
           else
             on_ok (pv_retry E
                 (task_call (GetTask (ns, name)) (\<lambda>r. case r of
                    Inl err \<Rightarrow> Return (Inl err)
                  | Inr curILP \<Rightarrow> dataflow_updateILPTaskRef curILP (dfName df) (dfResourceVersion df))))
               (\<lambda>_. Return (Inr Settled))))"

definition deployment_first :: "policy_env \<Rightarrow> DeploymentObject \<Rightarrow> bool go proc" where
  "deployment_first E dp =
     task_call (GetTask (depNs dp, depName dp)) (\<lambda>r. case r of
       Inl err \<Rightarrow>
         if is_not_found err then
           create_task E (''DeploymentPolicy'', depName dp)
             \<lparr>toName = depName dp, toNs = depNs dp, toOwners = [], toDataflow = no_ref,
              toDeployment = \<lparr>rfName = depName dp, rfVersion = depResourceVersion dp\<rparr>\<rparr>
         else Return (Inl err)
     | Inr ilp \<Rightarrow> on_ok (deployment_updateILPTaskRef ilp (depName dp) (depResourceVersion dp)) (\<lambda>_. Return (Inr False)))"

definition DeploymentReconcile :: "policy_env \<Rightarrow> string \<Rightarrow> string \<Rightarrow> outcome go proc" where
  "DeploymentReconcile E ns name =
     dp_call (GetDp (ns, name)) (\<lambda>r. case r of
       Inl err \<Rightarrow> Return (if is_not_found err then Inr Settled else Inl err)
     | Inr dp \<Rightarrow>
         on_ok (deployment_first E dp) (\<lambda>requeue.
           if requeue then Return (Inr Requeue)
           else
             on_ok (pv_retry E
                 (task_call (GetTask (ns, name)) (\<lambda>r. case r of
                    Inl err \<Rightarrow> Return (Inl err)
                  | Inr curILP \<Rightarrow> deployment_updateILPTaskRef curILP (depName dp) (depResourceVersion dp))))
               (\<lambda>_. Return (Inr Settled))))"

section \<open>Clusters and instances\<close>

text \<open>\<open>json.Marshal\<close> of a flavor: empty strings, zero and \<open>false\<close> are left out, a struct is not.\<close>

definition str_field :: "string \<Rightarrow> string \<Rightarrow> (string \<times> any) list" where
  "str_field k v = (if v = [] then [] else [(k, AStr v)])"

definition marshal_gpu :: "GPU \<Rightarrow> any" where
  "marshal_gpu g = AMap
     ((if gEnabled g then [(''enabled'', ABool True)] else []) @ str_field ''manufacturer'' (gManufacturer g) @
      (if gCount g = 0 then [] else [(''count'', AInt (gCount g))]) @
      str_field ''model'' (gModel g) @ str_field ''unit'' (gUnit g) @ str_field ''memory'' (gMemory g))"

definition marshal_flavor :: "ComputeFlavor \<Rightarrow> any" where
  "marshal_flavor f = AMap (str_field ''vcpus'' (cfVCPUs f) @ str_field ''ram'' (cfRAM f) @ [(''gpu'', marshal_gpu (cfGPU f))])"

definition compute_selector :: "ComputeFlavor \<Rightarrow> PolicyVirtualService" where
  "compute_selector f = \<lparr>pvName = [], pvKind = ''ComputeProfile'', pvSpec = Some (Some (marshal_flavor f)), pvCount = 1\<rparr>"

definition permitted :: "ProviderRefSpec \<Rightarrow> LocationConstraint" where
  "permitted p = \<lparr>lcRequired = [], lcPermitted = (if prPlatform p \<noteq> [] then [p] else [])\<rparr>"

definition service_labels :: "string \<Rightarrow> string gomap" where
  "service_labels appID = [(''skycluster.io/app-id'', appID), (''skycluster.io/app-scope'', ''distributed'')]"

text \<open>A policy that exists: its label and its owner, and whether it needs the update.\<close>

definition ensure_meta ::
  "policy_env \<Rightarrow> string \<times> string \<Rightarrow> string \<Rightarrow> string gomap \<Rightarrow> (string \<times> string) list \<Rightarrow> string gomap \<times> (string \<times> string) list \<times> bool" where
  "ensure_meta E owner appID labels owners =
     (let needsPatch = mstr labels ''skycluster.io/app-id'' \<noteq> appID;
          labels = (if needsPatch then mput ''skycluster.io/app-id'' appID labels else labels)
      in if length owners = 0 then
           (case pv_owner_ref E owner owners of
              Inl _ \<Rightarrow> (labels, owners, needsPatch)
            | Inr owners' \<Rightarrow> (labels, owners', True))
         else (labels, owners, needsPatch))"

text \<open>A create whose object is there by now is fine.\<close>

definition created :: "unit go \<Rightarrow> unit go proc" where
  "created r = Return (case r of Inl err \<Rightarrow> if is_already_exists err then Inr () else Inl err | Inr _ \<Rightarrow> Inr ())"

definition ensure_dp :: "policy_env \<Rightarrow> string \<times> string \<Rightarrow> string \<Rightarrow> string \<Rightarrow> string \<Rightarrow> string \<Rightarrow> DeploymentPolicyItem list \<Rightarrow> unit go proc" where
  "ensure_dp E owner ns name appID environment items =
     dp_call (GetDp (ns, name)) (\<lambda>r. case r of
       Inr dp \<Rightarrow>
         (case ensure_meta E owner appID (depLabels dp) (depOwners dp) of (labels, owners, needsPatch) \<Rightarrow>
            if needsPatch then write_call (UpdateDp (dp\<lparr>depLabels := labels, depOwners := owners\<rparr>)) Return
            else Return (Inr ()))
     | Inl err \<Rightarrow>
         if \<not> is_not_found err then Return (Inl err)
         else
           (case pv_owner_ref E owner [] of
              Inl err \<Rightarrow> Return (Inl err)
            | Inr owners \<Rightarrow>
                write_call (CreateDp \<lparr>depName = name, depNs = ns, depResourceVersion = [], depLabels = service_labels appID,
                    depExecutionEnvironment = environment, depPolicies = items, depOwners = owners\<rparr>) created))"

definition ensure_df :: "policy_env \<Rightarrow> string \<times> string \<Rightarrow> string \<Rightarrow> string \<Rightarrow> string \<Rightarrow> unit go proc" where
  "ensure_df E owner ns name appID =
     df_call (GetDf (ns, name)) (\<lambda>r. case r of
       Inr df \<Rightarrow>
         (case ensure_meta E owner appID (dfLabels df) (dfOwners df) of (labels, owners, needsPatch) \<Rightarrow>
            if needsPatch then write_call (UpdateDf (df\<lparr>dfLabels := labels, dfOwners := owners\<rparr>)) Return
            else Return (Inr ()))
     | Inl err \<Rightarrow>
         if \<not> is_not_found err then Return (Inl err)
         else
           (case pv_owner_ref E owner [] of
              Inl err \<Rightarrow> Return (Inl err)
            | Inr owners \<Rightarrow>
                write_call (CreateDf \<lparr>dfName = name, dfResourceVersion = [], dfLabels = service_labels appID,
                    dfDataDependencies = [], dfNs = ns, dfOwners = owners\<rparr>) created))"

text \<open>One component per node group, its instance types the alternatives.\<close>

definition xkube_items :: "XKube \<Rightarrow> DeploymentPolicyItem list" where
  "xkube_items owner =
     map (\<lambda>(i, nodeGroup).
         \<lparr>dpComponentRef = \<lparr>crAPIVersion = ''svc.skycluster.io/v1alpha1'', crKind = ''XNodeGroup'',
                            crName = xkName owner @ ''-'' @ nat_dec i, crNamespace = xkNs owner\<rparr>,
          dpVirtualServiceConstraint =
            (let anyOfSelectors = map compute_selector nodeGroup in if length anyOfSelectors > 0 then [anyOfSelectors] else []),
          dpLocationConstraint = permitted (xkProviderRef owner)\<rparr>)
       (enumerate 0 (xkNodeGroups owner))"

definition xkube_ensureDeploymentPolicy :: "policy_env \<Rightarrow> XKube \<Rightarrow> string \<Rightarrow> string \<Rightarrow> unit go proc" where
  "xkube_ensureDeploymentPolicy E owner name appID =
     ensure_dp E (''XKube'', xkName owner) (xkNs owner) name appID ''Kubernetes'' (xkube_items owner)"

definition xkube_ensureDataflowPolicy :: "policy_env \<Rightarrow> XKube \<Rightarrow> string \<Rightarrow> string \<Rightarrow> unit go proc" where
  "xkube_ensureDataflowPolicy E owner name appID = ensure_df E (''XKube'', xkName owner) (xkNs owner) name appID"

definition XKubeReconcile :: "policy_env \<Rightarrow> string \<Rightarrow> string \<Rightarrow> outcome go proc" where
  "XKubeReconcile E ns name =
     xkube_call (GetXKube (ns, name)) (\<lambda>r. case r of
       Inl err \<Rightarrow> Return (if is_not_found err then Inr Settled else Inl err)
     | Inr xk \<Rightarrow>
         if xkDeleting xk then Return (Inr Settled)
         else
           (let appID = xkApplicationID xk
            in on_ok (xkube_ensureDeploymentPolicy E xk (xkName xk) appID) (\<lambda>_.
               on_ok (xkube_ensureDataflowPolicy E xk (xkName xk) appID) (\<lambda>_.
                 Return (Inr Settled)))))"

text \<open>Of the flavor of an instance only the fields of a request are kept.\<close>

definition request_flavor :: "ComputeFlavor \<Rightarrow> ComputeFlavor" where
  "request_flavor f = \<lparr>cfVCPUs = cfVCPUs f, cfRAM = cfRAM f,
     cfGPU = zeroGPU\<lparr>gModel := gModel (cfGPU f), gUnit := gUnit (cfGPU f), gMemory := gMemory (cfGPU f)\<rparr>\<rparr>"

definition xinstance_items :: "XInstance \<Rightarrow> DeploymentPolicyItem list" where
  "xinstance_items owner =
     [\<lparr>dpComponentRef = \<lparr>crAPIVersion = ''skycluster.io/v1alpha1'', crKind = ''XInstance'', crName = xnName owner, crNamespace = []\<rparr>,
       dpVirtualServiceConstraint = [[compute_selector (request_flavor (xnFlavor owner))]],
       dpLocationConstraint = permitted (xnProviderRef owner)\<rparr>]"

definition xinstance_ensureDeploymentPolicy :: "policy_env \<Rightarrow> XInstance \<Rightarrow> string \<Rightarrow> string \<Rightarrow> unit go proc" where
  "xinstance_ensureDeploymentPolicy E owner name appID =
     ensure_dp E (''XInstance'', xnName owner) (xnNs owner) name appID ''VirtualMachine'' (xinstance_items owner)"

definition xinstance_ensureDataflowPolicy :: "policy_env \<Rightarrow> XInstance \<Rightarrow> string \<Rightarrow> string \<Rightarrow> unit go proc" where
  "xinstance_ensureDataflowPolicy E owner name appID = ensure_df E (''XInstance'', xnName owner) (xnNs owner) name appID"

definition XInstanceReconcile :: "policy_env \<Rightarrow> string \<Rightarrow> string \<Rightarrow> outcome go proc" where
  "XInstanceReconcile E ns name =
     xinstance_call (GetXInstance (ns, name)) (\<lambda>r. case r of
       Inl err \<Rightarrow> Return (if is_not_found err then Inr Settled else Inl err)
     | Inr xi \<Rightarrow>
         if xnDeleting xi then Return (Inr Settled)
         else
           (let appID = xnApplicationID xi
            in on_ok (xinstance_ensureDeploymentPolicy E xi (xnName xi) appID) (\<lambda>_.
               on_ok (xinstance_ensureDataflowPolicy E xi (xnName xi) appID) (\<lambda>_.
                 Return (Inr Settled)))))"

end
