(* ===== verification/PolicyRuns.thy ===== *)
theory PolicyRuns
  imports Policies
begin

text \<open>
  The two policy reconcilers at the same time. Each keeps what the other relies on: a patch carries only the
  fields that differ, so that neither loses the reference of the other. \<open>policy_side\<close> is the argument for one
  reconciler, interpreted for both; \<open>meet\<close> interprets the interleaving of \<open>Interleaving\<close> for the two.
\<close>

section \<open>What each reconciler keeps\<close>

definition wf_cluster :: "cluster \<Rightarrow> bool" where
  "wf_cluster cl \<longleftrightarrow>
     (\<forall>k t. clTask cl k = Some t \<longrightarrow> (toNs t, toName t) = k) \<and>
     (\<forall>k df. clDf cl k = Some df \<longrightarrow> (dfNs df, dfName df) = k) \<and>
     (\<forall>k dp. clDp cl k = Some dp \<longrightarrow> (depNs dp, depName dp) = k)"

definition keeps_task :: "(TaskObject \<Rightarrow> PolicyRef) \<Rightarrow> key \<Rightarrow> cluster \<Rightarrow> cluster \<Rightarrow> bool" where
  "keeps_task ref k s s' \<longleftrightarrow> (\<forall>t. clTask s k = Some t \<longrightarrow> (\<exists>t'. clTask s' k = Some t' \<and> ref t' = ref t))"

definition df_rely :: "key \<Rightarrow> cluster \<Rightarrow> cluster \<Rightarrow> bool" where
  "df_rely k s s' \<longleftrightarrow> (wf_cluster s \<longrightarrow> wf_cluster s') \<and> clDf s' k = clDf s k \<and> keeps_task toDataflow k s s'"

definition dp_rely :: "key \<Rightarrow> cluster \<Rightarrow> cluster \<Rightarrow> bool" where
  "dp_rely k s s' \<longleftrightarrow> (wf_cluster s \<longrightarrow> wf_cluster s') \<and> clDp s' k = clDp s k \<and> keeps_task toDeployment k s s'"

text \<open>Everybody else: both policies stay as they are and the task keeps its references.\<close>

definition others :: "key \<Rightarrow> cluster \<Rightarrow> cluster \<Rightarrow> bool" where
  "others k s s' \<longleftrightarrow> df_rely k s s' \<and> dp_rely k s s'"

text \<open>The faults: an error of a class the server's own answers have is not one.\<close>

definition honest :: "fault \<Rightarrow> bool" where
  "honest f \<longleftrightarrow> (case f of Answered \<Rightarrow> True
     | Refused e \<Rightarrow> \<not> is_conflict e \<and> \<not> is_not_found e \<and> \<not> is_already_exists e
     | Lost e \<Rightarrow> \<not> is_conflict e \<and> \<not> is_not_found e \<and> \<not> is_already_exists e)"

definition retry_law :: "policy_env \<Rightarrow> bool" where
  "retry_law E \<longleftrightarrow> (\<forall>p. \<exists>n. pv_retry E p = attempts is_conflict n p)"

lemma wf_clusterD:
  "wf_cluster cl \<Longrightarrow> clTask cl k = Some t \<Longrightarrow> (toNs t, toName t) = k"
  "wf_cluster cl \<Longrightarrow> clDf cl k = Some df \<Longrightarrow> (dfNs df, dfName df) = k"
  "wf_cluster cl \<Longrightarrow> clDp cl k = Some dp \<Longrightarrow> (depNs dp, depName dp) = k"
  unfolding wf_cluster_def by blast+

lemma keeps_task_refl [simp]: "keeps_task ref k s s"
  by (simp add: keeps_task_def)

lemma keeps_task_trans: "keeps_task ref k a b \<Longrightarrow> keeps_task ref k b c \<Longrightarrow> keeps_task ref k a c"
  unfolding keeps_task_def by metis

lemma rely_refl [simp]: "df_rely k s s" "dp_rely k s s"
  by (simp_all add: df_rely_def dp_rely_def)

lemma df_rely_trans: "df_rely k a b \<Longrightarrow> df_rely k b c \<Longrightarrow> df_rely k a c"
  unfolding df_rely_def by (metis keeps_task_trans)

lemma dp_rely_trans: "dp_rely k a b \<Longrightarrow> dp_rely k b c \<Longrightarrow> dp_rely k a c"
  unfolding dp_rely_def by (metis keeps_task_trans)

abbreviation policy_rely :: "key \<Rightarrow> nat \<Rightarrow> cluster \<Rightarrow> cluster \<Rightarrow> bool" where
  "policy_rely k i s s' \<equiv> i = 0 \<and> df_rely k s s' \<or> i = 1 \<and> dp_rely k s s' \<or> i \<ge> 2"

abbreviation policy_guarantee :: "key \<Rightarrow> nat \<Rightarrow> cluster \<Rightarrow> cluster \<Rightarrow> bool" where
  "policy_guarantee k i s s' \<equiv> i = 0 \<and> dp_rely k s s' \<or> i = 1 \<and> df_rely k s s'"

interpretation meet: interference serve honest "policy_rely k" "policy_guarantee k" "others k" for k
  by unfold_locales (auto simp: others_def intro: df_rely_trans dp_rely_trans)

section \<open>The calls\<close>

lemma merge_from_simps [simp]:
  "tpDeploymentName (merge_from t (t\<lparr>toDataflow := r\<rparr>)) = None"
  "tpDeploymentVersion (merge_from t (t\<lparr>toDataflow := r\<rparr>)) = None"
  "tpDataflowName (merge_from t (t\<lparr>toDeployment := r\<rparr>)) = None"
  "tpDataflowVersion (merge_from t (t\<lparr>toDeployment := r\<rparr>)) = None"
  by (simp_all add: merge_from_def diff_def)

lemma patched_None [simp]: "patched None x = x"
  by (simp add: patched_def)

lemma patched_diff: "old = old' \<Longrightarrow> patched (diff old new) old' = new"
  by (simp add: patched_def diff_def)

lemma apply_patch_keeps [simp]:
  "toDeployment (apply_patch (merge_from t (t\<lparr>toDataflow := r\<rparr>)) u) = toDeployment u"
  "toDataflow (apply_patch (merge_from t (t\<lparr>toDeployment := r\<rparr>)) u) = toDataflow u"
  "toNs (apply_patch p u) = toNs u" "toName (apply_patch p u) = toName u"
  by (simp_all add: apply_patch_def)

lemma apply_patch_sets:
  "toDataflow u = toDataflow t \<Longrightarrow> toDataflow (apply_patch (merge_from t (t\<lparr>toDataflow := r\<rparr>)) u) = r"
  "toDeployment u = toDeployment t \<Longrightarrow> toDeployment (apply_patch (merge_from t (t\<lparr>toDeployment := r\<rparr>)) u) = r"
  by (simp_all add: apply_patch_def merge_from_def patched_diff)

lemmas serve_simps = write_go_def get_go_def exists_err_def stale_err_def

lemma create_task_keeps: "df_rely k s (fst (serve s f (CreateTask t)))" "dp_rely k s (fst (serve s f (CreateTask t)))"
  by (auto simp: df_rely_def dp_rely_def keeps_task_def wf_cluster_def serve_simps Let_def split: fault.splits option.splits)

lemma patch_keeps_deployment:
  "dp_rely k s (fst (serve s f (PatchTask k' (merge_from t (t\<lparr>toDataflow := r\<rparr>)))))"
  by (auto simp: dp_rely_def keeps_task_def wf_cluster_def serve_simps split: fault.splits option.splits)

lemma patch_keeps_dataflow:
  "df_rely k s (fst (serve s f (PatchTask k' (merge_from t (t\<lparr>toDeployment := r\<rparr>)))))"
  by (auto simp: df_rely_def keeps_task_def wf_cluster_def serve_simps split: fault.splits option.splits)

lemma holds_on_ok:
  assumes "holds serve ok R G P p s" and "\<And>x s. P (Inr x) s \<Longrightarrow> holds serve ok R G Q (f x) s"
    and "\<And>e s s'. P (Inl e) s \<Longrightarrow> R s s' \<Longrightarrow> Q (Inl e) s'" and "\<And>s. R s s"
  shows "holds serve ok R G Q (on_ok p f) s"
  unfolding on_ok_def by (rule holds_bind [OF assms(1)]) (auto simp: assms split: sum.split)

lemma holds_retry:
  assumes "retry_law E" and "\<And>s. I s \<Longrightarrow> holds serve ok R G Q p s" and "\<And>a s. Q a s \<Longrightarrow> I s"
    and "\<And>s. R s s" and "\<And>a s s'. Q a s \<Longrightarrow> R s s' \<Longrightarrow> Q a s'" and "I s"
  shows "holds serve ok R G Q (pv_retry E p) s"
proof -
  from assms(1) obtain n where n: "pv_retry E p = attempts is_conflict n p" unfolding retry_law_def by blast
  show ?thesis unfolding n by (rule holds_attempts [where I = I]) (use assms in auto)
qed

section \<open>The reconciler of one policy\<close>

text \<open>
  What the two reconcilers share: \<open>ready\<close>, the policy is the one that was read; \<open>stays\<close>, the task
  has its reference; \<open>upd\<close>, the patch of the reference.
\<close>

locale policy_side =
  fixes R G :: "key \<Rightarrow> cluster \<Rightarrow> cluster \<Rightarrow> bool" and ready stays :: "key \<Rightarrow> 'p \<Rightarrow> cluster \<Rightarrow> bool"
    and upd :: "'p \<Rightarrow> TaskObject \<Rightarrow> unit go proc"
  assumes refl: "R k s s" "G k s s"
    and ready_rely: "ready k p s \<Longrightarrow> R k s s' \<Longrightarrow> ready k p s'"
    and stays_rely: "stays k p s \<Longrightarrow> R k s s' \<Longrightarrow> stays k p s'"
    and create: "R k s (fst (serve s f (CreateTask t)))" "G k s (fst (serve s f (CreateTask t)))"
    and patch: "ready k p s \<Longrightarrow> clTask s k = Some t \<Longrightarrow>
      holds serve honest (R k) (G k) (\<lambda>a s. ready k p s \<and> (a = Inr () \<longrightarrow> stays k p s)) (upd p t) s"
begin

abbreviation side_holds :: "key \<Rightarrow> ('a \<Rightarrow> cluster \<Rightarrow> bool) \<Rightarrow> 'a proc \<Rightarrow> cluster \<Rightarrow> bool" where
  "side_holds k \<equiv> holds serve honest (R k) (G k)"

lemma task_call_holds:
  assumes "\<And>s' r. R k s s' \<Longrightarrow> (\<And>t. r = Inr t \<Longrightarrow> clTask s' kt = Some t) \<Longrightarrow> side_holds k Q (g r) s'"
  shows "side_holds k Q (task_call (GetTask kt) g) s"
  unfolding task_call_def holds.simps
proof (intro allI impI conjI)
  fix s' f assume r: "R k s s'"
  show "G k s' (fst (serve s' f (GetTask kt)))" by (simp add: refl)
  show "side_holds k Q (g (case snd (serve s' f (GetTask kt)) of GotTask x \<Rightarrow> x | _ \<Rightarrow> Inl no_reply)) (fst (serve s' f (GetTask kt)))"
    using assms [OF r, of "get_go f (clTask s' kt)"] by (auto simp: get_go_def split: fault.splits option.splits)
qed

lemma create_holds:
  assumes "ready k p s"
  shows "side_holds k (\<lambda>a. ready k p) (create_task E owner t) s"
proof (cases "pv_owner_ref E owner (toOwners t)")
  case (Inl e)
  then show ?thesis using assms by (auto simp: create_task_def intro: ready_rely)
next
  case (Inr owners)
  have "ready k p (fst (serve a f (CreateTask t)))" if "R k s a" for a f t
    by (rule ready_rely [OF ready_rely [OF assms that]]) (rule create)
  with Inr show ?thesis
    by (auto simp del: serve.simps simp: create_task_def write_call_def create intro: ready_rely split: sum.split)
qed

lemma first_holds:
  assumes "ready k p s"
  shows "side_holds k (\<lambda>a. ready k p) (task_call (GetTask k) (\<lambda>r. case r of
      Inl err \<Rightarrow> if is_not_found err then create_task E owner t else Return (Inl err)
    | Inr ilp \<Rightarrow> on_ok (upd p ilp) (\<lambda>_. Return (Inr False)))) s"
proof (rule task_call_holds)
  fix s' and r :: "TaskObject go" assume r: "R k s s'" and t: "\<And>t. r = Inr t \<Longrightarrow> clTask s' k = Some t"
  have s': "ready k p s'" by (rule ready_rely [OF assms r])
  show "side_holds k (\<lambda>a. ready k p) (case r of
      Inl err \<Rightarrow> if is_not_found err then create_task E owner t else Return (Inl err)
    | Inr ilp \<Rightarrow> on_ok (upd p ilp) (\<lambda>_. Return (Inr False))) s'"
  proof (cases r)
    case (Inl e)
    then show ?thesis using s' create_holds [OF s'] by (auto intro: ready_rely)
  next
    case (Inr ilp)
    show ?thesis unfolding Inr sum.case
      by (rule holds_on_ok [OF patch [OF s' t [OF Inr]]]) (auto simp: refl intro: ready_rely)
  qed
qed

lemma body_holds:
  assumes "ready k p s"
  shows "side_holds k (\<lambda>a s. ready k p s \<and> (a = Inr () \<longrightarrow> stays k p s))
    (task_call (GetTask k) (\<lambda>r. case r of Inl err \<Rightarrow> Return (Inl err) | Inr curILP \<Rightarrow> upd p curILP)) s"
proof (rule task_call_holds)
  fix s' and r :: "TaskObject go" assume r: "R k s s'" and t: "\<And>t. r = Inr t \<Longrightarrow> clTask s' k = Some t"
  have s': "ready k p s'" by (rule ready_rely [OF assms r])
  show "side_holds k (\<lambda>a s. ready k p s \<and> (a = Inr () \<longrightarrow> stays k p s))
    (case r of Inl err \<Rightarrow> Return (Inl err) | Inr curILP \<Rightarrow> upd p curILP) s'"
  proof (cases r)
    case (Inr ilp)
    show ?thesis unfolding Inr sum.case by (rule patch [OF s' t [OF Inr]])
  qed (use s' in \<open>auto intro: ready_rely\<close>)
qed

lemma reconcile_holds:
  assumes "ready k p s" and "retry_law E"
  shows "side_holds k (\<lambda>a s. a = Inr Settled \<longrightarrow> ready k p s \<and> stays k p s)
    (on_ok (task_call (GetTask k) (\<lambda>r. case r of
        Inl err \<Rightarrow> if is_not_found err then create_task E owner t else Return (Inl err)
      | Inr ilp \<Rightarrow> on_ok (upd p ilp) (\<lambda>_. Return (Inr False)))) (\<lambda>requeue.
      if requeue then Return (Inr Requeue)
      else on_ok (pv_retry E (task_call (GetTask k) (\<lambda>r. case r of Inl err \<Rightarrow> Return (Inl err) | Inr curILP \<Rightarrow> upd p curILP)))
             (\<lambda>_. Return (Inr Settled)))) s" (is "side_holds k ?Q (on_ok ?first (\<lambda>requeue. if requeue then _ else on_ok ?body _)) s")
proof (rule holds_on_ok [OF first_holds [OF assms(1)]])
  let ?P = "\<lambda>a s. ready k p s \<and> (a = Inr () \<longrightarrow> stays k p s)"
  fix requeue u assume u: "ready k p u"
  have stable: "?P a b" if "?P a c" "R k c b" for a b c
    using that by (auto intro: ready_rely stays_rely)
  have "side_holds k ?P ?body u"
    by (rule holds_retry [OF assms(2), where I = "ready k p"]) (use u stable body_holds in \<open>auto simp: refl\<close>)
  then have "side_holds k ?Q (on_ok ?body (\<lambda>_. Return (Inr Settled))) u"
    by (rule holds_on_ok) (auto simp: refl intro: ready_rely stays_rely)
  then show "side_holds k ?Q (if requeue then Return (Inr Requeue) else on_ok ?body (\<lambda>_. Return (Inr Settled))) u"
    by (simp add: refl)
qed (auto simp: refl)

end

section \<open>The two sides\<close>

definition df_ready :: "key \<Rightarrow> DataflowObject \<Rightarrow> cluster \<Rightarrow> bool" where
  "df_ready k df s \<longleftrightarrow> wf_cluster s \<and> clDf s k = Some df"

definition df_done :: "key \<Rightarrow> DataflowObject \<Rightarrow> cluster \<Rightarrow> bool" where
  "df_done k df s \<longleftrightarrow> (\<exists>t. clTask s k = Some t \<and> toDataflow t = \<lparr>rfName = dfName df, rfVersion = dfResourceVersion df\<rparr>)"

definition dp_ready :: "key \<Rightarrow> DeploymentObject \<Rightarrow> cluster \<Rightarrow> bool" where
  "dp_ready k dp s \<longleftrightarrow> wf_cluster s \<and> clDp s k = Some dp"

definition dp_done :: "key \<Rightarrow> DeploymentObject \<Rightarrow> cluster \<Rightarrow> bool" where
  "dp_done k dp s \<longleftrightarrow> (\<exists>t. clTask s k = Some t \<and> toDeployment t = \<lparr>rfName = depName dp, rfVersion = depResourceVersion dp\<rparr>)"

text \<open>
  A patch computed from the task as it was read: the state may have moved since, within the rely.
\<close>

lemma patch_ref_holds:
  assumes upd: "ilp = t\<lparr>toDataflow := r\<rparr> \<and> R = df_rely k \<and> G = dp_rely k \<and> ref = toDataflow \<or>
      ilp = t\<lparr>toDeployment := r\<rparr> \<and> R = dp_rely k \<and> G = df_rely k \<and> ref = toDeployment"
    and key: "(toNs t, toName t) = k" and t: "clTask s k = Some t" and I: "I s"
    and stable: "\<And>s s'. I s \<Longrightarrow> R s s' \<Longrightarrow> I s'" and wr: "\<And>s f. I s \<Longrightarrow> I (fst (serve s f (PatchTask k (merge_from t ilp))))"
  shows "holds serve honest R G (\<lambda>a s. I s \<and> (a = Inr () \<longrightarrow> (\<exists>u. clTask s k = Some u \<and> ref u = r))) (patch_ref t ilp) s"
proof -
  have k: "(toNs ilp, toName ilp) = k" using upd key by auto
  let ?q = "PatchTask k (merge_from t ilp)"
  have G: "G s' (fst (serve s' f ?q))" for s' f
    using upd by (elim disjE) (simp_all del: serve.simps add: patch_keeps_deployment patch_keeps_dataflow)
  have keeps: "keeps_task ref k s s'" if "R s s'" for s s'
    using upd that by (auto simp: df_rely_def dp_rely_def)
  have kept: "\<exists>u. clTask s' k = Some u \<and> ref u = ref t" if "R s s'" for s'
    using keeps [OF that] t unfolding keeps_task_def by blast
  have kept': "\<exists>u. clTask s' k = Some u \<and> ref u = r" if "\<exists>u. clTask s k = Some u \<and> ref u = r" "R s s'" for s s'
    using keeps [OF that(2)] that(1) unfolding keeps_task_def by metis
  have set: "ref (apply_patch (merge_from t ilp) u) = r" if "ref u = ref t" for u
    using upd that by (elim disjE) (simp_all add: apply_patch_sets)
  show ?thesis unfolding patch_ref_def k write_call_def holds.simps
  proof (intro allI impI conjI)
    fix s' f assume r: "R s s'" and f: "honest f"
    show "G s' (fst (serve s' f ?q))" by (rule G)
    obtain u where u: "clTask s' k = Some u" "ref u = ref t" using kept [OF r] by blast
    have i: "I (fst (serve s' f ?q))" by (rule wr [OF stable [OF I r]])
    show "holds serve honest R G (\<lambda>a s. I s \<and> (a = Inr () \<longrightarrow> (\<exists>u. clTask s k = Some u \<and> ref u = r)))
      (case case snd (serve s' f ?q) of Written x \<Rightarrow> x | _ \<Rightarrow> Inl no_reply of
         Inl err \<Rightarrow> Return (if is_conflict err then Inr () else Inl err) | Inr _ \<Rightarrow> Return (Inr ()))
      (fst (serve s' f ?q))"
    proof (cases f)
      case Answered
      have "\<exists>u. clTask (fst (serve s' f ?q)) k = Some u \<and> ref u = r"
        using u set Answered by (simp add: write_go_def)
      moreover have "snd (serve s' f ?q) = Written (Inr ())" using u Answered by (simp add: write_go_def)
      ultimately show ?thesis using stable [OF i] kept' by (simp del: serve.simps)
    qed (use u f i stable in \<open>auto simp: honest_def write_go_def\<close>)
  qed
qed

lemma patch_keeps_ready:
  "df_ready k df s \<Longrightarrow> df_ready k df (fst (serve s f (PatchTask k' p)))"
  "dp_ready k dp s \<Longrightarrow> dp_ready k dp (fst (serve s f (PatchTask k' p)))"
  by (auto simp: df_ready_def dp_ready_def wf_cluster_def serve_simps split: fault.splits option.splits)

lemma df_ready_rely: "df_ready k df s \<Longrightarrow> df_rely k s s' \<Longrightarrow> df_ready k df s'"
  by (simp add: df_ready_def df_rely_def)

lemma dp_ready_rely: "dp_ready k dp s \<Longrightarrow> dp_rely k s s' \<Longrightarrow> dp_ready k dp s'"
  by (simp add: dp_ready_def dp_rely_def)

interpretation df_side: policy_side df_rely dp_rely df_ready df_done
  "\<lambda>df ilp. dataflow_updateILPTaskRef ilp (dfName df) (dfResourceVersion df)"
proof unfold_locales
  fix k df s s' assume "df_done k df s" "df_rely k s s'"
  then show "df_done k df s'" unfolding df_done_def df_rely_def keeps_task_def by fastforce
next
  fix k df s t assume r: "df_ready k df s" and t: "clTask s k = Some t"
  have k: "(toNs t, toName t) = k" using r t wf_clusterD(1) [of s k t] by (simp add: df_ready_def)
  show "holds serve honest (df_rely k) (dp_rely k) (\<lambda>a s. df_ready k df s \<and> (a = Inr () \<longrightarrow> df_done k df s))
      (dataflow_updateILPTaskRef t (dfName df) (dfResourceVersion df)) s"
    unfolding dataflow_updateILPTaskRef_def df_done_def
    by (rule patch_ref_holds [where I = "df_ready k df" and ref = toDataflow, OF _ k t r])
      (auto intro: df_ready_rely patch_keeps_ready simp del: serve.simps)
qed (auto intro: df_ready_rely create_task_keeps simp del: serve.simps)

interpretation dp_side: policy_side dp_rely df_rely dp_ready dp_done
  "\<lambda>dp ilp. deployment_updateILPTaskRef ilp (depName dp) (depResourceVersion dp)"
proof unfold_locales
  fix k dp s s' assume "dp_done k dp s" "dp_rely k s s'"
  then show "dp_done k dp s'" unfolding dp_done_def dp_rely_def keeps_task_def by fastforce
next
  fix k dp s t assume r: "dp_ready k dp s" and t: "clTask s k = Some t"
  have k: "(toNs t, toName t) = k" using r t wf_clusterD(1) [of s k t] by (simp add: dp_ready_def)
  show "holds serve honest (dp_rely k) (df_rely k) (\<lambda>a s. dp_ready k dp s \<and> (a = Inr () \<longrightarrow> dp_done k dp s))
      (deployment_updateILPTaskRef t (depName dp) (depResourceVersion dp)) s"
    unfolding deployment_updateILPTaskRef_def dp_done_def
    by (rule patch_ref_holds [where I = "dp_ready k dp" and ref = toDeployment, OF _ k t r])
      (auto intro: dp_ready_rely patch_keeps_ready simp del: serve.simps)
qed (auto intro: dp_ready_rely create_task_keeps simp del: serve.simps)

text \<open>Both reconcilers, from the read of the policy on.\<close>

lemma dataflow_reconcile_holds:
  assumes "df_ready (ns, n) df s" and "retry_law E"
  shows "holds serve honest (df_rely (ns, n)) (dp_rely (ns, n))
    (\<lambda>a s. a = Inr Settled \<longrightarrow> df_ready (ns, n) df s \<and> df_done (ns, n) df s) (DataflowReconcile E ns n) s"
proof -
  have k: "dfNs df = ns" "dfName df = n" using assms(1) wf_clusterD(2) [of s "(ns, n)" df] by (simp_all add: df_ready_def)
  show ?thesis
    unfolding DataflowReconcile_def df_call_def holds.simps dataflow_first_def
    using df_side.reconcile_holds [OF df_ready_rely [OF assms(1)] assms(2)] df_ready_rely [OF assms(1)] k
    by (auto simp: df_ready_def get_go_def honest_def split: fault.splits)
qed

lemma deployment_reconcile_holds:
  assumes "dp_ready (ns, n) dp s" and "retry_law E"
  shows "holds serve honest (dp_rely (ns, n)) (df_rely (ns, n))
    (\<lambda>a s. a = Inr Settled \<longrightarrow> dp_ready (ns, n) dp s \<and> dp_done (ns, n) dp s) (DeploymentReconcile E ns n) s"
proof -
  have k: "depNs dp = ns" "depName dp = n" using assms(1) wf_clusterD(3) [of s "(ns, n)" dp] by (simp_all add: dp_ready_def)
  show ?thesis
    unfolding DeploymentReconcile_def dp_call_def holds.simps deployment_first_def
    using dp_side.reconcile_holds [OF dp_ready_rely [OF assms(1)] assms(2)] dp_ready_rely [OF assms(1)] k
    by (auto simp: dp_ready_def get_go_def honest_def split: fault.splits)
qed

text \<open>C2: the two policies of a name meet in one task. The reconciler of the dataflow policy and that of the
  deployment policy run at the same time, their calls interleaved in any order, against a server
  that may fail any call before or after its effect, while everybody else keeps the two policies and
  the references of the task. Once both have returned without an error and without asking to run
  again, the task of that name exists and refers to both policies, at the versions they have.\<close>

theorem policies_meet:
  assumes "wf_cluster cl" and "clDf cl (ns, n) = Some df" and "clDp cl (ns, n) = Some dp"
    and "retry_law E" and "retry_law E'"
    and "allowed serve honest (others (ns, n)) ([DataflowReconcile E ns n, DeploymentReconcile E' ns n], cl) ms"
    and "foldl (advance serve) ([DataflowReconcile E ns n, DeploymentReconcile E' ns n], cl) ms = (ps, cl')"
    and "ps ! 0 = Return (Inr Settled)" and "ps ! 1 = Return (Inr Settled)"
  shows "\<exists>t. clTask cl' (ns, n) = Some t
      \<and> toDataflow t = \<lparr>rfName = n, rfVersion = dfResourceVersion df\<rparr>
      \<and> toDeployment t = \<lparr>rfName = n, rfVersion = depResourceVersion dp\<rparr>"
proof -
  let ?k = "(ns, n)" and ?ps = "[DataflowReconcile E ns n, DeploymentReconcile E' ns n]"
  let ?Q = "\<lambda>i a s. i = (0::nat) \<and> (a = Inr Settled \<longrightarrow> df_done ?k df s) \<or> i = 1 \<and> (a = Inr Settled \<longrightarrow> dp_done ?k dp s)"
  have h0: "holds serve honest (policy_rely ?k 0) (policy_guarantee ?k 0) (?Q 0) (?ps ! 0) cl"
    using holds_post [OF dataflow_reconcile_holds [of ns n df cl E]] assms(1,2,4) by (simp add: df_ready_def)
  have h1: "holds serve honest (policy_rely ?k 1) (policy_guarantee ?k 1) (?Q 1) (?ps ! 1) cl"
    using holds_post [OF deployment_reconcile_holds [of ns n dp cl E']] assms(1,3,5) by (simp add: dp_ready_def)
  have h: "\<forall>i<length ?ps. holds serve honest (policy_rely ?k i) (policy_guarantee ?k i) (?Q i) (?ps ! i) cl"
    using h0 h1 by (auto simp: less_Suc_eq)
  have "df_done ?k df cl'" using meet.interleaving_sound [OF h assms(6,7) _ assms(8)] by simp
  moreover have "dp_done ?k dp cl'" using meet.interleaving_sound [OF h assms(6,7) _ assms(9)] by simp
  moreover have "dfName df = n" "depName dp = n"
    using wf_clusterD [OF assms(1)] assms(2,3) by auto
  ultimately show ?thesis by (auto simp: df_done_def dp_done_def)
qed

definition ex_penv :: policy_env where
  "ex_penv = \<lparr>pv_retry = attempts is_conflict 3, pv_owner_ref = (\<lambda>owner owners. Inr (owners @ [owner]))\<rparr>"

definition ex_dfo :: DataflowObject where
  "ex_dfo = \<lparr>dfName = ''app'', dfResourceVersion = ''7'', dfLabels = [], dfDataDependencies = [], dfNs = ''ns'', dfOwners = []\<rparr>"

definition ex_dpo :: DeploymentObject where
  "ex_dpo = \<lparr>depName = ''app'', depNs = ''ns'', depResourceVersion = ''8'', depLabels = [], depExecutionEnvironment = ''Kubernetes'',
     depPolicies = [], depOwners = []\<rparr>"

definition ex_cluster :: cluster where
  "ex_cluster = \<lparr>clDf = [(''ns'', ''app'') \<mapsto> ex_dfo], clDp = [(''ns'', ''app'') \<mapsto> ex_dpo], clTask = Map.empty,
     clXKube = Map.empty, clXInstance = Map.empty, clRev = 8\<rparr>"

definition ex_system :: "(request, reply, outcome go, cluster) system" where
  "ex_system = ([DataflowReconcile ex_penv ''ns'' ''app'', DeploymentReconcile ex_penv ''ns'' ''app''], ex_cluster)"

text \<open>The dataflow side makes the task between the two reads of the other.\<close>

definition ex_moves :: "(fault, cluster) move list" where
  "ex_moves = map (\<lambda>i. Step i Answered) [0, 0, 1, 0, 1, 0, 1, 0, 1, 1]"

lemmas policy_eval = DataflowReconcile_def DeploymentReconcile_def dataflow_first_def deployment_first_def create_task_def
  dataflow_updateILPTaskRef_def deployment_updateILPTaskRef_def patch_ref_def df_call_def dp_call_def task_call_def
  write_call_def on_ok_def get_go_def write_go_def exists_err_def stale_err_def merge_from_def diff_def apply_patch_def patched_def no_ref_def

lemma ex_retry: "retry_law ex_penv"
  unfolding retry_law_def ex_penv_def by auto

lemma ex_wf: "wf_cluster ex_cluster"
  by (simp add: wf_cluster_def ex_cluster_def ex_dfo_def ex_dpo_def)

lemma ex_policy_run:
  "fst (foldl (advance serve) ex_system ex_moves) = [Return (Inr Settled), Return (Inr Settled)]"
  unfolding ex_system_def ex_moves_def
  by (simp add: policy_eval ex_penv_def ex_cluster_def ex_dfo_def ex_dpo_def numeral_eq_Suc)

theorem policies_meet_witness:
  "\<exists>t. clTask (snd (foldl (advance serve) ex_system ex_moves)) (''ns'', ''app'') = Some t
     \<and> toDataflow t = \<lparr>rfName = ''app'', rfVersion = ''7''\<rparr> \<and> toDeployment t = \<lparr>rfName = ''app'', rfVersion = ''8''\<rparr>"
proof -
  obtain ps cl' where r: "foldl (advance serve) ex_system ex_moves = (ps, cl')" by fastforce
  have a: "allowed serve honest (others (''ns'', ''app'')) ex_system ex_moves"
    unfolding ex_system_def ex_moves_def by (simp add: honest_def)
  have ps: "ps ! 0 = Return (Inr Settled)" "ps ! 1 = Return (Inr Settled)" using ex_policy_run r by auto
  from policies_meet [OF ex_wf _ _ ex_retry ex_retry a [unfolded ex_system_def] r [unfolded ex_system_def] ps, of ex_dfo ex_dpo]
  show ?thesis using r by (simp add: ex_cluster_def ex_dfo_def ex_dpo_def)
qed

text \<open>A patch that the server answers with a conflict is taken for done, so that the run ends without an
  error, is not retried, and the task keeps the old version.\<close>

lemma conflict_is_swallowed:
  "foldl (advance serve) ([DataflowReconcile ex_penv ''ns'' ''app''],
      ex_cluster\<lparr>clTask := [(''ns'', ''app'') \<mapsto> \<lparr>toName = ''app'', toNs = ''ns'', toOwners = [],
        toDataflow = \<lparr>rfName = ''app'', rfVersion = ''6''\<rparr>, toDeployment = no_ref\<rparr>]\<rparr>)
     (map (Step 0) [Answered, Answered, Refused (ErrConflict []), Answered, Refused (ErrConflict [])])
   = ([Return (Inr Settled)], ex_cluster\<lparr>clTask := [(''ns'', ''app'') \<mapsto> \<lparr>toName = ''app'', toNs = ''ns'', toOwners = [],
        toDataflow = \<lparr>rfName = ''app'', rfVersion = ''6''\<rparr>, toDeployment = no_ref\<rparr>]\<rparr>)"
  by (simp add: policy_eval ex_penv_def ex_cluster_def ex_dfo_def numeral_eq_Suc)

end
