(* ===== verification/Pipeline.thy ===== *)
theory Pipeline
  imports PolicyRuns
begin

text \<open>
  The reconcilers run one after the other against a server that answers: from an \<open>XKube\<close> to its two policies
  and from these to the optimisation task. \<open>only_dp\<close>, \<open>only_df\<close> and \<open>only_task\<close> say what a run leaves alone.
\<close>

section \<open>From a cluster to its task\<close>

abbreviation answered :: "cluster \<Rightarrow> request \<Rightarrow> cluster \<times> reply" where
  "answered cl q \<equiv> serve cl Answered q"

text \<open>\<open>ctrl.SetControllerReference\<close> on an object without owners of the same namespace.\<close>

definition owner_law :: "policy_env \<Rightarrow> bool" where
  "owner_law E \<longleftrightarrow> (\<forall>owner. pv_owner_ref E owner [] = Inr [owner])"

lemma owner_lawD [simp]: "owner_law E \<Longrightarrow> pv_owner_ref E owner [] = Inr [owner]"
  unfolding owner_law_def by blast

lemma exec_on_ok:
  "exec answer (on_ok p f) s = (case exec answer p s of (Inl e, s') \<Rightarrow> (Inl e, s') | (Inr x, s') \<Rightarrow> exec answer (f x) s')"
  by (auto simp: on_ok_def exec_bind split: prod.splits sum.splits)

lemma exec_retry:
  "retry_law E \<Longrightarrow> exec answer p s = (Inr x, s') \<Longrightarrow> exec answer (pv_retry E p) s = (Inr x, s')"
  unfolding retry_law_def using exec_attempts by metis

definition labelled :: "string \<Rightarrow> string gomap \<Rightarrow> (string \<times> string) list \<Rightarrow> bool" where
  "labelled appID labels owners \<longleftrightarrow> mstr labels ''skycluster.io/app-id'' = appID \<and> owners \<noteq> []"

lemma ensure_meta_labelled:
  "owner_law E \<Longrightarrow> ensure_meta E owner appID labels owners = (labels', owners', b) \<Longrightarrow> labelled appID labels' owners'"
  "owner_law E \<Longrightarrow> ensure_meta E owner appID labels owners = (labels', owners', False) \<Longrightarrow> labels' = labels \<and> owners' = owners"
  by (auto simp: ensure_meta_def labelled_def mstr_def Let_def split: if_splits)

lemma ensure_meta_settled:
  "labelled appID labels owners \<Longrightarrow> ensure_meta E owner appID labels owners = (labels, owners, False)"
  by (simp add: ensure_meta_def labelled_def)

definition only_dp :: "key \<Rightarrow> cluster \<Rightarrow> cluster \<Rightarrow> bool" where
  "only_dp k s s' \<longleftrightarrow> (\<forall>k'. k' \<noteq> k \<longrightarrow> clDp s' k' = clDp s k') \<and> clDf s' = clDf s \<and> clTask s' = clTask s
     \<and> clXKube s' = clXKube s \<and> clXInstance s' = clXInstance s \<and> (wf_cluster s \<longrightarrow> wf_cluster s')"

definition only_df :: "key \<Rightarrow> cluster \<Rightarrow> cluster \<Rightarrow> bool" where
  "only_df k s s' \<longleftrightarrow> (\<forall>k'. k' \<noteq> k \<longrightarrow> clDf s' k' = clDf s k') \<and> clDp s' = clDp s \<and> clTask s' = clTask s
     \<and> clXKube s' = clXKube s \<and> clXInstance s' = clXInstance s \<and> (wf_cluster s \<longrightarrow> wf_cluster s')"

lemma ensure_dp_exec:
  assumes wf: "wf_cluster s" and E: "owner_law E"
  obtains s' dp where "exec answered (ensure_dp E owner ns n appID environment items) s = (Inr (), s')"
    and "only_dp (ns, n) s s'" and "clDp s' (ns, n) = Some dp" and "labelled appID (depLabels dp) (depOwners dp)"
    and "(depExecutionEnvironment dp, depPolicies dp) =
      (case clDp s (ns, n) of None \<Rightarrow> (environment, items) | Some old \<Rightarrow> (depExecutionEnvironment old, depPolicies old))"
proof (cases "clDp s (ns, n)")
  case None
  show ?thesis
    by (rule that [of "s\<lparr>clDp := (clDp s)((ns, n) \<mapsto> \<lparr>depName = n, depNs = ns, depResourceVersion = revision s,
          depLabels = service_labels appID, depExecutionEnvironment = environment, depPolicies = items, depOwners = [owner]\<rparr>),
          clRev := Suc (clRev s)\<rparr>"])
      (use None E wf in \<open>auto simp: ensure_dp_def dp_call_def write_call_def serve_simps created_def
        only_dp_def wf_cluster_def labelled_def service_labels_def mstr_def mget_Cons Let_def\<close>)
next
  case (Some old)
  obtain labels owners b where m: "ensure_meta E owner appID (depLabels old) (depOwners old) = (labels, owners, b)"
    by (cases "ensure_meta E owner appID (depLabels old) (depOwners old)") auto
  have k: "depNs old = ns" "depName old = n" using wf_clusterD(3) [OF wf Some] by auto
  show ?thesis
  proof (cases b)
    case True
    show ?thesis
      by (rule that [of "s\<lparr>clDp := (clDp s)((ns, n) \<mapsto> old\<lparr>depLabels := labels, depOwners := owners, depResourceVersion := revision s\<rparr>),
          clRev := Suc (clRev s)\<rparr>" "old\<lparr>depLabels := labels, depOwners := owners, depResourceVersion := revision s\<rparr>"])
        (use Some True m k wf ensure_meta_labelled(1) [OF E m] in \<open>auto simp: ensure_dp_def dp_call_def write_call_def serve_simps
          only_dp_def wf_cluster_def Let_def\<close>)
  next
    case False
    show ?thesis
      by (rule that [of s]) (use Some False m ensure_meta_labelled(1) [OF E m]
        ensure_meta_labelled(2) [OF E, of owner appID "depLabels old" "depOwners old" labels owners] in \<open>auto simp: ensure_dp_def dp_call_def serve_simps only_dp_def\<close>)
  qed
qed

lemma ensure_df_exec:
  assumes wf: "wf_cluster s" and E: "owner_law E"
  obtains s' df where "exec answered (ensure_df E owner ns n appID) s = (Inr (), s')"
    and "only_df (ns, n) s s'" and "clDf s' (ns, n) = Some df" and "labelled appID (dfLabels df) (dfOwners df)"
    and "dfDataDependencies df = (case clDf s (ns, n) of None \<Rightarrow> [] | Some old \<Rightarrow> dfDataDependencies old)"
proof (cases "clDf s (ns, n)")
  case None
  show ?thesis
    by (rule that [of "s\<lparr>clDf := (clDf s)((ns, n) \<mapsto> \<lparr>dfName = n, dfResourceVersion = revision s,
          dfLabels = service_labels appID, dfDataDependencies = [], dfNs = ns, dfOwners = [owner]\<rparr>),
          clRev := Suc (clRev s)\<rparr>"])
      (use None E wf in \<open>auto simp: ensure_df_def df_call_def write_call_def serve_simps created_def
        only_df_def wf_cluster_def labelled_def service_labels_def mstr_def mget_Cons Let_def\<close>)
next
  case (Some old)
  obtain labels owners b where m: "ensure_meta E owner appID (dfLabels old) (dfOwners old) = (labels, owners, b)"
    by (cases "ensure_meta E owner appID (dfLabels old) (dfOwners old)") auto
  have k: "dfNs old = ns" "dfName old = n" using wf_clusterD(2) [OF wf Some] by auto
  show ?thesis
  proof (cases b)
    case True
    show ?thesis
      by (rule that [of "s\<lparr>clDf := (clDf s)((ns, n) \<mapsto> old\<lparr>dfLabels := labels, dfOwners := owners, dfResourceVersion := revision s\<rparr>),
          clRev := Suc (clRev s)\<rparr>" "old\<lparr>dfLabels := labels, dfOwners := owners, dfResourceVersion := revision s\<rparr>"])
        (use Some True m k wf ensure_meta_labelled(1) [OF E m] in \<open>auto simp: ensure_df_def df_call_def write_call_def serve_simps
          only_df_def wf_cluster_def Let_def\<close>)
  next
    case False
    show ?thesis
      by (rule that [of s]) (use Some False m ensure_meta_labelled(1) [OF E m]
        ensure_meta_labelled(2) [OF E, of owner appID "dfLabels old" "dfOwners old" labels owners] in \<open>auto simp: ensure_df_def df_call_def serve_simps only_df_def\<close>)
  qed
qed

text \<open>The policy reconcilers alone.\<close>

definition set_task :: "key \<Rightarrow> TaskObject \<Rightarrow> cluster \<Rightarrow> cluster" where
  "set_task k t s = s\<lparr>clTask := (clTask s)(k \<mapsto> t), clRev := Suc (clRev s)\<rparr>"

lemma apply_patch_self [simp]:
  "apply_patch (merge_from t (t\<lparr>toDataflow := r\<rparr>)) t = t\<lparr>toDataflow := r\<rparr>"
  "apply_patch (merge_from t (t\<lparr>toDeployment := r\<rparr>)) t = t\<lparr>toDeployment := r\<rparr>"
  by (simp_all add: apply_patch_def merge_from_def patched_diff)

lemma exec_patch:
  assumes "clTask s k = Some t" and "(toNs t, toName t) = k"
  shows "exec answered (dataflow_updateILPTaskRef t name ver) s = (Inr (), set_task k (t\<lparr>toDataflow := \<lparr>rfName = name, rfVersion = ver\<rparr>\<rparr>) s)"
    and "exec answered (deployment_updateILPTaskRef t name ver) s = (Inr (), set_task k (t\<lparr>toDeployment := \<lparr>rfName = name, rfVersion = ver\<rparr>\<rparr>) s)"
proof -
  have k: "k = (toNs t, toName t)" using assms(2) by simp
  from assms(1) show "exec answered (dataflow_updateILPTaskRef t name ver) s = (Inr (), set_task k (t\<lparr>toDataflow := \<lparr>rfName = name, rfVersion = ver\<rparr>\<rparr>) s)"
    and "exec answered (deployment_updateILPTaskRef t name ver) s = (Inr (), set_task k (t\<lparr>toDeployment := \<lparr>rfName = name, rfVersion = ver\<rparr>\<rparr>) s)"
    unfolding k by (simp_all add: dataflow_updateILPTaskRef_def deployment_updateILPTaskRef_def patch_ref_def write_call_def
      write_go_def set_task_def)
qed

lemma task_call_exec: "exec answered (task_call (GetTask k) g) s = exec answered (g (get_go Answered (clTask s k))) s"
  by (simp add: task_call_def)

definition only_task :: "key \<Rightarrow> cluster \<Rightarrow> cluster \<Rightarrow> bool" where
  "only_task k s s' \<longleftrightarrow> (\<forall>k'. k' \<noteq> k \<longrightarrow> clTask s' k' = clTask s k') \<and> clDf s' = clDf s \<and> clDp s' = clDp s
     \<and> clXKube s' = clXKube s \<and> clXInstance s' = clXInstance s \<and> (wf_cluster s \<longrightarrow> wf_cluster s')"

lemma wf_set_task: "wf_cluster s \<Longrightarrow> (toNs t, toName t) = k \<Longrightarrow> wf_cluster (set_task k t s)"
  unfolding wf_cluster_def set_task_def by (clarsimp split del: if_split split: if_split_asm)

lemma only_task_set: "only_task k s s' \<Longrightarrow> (toNs t, toName t) = k \<Longrightarrow> only_task k s (set_task k t s')"
  using wf_set_task [of s' t k] by (simp add: only_task_def) (simp add: set_task_def)

lemma only_task_refl [simp]: "only_task k s s"
  by (simp add: only_task_def)

definition old_deployment :: "cluster \<Rightarrow> key \<Rightarrow> PolicyRef" where
  "old_deployment s k = (case clTask s k of None \<Rightarrow> no_ref | Some t \<Rightarrow> toDeployment t)"

definition old_dataflow :: "cluster \<Rightarrow> key \<Rightarrow> PolicyRef" where
  "old_dataflow s k = (case clTask s k of None \<Rightarrow> no_ref | Some t \<Rightarrow> toDataflow t)"

lemma dataflow_exec:
  assumes wf: "wf_cluster s" and df: "clDf s (ns, n) = Some df" and E: "retry_law E" "owner_law E"
  obtains s' t where "exec answered (DataflowReconcile E ns n) s = (Inr Settled, s')" and "only_task (ns, n) s s'"
    and "clTask s' (ns, n) = Some t" and "toDataflow t = \<lparr>rfName = n, rfVersion = dfResourceVersion df\<rparr>"
    and "toDeployment t = old_deployment s (ns, n)"
proof -
  let ?k = "(ns, n)" let ?r = "\<lparr>rfName = n, rfVersion = dfResourceVersion df\<rparr>"
  have k: "dfNs df = ns" "dfName df = n" using wf_clusterD(2) [OF wf df] by auto
  obtain t where t: "(toNs t, toName t) = ?k" "toDataflow t = ?r" "toDeployment t = old_deployment s ?k"
    and first: "exec answered (dataflow_first E df) s = (Inr False, set_task ?k t s)"
  proof (cases "clTask s ?k")
    case None
    show ?thesis
      by (rule that [of "\<lparr>toName = n, toNs = ns, toOwners = [(''DataflowPolicy'', n)], toDataflow = ?r, toDeployment = no_ref\<rparr>"])
        (use None k E(2) in \<open>simp_all add: dataflow_first_def task_call_exec get_go_def create_task_def write_call_def
          write_go_def exists_err_def set_task_def old_deployment_def\<close>)
  next
    case (Some t)
    have kt: "(toNs t, toName t) = ?k" by (rule wf_clusterD(1) [OF wf Some])
    show ?thesis
      by (rule that [of "t\<lparr>toDataflow := ?r\<rparr>"])
        (use Some k kt in \<open>simp_all add: dataflow_first_def task_call_exec get_go_def exec_on_ok exec_patch [OF Some kt] old_deployment_def\<close>)
  qed
  define s1 where "s1 = set_task ?k t s"
  have s1: "clTask s1 ?k = Some t" by (simp add: s1_def set_task_def)
  have t': "t\<lparr>toDataflow := ?r\<rparr> = t" using t(2) by simp
  have "exec answered (pv_retry E (task_call (GetTask ?k) (\<lambda>r. case r of Inl err \<Rightarrow> Return (Inl err)
      | Inr curILP \<Rightarrow> dataflow_updateILPTaskRef curILP (dfName df) (dfResourceVersion df)))) s1 = (Inr (), set_task ?k t s1)"
    by (rule exec_retry [OF E(1)]) (simp add: task_call_exec get_go_def s1 exec_patch [OF s1 t(1)] k t')
  then have "exec answered (DataflowReconcile E ns n) s = (Inr Settled, set_task ?k t s1)"
    using df first by (simp add: DataflowReconcile_def df_call_def get_go_def exec_on_ok s1_def)
  then show thesis
  proof (rule that [of _ t])
    show "only_task ?k s (set_task ?k t s1)"
      unfolding s1_def by (intro only_task_set only_task_refl t(1))
  qed (use t in \<open>simp_all add: set_task_def\<close>)
qed

lemma deployment_exec:
  assumes wf: "wf_cluster s" and dp: "clDp s (ns, n) = Some dp" and E: "retry_law E" "owner_law E"
  obtains s' t where "exec answered (DeploymentReconcile E ns n) s = (Inr Settled, s')" and "only_task (ns, n) s s'"
    and "clTask s' (ns, n) = Some t" and "toDeployment t = \<lparr>rfName = n, rfVersion = depResourceVersion dp\<rparr>"
    and "toDataflow t = old_dataflow s (ns, n)"
proof -
  let ?k = "(ns, n)" let ?r = "\<lparr>rfName = n, rfVersion = depResourceVersion dp\<rparr>"
  have k: "depNs dp = ns" "depName dp = n" using wf_clusterD(3) [OF wf dp] by auto
  obtain t where t: "(toNs t, toName t) = ?k" "toDeployment t = ?r" "toDataflow t = old_dataflow s ?k"
    and first: "exec answered (deployment_first E dp) s = (Inr False, set_task ?k t s)"
  proof (cases "clTask s ?k")
    case None
    show ?thesis
      by (rule that [of "\<lparr>toName = n, toNs = ns, toOwners = [(''DeploymentPolicy'', n)], toDataflow = no_ref, toDeployment = ?r\<rparr>"])
        (use None k E(2) in \<open>simp_all add: deployment_first_def task_call_exec get_go_def create_task_def write_call_def
          write_go_def exists_err_def set_task_def old_dataflow_def\<close>)
  next
    case (Some t)
    have kt: "(toNs t, toName t) = ?k" by (rule wf_clusterD(1) [OF wf Some])
    show ?thesis
      by (rule that [of "t\<lparr>toDeployment := ?r\<rparr>"])
        (use Some k kt in \<open>simp_all add: deployment_first_def task_call_exec get_go_def exec_on_ok exec_patch [OF Some kt] old_dataflow_def\<close>)
  qed
  define s1 where "s1 = set_task ?k t s"
  have s1: "clTask s1 ?k = Some t" by (simp add: s1_def set_task_def)
  have t': "t\<lparr>toDeployment := ?r\<rparr> = t" using t(2) by simp
  have "exec answered (pv_retry E (task_call (GetTask ?k) (\<lambda>r. case r of Inl err \<Rightarrow> Return (Inl err)
      | Inr curILP \<Rightarrow> deployment_updateILPTaskRef curILP (depName dp) (depResourceVersion dp)))) s1 = (Inr (), set_task ?k t s1)"
    by (rule exec_retry [OF E(1)]) (simp add: task_call_exec get_go_def s1 exec_patch [OF s1 t(1)] k t')
  then have "exec answered (DeploymentReconcile E ns n) s = (Inr Settled, set_task ?k t s1)"
    using dp first by (simp add: DeploymentReconcile_def dp_call_def get_go_def exec_on_ok s1_def)
  then show thesis
  proof (rule that [of _ t])
    show "only_task ?k s (set_task ?k t s1)"
      unfolding s1_def by (intro only_task_set only_task_refl t(1))
  qed (use t in \<open>simp_all add: set_task_def\<close>)
qed


definition pipeline :: "policy_env \<Rightarrow> string \<Rightarrow> string \<Rightarrow> cluster \<Rightarrow> outcome go list \<times> cluster" where
  "pipeline E ns n s0 =
     (case exec answered (XKubeReconcile E ns n) s0 of (r1, s1) \<Rightarrow>
      case exec answered (DataflowReconcile E ns n) s1 of (r2, s2) \<Rightarrow>
      case exec answered (DeploymentReconcile E ns n) s2 of (r3, s3) \<Rightarrow> ([r1, r2, r3], s3))"

lemma only_refl [simp]: "only_dp k s s" "only_df k s s"
  by (simp_all add: only_dp_def only_df_def)

lemma xkube_exec:
  assumes wf: "wf_cluster s" and E: "owner_law E" and xk: "clXKube s (ns, n) = Some xk" "xkName xk = n" "xkNs xk = ns" "\<not> xkDeleting xk"
  obtains s1 s2 dp df where "exec answered (XKubeReconcile E ns n) s = (Inr Settled, s2)"
    and "only_dp (ns, n) s s1" and "only_df (ns, n) s1 s2"
    and "clDp s2 (ns, n) = Some dp" and "labelled (xkApplicationID xk) (depLabels dp) (depOwners dp)"
    and "(depExecutionEnvironment dp, depPolicies dp) = (case clDp s (ns, n) of None \<Rightarrow> (''Kubernetes'', xkube_items xk)
         | Some old \<Rightarrow> (depExecutionEnvironment old, depPolicies old))"
    and "clDf s2 (ns, n) = Some df" and "labelled (xkApplicationID xk) (dfLabels df) (dfOwners df)"
proof -
  let ?o = "(''XKube'', n)" and ?id = "xkApplicationID xk"
  obtain s1 dp where 1: "exec answered (ensure_dp E ?o ns n ?id ''Kubernetes'' (xkube_items xk)) s = (Inr (), s1)"
    "only_dp (ns, n) s s1" "clDp s1 (ns, n) = Some dp" "labelled ?id (depLabels dp) (depOwners dp)"
    "(depExecutionEnvironment dp, depPolicies dp) = (case clDp s (ns, n) of None \<Rightarrow> (''Kubernetes'', xkube_items xk)
       | Some old \<Rightarrow> (depExecutionEnvironment old, depPolicies old))"
    by (rule ensure_dp_exec [OF wf E])
  have wf1: "wf_cluster s1" using 1(2) wf by (simp add: only_dp_def)
  obtain s2 df where 2: "exec answered (ensure_df E ?o ns n ?id) s1 = (Inr (), s2)" "only_df (ns, n) s1 s2"
    "clDf s2 (ns, n) = Some df" "labelled ?id (dfLabels df) (dfOwners df)"
    by (rule ensure_df_exec [OF wf1 E])
  have run: "exec answered (XKubeReconcile E ns n) s = (Inr Settled, s2)"
    using xk 1(1) 2(1) by (simp add: XKubeReconcile_def xkube_call_def get_go_def xkube_ensureDeploymentPolicy_def xkube_ensureDataflowPolicy_def exec_on_ok Let_def)
  have dp: "clDp s2 (ns, n) = Some dp" using 1(3) 2(2) by (simp add: only_df_def)
  show thesis by (rule that [OF run 1(2) 2(2) dp 1(4,5) 2(3,4)])
qed

lemma xkube_exec_settled:
  assumes "clXKube s (ns, n) = Some xk" "xkName xk = n" "xkNs xk = ns" "\<not> xkDeleting xk"
    and "clDp s (ns, n) = Some dp" "labelled (xkApplicationID xk) (depLabels dp) (depOwners dp)"
    and "clDf s (ns, n) = Some df" "labelled (xkApplicationID xk) (dfLabels df) (dfOwners df)"
  shows "exec answered (XKubeReconcile E ns n) s = (Inr Settled, s)"
  using assms by (simp add: XKubeReconcile_def xkube_call_def get_go_def xkube_ensureDeploymentPolicy_def xkube_ensureDataflowPolicy_def ensure_dp_def
      ensure_df_def dp_call_def df_call_def ensure_meta_settled exec_on_ok Let_def)

text \<open>C5: from a cluster to its optimisation task. When the reconciler of an \<open>XKube\<close> has run and then those of
  the two policies, all without an error, both policies of its name exist and carry its application
  as label, the task of its name refers to them at their versions, and the reconciler has nothing more
  to do. The components of the deployment policy are the node groups of the cluster if there was no such policy before;
  otherwise they are what they were, whatever the cluster asks for now.\<close>

theorem xkube_reaches_task:
  assumes "wf_cluster s" and "owner_law E" and "retry_law E"
    and "clXKube s (ns, n) = Some xk" "xkName xk = n" "xkNs xk = ns" "\<not> xkDeleting xk"
    and "pipeline E ns n s = (rs, s')"
  shows "rs = [Inr Settled, Inr Settled, Inr Settled] \<and> (\<exists>df dp t.
      clDf s' (ns, n) = Some df \<and> clDp s' (ns, n) = Some dp \<and> clTask s' (ns, n) = Some t
    \<and> mstr (dfLabels df) ''skycluster.io/app-id'' = xkApplicationID xk
    \<and> mstr (depLabels dp) ''skycluster.io/app-id'' = xkApplicationID xk
    \<and> toDataflow t = \<lparr>rfName = n, rfVersion = dfResourceVersion df\<rparr>
    \<and> toDeployment t = \<lparr>rfName = n, rfVersion = depResourceVersion dp\<rparr>
    \<and> depPolicies dp = (case clDp s (ns, n) of None \<Rightarrow> xkube_items xk | Some old \<Rightarrow> depPolicies old))
    \<and> exec answered (XKubeReconcile E ns n) s' = (Inr Settled, s')"
proof -
  let ?k = "(ns, n)"
  obtain s1 s2 dp df where x: "exec answered (XKubeReconcile E ns n) s = (Inr Settled, s2)" "only_dp ?k s s1" "only_df ?k s1 s2"
    "clDp s2 ?k = Some dp" "labelled (xkApplicationID xk) (depLabels dp) (depOwners dp)"
    "(depExecutionEnvironment dp, depPolicies dp) = (case clDp s ?k of None \<Rightarrow> (''Kubernetes'', xkube_items xk)
       | Some old \<Rightarrow> (depExecutionEnvironment old, depPolicies old))"
    "clDf s2 ?k = Some df" "labelled (xkApplicationID xk) (dfLabels df) (dfOwners df)"
    by (rule xkube_exec [OF assms(1,2,4-7)])
  have wf2: "wf_cluster s2" using x(2,3) assms(1) by (simp add: only_dp_def only_df_def)
  obtain s3 t3 where f: "exec answered (DataflowReconcile E ns n) s2 = (Inr Settled, s3)" "only_task ?k s2 s3" "clTask s3 ?k = Some t3"
    "toDataflow t3 = \<lparr>rfName = n, rfVersion = dfResourceVersion df\<rparr>" "toDeployment t3 = old_deployment s2 ?k"
    by (rule dataflow_exec [OF wf2 x(7) assms(3,2)])
  have wf3: "wf_cluster s3" and dp3: "clDp s3 ?k = Some dp" using f(2) wf2 x(4) by (simp_all add: only_task_def)
  obtain s4 t4 where p: "exec answered (DeploymentReconcile E ns n) s3 = (Inr Settled, s4)" "only_task ?k s3 s4" "clTask s4 ?k = Some t4"
    "toDeployment t4 = \<lparr>rfName = n, rfVersion = depResourceVersion dp\<rparr>" "toDataflow t4 = old_dataflow s3 ?k"
    by (rule deployment_exec [OF wf3 dp3 assms(3,2)])
  have r: "rs = [Inr Settled, Inr Settled, Inr Settled]" "s' = s4" using assms(8) x(1) f(1) p(1) by (simp_all add: pipeline_def)
  have t4: "toDataflow t4 = \<lparr>rfName = n, rfVersion = dfResourceVersion df\<rparr>" using p(5) f(3,4) by (simp add: old_dataflow_def)
  have s4: "clDf s4 ?k = Some df" "clDp s4 ?k = Some dp" "clXKube s4 ?k = Some xk"
    using p(2) f(2) x(2,3,4,7) assms(4) by (simp_all add: only_task_def only_df_def only_dp_def)
  have again: "exec answered (XKubeReconcile E ns n) s4 = (Inr Settled, s4)"
    by (rule xkube_exec_settled [OF s4(3) assms(5-7) s4(2) x(5) s4(1) x(8)])
  have pol: "depPolicies dp = (case clDp s ?k of None \<Rightarrow> xkube_items xk | Some old \<Rightarrow> depPolicies old)"
    using x(6) by (simp split: option.splits)
  show ?thesis using r s4(1,2) p(3,4) t4 x(5,8) pol again by (simp add: labelled_def)
qed

definition ex_xkube :: XKube where
  "ex_xkube = \<lparr>xkName = ''app'', xkNs = ''ns'', xkDeleting = False, xkApplicationID = ''shop'',
     xkNodeGroups = [[zeroComputeFlavor]], xkProviderRef = \<lparr>prName = ''aws'', prPlatform = ''aws'', prType = [], prRegion = [],
       prRegionAlias = [], prZone = []\<rparr>\<rparr>"

definition ex_fresh :: cluster where
  "ex_fresh = \<lparr>clDf = Map.empty, clDp = Map.empty, clTask = Map.empty,
     clXKube = [(''ns'', ''app'') \<mapsto> ex_xkube], clXInstance = Map.empty, clRev = 0\<rparr>"

lemma ex_owner: "owner_law ex_penv"
  by (simp add: owner_law_def ex_penv_def)

theorem xkube_reaches_task_witness:
  "fst (pipeline ex_penv ''ns'' ''app'' ex_fresh) = [Inr Settled, Inr Settled, Inr Settled]
   \<and> (\<exists>dp. clDp (snd (pipeline ex_penv ''ns'' ''app'' ex_fresh)) (''ns'', ''app'') = Some dp \<and> depPolicies dp = xkube_items ex_xkube)"
proof -
  have "wf_cluster ex_fresh" by (simp add: wf_cluster_def ex_fresh_def)
  from xkube_reaches_task [OF this ex_owner ex_retry _ _ _ _ prod.collapse [symmetric], of "''ns''" "''app''" ex_xkube]
  show ?thesis by (auto simp: ex_fresh_def ex_xkube_def)
qed

end
