(* ===== verification/Admission.thy ===== *)
theory Admission
  imports Pipeline Selection Profiles Labels
begin

text \<open>
  The admission webhooks (\<open>internal/webhook\<close>): what may enter the API server and what is changed on
  the way. The type assertions, which the server's registration makes succeed, and the hooks that
  return nil at once are left out.
\<close>

section \<open>Validation of the policies\<close>

definition required_labels :: "string list" where
  "required_labels = [''skycluster.io/app-id'', ''skycluster.io/app-scope'']"

text \<open>The empty map stands for the nil one; the messages of the two hooks differ.\<close>

definition check_labels :: "string \<Rightarrow> string \<Rightarrow> string gomap \<Rightarrow> unit go" where
  "check_labels none one labels =
     (if labels = [] then Inl (Errf none)
      else foldl_go (\<lambda>_ label. if mget labels label = None then Inl (Errf (one @ label)) else Inr ()) () required_labels)"

text \<open>The sets of alternatives that have a compute profile.\<close>

definition compute_count :: "DeploymentPolicyItem \<Rightarrow> nat" where
  "compute_count item =
     foldl (\<lambda>computeCount anyOf.
         if find (\<lambda>sel. equal_fold (pvKind sel) ''ComputeProfile'') anyOf \<noteq> None then computeCount + 1 else computeCount)
       0 (dpVirtualServiceConstraint item)"

definition deployment_ValidateCreate :: "'a DeploymentPolicy_scheme \<Rightarrow> unit go" where
  "deployment_ValidateCreate dp =
     bind_go (check_labels ''missing required labels on DeploymentPolicy'' ''missing required label '' (depLabels dp)) (\<lambda>_.
       if depExecutionEnvironment dp = ''VirtualMachine'' then
         foldl_go (\<lambda>_ item.
             if compute_count item > 1 then Inl (Errf ''executionEnvironment=VirtualMachine requires exactly one ComputeProfile selector'')
             else Inr ()) () (depPolicies dp)
       else Inr ())"

definition deployment_ValidateUpdate :: "'a DeploymentPolicy_scheme \<Rightarrow> 'a DeploymentPolicy_scheme \<Rightarrow> unit go" where
  "deployment_ValidateUpdate old new = deployment_ValidateCreate new"

definition dataflow_ValidateCreate :: "'a DataflowPolicy_scheme \<Rightarrow> unit go" where
  "dataflow_ValidateCreate df =
     check_labels ''DataflowPolicy must have labels'' ''DataflowPolicy must have label: '' (dfLabels df)"

definition dataflow_ValidateUpdate :: "'a DataflowPolicy_scheme \<Rightarrow> 'a DataflowPolicy_scheme \<Rightarrow> unit go" where
  "dataflow_ValidateUpdate old new = dataflow_ValidateCreate new"

section \<open>Objects of a provider\<close>

text \<open>An image, an instance type or a device node, by the fields the hooks touch.\<close>

record provider_object =
  obName :: string
  obNs :: string
  obProviderRef :: string
  obLabels :: "string gomap"

definition provider_labels :: "ProviderProfile \<Rightarrow> string gomap \<Rightarrow> string gomap" where
  "provider_labels provider labels =
     mput ''skycluster.io/managed-by'' ''skycluster''
       (mput ''skycluster.io/provider-profile'' (pfName provider)
         (mput ''skycluster.io/provider-region'' (ppRegion (pfSpec provider))
           (mput ''skycluster.io/provider-platform'' (ppPlatform (pfSpec provider)) labels)))"

text \<open>The provider is read by name in the namespace of the object; \<open>get\<close> gives it with its own.\<close>

type_synonym get_provider = "string \<Rightarrow> string \<Rightarrow> (string \<times> ProviderProfile) go"

definition default_object :: "get_provider \<Rightarrow> provider_object \<Rightarrow> provider_object go" where
  "default_object get ob =
     (case get (obNs ob) (obProviderRef ob) of
        Inl err \<Rightarrow> if is_not_found err then Inr ob else Inl err
      | Inr (_, provider) \<Rightarrow> Inr (ob\<lparr>obLabels := provider_labels provider (obLabels ob)\<rparr>))"

definition image_Default :: "get_provider \<Rightarrow> provider_object \<Rightarrow> provider_object go" where
  "image_Default get img = default_object get img"

definition instancetype_Default :: "get_provider \<Rightarrow> provider_object \<Rightarrow> provider_object go" where
  "instancetype_Default get it = default_object get it"

definition devicenode_Default :: "get_provider \<Rightarrow> provider_object \<Rightarrow> provider_object go" where
  "devicenode_Default get dn = default_object get dn"

definition image_ValidateCreate :: "get_provider \<Rightarrow> provider_object \<Rightarrow> unit go" where
  "image_ValidateCreate get img =
     bind_go (get (obNs img) (obProviderRef img)) (\<lambda>(ns, provider).
       if obNs img \<noteq> ns then Inl (Errf ''image references a provider profile in a different namespace'') else Inr ())"

definition instancetype_ValidateCreate :: "get_provider \<Rightarrow> provider_object \<Rightarrow> unit go" where
  "instancetype_ValidateCreate get it =
     bind_go (get (obNs it) (obProviderRef it)) (\<lambda>(ns, provider).
       if obNs it \<noteq> ns then Inl (Errf ''instance type references a provider profile in a different namespace'') else Inr ())"

definition devicenode_ValidateCreate :: "get_provider \<Rightarrow> provider_object \<Rightarrow> unit go" where
  "devicenode_ValidateCreate get dn =
     bind_go (wrap_go ''unable to fetch ProviderProfile for DeviceNode'' (get (obNs dn) (obProviderRef dn))) (\<lambda>(ns, provider).
       if obNs dn \<noteq> ns then Inl (Errf ''ProviderProfile is not in the same namespace as DeviceNode'') else Inr ())"

definition profile_Default :: "ProviderProfileSpec \<Rightarrow> string gomap \<Rightarrow> string gomap" where
  "profile_Default spec labels =
     (let labels = (case find zDefaultZone (ppZones spec) of
            None \<Rightarrow> labels | Some z \<Rightarrow> mput ''skycluster.io/provider-zone'' (zName z) labels)
      in mput ''skycluster.io/provider-region'' (ppRegion spec)
           (mput ''skycluster.io/provider-platform'' (ppPlatform spec) (mput ''skycluster.io/managed-by'' ''skycluster'' labels)))"

definition SKYCLUSTER_NAMESPACE :: string where
  "SKYCLUSTER_NAMESPACE = ''skycluster-system''"

definition profile_ValidateCreate :: "string \<Rightarrow> unit go" where
  "profile_ValidateCreate ns =
     (if ns \<noteq> SKYCLUSTER_NAMESPACE then Inl (Errf ''ProviderProfile must be created in the namespace'') else Inr ())"

text \<open>A distributed deployment is paused on its way in: the plan, not the local scheduler, places it.\<close>

record web_deployment =
  wdLabels :: "string gomap"
  wdPaused :: bool

definition deployment_Default :: "web_deployment \<Rightarrow> web_deployment" where
  "deployment_Default d =
     (if \<not> HasAllLabelsAndValue (wdLabels d) [(''skycluster.io/app-scope'', ''distributed'')] then d
      else if \<not> wdPaused d then d\<lparr>wdPaused := True\<rparr> else d)"

section \<open>What the webhooks let in\<close>

lemma check_labels_iff: "check_labels none one labels = Inr () \<longleftrightarrow> (\<forall>l\<in>set required_labels. mget labels l \<noteq> None)"
  by (auto simp: check_labels_def required_labels_def)

lemma foldl_go_check:
  "foldl_go (\<lambda>_ x. if P x then Inl e else Inr ()) () xs = Inr () \<longleftrightarrow> (\<forall>x\<in>set xs. \<not> P x)"
  by (induction xs) auto

lemma compute_count_filter:
  "compute_count item = length (filter (\<lambda>anyOf. \<exists>sel\<in>set anyOf. equal_fold (pvKind sel) ''ComputeProfile'') (dpVirtualServiceConstraint item))"
proof -
  have f: "find P xs \<noteq> None \<longleftrightarrow> (\<exists>x\<in>set xs. P x)" for P and xs :: "PolicyVirtualService list"
    by (induction xs) auto
  have "foldl (\<lambda>c x. if P x then c + 1 else c) n xs = n + length (filter P xs)" for P and xs :: "PolicyVirtualService list list" and n
    by (induction xs arbitrary: n) auto
  then show ?thesis by (simp only: compute_count_def f add_0)
qed

text \<open>C22: a deployment policy is admitted exactly when it has both labels and, for virtual machines,
  no component asks for compute profiles in two sets of alternatives.\<close>

theorem deployment_policy_admitted_iff:
  "deployment_ValidateCreate dp = Inr () \<longleftrightarrow>
     {''skycluster.io/app-id'', ''skycluster.io/app-scope''} \<subseteq> set (mkeys (depLabels dp))
     \<and> (depExecutionEnvironment dp = ''VirtualMachine'' \<longrightarrow>
          (\<forall>item\<in>set (depPolicies dp).
             length (filter (\<lambda>anyOf. \<exists>sel\<in>set anyOf. equal_fold (pvKind sel) ''ComputeProfile'') (dpVirtualServiceConstraint item)) \<le> 1))"
  by (auto simp: deployment_ValidateCreate_def check_labels_iff required_labels_def mget_None_iff foldl_go_check
      compute_count_filter not_less)

definition ex_vm_policy :: "PolicyVirtualService list list \<Rightarrow> DeploymentPolicy" where
  "ex_vm_policy alternatives =
     \<lparr>depName = ''app'', depNs = ''ns'', depResourceVersion = ''1'',
      depLabels = [(''skycluster.io/app-id'', ''app''), (''skycluster.io/app-scope'', ''distributed'')],
      depExecutionEnvironment = ''VirtualMachine'',
      depPolicies = [\<lparr>dpComponentRef = \<lparr>crAPIVersion = ''v1'', crKind = ''XInstance'', crName = ''vm'', crNamespace = ''ns''\<rparr>,
        dpVirtualServiceConstraint = alternatives, dpLocationConstraint = \<lparr>lcRequired = [], lcPermitted = []\<rparr>\<rparr>]\<rparr>"

definition ex_profile_selector :: PolicyVirtualService where
  "ex_profile_selector = \<lparr>pvName = ''1vCPU-2GB'', pvKind = ''computeprofile'', pvSpec = None, pvCount = 1\<rparr>"

theorem deployment_policy_admitted_iff_witness:
  "deployment_ValidateCreate (ex_vm_policy [[ex_profile_selector, ex_profile_selector]]) = Inr ()
   \<and> deployment_ValidateCreate (ex_vm_policy [[ex_profile_selector], [ex_profile_selector]]) \<noteq> Inr ()"
proof -
  have fold: "equal_fold ''computeprofile'' ''ComputeProfile''" by code_simp
  show ?thesis
    by (simp add: deployment_policy_admitted_iff ex_vm_policy_def ex_profile_selector_def fold mkeys_def)
qed

lemma find_neq_None [simp]: "find P xs \<noteq> None \<longleftrightarrow> (\<exists>x\<in>set xs. P x)" "find P xs = None \<longleftrightarrow> (\<forall>x\<in>set xs. \<not> P x)"
  by (induction xs) auto

lemma dataflow_policy_admitted_iff:
  "dataflow_ValidateCreate df = Inr () \<longleftrightarrow> {''skycluster.io/app-id'', ''skycluster.io/app-scope''} \<subseteq> set (mkeys (dfLabels df))"
  by (auto simp: dataflow_ValidateCreate_def check_labels_iff required_labels_def mget_None_iff)

text \<open>The labels the hook gives an object are those its reconciler and that of the provider look it up by.\<close>

lemma provider_labels_found:
  "HasAllLabelsAndValue (provider_labels provider labels)
     (mput ''skycluster.io/provider-profile'' (pfName provider) (DefaultLabels (ppPlatform (pfSpec provider)) (ppRegion (pfSpec provider)) []))"
proof -
  define z where "z = provider_labels provider labels"
  have z: "mget z ''skycluster.io/managed-by'' = Some ''skycluster''"
    "mget z ''skycluster.io/provider-profile'' = Some (pfName provider)"
    "mget z ''skycluster.io/provider-region'' = Some (ppRegion (pfSpec provider))"
    "mget z ''skycluster.io/provider-platform'' = Some (ppPlatform (pfSpec provider))"
    by (simp_all add: z_def provider_labels_def)
  show ?thesis unfolding z_def [symmetric]
    by (simp add: HasAllLabelsAndValue_iff DefaultLabels_def massign_def mput_def z)
qed

text \<open>The test of the namespace cannot fail: the provider was read from the namespace of the object.\<close>

lemma namespace_test_is_dead:
  assumes "\<And>ns name ns' p. get ns name = Inr (ns', p) \<Longrightarrow> ns' = ns"
  shows "image_ValidateCreate get ob = Inr () \<longleftrightarrow> (\<exists>p. get (obNs ob) (obProviderRef ob) = Inr p)"
    and "instancetype_ValidateCreate get ob = Inr () \<longleftrightarrow> (\<exists>p. get (obNs ob) (obProviderRef ob) = Inr p)"
    and "devicenode_ValidateCreate get ob = Inr () \<longleftrightarrow> (\<exists>p. get (obNs ob) (obProviderRef ob) = Inr p)"
  using assms by (auto simp: image_ValidateCreate_def instancetype_ValidateCreate_def devicenode_ValidateCreate_def)

section \<open>The flavor of a request\<close>

lemma fold_keys: "equal_fold ''vcpus'' ''vcpus''" "\<not> equal_fold ''ram'' ''vcpus''" "equal_fold ''ram'' ''ram''"
  "\<not> equal_fold ''gpu'' ''vcpus''" "\<not> equal_fold ''gpu'' ''ram''" "equal_fold ''gpu'' ''gpu''"
  "equal_fold ''enabled'' ''enabled''" "equal_fold ''count'' ''count''" "\<not> equal_fold ''count'' ''enabled''"
  "equal_fold ''manufacturer'' ''manufacturer''" "\<not> equal_fold ''manufacturer'' ''enabled''" "\<not> equal_fold ''manufacturer'' ''count''"
  "equal_fold ''model'' ''model''" "\<not> equal_fold ''model'' ''enabled''" "\<not> equal_fold ''model'' ''count''" "\<not> equal_fold ''model'' ''manufacturer''"
  "equal_fold ''unit'' ''unit''" "\<not> equal_fold ''unit'' ''enabled''" "\<not> equal_fold ''unit'' ''count''" "\<not> equal_fold ''unit'' ''manufacturer''"
  "\<not> equal_fold ''unit'' ''model''"
  "equal_fold ''memory'' ''memory''" "\<not> equal_fold ''memory'' ''enabled''" "\<not> equal_fold ''memory'' ''count''"
  "\<not> equal_fold ''memory'' ''manufacturer''" "\<not> equal_fold ''memory'' ''model''" "\<not> equal_fold ''memory'' ''unit''"
  by code_simp+

lemma decode_gpu_marshal:
  assumes "- (2 ^ 63) \<le> gCount g" "gCount g < 2 ^ 63" and m: "marshal_gpu g = AMap m"
  shows "foldl_go decode_gpu_field zeroGPU m = Inr g"
proof -
  have s: "foldl_go decode_gpu_field h (str_field k v @ r) = (if v = [] then foldl_go decode_gpu_field h r
      else bind_go (decode_gpu_field h (k, AStr v)) (\<lambda>h. foldl_go decode_gpu_field h r))" for h k v r
    by (simp add: str_field_def)
  show ?thesis
    using m assms(1,2) unfolding marshal_gpu_def any.inject
    by (cases g; cases "gEnabled g"; cases "gCount g = 0")
      (auto simp: s foldl_go_append decode_gpu_field_def fold_keys json_string_def set_opt_def zeroGPU_def str_field_def)
qed

lemma decode_flavor_marshal:
  assumes "- (2 ^ 63) \<le> gCount (cfGPU f)" "gCount (cfGPU f) < 2 ^ 63"
  shows "decode_flavor (Some (marshal_flavor f)) = Inr f"
proof -
  obtain m where m: "marshal_gpu (cfGPU f) = AMap m" by (simp add: marshal_gpu_def)
  from decode_gpu_marshal [OF assms m] show ?thesis
    unfolding marshal_flavor_def m decode_flavor_def
    by (cases f) (auto simp: str_field_def decode_flavor_field_def fold_keys json_string_def set_opt_def zeroComputeFlavor_def)
qed



section \<open>From an instance to its alternatives\<close>

lemma check_service_labels: "check_labels none one (service_labels appID) = Inr ()"
  by (simp add: check_labels_iff required_labels_def service_labels_def mget_Cons)

definition instance_alternatives :: "env \<Rightarrow> ComputeFlavor \<Rightarrow> computeProfileService list \<Rightarrow> VirtualServiceSelector list list" where
  "instance_alternatives V f profiles =
     (let alts = cheapest V (map (mkVS ''1'') (filter (offeringMatches (flavor_pattern f)) profiles))
      in if alts = [] then [] else [alts])"

lemma instance_constraints:
  assumes "getAllComputeProfiles V locs = Inr profiles" and "- (2 ^ 63) \<le> gCount (cfGPU f)" "gCount (cfGPU f) < 2 ^ 63"
  shows "vm_constraints skip V locs [[compute_selector f]] = Inr (instance_alternatives V f profiles)"
  using assms(1) decode_flavor_marshal [OF assms(2,3)]
  by (simp add: vm_constraints_def vm_alternative_def ParseFlavorFromJSON_def compute_selector_def instance_alternatives_def Let_def)

lemma xinstance_exec:
  assumes wf: "wf_cluster s" and E: "owner_law E" and xi: "clXInstance s (ns, n) = Some xi" "xnName xi = n" "xnNs xi = ns" "\<not> xnDeleting xi"
  obtains s2 dp df where "exec answered (XInstanceReconcile E ns n) s = (Inr Settled, s2)"
    and "clDp s2 (ns, n) = Some dp" and "clDf s2 (ns, n) = Some df"
    and "clDp s (ns, n) = None \<longrightarrow> depExecutionEnvironment dp = ''VirtualMachine'' \<and> depPolicies dp = xinstance_items xi
           \<and> depLabels dp = service_labels (xnApplicationID xi)"
proof -
  let ?o = "(''XInstance'', n)" and ?id = "xnApplicationID xi"
  obtain s1 dp where 1: "exec answered (ensure_dp E ?o ns n ?id ''VirtualMachine'' (xinstance_items xi)) s = (Inr (), s1)"
    "only_dp (ns, n) s s1" "clDp s1 (ns, n) = Some dp"
    "(depExecutionEnvironment dp, depPolicies dp) = (case clDp s (ns, n) of None \<Rightarrow> (''VirtualMachine'', xinstance_items xi)
       | Some old \<Rightarrow> (depExecutionEnvironment old, depPolicies old))"
    by (rule ensure_dp_exec [OF wf E])
  have lbl: "depLabels dp = service_labels ?id" if "clDp s (ns, n) = None"
    using 1(1,3) that E by (auto simp: ensure_dp_def dp_call_def write_call_def serve_simps created_def Let_def)
  have wf1: "wf_cluster s1" using 1(2) wf by (simp add: only_dp_def)
  obtain s2 df where 2: "exec answered (ensure_df E ?o ns n ?id) s1 = (Inr (), s2)" "only_df (ns, n) s1 s2"
    "clDf s2 (ns, n) = Some df"
    by (rule ensure_df_exec [OF wf1 E])
  have run: "exec answered (XInstanceReconcile E ns n) s = (Inr Settled, s2)"
    using xi 1(1) 2(1) by (simp add: XInstanceReconcile_def xinstance_call_def get_go_def xinstance_ensureDeploymentPolicy_def xinstance_ensureDataflowPolicy_def exec_on_ok Let_def)
  have dp: "clDp s2 (ns, n) = Some dp" using 1(3) 2(2) by (simp add: only_df_def)
  show thesis by (rule that [OF run dp 2(3)]) (use 1(4) lbl in auto)
qed


definition ex_xinstance :: XInstance where
  "ex_xinstance = \<lparr>xnName = ''vm'', xnNs = ''ns'', xnDeleting = False, xnApplicationID = ''shop'', xnFlavor = zeroComputeFlavor,
     xnProviderRef = \<lparr>prName = [], prPlatform = [], prType = [], prRegion = [], prRegionAlias = [], prZone = []\<rparr>\<rparr>"

definition ex_vm_cluster :: cluster where
  "ex_vm_cluster = ex_fresh\<lparr>clXInstance := [(''ns'', ''vm'') \<mapsto> ex_xinstance]\<rparr>"


end
