(* ===== verification/Devices.thy ===== *)
theory Devices
  imports Admission
begin

text \<open>
  The reconciler of the \<open>DeviceNode\<close> (\<open>internal/controller/core/devicenode_controller.go\<close>): an edge
  device is entered into the config map of its provider, which keeps one YAML map from device to
  specification per device type.
\<close>

section \<open>Data\<close>

record SecretKeySelector =
  skName :: string
  skKey :: string

record DeviceNodeAuth =
  dauUsername :: string
  dauPrivateKeySecretRef :: "SecretKeySelector option"

record DeviceZoneSpec =
  dzType :: string
  dzZone :: string
  dzPrivateIp :: string
  dzPublicIp :: string
  dzAuth :: "DeviceNodeAuth option"
  dzConfigs :: "InstanceOffering option"

text \<open>\<open>None\<close> is a nil specification.\<close>

record DeviceNode =
  dnName :: string
  dnNs :: string
  dnProviderRef :: string
  dnDeviceSpec :: "DeviceZoneSpec option"
  dnRegion :: string
  dnZone :: string
  dnConditions :: "condition list"

record DeviceMap =
  dmapName :: string
  dmapData :: "string gomap"

datatype device_effect = UpdateDeviceMap DeviceMap | UpdateDeviceStatus DeviceNode

text \<open>\<open>dv_decode\<close> and \<open>dv_encode\<close> are \<open>yaml.Unmarshal\<close> and \<open>yaml.Marshal\<close> at the map of specifications.\<close>

record device_env =
  dv_get :: "string \<Rightarrow> string \<Rightarrow> DeviceNode go"
  dv_profile :: "string \<Rightarrow> string \<Rightarrow> ProviderProfile go"
  dv_list :: "string gomap \<Rightarrow> DeviceMap list go"
  dv_decode :: "string \<Rightarrow> DeviceZoneSpec gomap go"
  dv_encode :: "DeviceZoneSpec gomap \<Rightarrow> string go"
  dv_update :: "DeviceMap \<Rightarrow> unit go"
  dv_update_status :: "unit go"
  dv_set_cond :: "condition list \<Rightarrow> condition \<Rightarrow> condition list"

section \<open>The config map\<close>

text \<open>The devices of a type; text that is no such map counts as empty.\<close>

definition devices_of :: "device_env \<Rightarrow> DeviceMap \<Rightarrow> string \<Rightarrow> DeviceZoneSpec gomap" where
  "devices_of E cm deviceType =
     (case mget (dmapData cm) deviceType of
        None \<Rightarrow> []
      | Some data \<Rightarrow> if data = [] then [] else (case dv_decode E data of Inl _ \<Rightarrow> [] | Inr dt \<Rightarrow> dt))"

definition createOrUpdateConfigMapData ::
  "device_env \<Rightarrow> string \<Rightarrow> DeviceMap \<Rightarrow> DeviceZoneSpec \<Rightarrow> (device_effect, bool) run" where
  "createOrUpdateConfigMapData E name cm dnSpec =
     (if dzType dnSpec = [] then pure_run (Inl (Errf ''invalid DeviceZoneSpec''))
      else
        (let deviceType = dzType dnSpec; dt = devices_of E cm deviceType
         in if mget dt name = Some dnSpec then pure_run (Inr False)
            else
              (let dt = mput name dnSpec dt
               in bind_run (pure_run (dv_encode E dt)) (\<lambda>out.
                    let cm = cm\<lparr>dmapData := mput deviceType out (dmapData cm)\<rparr>
                    in bind_run (wrap_run ''failed to update ConfigMap for device type'' (call (UpdateDeviceMap cm) (dv_update E cm)))
                         (\<lambda>_. pure_run (Inr True))))))"

definition device_updateConfigMap ::
  "device_env \<Rightarrow> ProviderProfile \<Rightarrow> string \<Rightarrow> DeviceZoneSpec \<Rightarrow> (device_effect, unit) run" where
  "device_updateConfigMap E pf name dnSpec =
     (let ll = mput ''skycluster.io/provider-profile'' (pfName pf) (DefaultLabels (ppPlatform (pfSpec pf)) (ppRegion (pfSpec pf)) [])
      in bind_run (pure_run (wrap_go ''unable to list ConfigMaps for images'' (dv_list E ll))) (\<lambda>items.
           if length items \<noteq> 1 then pure_run (Inl (Errf ''error listing ConfigMaps for images: expected 1''))
           else bind_run (wrap_run ''failed to create or update ConfigMap data'' (createOrUpdateConfigMapData E name (hd items) dnSpec))
                  (\<lambda>_. pure_run (Inr ()))))"

section \<open>The reconciler\<close>

text \<open>\<open>err.Error()\<close>\<close>

fun error_text :: "go_error \<Rightarrow> string" where
  "error_text (ErrNotFound s) = s"
| "error_text (ErrAlreadyExists s) = s"
| "error_text (ErrConflict s) = s"
| "error_text (Errf s) = s"
| "error_text (Panic s) = s"

definition DeviceNodeReconcile :: "device_env \<Rightarrow> string \<Rightarrow> string \<Rightarrow> (device_effect, run_result) run" where
  "DeviceNodeReconcile E ns name =
     (case dv_get E ns name of
        Inl err \<Rightarrow> pure_run (if is_not_found err then Inr Stop else Inl err)
      | Inr dn \<Rightarrow>
          bind_run (pure_run (dv_profile E (dnNs dn) (dnProviderRef dn))) (\<lambda>provider.
            if to_lower (ppPlatform (pfSpec provider)) \<notin> {''baremetal''} then pure_run (Inr Stop)
            else
              (case dnDeviceSpec dn of
                 None \<Rightarrow> pure_run (Inl (Panic ''invalid memory address or nil pointer dereference''))
               | Some spec \<Rightarrow>
                   if to_lower (dzZone spec) \<notin> set (map zName (ppZones (pfSpec provider))) then pure_run (Inr Stop)
                   else
                     (let dn = dn\<lparr>dnRegion := ppRegion (pfSpec provider), dnZone := dzZone spec\<rparr>
                      in try_run (device_updateConfigMap E provider name spec) (\<lambda>r.
                        case r of
                          Inl err \<Rightarrow>
                            bind_run (ignore (call (UpdateDeviceStatus (dn\<lparr>dnConditions :=
                                SetCondition (dv_set_cond E) ''Ready'' CondFalse ''ConfigMapError'' (error_text err) (dnConditions dn)\<rparr>)) (dv_update_status E)))
                              (\<lambda>_. pure_run (Inl err))
                        | Inr _ \<Rightarrow>
                            try_run (call (UpdateDeviceStatus (dn\<lparr>dnConditions :=
                                SetCondition (dv_set_cond E) ''Ready'' CondTrue ''Reconciled'' ''DeviceNode reconciled successfully'' (dnConditions dn)\<rparr>)) (dv_update_status E))
                              (\<lambda>r. case r of
                                 Inl err \<Rightarrow> if is_conflict err then pure_run (Inr (After (2 * second))) else pure_run (Inl err)
                               | Inr _ \<Rightarrow> pure_run (Inr Stop)))))))"

section \<open>The registry\<close>

text \<open>The config maps as one map from type and device to the specification, and the map after a run.\<close>

definition registry :: "device_env \<Rightarrow> DeviceMap \<Rightarrow> string \<times> string \<Rightarrow> DeviceZoneSpec option" where
  "registry E cm = (\<lambda>(t, n). mget (devices_of E cm t) n)"

definition map_after :: "DeviceMap \<Rightarrow> device_effect list \<Rightarrow> DeviceMap" where
  "map_after cm es = foldl (\<lambda>cm e. case e of UpdateDeviceMap cm' \<Rightarrow> cm' | _ \<Rightarrow> cm) cm es"

text \<open>What is marshalled is no empty text and is read back.\<close>

definition yaml_law :: "device_env \<Rightarrow> bool" where
  "yaml_law E \<longleftrightarrow> (\<forall>m out. dv_encode E m = Inr out \<longrightarrow> out \<noteq> [] \<and> (\<exists>m'. dv_decode E out = Inr m' \<and> same_map m' m))"

lemma registry_written:
  assumes "yaml_law E" and "dv_encode E (mput n spec (devices_of E cm t)) = Inr out"
  shows "registry E (cm\<lparr>dmapData := mput t out (dmapData cm)\<rparr>) = (registry E cm)((t, n) \<mapsto> spec)"
proof
  fix q :: "string \<times> string"
  from assms obtain m' where m: "out \<noteq> []" "dv_decode E out = Inr m'" "same_map m' (mput n spec (devices_of E cm t))"
    unfolding yaml_law_def by blast
  show "registry E (cm\<lparr>dmapData := mput t out (dmapData cm)\<rparr>) q = ((registry E cm)((t, n) \<mapsto> spec)) q"
    using m by (cases q) (auto simp: registry_def devices_of_def same_map_def)
qed

lemma createOrUpdate_registers:
  assumes "yaml_law E" and "createOrUpdateConfigMapData E n cm spec = (es, Inr b)"
  shows "registry E (map_after cm es) = (registry E cm)((dzType spec, n) \<mapsto> spec)"
proof (cases "mget (devices_of E cm (dzType spec)) n = Some spec")
  case True
  have "registry E cm (dzType spec, n) = Some spec" using True by (simp add: registry_def)
  moreover have "es = []" using assms(2) True by (auto simp: createOrUpdateConfigMapData_def pure_run_def Let_def split: if_splits)
  ultimately show ?thesis by (simp add: map_after_def fun_upd_idem)
next
  case False
  obtain out where out: "dv_encode E (mput n spec (devices_of E cm (dzType spec))) = Inr out"
    and es: "es = [UpdateDeviceMap (cm\<lparr>dmapData := mput (dzType spec) out (dmapData cm)\<rparr>)]"
    using assms(2) False
    by (auto simp: createOrUpdateConfigMapData_def Let_def bind_run_def pure_run_def wrap_run_def call_def
        split: if_splits sum.splits prod.splits)
  show ?thesis using registry_written [OF assms(1) out] by (simp add: es map_after_def)
qed

lemma createOrUpdate_effects:
  "UpdateDeviceStatus dn \<notin> set (fst (createOrUpdateConfigMapData E n cm spec))"
  by (auto simp: createOrUpdateConfigMapData_def Let_def run_simps)

lemma map_after_append [simp]: "map_after cm (es @ [UpdateDeviceStatus dn]) = map_after cm es"
  by (simp add: map_after_def)

text \<open>C17: a device that is reported ready is registered. When a reconciliation sets the condition \<open>Ready\<close> of a device, the
  config map of its provider is the one before with the specification of the device entered under its
  type and name: every other entry, of other devices and of other types, is kept.\<close>

theorem device_ready_registered:
  assumes "yaml_law E" and "condition_api (dv_set_cond E) is_true"
    and "dv_get E ns n = Inr dn" and "dnDeviceSpec dn = Some spec"
    and "dv_profile E (dnNs dn) (dnProviderRef dn) = Inr pf"
    and "dv_list E (mput ''skycluster.io/provider-profile'' (pfName pf)
           (DefaultLabels (ppPlatform (pfSpec pf)) (ppRegion (pfSpec pf)) [])) = Inr [cm]"
    and "UpdateDeviceStatus new \<in> set (fst (DeviceNodeReconcile E ns n))" and "is_true (dnConditions new) ''Ready''"
  shows "registry E (map_after cm (fst (DeviceNodeReconcile E ns n))) = (registry E cm)((dzType spec, n) \<mapsto> spec)"
proof -
  note cond = condition_api.is_true_SetCondition [OF assms(2)]
  obtain es r where c: "createOrUpdateConfigMapData E n cm spec = (es, r)" by fastforce
  have u: "device_updateConfigMap E pf n spec = (es, case r of Inl e \<Rightarrow> Inl (wrap ''failed to create or update ConfigMap data'' e) | Inr _ \<Rightarrow> Inr ())"
    using assms(6) c by (auto simp: device_updateConfigMap_def Let_def bind_run_def pure_run_def wrap_run_def wrap_go_def split: sum.splits)
  have no: "UpdateDeviceStatus new \<notin> set es" using createOrUpdate_effects [of new E n cm spec] c by simp
  show ?thesis
  proof (cases r)
    case (Inl e)
    have "\<exists>x. fst (DeviceNodeReconcile E ns n) = es @ [UpdateDeviceStatus x] \<and> \<not> is_true (dnConditions x) ''Ready''
        \<or> fst (DeviceNodeReconcile E ns n) = []"
      using assms(3,4,5) u Inl cond
      by (auto simp: DeviceNodeReconcile_def Let_def bind_run_def pure_run_def ignore_def call_def try_run_def)
    with assms(7,8) no show ?thesis by auto
  next
    case (Inr b)
    have "\<exists>x. fst (DeviceNodeReconcile E ns n) = es @ [UpdateDeviceStatus x] \<or> fst (DeviceNodeReconcile E ns n) = []"
      using assms(3,4,5) u Inr
      by (auto simp: DeviceNodeReconcile_def Let_def bind_run_def pure_run_def call_def try_run_def split: sum.splits)
    with assms(7) createOrUpdate_registers [OF assms(1) c [unfolded Inr]] show ?thesis by auto
  qed
qed

definition ex_device :: DeviceZoneSpec where
  "ex_device = \<lparr>dzType = ''worker'', dzZone = ''a'', dzPrivateIp = ''10.0.0.5'', dzPublicIp = [], dzAuth = None, dzConfigs = None\<rparr>"

definition ex_node :: DeviceNode where
  "ex_node = \<lparr>dnName = ''pi'', dnNs = ''ns'', dnProviderRef = ''edge'', dnDeviceSpec = Some ex_device, dnRegion = [], dnZone = [], dnConditions = []\<rparr>"

definition ex_edge_profile :: ProviderProfile where
  "ex_edge_profile = \<lparr>pfName = ''edge'', pfSpec = \<lparr>ppPlatform = ''baremetal'', ppRegion = ''lab'', ppRegionAlias = [],
     ppZones = [\<lparr>zName = ''a'', zLocationName = [], zDefaultZone = True, zEnabled = True, zType = []\<rparr>]\<rparr>, pfEgressCosts = []\<rparr>"

definition ex_map :: DeviceMap where
  "ex_map = \<lparr>dmapName = ''edge'', dmapData = [(''flavors.yaml'', ''f'')]\<rparr>"

definition ex_denv :: device_env where
  "ex_denv = \<lparr>dv_get = (\<lambda>_ _. Inr ex_node), dv_profile = (\<lambda>_ _. Inr ex_edge_profile), dv_list = (\<lambda>_. Inr [ex_map]),
     dv_decode = (\<lambda>s. if s = ''pi: worker'' then Inr [(''pi'', ex_device)] else Inl (Errf ''yaml'')),
     dv_encode = (\<lambda>m. if m = [(''pi'', ex_device)] then Inr ''pi: worker'' else Inl (Errf ''yaml'')),
     dv_update = (\<lambda>_. Inr ()), dv_update_status = Inr (),
     dv_set_cond = (\<lambda>cs c. SetTypedCondition cs (cdType c) (cdStatus c) (cdReason c) (cdMessage c) (cdTime c))\<rparr>"

lemma ex_device_run:
  "\<exists>new. UpdateDeviceStatus new \<in> set (fst (DeviceNodeReconcile ex_denv ''ns'' ''pi'')) \<and> GetTypedConditionStatus (dnConditions new) ''Ready'' = Some CondTrue"
proof -
  have l: "to_lower ''baremetal'' = ''baremetal''" "to_lower ''a'' = ''a''" by code_simp+
  show ?thesis
    by (simp add: DeviceNodeReconcile_def ex_denv_def ex_node_def ex_edge_profile_def l ex_device_def device_updateConfigMap_def ex_map_def
        createOrUpdateConfigMapData_def devices_of_def mget_Cons mput_def bind_run_def pure_run_def wrap_run_def call_def try_run_def
        Let_def SetCondition_def GetTypedConditionStatus_Set)
qed

theorem device_ready_registered_witness:
  "registry ex_denv (map_after ex_map (fst (DeviceNodeReconcile ex_denv ''ns'' ''pi''))) (''worker'', ''pi'') = Some ex_device"
proof -
  obtain new where new: "UpdateDeviceStatus new \<in> set (fst (DeviceNodeReconcile ex_denv ''ns'' ''pi''))"
    "GetTypedConditionStatus (dnConditions new) ''Ready'' = Some CondTrue"
    using ex_device_run by blast
  have y: "yaml_law ex_denv" by (auto simp: yaml_law_def ex_denv_def same_map_def split: if_splits)
  have c: "condition_api (dv_set_cond ex_denv) (\<lambda>cs t. GetTypedConditionStatus cs t = Some CondTrue)"
    using typed.condition_api_axioms by (simp add: ex_denv_def)
  have t: "dzType ex_device = ''worker''" by (simp add: ex_device_def)
  from device_ready_registered [OF y c _ _ _ _ new(1) new(2), of ex_node ex_device ex_edge_profile ex_map]
  show ?thesis by (simp add: ex_denv_def ex_node_def t)
qed

text \<open>A device that changes its type stays registered under the old one as well.\<close>

lemma device_type_change_leaves_old:
  assumes "yaml_law E" and "createOrUpdateConfigMapData E n cm spec = (es, Inr b)"
    and "registry E cm (t, n) = Some old" and "t \<noteq> dzType spec"
  shows "registry E (map_after cm es) (t, n) = Some old \<and> registry E (map_after cm es) (dzType spec, n) = Some spec"
  using createOrUpdate_registers [OF assms(1,2)] assms(3,4) by simp

text \<open>The nil test of the specification comes after its zone has been read.\<close>

lemma device_without_spec_panics:
  "dv_get E ns n = Inr dn \<Longrightarrow> dnDeviceSpec dn = None \<Longrightarrow> dv_profile E (dnNs dn) (dnProviderRef dn) = Inr pf \<Longrightarrow>
    to_lower (ppPlatform (pfSpec pf)) = ''baremetal'' \<Longrightarrow> \<exists>e. DeviceNodeReconcile E ns n = ([], Inl e) \<and> is_panic e"
  by (simp add: DeviceNodeReconcile_def pure_run_def bind_run_def)

text \<open>A zone with an upper-case letter is never found: only the name of the device's zone is lowered.\<close>

lemma device_zone_case:
  "dv_get E ns n = Inr dn \<Longrightarrow> dnDeviceSpec dn = Some spec \<Longrightarrow> dv_profile E (dnNs dn) (dnProviderRef dn) = Inr pf \<Longrightarrow>
    \<forall>z\<in>set (ppZones (pfSpec pf)). zName z \<noteq> to_lower (dzZone spec) \<Longrightarrow> DeviceNodeReconcile E ns n = ([], Inr Stop)"
  by (auto simp: DeviceNodeReconcile_def pure_run_def bind_run_def)

end
