(* ===== verification/Conversions.thy ===== *)
theory Conversions
  imports AtlasProps Labels "HOL-Library.Word"
begin

text \<open>
  Smaller helpers: the suffix of generated names (\<open>internal/controller/utils/utils.go\<close>), the region
  aliases (\<open>api/helper/v1alpha1/types.go\<close>), amounts and compute units
  (\<open>internal/helper/conversions.go\<close>), and the search of objects by a list in one of their fields.
\<close>

section \<open>The suffix\<close>

unbundle bit_operations_syntax

text \<open>\<open>fnv.New64a\<close>: the 64-bit multiplication wraps.\<close>

definition fnv64a :: "string \<Rightarrow> 64 word" where
  "fnv64a s = foldl (\<lambda>h c. (h XOR of_nat (of_char c)) * 1099511628211) 14695981039346656037 s"

definition letters :: string where
  "letters = ''abcdefghijklmnopqrstuvwxyz0123456789''"

text \<open>\<open>draw\<close> is the generator of \<open>math/rand\<close>: from the seed, the \<open>i\<close>-th \<open>Intn(36)\<close>.\<close>

definition RandSuffix :: "(int \<Rightarrow> nat \<Rightarrow> nat) \<Rightarrow> string \<Rightarrow> string" where
  "RandSuffix draw s = map (\<lambda>i. letters ! draw (sint (fnv64a s)) i) [0..<5]"

definition draw_law :: "(int \<Rightarrow> nat \<Rightarrow> nat) \<Rightarrow> bool" where
  "draw_law draw \<longleftrightarrow> (\<forall>seed i. draw seed i < 36)"

section \<open>Region aliases\<close>

definition region_aliases :: "string gomap" where
  "region_aliases =
     [(''scinet'', ''scinet''), (''vaughan'', ''vaughan''), (''us-east-1'', ''us-east''), (''us-east-2'', ''us-east''),
      (''us-west-1'', ''us-west''), (''us-west-2'', ''us-west''), (''eu-west-1'', ''eu-west''), (''eu-west-2'', ''eu-west''),
      (''eu-central-1'', ''eu-central''), (''eu-central'', ''eu-central''), (''eu-east-1'', ''eu-east''), (''ap-south-1'', ''ap-south''),
      (''ap-northeast-1'', ''ap-northeast''), (''ap-southeast-1'', ''ap-southeast''), (''sa-east-1'', ''sa-east''),
      (''ca-central-1'', ''ca-central''), (''me-south-1'', ''me-south''), (''af-south-1'', ''af-south'')]"

text \<open>\<open>order\<close> is the order in which the runtime visits the map.\<close>

definition GetRegionAlias :: "(string gomap \<Rightarrow> string gomap) \<Rightarrow> string \<Rightarrow> string" where
  "GetRegionAlias order region =
     (let normalized = to_lower (trim_space region)
      in case mget region_aliases normalized of
           Some alias \<Rightarrow> alias
         | None \<Rightarrow>
             (case find (\<lambda>(key, alias). contains normalized key \<or> contains key normalized) (order region_aliases) of
                Some (key, alias) \<Rightarrow> alias
              | None \<Rightarrow> ''unknown''))"

section \<open>Amounts and units\<close>

definition ParseAmount :: "string \<Rightarrow> f64 go" where
  "ParseAmount s =
     (let s = trim_space s;
          neg = has_prefix s ''('' \<and> has_prefix (rev s) '')'';
          s = (if neg then take (length s - 2) (drop 1 s) else s);
          s = replace_all s ''$'' [];
          s = replace_all s '','' [];
          s = trim_space s
      in if s = [] then Inl (Errf ''no numeric content'')
         else bind_go (parse_float s) (\<lambda>v. Inr (if neg then f64_neg v else v)))"

definition NormalizeToTOPS :: "f64 \<Rightarrow> string \<Rightarrow> f64" where
  "NormalizeToTOPS v unit =
     (let unit = to_upper (trim_space unit)
      in if unit = ''GFLOPS'' then f64_scale v (f64_const 0.002)
         else if unit = ''TFLOPS'' then f64_scale v 2
         else if unit = ''TOPS'' then v
         else v)"

section \<open>Objects by a list in a field\<close>

text \<open>The matches of one object: it is appended once for every element that matches.\<close>

definition field_matches :: "string gomap \<Rightarrow> string list \<Rightarrow> any gomap list \<Rightarrow> any gomap \<Rightarrow> any gomap list go" where
  "field_matches searchSpec path filteredObj obj =
     bind_go (init_fields path) (\<lambda>init.
        bind_go (Values.GetNestedField obj init) (\<lambda>objSpec.
          case mget objSpec (last path) of
            Some (AList d) \<Rightarrow>
              foldl_go (\<lambda>acc descriptor.
                  bind_go (ObjectToStringMap descriptor) (\<lambda>descriptorMap.
                    Inr (if CompareStringMap descriptorMap searchSpec then acc @ [obj] else acc))) filteredObj d
          | _ \<Rightarrow> Inl (Errf ''field is not a list'')))"

definition ListUnstructuredObjectsByFieldList :: "any gomap list go \<Rightarrow> string gomap \<Rightarrow> string list \<Rightarrow> any gomap list go" where
  "ListUnstructuredObjectsByFieldList listed searchSpec path =
     bind_go listed (\<lambda>items. foldl_go (field_matches searchSpec path) [] items)"

section \<open>Names of composite resources\<close>

lemma letters_dns: "i < 36 \<Longrightarrow> dns_char (letters ! i) \<and> letters ! i \<noteq> CHR ''-'' \<and> letters ! i \<noteq> CHR ''.''"
proof -
  have "list_all (\<lambda>i. dns_char (letters ! i) \<and> letters ! i \<noteq> CHR ''-'' \<and> letters ! i \<noteq> CHR ''.'') [0..<36]"
    unfolding letters_def by code_simp
  then show "i < 36 \<Longrightarrow> dns_char (letters ! i) \<and> letters ! i \<noteq> CHR ''-'' \<and> letters ! i \<noteq> CHR ''.''"
    by (simp add: list_all_iff)
qed

lemma RandSuffix_dns:
  assumes "draw_law draw"
  shows "length (RandSuffix draw s) = 5" and "c \<in> set (RandSuffix draw s) \<Longrightarrow> dns_char c \<and> c \<noteq> CHR ''-'' \<and> c \<noteq> CHR ''.''"
  using assms letters_dns by (auto simp: RandSuffix_def draw_law_def)

lemma split_on_hd: "split_on d (c # cs) = (if c = d then [] # split_on d cs else (c # hd (split_on d cs)) # tl (split_on d cs))"
  by (cases "split_on d cs") auto

lemma split_on_chars: "c \<in> set s \<Longrightarrow> c = d \<or> (\<exists>w\<in>set (split_on d s). c \<in> set w)"
proof (induction s)
  case (Cons a s)
  then show ?case by (cases "split_on d s") auto
qed simp

lemma dns_name_chars: "list_all dns_label (split_on (CHR ''.'') s) \<Longrightarrow> c \<in> set s \<Longrightarrow> dns_char c \<or> c = CHR ''.''"
  using split_on_chars [of c s "CHR ''.''"] by (auto simp: list_all_iff dns_label_def)

lemma dns_name_hd: "list_all dns_label (split_on (CHR ''.'') s) \<Longrightarrow> s \<noteq> [] \<and> hd s \<noteq> CHR ''-''"
  by (cases s) (auto simp: split_on_hd dns_label_def simp del: split_on.simps(2) split: if_splits)

text \<open>C40: the names of the composite resources. With the suffix of the program every name the Atlas reconciler
  computes has between seven and twenty-one characters and, if it has no dot, is a DNS label; the
  same input gives the same name.\<close>

theorem composite_name_valid:
  assumes "draw_law draw" and "ae_rand E = RandSuffix draw" and "xrd_name E s = Some (Inr n)"
  shows "7 \<le> length n \<and> length n \<le> 21 \<and> (CHR ''.'' \<notin> set n \<longrightarrow> dns_label n)"
proof -
  from assms(2,3) obtain r where r: "EnsureK8sName s = Some r" "n = take (min (length r) 15) r @ ''-'' @ RandSuffix draw r"
    by (auto simp: xrd_name_def split: option.splits)
  let ?t = "take (min (length r) 15) r"
  have d: "list_all dns_label (split_on (CHR ''.'') r)" using EnsureK8sName_dns [OF r(1)] by (simp add: dns_name_def)
  have len: "length ?t \<le> 15" "length ?t \<ge> 1" "length (RandSuffix draw r) = 5" "?t \<noteq> []" "hd ?t = hd r"
    using dns_name_hd [OF d] RandSuffix_dns(1) [OF assms(1)] by (cases r; simp)+
  have "dns_label n" if "CHR ''.'' \<notin> set n"
  proof -
    have c: "dns_char x" if "x \<in> set n" for x
      using that \<open>CHR ''.'' \<notin> set n\<close> dns_name_chars [OF d] RandSuffix_dns(2) [OF assms(1)]
      unfolding r(2) by (fastforce simp: dns_char_def dest: in_set_takeD)
    have ne: "RandSuffix draw r \<noteq> []" using len(3) by auto
    then have l: "last n = last (RandSuffix draw r)" unfolding r(2) by simp
    have "last (RandSuffix draw r) \<noteq> CHR ''-''" using RandSuffix_dns(2) [OF assms(1)] ne last_in_set by metis
    moreover have "hd n = hd r" unfolding r(2) using len(4,5) by simp
    ultimately show ?thesis using c l dns_name_hd [OF d] len unfolding dns_label_def by (auto simp: r(2) list_all_iff)
  qed
  then show ?thesis using len unfolding r(2) by simp
qed

definition ex_draw :: "int \<Rightarrow> nat \<Rightarrow> nat" where
  "ex_draw seed i = (nat (abs seed) + i) mod 36"

lemma ex_k8s_names: "EnsureK8sName ''xp-aws-Shop'' = Some ''xp-aws-shop''" "EnsureK8sName ''xp-aws-us-east.a-shop'' = Some ''xp-aws-us-east.a-shop''"
  by code_simp+

lemma ex_draw_law: "draw_law ex_draw"
  by (simp add: draw_law_def ex_draw_def)

theorem composite_name_valid_witness:
  "\<exists>n. xrd_name (ex_aenv\<lparr>ae_rand := RandSuffix ex_draw\<rparr>) ''xp-aws-Shop'' = Some (Inr n) \<and> dns_label n"
proof -
  let ?E = "ex_aenv\<lparr>ae_rand := RandSuffix ex_draw\<rparr>"
  have n: "xrd_name ?E ''xp-aws-Shop'' = Some (Inr (''xp-aws-shop-'' @ RandSuffix ex_draw ''xp-aws-shop''))"
    by (simp add: xrd_name_def ex_k8s_names)
  have "CHR ''.'' \<notin> set (RandSuffix ex_draw ''xp-aws-shop'')" using RandSuffix_dns(2) [OF ex_draw_law] by blast
  then show ?thesis using composite_name_valid [OF ex_draw_law _ n] n by simp
qed

text \<open>A dot in the fifteenth place: what follows it begins with a dash, and the name is none the API server admits.\<close>

lemma dot_dash: "\<not> list_all dns_label (tl (split_on (CHR ''.'') (a @ CHR ''.'' # CHR ''-'' # b)))"
proof (induction a)
  case Nil
  then show ?case by (simp add: split_on_hd dns_label_def del: split_on.simps(2))
next
  case (Cons c a)
  then show ?case
    by (cases "split_on (CHR ''.'') (a @ CHR ''.'' # CHR ''-'' # b)") (auto simp: split_on_hd simp del: split_on.simps(2))
qed

lemma dotted_name_invalid:
  assumes "draw_law draw" and "ae_rand E = RandSuffix draw"
  shows "\<exists>n. xrd_name E ''xp-aws-us-east.a-shop'' = Some (Inr n) \<and> \<not> dns_name n"
proof -
  let ?r = "RandSuffix draw ''xp-aws-us-east.a-shop''"
  have "xrd_name E ''xp-aws-us-east.a-shop'' = Some (Inr (''xp-aws-us-east'' @ CHR ''.'' # CHR ''-'' # ?r))"
    using assms by (simp add: xrd_name_def ex_k8s_names)
  moreover have "\<not> dns_name (''xp-aws-us-east'' @ CHR ''.'' # CHR ''-'' # ?r)"
    using dot_dash [of "''xp-aws-us-east''" ?r]
    by (cases "split_on (CHR ''.'') (''xp-aws-us-east'' @ CHR ''.'' # CHR ''-'' # ?r)") (auto simp: dns_name_def simp del: split_on.simps append.simps)
  ultimately show ?thesis by blast
qed

text \<open>The alias of a name that is no key depends on the order in which the runtime visits the map.\<close>

lemma region_alias_order:
  "GetRegionAlias (\<lambda>m. m) ''us'' = ''us-east''" "GetRegionAlias rev ''us'' = ''us-west''"
  by code_simp+

lemma region_alias_exact: "mget region_aliases (to_lower (trim_space r)) = Some a \<Longrightarrow> GetRegionAlias order r = a"
  by (simp add: GetRegionAlias_def)

text \<open>An object with two matching entries is listed twice.\<close>

lemma listed_twice:
  "let obj = [(''deps'', AList [AMap [(''kind'', AStr ''Image'')], AMap [(''kind'', AStr ''Image'')]])]
   in ListUnstructuredObjectsByFieldList (Inr [[(''spec'', AMap obj)]]) [(''kind'', ''Image'')] [''spec'', ''deps'']
      = Inr [[(''spec'', AMap obj)], [(''spec'', AMap obj)]]"
  by (simp add: ListUnstructuredObjectsByFieldList_def field_matches_def mget_Cons ObjectToStringMap_def
      CompareStringMap_iff mstr_def Let_def init_fields_def Values.GetNestedField_def)

lemma ParseAmount_negative:
  "ParseAmount ''(12)'' = map_sum id f64_neg (ParseAmount ''12'')"
proof -
  have "trim_space ''(12)'' = ''(12)''" "replace_all ''12'' ''$'' [] = ''12''" "replace_all ''12'' '','' [] = ''12''" "trim_space ''12'' = ''12''"
    by code_simp+
  then show ?thesis by (cases "parse_float ''12''") (simp_all add: ParseAmount_def Let_def numeral_2_eq_2)
qed

end
