(* ===== verification/Spec2Isabelle.thy ===== *)
theory Spec2Isabelle
  imports Prelude Float64 Sha256 Names Conditions Dependencies Labels Values Latency Flavors Api Providers Ranking
    Selection Effects ILPTask Runner Finders Profiles
    Failover Mesh MeshProps Atlas AtlasProps Interleaving Policies PolicyRuns Pipeline Admission Devices Conversions
begin

text \<open>
  A verification development for the SkyCluster operator: a set of Kubernetes controllers that learn what
  cloud providers offer, let an optimiser choose where the components of an application run, and turn the
  plan into networks, clusters, deployments and traffic rules. Paths below are under \<open>src/\<close>.

  \<^bold>\<open>The program and its parts.\<close> In the order in which the objects come to be:

  \<^enum> A \<open>ProviderProfile\<close> describes a cloud or an edge site. Its reconciler (\<open>Profiles\<close>) keeps an \<open>Image\<close> and
    an \<open>InstanceType\<close> per cloud, the \<open>Latency\<close> objects to the other providers and a config map of offerings.
    The reconcilers of \<open>Image\<close> and \<open>InstanceType\<close> (\<open>Runner\<close>, \<open>Finders\<close>) run a finder job and record what its pod
    prints; that of \<open>DeviceNode\<close> (\<open>Devices\<close>) enters an edge device into the config map; that of
    \<open>Latency\<close> (\<open>Latency\<close>) fills in the measurements.
  \<^enum> A user creates an \<open>XKube\<close> or an \<open>XInstance\<close>; their reconcilers write a \<open>DataflowPolicy\<close> and a
    \<open>DeploymentPolicy\<close>, which the webhooks check (\<open>Admission\<close>), and whose two reconcilers write their
    references into one \<open>ILPTask\<close> (\<open>Policies\<close>, \<open>PolicyRuns\<close>, \<open>Pipeline\<close>).
  \<^enum> The reconciler of the \<open>ILPTask\<close> (\<open>ILPTask\<close>) gathers what the optimiser has to know (\<open>Flavors\<close>,
    \<open>Providers\<close>, \<open>Selection\<close>), runs it in a pod, reads back the deploy plan and writes an \<open>Atlas\<close> and an
    \<open>AtlasMesh\<close>.
  \<^enum> The reconciler of the \<open>Atlas\<close> (\<open>Atlas\<close>, \<open>AtlasProps\<close>) makes networks, clusters and virtual machines of the plan;
    that of the \<open>AtlasMesh\<close> (\<open>Mesh\<close>, \<open>MeshProps\<close>, with the failover labels of \<open>Failover\<close>) the namespaces,
    deployments, services and Istio rules.

  The parts interact only through objects of the API server; the theorems of this theory and of \<open>Pipeline\<close>
  and \<open>PolicyRuns\<close> follow an object from one part into the next.

  \<^bold>\<open>How the code is rendered.\<close>

  \<^item> A struct is a record of the fields the code reads or writes, under a prefix of its own
    (\<open>Api\<close> holds those of \<open>api/\<close> that several parts use). A Go map is an association list with the key order
    explicit (\<open>gomap\<close>); where the code ranges over one, the order is a parameter or the result is shown not
    to depend on it. A \<open>float64\<close> is a binary64 value with its rounding (\<open>Float64\<close>); hashes are 32-bit and 64-bit
    words that wrap (\<open>Sha256\<close>, \<open>Conversions\<close>). Regular expressions are the scanners they denote.
  \<^item> A function that returns \<open>(v, error)\<close> is a value of \<open>'a go\<close>, a sum whose left side is the error; a panic
    (an index out of range, a nil dereference) is an error of its own constructor that no handler catches.
  \<^item> A handler is its whole \<open>Reconcile\<close> with every guard, early return and call. In all parts but the
    policies a run is the list of write calls it makes with its return value (\<open>Effects\<close>), for given replies of
    all calls, so that a theorem about all replies covers failures and other writers. The reconcilers
    of the policies are programs whose calls are single steps (\<open>Interleaving\<close>), run against a model of the
    documented API server (\<open>serve\<close>: not found, already exists, optimistic locking, merge patch, and a fault chosen per
    call), because what they promise is about runs that overlap.
  \<^item> Definitions keep the names of the source; the manifest gives file and lines of each.

  \<^bold>\<open>The theories and what their lemmas show.\<close>

  \<^descr>[\<open>Prelude\<close>, \<open>Effects\<close>, \<open>Float64\<close>, \<open>Sha256\<close>] the error sum and its collection \<open>go_simps\<close>, the functions of
    \<open>strings\<close> the code calls, maps; runs; rounding to nearest with its error bound; the digest.
  \<^descr>[\<open>Names\<close>] \<open>internal/helper/common.go\<close>, \<open>label.go\<close>: names are DNS names within their length,
    \<open>EnsureK8sName\<close> returns exactly when the labels before the last leave room, shortened label keys are
    valid.
  \<^descr>[\<open>Conditions\<close>, \<open>Dependencies\<close>, \<open>Labels\<close>, \<open>Values\<close>] \<open>internal/controller/utils/utils.go\<close>, \<open>pkg/v1alpha1/dep/dep.go\<close>:
    the dependency list refines a finite map; what is written at a path is read back there and disjoint paths are
    kept; label tests do not depend on the order of a map.
  \<^descr>[\<open>Flavors\<close>, \<open>Providers\<close>, \<open>Ranking\<close>, \<open>Selection\<close>] \<open>internal/controller/core/ilptask/ilptask_helper.go\<close> and the documents of
    \<open>ilptask_pod.go\<close>: a parsed request matches the offerings with its CPUs and memory, placement keeps the capacity of
    every node, the latency matrix is square and symmetric, each task offers only deployable services at permitted
    places.
  \<^descr>[\<open>ILPTask\<close>] \<open>ilptask_controller.go\<close>, \<open>ilptask_pod.go\<close>: a plan in the status comes from a succeeded pod, pods are not
    orphaned, a settled task converges to one \<open>Atlas\<close> and one \<open>AtlasMesh\<close>.
  \<^descr>[\<open>Runner\<close>, \<open>Finders\<close>] \<open>image_controller.go\<close>, \<open>instancetype_controller.go\<close>, one program over two configurations
    (\<open>image_cfg\<close>, \<open>instancetype_cfg\<close>): every status written is a step of the abstract flow of conditions
    \<open>runner_flow\<close>, an object is ready only by harvesting, three reconciliations suffice; \<open>runner_steps\<close> is the
    inductive relation of the reachable objects.
  \<^descr>[\<open>Profiles\<close>, \<open>Latency\<close>, \<open>Devices\<close>] \<open>providerprofile_controller.go\<close>, \<open>latency_controller.go\<close>, \<open>devicenode_controller.go\<close>:
    a profile is ready only when its image and instance type are; a device reported ready is in the registry and
    all other entries are kept.
  \<^descr>[\<open>Policies\<close>, \<open>PolicyRuns\<close>, \<open>Pipeline\<close>] \<open>internal/controller/policy\<close>, \<open>internal/controller/svc\<close>: however the two policy
    reconcilers interleave, and whatever calls fail, neither loses the reference of the other; from an \<open>XKube\<close> the task comes to be.
  \<^descr>[\<open>Admission\<close>] \<open>internal/webhook\<close>: what is admitted, as an equivalence; the policy made for an instance is admitted and
    becomes one task.
  \<^descr>[\<open>Atlas\<close>, \<open>AtlasProps\<close>] \<open>internal/controller/core/atlas\<close>: networks of two providers are apart, a cluster lives in the network of its
    provider, nothing is created before approval, the status settles whatever the order of the maps.
  \<^descr>[\<open>Mesh\<close>, \<open>MeshProps\<close>, \<open>Failover\<close>] \<open>internal/controller/core/atlasmesh\<close>: routes lead to subsets that exist, the pods offer the
    failover of the plan, exactly the generated objects are submitted.
  \<^descr>[\<open>Conversions\<close>] \<open>internal/helper/conversions.go\<close>, the suffix and the search of \<open>utils.go\<close>: length and alphabet of composite names.

  \<^bold>\<open>Interfaces.\<close> Where one part relies on another, a locale states the laws and the proof of its interpretation
  discharges them for the code: \<open>condition_api\<close> (a setter and reader of conditions; \<open>typed\<close>), \<open>dep_store\<close>
  (a register of dependencies; \<open>deps\<close>), \<open>path_store\<close> (reading and writing at paths; \<open>nested\<close>), \<open>interference\<close>
  (rely and guarantee of concurrent programs, with the soundness of all schedules; \<open>meet\<close>), \<open>policy_side\<close> (one of two policy
  reconcilers; \<open>df_side\<close>, \<open>dp_side\<close>). \<open>ranking\<close> states the documented behaviour of \<open>lo.UniqBy\<close> and
  \<open>sort.Slice\<close>, which are not code of the repository: its interpretations \<open>vs_rank\<close> and \<open>cp_rank\<close> show at the two
  types of the code that the laws can be met.

  \<^bold>\<open>Code outside the repository\<close> is a field of the environment records (\<open>ilp_env\<close>, \<open>rn_env\<close>, \<open>pp_env\<close>,
  \<open>mesh_env\<close>, \<open>atlas_env\<close>, \<open>device_env\<close>, \<open>policy_env\<close>) and constrained, where a theorem needs it, by a named law:
  \<open>vs_laws\<close> and \<open>values_law\<close> (\<open>samber/lo\<close>, \<open>sort\<close>), \<open>cfg_laws\<close> and \<open>pe_laws\<close> (the condition library),
  \<open>yaml_law\<close> (the YAML package reads what it wrote), \<open>draw_law\<close> (\<open>rand.Intn\<close> stays below its bound), \<open>permutes_keys\<close> (map
  order), \<open>retry_law\<close> (\<open>retry.RetryOnConflict\<close> is a number of attempts), \<open>owner_law\<close> (\<open>SetControllerReference\<close>). Every
  theorem with hypotheses has a witness \<open>..._witness\<close> at a concrete input.

  \<^bold>\<open>Loops and bounds.\<close> All recursion is structural or over lists, except the loop of \<open>EnsureK8sName\<close>, a
  \<open>partial_function\<close> whose \<open>None\<close> is a loop that does not end; the atlas, whose names go through it, carries that option to
  its result (\<open>dgo\<close>). \<open>attempts\<close> counts the retries after a conflict, a number its callers do not fix. There is no other fuel. Go's
  \<open>int\<close> appears as \<open>int\<close> or \<open>nat\<close> for lengths, counts and indices, which stay below the size of the input, and
  where it is read from text with the bounds of \<open>strconv\<close>.

  \<^bold>\<open>Not modelled.\<close> \<open>cmd/main.go\<close> and the \<open>SetupWithManager\<close> functions (flags, certificates, registration with the
  controller runtime); the generated deep copies, for values of the model are immutable; test fixtures
  (\<open>suite_test_helper.go\<close>, \<open>core/utils/manifest.go\<close>, \<open>test/\<close>); \<open>pod_logger.go\<close>, events and logs, which are pure output;
  scheme registration; \<open>pkg/v1alpha1/encoding\<close> and \<open>internal/helper/net.go\<close>, one call each of a package
  that is a parameter of the callers; functions that nothing calls and that only build or print an object
  (\<open>updateProviderProfile\<close>, \<open>buildPVCForPV\<close>, \<open>generateNewServiceFromService\<close>). Reads of the
  API server are taken to be current: the staleness of the informer cache is left out of \<open>Policies\<close>, and is covered
  elsewhere by the replies being arbitrary.
\<close>

section \<open>A new provider and the optimiser\<close>

lemma sync_frame:
  "pfSpec (if c then pp_set_condition E t s r m (pf\<lparr>pfDependencies := d\<rparr>) else pf\<lparr>pfDependencies := d\<rparr>) = pfSpec pf"
  "pfSpecEgressCosts (if c then pp_set_condition E t s r m (pf\<lparr>pfDependencies := d\<rparr>) else pf\<lparr>pfDependencies := d\<rparr>)
     = pfSpecEgressCosts pf"
  by simp_all

lemma sync_costs:
  assumes "UpdateProfileStatus new \<in> set (fst (profile_sync E pf))"
  shows "pfEgressCosts new = pfEgressCosts (ensureEgressCosts pf) \<and> pfSpec new = pfSpec pf"
proof -
  have costs: "pfEgressCosts (ensureEgressCosts q) = pfEgressCosts (ensureEgressCosts pf)"
    if "pfSpec q = pfSpec pf" "pfSpecEgressCosts q = pfSpecEgressCosts pf" for q
    using that by (simp add: ensureEgressCosts_def Let_def)
  have fin: "pfEgressCosts new = pfEgressCosts (ensureEgressCosts q) \<and> pfSpec new = pfSpec q"
    if "UpdateProfileStatus new \<in> set (fst (profile_finish E q))" for q
    using that by (auto simp: profile_finish_def run_simps Let_def dest!: ensureLatencies_calls)
  have dep: "pfSpec r = pfSpec q \<and> pfSpecEgressCosts r = pfSpecEgressCosts q" if "snd (profile_dependencies E q) = Inr r" for q r
    using that by (rule profile_dependencies_result) simp
  obtain cm where "UpdateProfileStatus new \<in> set (fst (let pf' = pf\<lparr>pfDependencies := SetDependency (pfDependencies pf) cm ''ConfigMap'' (pfNs pf)\<rparr>;
             pf' = (if pp_flag E pf ''ResyncRequired'' then pp_set_condition E ''ResyncRequired'' CondFalse ''NoResyncNeeded''
                     ''Resync not needed, waiting for dependencies to be ready'' pf' else pf')
         in bind_run (profile_dependencies E pf') (profile_finish E)))"
    using assms unfolding profile_sync_def Let_def bind_run_call by (auto dest: ensureConfigMap_calls)
  then obtain q where q: "pfSpec q = pfSpec pf" "pfSpecEgressCosts q = pfSpecEgressCosts pf"
    and c: "UpdateProfileStatus new \<in> set (fst (bind_run (profile_dependencies E q) (profile_finish E)))"
    unfolding Let_def by (rule that [OF sync_frame])
  from c obtain r where "snd (profile_dependencies E q) = Inr r" "UpdateProfileStatus new \<in> set (fst (profile_finish E r))"
    by (auto simp: run_simps dest!: profile_dependencies_calls)
  with dep fin q costs show ?thesis by metis
qed






section \<open>An instance that nobody offers\<close>

lemma vm_manifests_of_no_services:
  assumes "crKind (ssComponentRef c) = ''XInstance''" and "ssManifest c = Some (Services [])"
    and "ae_xinstance E (crNamespace (ssComponentRef c)) (crName (ssComponentRef c)) = Inr x"
  shows "\<exists>e. generateVMManifests E appId [c] = Some (Inl e) \<and> is_panic e"
  using assms by (auto simp: generateVMManifests_def vm_manifest_def decode_services_def wrap_go_def)


definition ex_gpu_instance :: XInstance where
  "ex_gpu_instance = ex_xinstance\<lparr>xnFlavor := zeroComputeFlavor\<lparr>cfGPU := zeroGPU\<lparr>gModel := ''A100''\<rparr>\<rparr>\<rparr>"

definition ex_vm_env :: atlas_env where
  "ex_vm_env = ex_aenv\<lparr>ae_xinstance := (\<lambda>_ _. Inr \<lparr>xiPreferSpot = False, xiImage = ''ubuntu'', xiPublicKey = [], xiPublicIP = False,
     xiUserData = [], xiSecurityGroups = ANil, xiRootVolumes = ANil\<rparr>)\<rparr>"


text \<open>The reference the policy gives to an instance has no namespace: the Atlas reconciler looks for
  the instance in none.\<close>

lemma instance_reference_lost:
  assumes "item \<in> set (xinstance_items xi)" and "ae_xinstance E [] (xnName xi) = Inl err"
    and "ssComponentRef c = dpComponentRef item"
  shows "\<exists>e. generateVMManifests E appId [c] = Some (Inl e)"
  using assms by (simp add: xinstance_items_def generateVMManifests_def vm_manifest_def)

end
